(* ===== verification/Prelude.thy ===== *)
theory Prelude
  imports Complex_Main "HOL-Library.AList" "HOL-Library.Char_ord" "HOL-Library.List_Lexorder"
    "HOL-Library.Product_Lexorder"
begin

section \<open>Shared vocabulary: Python values, exceptions, effects\<close>

text \<open>
  The theories of this development translate the Python programs of the repository into
  HOL functions.  This prelude holds what they share:
  \<^item> \<open>json\<close>, the trees that \<^verbatim>\<open>json.loads\<close> returns and \<^verbatim>\<open>json.dump\<close> writes, with the
    dictionary operations the sources use (a dictionary is an association list, so that
    insertion order and key presence are visible);
  \<^item> \<open>exc\<close>, the exceptions the modelled code raises or catches;
  \<^item> the state-and-exception monad \<open>M\<close> in which effectful code is written, its
    \<^verbatim>\<open>try\<close>, \<^verbatim>\<open>finally\<close> and \<^verbatim>\<open>for\<close> forms, and a small Hoare calculus for it;
  \<^item> string functions of the Python standard library that the sources call.
\<close>

named_theorems hoare_rules \<open>Hoare rules of the effect monad\<close>
named_theorems keeps_rules \<open>operations that keep an invariant\<close>

subsection \<open>JSON trees\<close>

datatype json =
    JNull
  | JBool bool
  | JInt int
  | JFloat rat
  | JStr string
  | JArr "json list"
  | JObj "(string \<times> json) list"

type_synonym dict = "(string \<times> json) list"

text \<open>\<^verbatim>\<open>d[k] = v\<close> keeps the position of an existing key; \<^verbatim>\<open>d.get(k)\<close> is \<open>map_of d k\<close>.\<close>

abbreviation dget :: "dict \<Rightarrow> string \<Rightarrow> json option" where
  "dget d k \<equiv> map_of d k"

definition dset :: "string \<Rightarrow> json \<Rightarrow> dict \<Rightarrow> dict" where
  "dset k v d = AList.update k v d"

lemma dget_dset [simp]: "dget (dset k v d) k' = (if k' = k then Some v else dget d k')"
  by (simp add: dset_def update_conv')

lemma keys_dset [simp]: "fst ` set (dset k v d) = insert k (fst ` set d)"
  by (simp add: dset_def dom_update)

text \<open>
  \<^verbatim>\<open>d.get(k)\<close> with \<^verbatim>\<open>None\<close> and JSON null identified, and the reads that first check a type:
  \<^verbatim>\<open>v if isinstance(v, dict) else {}\<close>, \<^verbatim>\<open>v if isinstance(v, list) else []\<close>.
\<close>

definition mget :: "dict \<Rightarrow> string \<Rightarrow> json" where
  "mget m k = (case dget m k of None \<Rightarrow> JNull | Some v \<Rightarrow> v)"

definition opt_json :: "string option \<Rightarrow> json" where
  "opt_json s = (case s of None \<Rightarrow> JNull | Some x \<Rightarrow> JStr x)"

definition is_str :: "json \<Rightarrow> bool" where
  "is_str j \<longleftrightarrow> (case j of JStr _ \<Rightarrow> True | _ \<Rightarrow> False)"

definition str_of :: "json \<Rightarrow> string" where
  "str_of j = (case j of JStr s \<Rightarrow> s | _ \<Rightarrow> [])"

definition is_dict :: "json \<Rightarrow> bool" where
  "is_dict j \<longleftrightarrow> (case j of JObj _ \<Rightarrow> True | _ \<Rightarrow> False)"

definition is_list :: "json \<Rightarrow> bool" where
  "is_list j \<longleftrightarrow> (case j of JArr _ \<Rightarrow> True | _ \<Rightarrow> False)"

definition as_dict :: "json \<Rightarrow> dict" where
  "as_dict j = (case j of JObj d \<Rightarrow> d | _ \<Rightarrow> [])"

definition as_list :: "json \<Rightarrow> json list" where
  "as_list j = (case j of JArr xs \<Rightarrow> xs | _ \<Rightarrow> [])"

definition has_key :: "dict \<Rightarrow> string \<Rightarrow> bool" where
  "has_key d k \<longleftrightarrow> dget d k \<noteq> None"

text \<open>Python truth of a JSON value, equality with the integer 0, and \<^verbatim>\<open>v in [\<dots>]\<close> for strings.\<close>

definition truthy :: "json \<Rightarrow> bool" where
  "truthy j =
     (case j of JNull \<Rightarrow> False | JBool b \<Rightarrow> b | JInt i \<Rightarrow> i \<noteq> 0 | JFloat r \<Rightarrow> r \<noteq> 0
      | JStr s \<Rightarrow> s \<noteq> [] | JArr xs \<Rightarrow> xs \<noteq> [] | JObj d \<Rightarrow> d \<noteq> [])"

definition equals_zero :: "json \<Rightarrow> bool" where
  "equals_zero j \<longleftrightarrow> j = JInt 0 \<or> j = JBool False \<or> j = JFloat 0"

definition str_in :: "json \<Rightarrow> string list \<Rightarrow> bool" where
  "str_in j ss \<longleftrightarrow> is_str j \<and> str_of j \<in> set ss"

lemma str_in_JStr [simp]: "str_in (JStr s) ss \<longleftrightarrow> s \<in> set ss"
  by (simp add: str_in_def is_str_def str_of_def)

lemma JStr_str_of: "is_str j \<Longrightarrow> JStr (str_of j) = j"
  by (cases j) (simp_all add: is_str_def str_of_def)

lemma str_in_iff: "str_in j ss \<longleftrightarrow> (\<exists>s \<in> set ss. j = JStr s)"
  by (cases j) (auto simp: str_in_def is_str_def str_of_def)

subsection \<open>Exceptions\<close>

datatype exc =
    Refusal string
  | NativeOutcomeUnknown string
  | OSError
  | ValueError
  | KeyError string
  | AttributeError
  | TypeError
  | IndexError
  | KeyboardInterrupt

text \<open>\<^verbatim>\<open>NativeOutcomeUnknown\<close> is a subclass of \<^verbatim>\<open>Refusal\<close>: a handler for the latter catches both.\<close>

fun is_Refusal :: "exc \<Rightarrow> bool" where
  "is_Refusal (Refusal _) = True"
| "is_Refusal (NativeOutcomeUnknown _) = True"
| "is_Refusal _ = False"

fun is_Unknown :: "exc \<Rightarrow> bool" where
  "is_Unknown (NativeOutcomeUnknown _) = True"
| "is_Unknown _ = False"

subsection \<open>The effect monad\<close>

type_synonym ('w, 'a) M = "'w \<Rightarrow> (exc + 'a) \<times> 'w"

definition ret :: "'a \<Rightarrow> ('w, 'a) M" where
  "ret x w = (Inr x, w)"

definition raise :: "exc \<Rightarrow> ('w, 'a) M" where
  "raise e w = (Inl e, w)"

definition bindM :: "('w, 'a) M \<Rightarrow> ('a \<Rightarrow> ('w, 'b) M) \<Rightarrow> ('w, 'b) M" where
  "bindM m f w = (case m w of (Inr x, w') \<Rightarrow> f x w' | (Inl e, w') \<Rightarrow> (Inl e, w'))"

definition thenM :: "('w, 'a) M \<Rightarrow> ('w, 'b) M \<Rightarrow> ('w, 'b) M" where
  "thenM m k = bindM m (\<lambda>_. k)"

text \<open>\<^verbatim>\<open>try: m  except E: h\<close>, where \<open>h\<close> re-raises what it does not catch.\<close>

definition tryM :: "('w, 'a) M \<Rightarrow> (exc \<Rightarrow> ('w, 'a) M) \<Rightarrow> ('w, 'a) M" where
  "tryM m h w = (case m w of (Inr x, w') \<Rightarrow> (Inr x, w') | (Inl e, w') \<Rightarrow> h e w')"

text \<open>\<^verbatim>\<open>try: m  finally: c\<close>; an exception of the cleanup replaces the outcome.\<close>

definition finallyM :: "('w, 'a) M \<Rightarrow> ('w, unit) M \<Rightarrow> ('w, 'a) M" where
  "finallyM m c w =
     (case m w of (r, w') \<Rightarrow>
        (case c w' of (Inl e, w'') \<Rightarrow> (Inl e, w'') | (Inr _, w'') \<Rightarrow> (r, w'')))"

primrec forM :: "'a list \<Rightarrow> ('a \<Rightarrow> ('w, unit) M) \<Rightarrow> ('w, unit) M" where
  "forM [] f = ret ()"
| "forM (x # xs) f = thenM (f x) (forM xs f)"

definition whenM :: "bool \<Rightarrow> ('w, unit) M \<Rightarrow> ('w, unit) M" where
  "whenM b m = (if b then m else ret ())"

definition getM :: "('w \<Rightarrow> 'a) \<Rightarrow> ('w, 'a) M" where
  "getM f w = (Inr (f w), w)"

definition modifyM :: "('w \<Rightarrow> 'w) \<Rightarrow> ('w, unit) M" where
  "modifyM f w = (Inr (), f w)"

lemmas M_defs = ret_def raise_def bindM_def thenM_def tryM_def finallyM_def whenM_def
  getM_def modifyM_def

lemma bind_ret [simp]: "bindM (ret x) f = f x"
  by (rule ext) (simp add: M_defs)

subsection \<open>A Hoare calculus for the monad\<close>

text \<open>
  \<open>hoare P m Q E\<close>: from a world that satisfies \<open>P\<close>, \<open>m\<close> either returns \<open>x\<close> in a world that
  satisfies \<open>Q x\<close> or raises \<open>e\<close> in a world that satisfies \<open>E e\<close>.
\<close>

definition hoare ::
  "('w \<Rightarrow> bool) \<Rightarrow> ('w, 'a) M \<Rightarrow> ('a \<Rightarrow> 'w \<Rightarrow> bool) \<Rightarrow> (exc \<Rightarrow> 'w \<Rightarrow> bool) \<Rightarrow> bool" where
  "hoare P m Q E \<longleftrightarrow>
     (\<forall>w. P w \<longrightarrow> (case m w of (Inr x, w') \<Rightarrow> Q x w' | (Inl e, w') \<Rightarrow> E e w'))"

text \<open>\<open>keeps I X m\<close>: \<open>m\<close> keeps the invariant \<open>I\<close> and raises only exceptions in \<open>X\<close>.\<close>

abbreviation keeps :: "('w \<Rightarrow> bool) \<Rightarrow> (exc \<Rightarrow> bool) \<Rightarrow> ('w, 'a) M \<Rightarrow> bool" where
  "keeps I X m \<equiv> hoare I m (\<lambda>_. I) (\<lambda>e w. I w \<and> X e)"

lemma hoareI:
  assumes "\<And>w x w'. P w \<Longrightarrow> m w = (Inr x, w') \<Longrightarrow> Q x w'"
    and "\<And>w e w'. P w \<Longrightarrow> m w = (Inl e, w') \<Longrightarrow> E e w'"
  shows "hoare P m Q E"
  using assms by (auto simp: hoare_def split: prod.splits sum.splits)

lemma hoare_Inr: "hoare P m Q E \<Longrightarrow> P w \<Longrightarrow> m w = (Inr x, w') \<Longrightarrow> Q x w'"
  by (auto simp: hoare_def)

lemma hoare_Inl: "hoare P m Q E \<Longrightarrow> P w \<Longrightarrow> m w = (Inl e, w') \<Longrightarrow> E e w'"
  by (auto simp: hoare_def)

lemma hoare_conseq:
  assumes "hoare P' m Q' E'"
    and "\<And>w. P w \<Longrightarrow> P' w" and "\<And>x w. Q' x w \<Longrightarrow> Q x w" and "\<And>e w. E' e w \<Longrightarrow> E e w"
  shows "hoare P m Q E"
  using assms by (fastforce simp: hoare_def split: prod.splits sum.splits)

lemma hoare_pre: "hoare P' m Q E \<Longrightarrow> (\<And>w. P w \<Longrightarrow> P' w) \<Longrightarrow> hoare P m Q E"
  by (auto simp: hoare_def)

lemma hoare_pre_conj: "(A \<Longrightarrow> hoare P m Q E) \<Longrightarrow> hoare (\<lambda>w. P w \<and> A) m Q E"
  by (simp add: hoare_def)

lemma hoare_ret [hoare_rules]: "(\<And>w. P w \<Longrightarrow> Q x w) \<Longrightarrow> hoare P (ret x) Q E"
  by (simp add: hoare_def ret_def)

lemma hoare_raise [hoare_rules]: "(\<And>w. P w \<Longrightarrow> E e w) \<Longrightarrow> hoare P (raise e) Q E"
  by (simp add: hoare_def raise_def)

lemma hoare_bind:
  "hoare P m R E \<Longrightarrow> (\<And>x. hoare (R x) (f x) Q E) \<Longrightarrow> hoare P (bindM m f) Q E"
  by (fastforce simp: hoare_def bindM_def split: prod.splits sum.splits)

lemma hoare_then:
  "hoare P m (\<lambda>_. R) E \<Longrightarrow> hoare R k Q E \<Longrightarrow> hoare P (thenM m k) Q E"
  unfolding thenM_def by (rule hoare_bind) auto

lemma hoare_try:
  "hoare P m Q E' \<Longrightarrow> (\<And>e. hoare (E' e) (h e) Q E) \<Longrightarrow> hoare P (tryM m h) Q E"
  by (fastforce simp: hoare_def tryM_def split: prod.splits sum.splits)

lemma hoare_finally:
  assumes "hoare P m Q' E'"
    and "\<And>x. hoare (Q' x) c (\<lambda>_. Q x) E" and "\<And>e. hoare (E' e) c (\<lambda>_. E e) E"
  shows "hoare P (finallyM m c) Q E"
  unfolding hoare_def
proof (intro allI impI)
  fix w assume w: "P w"
  obtain r w1 where m: "m w = (r, w1)" by (cases "m w")
  obtain r' w2 where c: "c w1 = (r', w2)" by (cases "c w1")
  show "case finallyM m c w of (Inr x, w') \<Rightarrow> Q x w' | (Inl e, w') \<Rightarrow> E e w'"
  proof (cases r)
    case (Inl e)
    with hoare_Inl [OF assms(1) w] m have "E' e w1" by simp
    with assms(3) [of e] c have "case r' of Inl e' \<Rightarrow> E e' w2 | Inr _ \<Rightarrow> E e w2"
      by (auto simp: hoare_def split: sum.splits prod.splits)
    with m c Inl show ?thesis by (auto simp: finallyM_def split: sum.splits)
  next
    case (Inr x)
    with hoare_Inr [OF assms(1) w] m have "Q' x w1" by simp
    with assms(2) [of x] c have "case r' of Inl e' \<Rightarrow> E e' w2 | Inr _ \<Rightarrow> Q x w2"
      by (auto simp: hoare_def split: sum.splits prod.splits)
    with m c Inr show ?thesis by (auto simp: finallyM_def split: sum.splits)
  qed
qed

lemma hoare_if:
  "(b \<Longrightarrow> hoare P m Q E) \<Longrightarrow> (\<not> b \<Longrightarrow> hoare P k Q E) \<Longrightarrow> hoare P (if b then m else k) Q E"
  by simp

lemma hoare_when:
  "(b \<Longrightarrow> hoare P m (\<lambda>_. Q ()) E) \<Longrightarrow> (\<And>w. \<not> b \<Longrightarrow> P w \<Longrightarrow> Q () w) \<Longrightarrow>
   hoare P (whenM b m) Q E"
  by (auto simp: whenM_def hoare_def ret_def)

lemma hoare_get: "(\<And>w. P w \<Longrightarrow> Q (f w) w) \<Longrightarrow> hoare P (getM f) Q E"
  by (simp add: hoare_def getM_def)

lemma hoare_modify: "(\<And>w. P w \<Longrightarrow> Q () (f w)) \<Longrightarrow> hoare P (modifyM f) Q E"
  by (simp add: hoare_def modifyM_def)

text \<open>An invariant kept by every part is kept by the whole.\<close>

lemma keeps_ret [keeps_rules]: "keeps I X (ret x)"
  by (rule hoare_ret)

lemma keeps_raise [keeps_rules]: "X e \<Longrightarrow> keeps I X (raise e)"
  by (rule hoare_raise) simp

lemma keeps_bind [keeps_rules]:
  "keeps I X m \<Longrightarrow> (\<And>x. keeps I X (f x)) \<Longrightarrow> keeps I X (bindM m f)"
  by (rule hoare_bind)

lemma keeps_then [keeps_rules]: "keeps I X m \<Longrightarrow> keeps I X k \<Longrightarrow> keeps I X (thenM m k)"
  by (rule hoare_then)

lemma keeps_try [keeps_rules]:
  "keeps I X m \<Longrightarrow> (\<And>e. X e \<Longrightarrow> keeps I X (h e)) \<Longrightarrow> keeps I X (tryM m h)"
  by (rule hoare_try, assumption) (rule hoare_pre_conj)

lemma keeps_finally [keeps_rules]:
  assumes "keeps I X m" and "keeps I X c"
  shows "keeps I X (finallyM m c)"
proof (rule hoare_finally [OF assms(1) assms(2)])
  show "hoare (\<lambda>w. I w \<and> X e) c (\<lambda>_ w. I w \<and> X e) (\<lambda>e w. I w \<and> X e)" for e
    by (rule hoare_pre_conj, rule hoare_conseq [OF assms(2)]) auto
qed

lemma keeps_for [keeps_rules]: "(\<And>x. keeps I X (f x)) \<Longrightarrow> keeps I X (forM xs f)"
  by (induction xs) (auto intro: keeps_rules)

lemma keeps_when [keeps_rules]: "keeps I X m \<Longrightarrow> keeps I X (whenM b m)"
  by (auto intro: hoare_when)

lemma keeps_get [keeps_rules]: "keeps I X (getM f)"
  by (rule hoare_get)

lemma keeps_if [keeps_rules]: "keeps I X m \<Longrightarrow> keeps I X k \<Longrightarrow> keeps I X (if b then m else k)"
  by simp

lemma keeps_option [keeps_rules]:
  "keeps I X m \<Longrightarrow> (\<And>x. keeps I X (f x)) \<Longrightarrow> keeps I X (case opt of None \<Rightarrow> m | Some x \<Rightarrow> f x)"
  by (cases opt) auto

lemma keeps_prod [keeps_rules]:
  "(\<And>a b. keeps I X (f a b)) \<Longrightarrow> keeps I X (case p of (a, b) \<Rightarrow> f a b)"
  by (cases p) simp

lemma keeps_snd: "keeps I (\<lambda>_. True) m \<Longrightarrow> I w \<Longrightarrow> I (snd (m w))"
  by (cases "m w"; cases "fst (m w)") (auto simp: hoare_def)

text \<open>A fact about the returned value joins an invariant that is kept anyway.\<close>

abbreviation returns :: "('w, 'a) M \<Rightarrow> ('a \<Rightarrow> bool) \<Rightarrow> bool" where
  "returns m A \<equiv> hoare (\<lambda>_. True) m (\<lambda>x _. A x) (\<lambda>_ _. True)"

lemma returns_any: "returns m (\<lambda>_. True)"
  by (simp add: hoare_def split: prod.split sum.split)

lemma returns_bind: "returns m B \<Longrightarrow> (\<And>x. B x \<Longrightarrow> returns (f x) A) \<Longrightarrow> returns (bindM m f) A"
  by (rule hoare_bind, assumption) (auto simp: hoare_def)

lemma returns_rules:
  "A x \<Longrightarrow> returns (ret x) A" "returns (raise e) A"
  "(\<And>x. returns (f x) A) \<Longrightarrow> returns (bindM m f) A" "returns k A \<Longrightarrow> returns (thenM n k) A"
  "(b \<Longrightarrow> returns k A) \<Longrightarrow> (\<not> b \<Longrightarrow> returns l A) \<Longrightarrow> returns (if b then k else l) A"
  unfolding thenM_def
  by (auto intro: hoare_ret hoare_raise returns_bind [OF returns_any])

lemma hoare_returns:
  "hoare P m Q E \<Longrightarrow> returns m A \<Longrightarrow> hoare P m (\<lambda>x w. Q x w \<and> A x) E"
  by (fastforce simp: hoare_def split: prod.splits sum.splits)

subsection \<open>Strings\<close>

text \<open>\<^verbatim>\<open>[0-9a-f]\<close>, and \<^verbatim>\<open>re.fullmatch('[0-9a-f]{n}', s)\<close>.\<close>

definition hex_digit :: "char \<Rightarrow> bool" where
  "hex_digit c \<longleftrightarrow> c \<in> set ''0123456789abcdef''"

definition hex_string :: "nat \<Rightarrow> string \<Rightarrow> bool" where
  "hex_string n s \<longleftrightarrow> length s = n \<and> list_all hex_digit s"

text \<open>\<^verbatim>\<open>s.startswith(p)\<close>, \<^verbatim>\<open>s.split(sep)\<close> for a one-character separator, \<^verbatim>\<open>sep.join(xs)\<close>.\<close>

fun startswith :: "string \<Rightarrow> string \<Rightarrow> bool" where
  "startswith s [] = True"
| "startswith [] (p # ps) = False"
| "startswith (c # s) (p # ps) = (c = p \<and> startswith s ps)"

lemma startswith_iff: "startswith s p \<longleftrightarrow> (\<exists>t. s = p @ t)"
  by (induction s p rule: startswith.induct) auto

fun split_on :: "char \<Rightarrow> string \<Rightarrow> string list" where
  "split_on sep [] = [[]]"
| "split_on sep (c # s) =
     (if c = sep then [] # split_on sep s
      else (case split_on sep s of [] \<Rightarrow> [[c]] | p # ps \<Rightarrow> (c # p) # ps))"

fun join :: "string \<Rightarrow> string list \<Rightarrow> string" where
  "join sep [] = []"
| "join sep [x] = x"
| "join sep (x # y # xs) = x @ sep @ join sep (y # xs)"

lemma split_on_nonempty [simp]: "split_on sep s \<noteq> []"
  by (induction s) (auto split: list.splits)

lemma join_split_on: "join [sep] (split_on sep s) = s"
proof (induction s)
  case Nil
  then show ?case by simp
next
  case (Cons c s)
  obtain p ps where p: "split_on sep s = p # ps" by (cases "split_on sep s") auto
  with Cons show ?case by (cases ps) auto
qed

text \<open>\<^verbatim>\<open>s.strip()\<close>, \<^verbatim>\<open>s.splitlines()\<close> on the ASCII white space and line ends of captured output.\<close>

definition is_space :: "char \<Rightarrow> bool" where
  "is_space c \<longleftrightarrow> of_char c \<in> ({9, 10, 11, 12, 13, 28, 29, 30, 31, 32} :: nat set)"

definition strip :: "string \<Rightarrow> string" where
  "strip s = rev (dropWhile is_space (rev (dropWhile is_space s)))"

definition is_line_end :: "char \<Rightarrow> bool" where
  "is_line_end c \<longleftrightarrow> of_char c \<in> ({10, 11, 12, 13, 28, 29, 30} :: nat set)"

fun splitlines_acc :: "string \<Rightarrow> string \<Rightarrow> string list" where
  "splitlines_acc acc [] = (if acc = [] then [] else [rev acc])"
| "splitlines_acc acc [c] = (if is_line_end c then [rev acc] else [rev (c # acc)])"
| "splitlines_acc acc (c # d # s) =
     (if of_char c = (13 :: nat) \<and> of_char d = (10 :: nat) then rev acc # splitlines_acc [] s
      else if is_line_end c then rev acc # splitlines_acc [] (d # s)
      else splitlines_acc (c # acc) (d # s))"

definition splitlines :: "string \<Rightarrow> string list" where
  "splitlines s = splitlines_acc [] s"

text \<open>\<^verbatim>\<open>s.endswith(p)\<close>, \<^verbatim>\<open>p in s\<close> for strings, \<^verbatim>\<open>s.rstrip(c)\<close>, \<^verbatim>\<open>s.partition(c)\<close> for one character.\<close>

definition endswith :: "string \<Rightarrow> string \<Rightarrow> bool" where
  "endswith s p \<longleftrightarrow> startswith (rev s) (rev p)"

lemma endswith_iff: "endswith s p \<longleftrightarrow> (\<exists>t. s = t @ p)"
proof
  assume "endswith s p"
  then obtain t where "rev s = rev p @ t" by (auto simp: endswith_def startswith_iff)
  then have "s = rev t @ p" by (metis rev_append rev_rev_ident)
  then show "\<exists>t. s = t @ p" by blast
qed (auto simp: endswith_def startswith_iff)

fun contains :: "string \<Rightarrow> string \<Rightarrow> bool" where
  "contains [] p = (p = [])"
| "contains (c # s) p = (startswith (c # s) p \<or> contains s p)"

definition rstrip_char :: "char \<Rightarrow> string \<Rightarrow> string" where
  "rstrip_char c s = rev (dropWhile (\<lambda>x. x = c) (rev s))"

definition partition_char :: "char \<Rightarrow> string \<Rightarrow> string \<times> string" where
  "partition_char c s = (takeWhile (\<lambda>x. x \<noteq> c) s, drop 1 (dropWhile (\<lambda>x. x \<noteq> c) s))"

text \<open>\<^verbatim>\<open>s.lower()\<close> and \<^verbatim>\<open>s.upper()\<close> on ASCII letters.\<close>

definition lower_char :: "char \<Rightarrow> char" where
  "lower_char c = (let n = of_char c :: nat in if 65 \<le> n \<and> n \<le> 90 then char_of (n + 32) else c)"

definition upper_char :: "char \<Rightarrow> char" where
  "upper_char c = (let n = of_char c :: nat in if 97 \<le> n \<and> n \<le> 122 then char_of (n - 32) else c)"

definition lower :: "string \<Rightarrow> string" where
  "lower s = map lower_char s"

definition upper :: "string \<Rightarrow> string" where
  "upper s = map upper_char s"

text \<open>
  \<^verbatim>\<open>os.path.basename\<close>, \<^verbatim>\<open>os.path.dirname\<close> and the extension of \<^verbatim>\<open>os.path.splitext\<close> (POSIX): the
  extension starts at the last dot of the base name, unless only dots precede it.
\<close>

definition basename :: "string \<Rightarrow> string" where
  "basename p = rev (takeWhile (\<lambda>c. c \<noteq> CHR ''/'') (rev p))"

definition dirname :: "string \<Rightarrow> string" where
  "dirname p =
     (let hd_part = rev (dropWhile (\<lambda>c. c \<noteq> CHR ''/'') (rev p));
          stripped = rstrip_char (CHR ''/'') hd_part
      in if stripped = [] then hd_part else stripped)"

definition ext_of :: "string \<Rightarrow> string" where
  "ext_of p =
     (let b = basename p; tail = rev (takeWhile (\<lambda>c. c \<noteq> CHR ''.'') (rev b));
          stem = take (length b - length tail - 1) b
      in if CHR ''.'' \<in> set b \<and> list_ex (\<lambda>c. c \<noteq> CHR ''.'') stem then CHR ''.'' # tail else [])"

subsection \<open>Pure code that may raise\<close>

text \<open>
  A pure function that may raise returns a sum, the exception on the left.  \<open>mapE\<close> is a
  comprehension whose element expression may raise: the first exception ends it.
\<close>

definition bindE :: "'e + 'a \<Rightarrow> ('a \<Rightarrow> 'e + 'b) \<Rightarrow> 'e + 'b" where
  "bindE m f = (case m of Inl e \<Rightarrow> Inl e | Inr x \<Rightarrow> f x)"

primrec mapE :: "('a \<Rightarrow> 'e + 'b) \<Rightarrow> 'a list \<Rightarrow> 'e + 'b list" where
  "mapE f [] = Inr []"
| "mapE f (x # xs) = bindE (f x) (\<lambda>y. bindE (mapE f xs) (\<lambda>ys. Inr (y # ys)))"

primrec foldE :: "('a \<Rightarrow> 's \<Rightarrow> 'e + 's) \<Rightarrow> 'a list \<Rightarrow> 's \<Rightarrow> 'e + 's" where
  "foldE f [] s = Inr s"
| "foldE f (x # xs) s = bindE (f x s) (foldE f xs)"

lemma bindE_simps [simp]: "bindE (Inl e) f = Inl e" "bindE (Inr x) f = f x"
  by (simp_all add: bindE_def)

lemma bindE_eq_Inr [simp]: "bindE m f = Inr y \<longleftrightarrow> (\<exists>x. m = Inr x \<and> f x = Inr y)"
  by (cases m) auto

lemma bindE_eq_Inl: "bindE m f = Inl e \<longleftrightarrow> m = Inl e \<or> (\<exists>x. m = Inr x \<and> f x = Inl e)"
  by (cases m) auto

lemma list_all2_partner: "list_all2 P xs ys \<Longrightarrow> x \<in> set xs \<Longrightarrow> \<exists>y \<in> set ys. P x y"
  by (induction rule: list_all2_induct) auto

lemma list_all2_source: "list_all2 P xs ys \<Longrightarrow> y \<in> set ys \<Longrightarrow> \<exists>x \<in> set xs. P x y"
  by (induction rule: list_all2_induct) auto

lemma mapE_Inr: "mapE f xs = Inr ys \<longleftrightarrow> list_all2 (\<lambda>x y. f x = Inr y) xs ys"
  by (induction xs arbitrary: ys) (auto simp: list_all2_Cons1)

lemma mapE_total: "(\<And>x. x \<in> set xs \<Longrightarrow> f x = Inr (g x)) \<Longrightarrow> mapE f xs = Inr (map g xs)"
  by (induction xs) auto

lemma foldE_invariant:
  assumes "foldE f xs s = Inr t" "I s"
    and "\<And>x s t. x \<in> set xs \<Longrightarrow> I s \<Longrightarrow> f x s = Inr t \<Longrightarrow> I t"
  shows "I t"
  using assms by (induction xs arbitrary: s) auto

text \<open>\<^verbatim>\<open>$\<close> in a pattern also matches before a final newline.\<close>

definition chomp :: "string \<Rightarrow> string" where
  "chomp s = (if s \<noteq> [] \<and> last s = CHR 0x0A then butlast s else s)"

text \<open>\<^verbatim>\<open>max(xs)\<close> as a fold.\<close>

lemma fold_max_ge:
  fixes x :: nat
  assumes "x \<in> insert a (set xs)" shows "x \<le> fold max xs a"
proof -
  have "x \<le> Max (set (a # xs))" by (rule Max_ge) (use assms in simp_all)
  then show ?thesis by (simp only: Max.set_eq_fold)
qed

subsection \<open>Decimal numbers and white space\<close>

text \<open>\<^verbatim>\<open>str.split()\<close> on white space, and \<^verbatim>\<open>int(s)\<close> for a string of decimal digits.\<close>

fun split_ws_acc :: "string \<Rightarrow> string \<Rightarrow> string list" where
  "split_ws_acc acc [] = (if acc = [] then [] else [rev acc])"
| "split_ws_acc acc (c # s) =
     (if is_space c then (if acc = [] then [] else [rev acc]) @ split_ws_acc [] s
      else split_ws_acc (c # acc) s)"

definition split_ws :: "string \<Rightarrow> string list" where
  "split_ws s = split_ws_acc [] s"

definition is_digit :: "char \<Rightarrow> bool" where
  "is_digit c \<longleftrightarrow> 48 \<le> (of_char c :: nat) \<and> (of_char c :: nat) \<le> 57"

definition digits_value :: "string \<Rightarrow> nat" where
  "digits_value s = foldl (\<lambda>n c. 10 * n + (of_char c - 48)) 0 s"

definition parse_nat :: "string \<Rightarrow> exc + nat" where
  "parse_nat s = (if s \<noteq> [] \<and> list_all is_digit s then Inr (digits_value s) else Inl ValueError)"

definition newline :: char where
  "newline = CHR 0x0A"

text \<open>\<^verbatim>\<open>str(n)\<close> for a non-negative integer.\<close>

fun show_nat :: "nat \<Rightarrow> string" where
  "show_nat n = (if n < 10 then [char_of (48 + n)] else show_nat (n div 10) @ [char_of (48 + n mod 10)])"

declare show_nat.simps [simp del]

lemma of_char_digit: "n < 10 \<Longrightarrow> of_char (char_of (48 + n) :: char) = (48 + n :: nat)"
  by (simp add: of_char_of)

lemma is_digit_char_of: "n < 10 \<Longrightarrow> is_digit (char_of (48 + n))" for n :: nat
  by (simp add: is_digit_def of_char_digit)

lemma show_nat_digits: "show_nat n \<noteq> [] \<and> list_all is_digit (show_nat n)"
proof (induction n rule: show_nat.induct)
  case (1 n)
  then show ?case
    by (subst (1 2) show_nat.simps)
       (auto simp: is_digit_char_of)
qed

lemma digits_value_snoc: "digits_value (s @ [c]) = 10 * digits_value s + (of_char c - 48)"
  by (simp add: digits_value_def)

lemma digits_value_show_nat [simp]: "digits_value (show_nat n) = n"
proof (induction n rule: show_nat.induct)
  case (1 n)
  show ?case
  proof (cases "n < 10")
    case True
    then show ?thesis by (subst show_nat.simps) (simp add: digits_value_def of_char_digit)
  next
    case False
    then show ?thesis
      using 1 by (subst show_nat.simps) (simp add: digits_value_snoc of_char_digit)
  qed
qed

lemma parse_show_nat [simp]: "parse_nat (show_nat n) = Inr n"
  using show_nat_digits [of n] by (simp add: parse_nat_def)

lemma split_ws_acc_word:
  "list_all (\<lambda>c. \<not> is_space c) w \<Longrightarrow> split_ws_acc acc (w @ s) = split_ws_acc (rev w @ acc) s"
  by (induction w arbitrary: acc) auto

lemma split_ws_word:
  "list_all (\<lambda>c. \<not> is_space c) w \<Longrightarrow> w \<noteq> [] \<Longrightarrow> is_space c \<Longrightarrow> split_ws (w @ c # s) = w # split_ws s"
  by (simp add: split_ws_def split_ws_acc_word)

lemma split_ws_last: "list_all (\<lambda>c. \<not> is_space c) w \<Longrightarrow> w \<noteq> [] \<Longrightarrow> split_ws w = [w]"
  using split_ws_acc_word [of w "[]" "[]"] by (simp add: split_ws_def)

lemma digit_not_space: "is_digit c \<Longrightarrow> \<not> is_space c \<and> c \<noteq> newline"
  by (auto simp: is_digit_def is_space_def newline_def)

subsection \<open>Dictionaries of lists\<close>

text \<open>\<^verbatim>\<open>d.setdefault(k, []).append(v)\<close>, and the dictionary that a loop of such calls builds.\<close>

definition append_at :: "'k \<Rightarrow> 'v \<Rightarrow> ('k \<times> 'v list) list \<Rightarrow> ('k \<times> 'v list) list" where
  "append_at k v d = AList.update k ((case map_of d k of None \<Rightarrow> [] | Some vs \<Rightarrow> vs) @ [v]) d"

definition group_by :: "('v \<Rightarrow> 'k) \<Rightarrow> 'v list \<Rightarrow> ('k \<times> 'v list) list" where
  "group_by key vs = fold (\<lambda>v. append_at (key v) v) vs []"

text \<open>\<^verbatim>\<open>d.get(k, [])\<close>.\<close>

definition get_list :: "('k \<times> 'v list) list \<Rightarrow> 'k \<Rightarrow> 'v list" where
  "get_list d k = (case map_of d k of None \<Rightarrow> [] | Some vs \<Rightarrow> vs)"

lemma get_list_append_at [simp]:
  "get_list (append_at k v d) k' = (if k' = k then get_list d k @ [v] else get_list d k')"
  by (simp add: get_list_def append_at_def update_conv')

lemma keys_append_at [simp]: "fst ` set (append_at k v d) = insert k (fst ` set d)"
  by (simp add: append_at_def dom_update)

lemma distinct_append_at [simp]:
  "distinct (map fst d) \<Longrightarrow> distinct (map fst (append_at k v d))"
  by (simp add: append_at_def distinct_update)

lemma distinct_fold_append_at:
  "distinct (map fst d) \<Longrightarrow> distinct (map fst (fold (\<lambda>v. append_at (key v) (f v)) vs d))"
  by (induction vs arbitrary: d) auto

lemma distinct_group_by [simp]: "distinct (map fst (group_by key vs))"
  unfolding group_by_def by (rule distinct_fold_append_at [where f = "\<lambda>v. v"]) simp

lemma get_list_fold:
  "get_list (fold (\<lambda>v. append_at (key v) (f v)) vs d) k =
     get_list d k @ map f (filter (\<lambda>v. key v = k) vs)"
  by (induction vs arbitrary: d) auto

lemma get_list_group_by [simp]: "get_list (group_by key vs) k = filter (\<lambda>v. key v = k) vs"
proof -
  have "get_list (group_by key vs) k = get_list [] k @ map (\<lambda>v. v) (filter (\<lambda>v. key v = k) vs)"
    unfolding group_by_def by (rule get_list_fold)
  then show ?thesis by (simp add: get_list_def)
qed

lemma keys_group_by: "fst ` set (group_by key vs) = key ` set vs"
proof -
  have "fst ` set (fold (\<lambda>v. append_at (key v) v) vs d) = fst ` set d \<union> key ` set vs" for d
    by (induction vs arbitrary: d) auto
  then show ?thesis by (simp add: group_by_def)
qed

lemma concat_filter_get_list:
  "distinct (map fst d) \<Longrightarrow> concat (map snd (filter (\<lambda>p. fst p = k) d)) = get_list d k"
proof (induction d)
  case (Cons a d)
  show ?case
  proof (cases "fst a = k")
    case True
    then have "filter (\<lambda>p. fst p = k) d = []" using Cons.prems by (auto simp: filter_empty_conv image_iff)
    with True show ?thesis by (cases a) (simp add: get_list_def)
  next
    case False
    then show ?thesis using Cons by (cases a) (simp add: get_list_def)
  qed
qed (simp add: get_list_def)

text \<open>\<^verbatim>\<open>for k in d: d[k].sort(...)\<close>.\<close>

lemma get_list_map_values:
  "f [] = [] \<Longrightarrow> get_list (map (\<lambda>(k, vs). (k, f vs)) d) k = f (get_list d k)"
  by (induction d) (auto simp: get_list_def)

lemma sum_get_list:
  assumes "distinct (map fst d)"
  shows "(\<Sum>k \<in> fst ` set d. length (get_list d k)) = sum_list (map (length \<circ> snd) d)"
proof -
  have "get_list d k = vs" if "(k, vs) \<in> set d" for k vs
    using assms that by (simp add: get_list_def)
  then have "map (\<lambda>k. length (get_list d k)) (map fst d) = map (length \<circ> snd) d"
    by (auto simp: comp_def)
  then show ?thesis
    using sum_list_distinct_conv_sum_set [OF assms, of "\<lambda>k. length (get_list d k)"]
    by (simp only: set_map)
qed

lemma get_list_outside [simp]: "k \<notin> fst ` set d \<Longrightarrow> get_list d k = []"
  by (simp add: get_list_def map_of_eq_None_iff [THEN iffD2])

end
