(* ===== verification/BillingTransaction.thy ===== *)
theory BillingTransaction
  imports Prelude
begin

section \<open>The Billing deployment transaction (\<^verbatim>\<open>deploy/billing-transaction.py\<close>)\<close>

text \<open>
  The engine installs a new revision of the Billing service: it stages a checkout, writes a
  journal (\<^verbatim>\<open>active.json\<close>), builds and verifies an image, exchanges the staged and the live
  checkout atomically, restarts the service and either commits or rolls back.

  What the program does not contain is a parameter: the record \<open>host\<close> holds the operating
  system calls and \<^verbatim>\<open>subprocess.run\<close>, each a function from the external state \<open>'d\<close> (disk, Docker
  daemon, clock) to a result or an exception and the next external state.  The world of the
  engine is the record \<open>world\<close>: the external state, the contents of the state files, the fields
  \<^verbatim>\<open>self.state\<close> and \<^verbatim>\<open>self.native.deadline\<close>, and the history of the effects issued so far, each
  with the state files as they were on disk at that moment.
\<close>

subsection \<open>World and host interface\<close>

type_synonym path = "string list"

datatype fkind = Link | Dir | Reg | Other

record stat =
  st_kind :: fkind
  st_uid :: nat
  st_perm :: nat
  st_nlink :: nat
  st_dev :: nat
  st_ino :: int
  st_mtime_ns :: int
  st_size :: int

datatype run_result = Completed int string | TimeoutExpired | RunOSError

datatype fcontent = JDoc json | NotJson

datatype event =
    EvRun "string list"
  | EvWrite path json
  | EvSwap path path
  | EvLock nat
  | EvClose nat

type_synonym disk = "path \<Rightarrow> fcontent option"

record 'd world =
  ext :: 'd
  files :: disk
  txn_state :: "dict option"
  deadline :: rat
  hist :: "(event \<times> disk) list"

text \<open>What an operating system call can raise in the caller.\<close>

datatype host_exc = HostOSError | HostValueError | HostInterrupt

fun host_raises :: "host_exc \<Rightarrow> exc" where
  "host_raises HostOSError = OSError"
| "host_raises HostValueError = ValueError"
| "host_raises HostInterrupt = KeyboardInterrupt"

type_synonym ('d, 'a) prim = "'d \<Rightarrow> (host_exc + 'a) \<times> 'd"

record 'd host =
  h_lstat :: "path \<Rightarrow> ('d, stat) prim"
  h_stat :: "path \<Rightarrow> ('d, stat) prim"
  h_exists :: "path \<Rightarrow> ('d, bool) prim"
  h_is_symlink :: "path \<Rightarrow> ('d, bool) prim"
  h_walk :: "path \<Rightarrow> ('d, path list) prim"
  h_mkdir :: "path \<Rightarrow> nat \<Rightarrow> ('d, unit) prim"
  h_unlink :: "path \<Rightarrow> ('d, unit) prim"
  h_open_excl :: "path \<Rightarrow> ('d, unit) prim"
  h_write_fsync :: "path \<Rightarrow> json \<Rightarrow> ('d, unit) prim"
  h_replace :: "path \<Rightarrow> path \<Rightarrow> ('d, unit) prim"
  h_fsync_dir :: "path \<Rightarrow> ('d, unit) prim"
  h_renameat2 :: "path \<Rightarrow> path \<Rightarrow> ('d, int) prim"
  h_open_lock :: "path \<Rightarrow> ('d, nat) prim"
  h_flock :: "nat \<Rightarrow> ('d, bool) prim"
  h_close :: "nat \<Rightarrow> ('d, unit) prim"
  h_open_read :: "path \<Rightarrow> ('d, nat) prim"
  h_fstat :: "nat \<Rightarrow> ('d, stat) prim"
  h_read :: "nat \<Rightarrow> ('d, string) prim"
  h_write :: "path \<Rightarrow> string \<Rightarrow> ('d, unit) prim"
  h_fsync :: "path \<Rightarrow> ('d, unit) prim"
  h_uuid4_hex :: "('d, string) prim"
  h_monotonic :: "('d, rat) prim"
  h_sleep :: "rat \<Rightarrow> ('d, unit) prim"
  h_run :: "string list \<Rightarrow> (string \<times> string) list \<Rightarrow> rat \<Rightarrow> ('d, run_result) prim"

definition primM :: "('d, 'a) prim \<Rightarrow> ('d world, 'a) M" where
  "primM p w =
     (case p (ext w) of
        (Inl x, d) \<Rightarrow> (Inl (host_raises x), w\<lparr>ext := d\<rparr>)
      | (Inr a, d) \<Rightarrow> (Inr a, w\<lparr>ext := d\<rparr>))"

definition logM :: "event \<Rightarrow> ('d world, unit) M" where
  "logM e = modifyM (\<lambda>w. w\<lparr>hist := hist w @ [(e, files w)]\<rparr>)"

subsection \<open>Constants and paths\<close>

definition REPO :: string where
  "REPO = ''https://github.com/Arcanada-one/billing-arcana.git''"

definition IMAGE :: string where
  "IMAGE = ''billing-arcana-billing''"

definition CONTAINER :: string where
  "CONTAINER = ''billing-arcana-billing-1''"

definition SHA_fullmatch :: "string \<Rightarrow> bool" where
  "SHA_fullmatch = hex_string 40"

definition DIGEST_fullmatch :: "string \<Rightarrow> bool" where
  "DIGEST_fullmatch s \<longleftrightarrow> startswith s ''sha256:'' \<and> hex_string 64 (drop 7 s)"

definition CLEAN_ENV :: "(string \<times> string) list" where
  "CLEAN_ENV = [(''PATH'', ''/usr/bin:/bin''), (''HOME'', ''/root''), (''LC_ALL'', ''C''),
                (''GIT_TERMINAL_PROMPT'', ''0'')]"

text \<open>An absolute path is its list of components; \<^verbatim>\<open>str(path)\<close> and \<^verbatim>\<open>path.parent\<close>.\<close>

definition path_str :: "path \<Rightarrow> string" where
  "path_str p = (if p = [] then ''/'' else concat (map (\<lambda>c. ''/'' @ c) p))"

definition parent :: "path \<Rightarrow> path" where
  "parent p = butlast p"

definition STATE :: path where
  "STATE = [''var'', ''lib'', ''arcanada-deploy'']"

record config =
  root_dir :: path
  env_path :: path
  uid :: nat

definition current :: "config \<Rightarrow> path" where
  "current c = root_dir c @ [''billing-arcana'']"

definition private_dir :: "config \<Rightarrow> path" where
  "private_dir c = root_dir c @ [''.billing-transactions'']"

definition active_path :: "config \<Rightarrow> path" where
  "active_path c = private_dir c @ [''active.json'']"

subsection \<open>Custody checks\<close>

definition group_or_other_writable :: "stat \<Rightarrow> bool" where
  \<comment> \<open>\<^verbatim>\<open>st.st_mode & 0o022\<close>: bit 4 and bit 1\<close>
  "group_or_other_writable st \<longleftrightarrow> bit (st_perm st) 4 \<or> bit (st_perm st) 1"

definition protected_node :: "'d host \<Rightarrow> nat \<Rightarrow> path \<Rightarrow> path \<Rightarrow> ('d world, unit) M" where
  "protected_node h u path node =
     bindM (primM (h_lstat h node)) (\<lambda>st.
       if st_kind st = Link \<or> st_uid st \<notin> {0, u} \<or> group_or_other_writable st
       then raise (Refusal ''unsafe ownership or path'')
       else if node \<noteq> path \<and> st_kind st \<noteq> Dir then raise (Refusal ''unsafe parent'')
       else ret ())"

definition protected ::
  "'d host \<Rightarrow> path \<Rightarrow> nat \<Rightarrow> bool \<Rightarrow> bool \<Rightarrow> ('d world, stat) M" where
  "protected h path u directory priv =
     thenM (forM (map (\<lambda>n. take n path) [0..<length path] @ [path]) (protected_node h u path))
       (bindM (primM (h_lstat h path)) (\<lambda>st.
          if st_uid st \<noteq> u \<or> st_kind st \<noteq> (if directory then Dir else Reg)
             \<or> (\<not> directory \<and> st_nlink st \<noteq> 1)
          then raise (Refusal ''unsafe file kind or link count'')
          else if priv \<and> st_perm st \<noteq> (if directory then 448 else 384) \<comment> \<open>0o700, 0o600\<close>
          then raise (Refusal ''private state mode required'')
          else ret st))"

definition tree_safe :: "'d host \<Rightarrow> path \<Rightarrow> nat \<Rightarrow> ('d world, unit) M" where
  "tree_safe h rt u =
     thenM (protected h rt u True False)
       (bindM (primM (h_walk h rt)) (\<lambda>entries.
          forM entries (\<lambda>path.
            bindM (primM (h_lstat h path)) (\<lambda>st.
              if st_uid st \<noteq> u \<or> group_or_other_writable st \<or> st_kind st = Link
              then raise (Refusal ''unsafe checkout'')
              else bindM (primM (h_stat h rt)) (\<lambda>rst.
                if st_dev st \<noteq> st_dev rst \<or> \<not> (st_kind st = Reg \<or> st_kind st = Dir)
                then raise (Refusal ''checkout mount or special-file boundary'')
                else ret ())))))"

subsection \<open>Durable state and the checkout exchange\<close>

text \<open>
  \<^verbatim>\<open>os.replace\<close> is the commit point of \<^verbatim>\<open>atomic_state\<close>: a failure before it leaves the old contents,
  a failure of the directory \<^verbatim>\<open>fsync\<close> after it raises although the new contents are in place.
\<close>

definition replace_file :: "'d host \<Rightarrow> path \<Rightarrow> path \<Rightarrow> json \<Rightarrow> ('d world, unit) M" where
  "replace_file h tmp path data =
     thenM (primM (h_replace h tmp path))
       (thenM (modifyM (\<lambda>w. w\<lparr>files := (files w)(path \<mapsto> JDoc data)\<rparr>))
          (logM (EvWrite path data)))"

definition atomic_state :: "'d host \<Rightarrow> path \<Rightarrow> json \<Rightarrow> ('d world, unit) M" where
  "atomic_state h path data =
     bindM (primM (h_uuid4_hex h)) (\<lambda>u.
       let tmp = parent path @ [''.pending-'' @ u] in
       thenM (primM (h_open_excl h tmp))
         (finallyM
           (thenM (primM (h_write_fsync h tmp data))
             (thenM (replace_file h tmp path data)
               (primM (h_fsync_dir h (parent path)))))
           (bindM (primM (h_exists h tmp)) (\<lambda>ex. whenM ex (primM (h_unlink h tmp))))))"

definition exchange :: "'d host \<Rightarrow> path \<Rightarrow> path \<Rightarrow> ('d world, unit) M" where
  "exchange h left right =
     thenM (logM (EvSwap left right))
       (bindM (primM (h_renameat2 h left right)) (\<lambda>rc.
          if rc \<noteq> 0 then raise (Refusal ''atomic checkout exchange unavailable'')
          else forM (remdups [parent left, parent right]) (\<lambda>p. primM (h_fsync_dir h p))))"

subsection \<open>The native adapter (class \<^verbatim>\<open>Native\<close>)\<close>

definition native_init :: "'d host \<Rightarrow> ('d world, unit) M" where
  "native_init h = bindM (primM (h_monotonic h)) (\<lambda>t. modifyM (\<lambda>w. w\<lparr>deadline := t + 200\<rparr>))"

definition recovery_budget :: "'d host \<Rightarrow> ('d world, unit) M" where
  "recovery_budget h = bindM (primM (h_monotonic h)) (\<lambda>t. modifyM (\<lambda>w. w\<lparr>deadline := t + 80\<rparr>))"

definition run_logged ::
  "'d host \<Rightarrow> string list \<Rightarrow> (string \<times> string) list \<Rightarrow> rat \<Rightarrow> ('d world, run_result) M" where
  "run_logged h argv e timeout = thenM (logM (EvRun argv)) (primM (h_run h argv e timeout))"

definition native_call ::
  "'d host \<Rightarrow> string list \<Rightarrow> (string \<times> string) list \<Rightarrow> ('d world, string) M" where
  "native_call h argv e =
     bindM (getM deadline) (\<lambda>dl. bindM (primM (h_monotonic h)) (\<lambda>now.
       let remaining = dl - now in
       if remaining \<le> 0 then raise (Refusal ''native transaction deadline exceeded'')
       else bindM (run_logged h argv e (min 180 remaining)) (\<lambda>res.
         case res of
           TimeoutExpired \<Rightarrow> raise (NativeOutcomeUnknown ''native completion is unknown'')
         | RunOSError \<Rightarrow> raise (Refusal ''native action unavailable'')
         | Completed rc out \<Rightarrow>
             if rc \<noteq> 0 then raise (Refusal ''native action refused'') else ret (strip out))))"

definition native_head :: "'d host \<Rightarrow> path \<Rightarrow> ('d world, string) M" where
  "native_head h p =
     bindM (native_call h [''/usr/bin/git'', ''-C'', path_str p, ''rev-parse'', ''HEAD''] CLEAN_ENV)
       (\<lambda>v. if \<not> SHA_fullmatch v then raise (Refusal ''invalid checkout revision'') else ret v)"

text \<open>\<^verbatim>\<open>image(ref, optional=True)\<close> and \<^verbatim>\<open>image(ref)\<close>.\<close>

definition native_image_optional :: "'d host \<Rightarrow> string \<Rightarrow> ('d world, string option) M" where
  "native_image_optional h ref =
     bindM (native_call h [''/usr/bin/docker'', ''image'', ''ls'', ''--no-trunc'', ''--format'',
                           ''{{.ID}}'', ''--filter'', ''reference='' @ ref] CLEAN_ENV) (\<lambda>out.
       let rows = splitlines out in
       if rows = [] then ret None
       else if length rows \<noteq> 1 \<or> \<not> DIGEST_fullmatch (hd rows)
       then raise (Refusal ''ambiguous image observation'')
       else ret (Some (hd rows)))"

definition native_image :: "'d host \<Rightarrow> string \<Rightarrow> ('d world, string) M" where
  "native_image h ref =
     bindM (native_call h [''/usr/bin/docker'', ''image'', ''inspect'', ''--format'', ''{{.Id}}'', ref]
              CLEAN_ENV) (\<lambda>v.
       if \<not> DIGEST_fullmatch v then raise (Refusal ''invalid image identity'') else ret v)"

definition native_tag :: "'d host \<Rightarrow> string \<Rightarrow> string \<Rightarrow> ('d world, unit) M" where
  "native_tag h img tag =
     thenM (native_call h [''/usr/bin/docker'', ''tag'', img, IMAGE @ '':'' @ tag] CLEAN_ENV)
       (ret ())"

definition native_container :: "'d host \<Rightarrow> ('d world, string list) M" where
  "native_container h =
     bindM (native_call h
       [''/usr/bin/docker'', ''inspect'', ''--format'',
        ''{{.Image}}|{{.State.Running}}|{{.State.Health.Status}}|'' @
        ''{{index .Config.Labels \"com.docker.compose.project\"}}|'' @
        ''{{index .Config.Labels \"com.docker.compose.service\"}}|'' @
        ''{{index .Config.Labels \"com.docker.compose.project.config_files\"}}'', CONTAINER]
       CLEAN_ENV) (\<lambda>out.
       let value = split_on CHR ''|'' out in
       if length value \<noteq> 6 \<or> \<not> DIGEST_fullmatch (hd value)
          \<or> drop 3 value \<noteq> [''billing-arcana'', ''billing'',
               path_str (STATE @ [''billing-arcana'', ''compose.deploy.yml''])]
       then raise (Refusal ''installed container ownership or compose boundary mismatch'')
       else ret value)"

definition native_verify_image :: "'d host \<Rightarrow> string \<Rightarrow> string \<Rightarrow> ('d world, unit) M" where
  "native_verify_image h img revision =
     bindM (native_call h
       [''/usr/bin/docker'', ''image'', ''inspect'', ''--format'',
        ''{{index .Config.Labels \"org.opencontainers.image.revision\"}}'', img] CLEAN_ENV)
       (\<lambda>actual. if actual \<noteq> revision then raise (Refusal ''image revision mismatch'') else ret ())"

definition health_probe :: string where
  "health_probe = ''fetch('' @ [CHR 0x27] @ ''http://127.0.0.1:3600/health'' @ [CHR 0x27] @
     '').then(async r=>{const b=await r.json();process.exit(r.ok&&b.status==='' @ [CHR 0x27] @
     ''ok'' @ [CHR 0x27] @ ''?0:1)}).catch(()=>process.exit(1))''"

text \<open>One round of the health loop: \<open>True\<close> when the probe succeeded (the method returns).\<close>

definition health_round :: "'d host \<Rightarrow> string \<Rightarrow> ('d world, bool) M" where
  "health_round h img =
     tryM
       (bindM (native_container h) (\<lambda>value.
          if take 3 value = [img, ''true'', ''healthy'']
          then thenM (native_call h [''/usr/bin/docker'', ''exec'', CONTAINER, ''node'', ''-e'',
                                     health_probe] CLEAN_ENV) (ret True)
          else ret False))
       (\<lambda>e. if is_Unknown e then raise e else if is_Refusal e then ret False else raise e)"

primrec health_loop :: "'d host \<Rightarrow> string \<Rightarrow> nat \<Rightarrow> ('d world, unit) M" where
  "health_loop h img 0 = raise (Refusal ''installed health not verified'')"
| "health_loop h img (Suc n) =
     bindM (health_round h img) (\<lambda>done.
       if done then ret () else thenM (primM (h_sleep h 2)) (health_loop h img n))"

definition native_health :: "'d host \<Rightarrow> string \<Rightarrow> string \<Rightarrow> ('d world, unit) M" where
  "native_health h img revision =
     thenM (native_verify_image h img revision) (health_loop h img 6)"

definition native_baseline :: "'d host \<Rightarrow> string \<Rightarrow> ('d world, string) M" where
  "native_baseline h revision =
     bindM (native_container h) (\<lambda>value.
       if take 2 (drop 1 value) \<noteq> [''true'', ''healthy'']
       then raise (Refusal ''healthy installed baseline required'')
       else thenM (native_verify_image h (hd value) revision)
              (thenM (native_health h (hd value) revision) (ret (hd value))))"

text \<open>\<^verbatim>\<open>base64.b64encode\<close> of an ASCII string.\<close>

definition b64_char :: "nat \<Rightarrow> char" where
  "b64_char n =
     ''ABCDEFGHIJKLMNOPQRSTUVWXYZabcdefghijklmnopqrstuvwxyz0123456789+/'' ! (n mod 64)"

fun b64encode :: "string \<Rightarrow> string" where
  "b64encode [] = []"
| "b64encode [a] =
     (let x = of_char a in [b64_char (x div 4), b64_char ((x mod 4) * 16), CHR ''='', CHR ''=''])"
| "b64encode [a, b] =
     (let x = of_char a; y = of_char b in
      [b64_char (x div 4), b64_char ((x mod 4) * 16 + y div 16), b64_char ((y mod 16) * 4), CHR ''=''])"
| "b64encode (a # b # c # s) =
     (let x = of_char a; y = of_char b; z = of_char c in
      [b64_char (x div 4), b64_char ((x mod 4) * 16 + y div 16),
       b64_char ((y mod 16) * 4 + z div 64), b64_char z] @ b64encode s)"

definition native_stage :: "'d host \<Rightarrow> path \<Rightarrow> string \<Rightarrow> string \<Rightarrow> ('d world, unit) M" where
  "native_stage h p revision credential =
     (let e = CLEAN_ENV @
            [(''GIT_CONFIG_COUNT'', ''1''), (''GIT_CONFIG_KEY_0'', ''http.extraHeader''),
             (''GIT_CONFIG_VALUE_0'',
              ''AUTHORIZATION: basic '' @ b64encode (''x-access-token:'' @ credential))];
          git = [''/usr/bin/git'', ''-C'', path_str p] in
      thenM (native_call h [''/usr/bin/git'', ''clone'', ''--quiet'', ''--no-checkout'', REPO, path_str p] e)
       (thenM (native_call h (git @ [''fetch'', ''--quiet'', ''origin'', ''main'']) e)
         (thenM (native_call h (git @ [''merge-base'', ''--is-ancestor'', revision, ''origin/main'']) CLEAN_ENV)
           (thenM (native_call h (git @ [''checkout'', ''--quiet'', ''--detach'', revision]) CLEAN_ENV)
              (ret ())))))"

definition compose_args :: "path \<Rightarrow> bool \<Rightarrow> string list" where
  "compose_args p build =
     [''/usr/bin/docker'', ''compose'', ''--project-name'', ''billing-arcana'', ''--env-file'',
      path_str (p @ [''.env'']), ''-f'', path_str (p @ [''compose.deploy.yml''])] @
     (if build then [''build'', ''billing'']
      else [''up'', ''-d'', ''--no-build'', ''--no-deps'', ''--force-recreate'', ''billing''])"

text \<open>\<^verbatim>\<open>action == 'build'\<close> is the flag \<open>build\<close>.\<close>

definition native_compose :: "'d host \<Rightarrow> path \<Rightarrow> string \<Rightarrow> bool \<Rightarrow> ('d world, unit) M" where
  "native_compose h p revision build =
     thenM (native_call h (compose_args p build) (CLEAN_ENV @ [(''BUILD_SHA'', revision)])) (ret ())"

subsection \<open>The transaction (class \<^verbatim>\<open>Transaction\<close>)\<close>

definition check_dev :: "'d host \<Rightarrow> path \<Rightarrow> path \<Rightarrow> string \<Rightarrow> ('d world, unit) M" where
  "check_dev h p rt msg =
     bindM (primM (h_stat h p)) (\<lambda>a. bindM (primM (h_stat h rt)) (\<lambda>b.
       if st_dev a \<noteq> st_dev b then raise (Refusal msg) else ret ()))"

definition lock :: "'d host \<Rightarrow> config \<Rightarrow> ('d world, nat) M" where
  "lock h c =
     thenM (protected h (root_dir c) (uid c) True False)
     (bindM (primM (h_exists h (private_dir c))) (\<lambda>ex.
      thenM (whenM (\<not> ex) (primM (h_mkdir h (private_dir c) 448)))
      (thenM (protected h (private_dir c) (uid c) True True)
      (thenM (check_dev h (private_dir c) (root_dir c) ''transaction mount boundary'')
      (bindM (primM (h_open_lock h (private_dir c @ [''lock'']))) (\<lambda>fd.
       thenM (protected h (private_dir c @ [''lock'']) (uid c) False True)
       (bindM (primM (h_flock h fd)) (\<lambda>got.
          if got then thenM (logM (EvLock fd)) (ret fd)
          else thenM (primM (h_close h fd)) (raise (Refusal ''transaction already owned''))))))))))"

definition close_lock :: "'d host \<Rightarrow> nat \<Rightarrow> ('d world, unit) M" where
  "close_lock h fd = thenM (logM (EvClose fd)) (primM (h_close h fd))"

text \<open>\<^verbatim>\<open>self.state[k] = v\<close> and \<^verbatim>\<open>self.state[k]\<close>; the state is \<^verbatim>\<open>None\<close> before a transaction.\<close>

definition get_state :: "('d world, dict) M" where
  "get_state w = (case txn_state w of None \<Rightarrow> (Inl TypeError, w) | Some s \<Rightarrow> (Inr s, w))"

definition put_state :: "dict \<Rightarrow> ('d world, unit) M" where
  "put_state s = modifyM (\<lambda>w. w\<lparr>txn_state := Some s\<rparr>)"

definition state_item :: "dict \<Rightarrow> string \<Rightarrow> ('d world, json) M" where
  "state_item s k = (case dget s k of None \<Rightarrow> raise (KeyError k) | Some v \<Rightarrow> ret v)"

definition state_str :: "dict \<Rightarrow> string \<Rightarrow> ('d world, string) M" where
  "state_str s k =
     bindM (state_item s k) (\<lambda>v. case v of JStr x \<Rightarrow> ret x | _ \<Rightarrow> raise TypeError)"

definition persist :: "'d host \<Rightarrow> config \<Rightarrow> json \<Rightarrow> ('d world, unit) M" where
  "persist h c phase =
     bindM get_state (\<lambda>s.
       let s' = dset ''phase'' phase s in
       thenM (put_state s') (atomic_state h (active_path c) (JObj s')))"

text \<open>
  \<^verbatim>\<open>pending(state)\<close>.  The code only meets objects (or null) under \<^verbatim>\<open>native_action\<close>: it writes
  objects, and \<^verbatim>\<open>load\<close> refuses anything else.
\<close>

definition pending :: "dict \<Rightarrow> bool" where
  "pending s =
     (case dget s ''native_action'' of
        Some (JObj a) \<Rightarrow> dget a ''completion'' = Some (JStr ''pending'')
      | _ \<Rightarrow> False)"

definition complete_operation :: "'d host \<Rightarrow> config \<Rightarrow> string \<Rightarrow> ('d world, unit) M" where
  "complete_operation h c completion =
     bindM get_state (\<lambda>s. bindM (state_item s ''native_action'') (\<lambda>na.
       case na of
         JObj a \<Rightarrow>
           (let completed = dset ''native_action'' (JObj (dset ''completion'' (JStr completion) a)) s in
            thenM
              (tryM (atomic_state h (active_path c) (JObj completed))
                 (\<lambda>e. if e = OSError
                       then raise (NativeOutcomeUnknown ''native completion persistence is unknown'')
                       else raise e))
              (put_state completed))
       | _ \<Rightarrow> raise TypeError))"

definition action_obj :: "string \<Rightarrow> string \<Rightarrow> json" where
  "action_obj name completion = JObj [(''name'', JStr name), (''completion'', JStr completion)]"

text \<open>The invocation inside \<^verbatim>\<open>operation\<close>: its outcome is recorded unless it is unknown.\<close>

definition record_outcome :: "'d host \<Rightarrow> config \<Rightarrow> ('d world, 'a) M \<Rightarrow> ('d world, 'a) M" where
  "record_outcome h c call =
     bindM
       (tryM call
         (\<lambda>e. if is_Unknown e then raise e
               else if is_Refusal e
               then thenM (complete_operation h c ''returned-refusal'') (raise e)
               else raise e))
       (\<lambda>result. thenM (complete_operation h c ''returned'') (ret result))"

definition operation :: "'d host \<Rightarrow> config \<Rightarrow> string \<Rightarrow> ('d world, 'a) M \<Rightarrow> ('d world, 'a) M" where
  "operation h c name call =
     bindM get_state (\<lambda>s.
       thenM (put_state (dset ''native_action'' (action_obj name ''pending'') s))
       (bindM (state_item s ''phase'') (\<lambda>ph.
        thenM (persist h c ph) (record_outcome h c call))))"

definition phases :: "string list" where
  "phases = [''build-intent'', ''exchange-intent'', ''up-intent'', ''recovery-intent'', ''committed'',
             ''rolled-back'']"

definition action_names :: "string list" where
  "action_names = [''tag-previous'', ''build'', ''image'', ''verify-image'', ''up'', ''health'',
     ''tag-release'', ''restore-image'', ''restore-up'', ''restore-health'']"

definition completions :: "string list" where
  "completions = [''pending'', ''returned'', ''returned-refusal'']"

definition str_item :: "dict \<Rightarrow> string \<Rightarrow> (string \<Rightarrow> bool) \<Rightarrow> bool" where
  "str_item d k P = (case dget d k of Some (JStr s) \<Rightarrow> P s | _ \<Rightarrow> False)"

definition pos_int_item :: "dict \<Rightarrow> string \<Rightarrow> bool" where
  "pos_int_item d k = (case dget d k of Some (JInt i) \<Rightarrow> 0 < i | _ \<Rightarrow> False)"

definition valid_fields :: "dict \<Rightarrow> bool" where
  "valid_fields d \<longleftrightarrow>
     str_item d ''phase'' (\<lambda>p. p \<in> set phases)
     \<and> str_item d ''old_sha'' SHA_fullmatch \<and> str_item d ''new_sha'' SHA_fullmatch
     \<and> str_item d ''image'' DIGEST_fullmatch
     \<and> pos_int_item d ''old_inode'' \<and> pos_int_item d ''new_inode''
     \<and> (case dget d ''up_intent'' of Some (JBool _) \<Rightarrow> True | _ \<Rightarrow> False)"

definition valid_action :: "dict \<Rightarrow> bool" where
  "valid_action d =
     (case dget d ''native_action'' of
        None \<Rightarrow> True
      | Some JNull \<Rightarrow> True
      | Some (JObj a) \<Rightarrow>
          fst ` set a = {''name'', ''completion''}
          \<and> str_item a ''name'' (\<lambda>n. n \<in> set action_names)
          \<and> str_item a ''completion'' (\<lambda>n. n \<in> set completions)
      | _ \<Rightarrow> False)"

text \<open>The validation part of \<^verbatim>\<open>load\<close>, on the parsed document.\<close>

definition load_doc :: "fcontent \<Rightarrow> exc + dict" where
  "load_doc content =
     (case content of
        NotJson \<Rightarrow> Inl ValueError
      | JDoc (JObj d) \<Rightarrow>
          if dget d ''schema'' \<noteq> Some (JStr ''BillingTransaction/v1'')
          then Inl (Refusal ''invalid protected journal'')
          else (case dget d ''id'' of
                  None \<Rightarrow> Inl (Refusal ''invalid protected journal'')
                | Some (JStr i) \<Rightarrow>
                    if \<not> hex_string 32 i then Inl (Refusal ''invalid protected journal'')
                    else if \<not> valid_fields d then Inl (Refusal ''invalid protected journal fields'')
                    else if \<not> valid_action d then Inl (Refusal ''invalid native completion journal'')
                    else Inr d
                | Some _ \<Rightarrow> Inl TypeError)
      | JDoc _ \<Rightarrow> Inl AttributeError)"

definition load :: "'d host \<Rightarrow> config \<Rightarrow> ('d world, dict option) M" where
  "load h c =
     bindM (getM (\<lambda>w. files w (active_path c))) (\<lambda>content.
       case content of
         None \<Rightarrow> ret None
       | Some doc \<Rightarrow>
           thenM (protected h (active_path c) (uid c) False True)
             (case load_doc doc of Inl e \<Rightarrow> raise e | Inr d \<Rightarrow> ret (Some d)))"

definition settled_phase :: "dict \<Rightarrow> bool" where
  "settled_phase d \<longleftrightarrow> dget d ''phase'' = Some (JStr ''committed'') \<or> dget d ''phase'' = Some (JStr ''rolled-back'')"

definition backup_path :: "config \<Rightarrow> string \<Rightarrow> path" where
  "backup_path c ident = private_dir c @ [ident, ''checkout'']"

definition unproved :: "dict \<Rightarrow> bool" where
  "unproved s \<longleftrightarrow> pending s \<or> (\<not> settled_phase s \<and> dget s ''native_action'' = None)"

text \<open>The part of \<^verbatim>\<open>rollback\<close> up to the observed inode pair, and the part after it.\<close>

definition rollback_observe :: "'d host \<Rightarrow> config \<Rightarrow> path \<Rightarrow> ('d world, int \<times> int) M" where
  "rollback_observe h c backup =
     thenM (recovery_budget h)
     (thenM (tree_safe h (current c) (uid c))
     (thenM (tree_safe h backup (uid c))
     (thenM (check_dev h (current c) (root_dir c) ''rollback mount boundary'')
     (thenM (check_dev h backup (root_dir c) ''rollback mount boundary'')
     (bindM (primM (h_stat h (current c))) (\<lambda>a.
      bindM (primM (h_stat h backup)) (\<lambda>b. ret (st_ino a, st_ino b))))))))"

definition swap_back :: "'d host \<Rightarrow> config \<Rightarrow> path \<Rightarrow> dict \<Rightarrow> int \<times> int \<Rightarrow> ('d world, unit) M" where
  "swap_back h c backup s pair =
     bindM (state_item s ''new_inode'') (\<lambda>new. bindM (state_item s ''old_inode'') (\<lambda>old.
       if (JInt (fst pair), JInt (snd pair)) = (new, old) then exchange h (current c) backup
       else if (JInt (fst pair), JInt (snd pair)) \<noteq> (old, new)
       then raise (Refusal ''checkout custody changed; retain journal'')
       else ret ()))"

definition restore_service :: "'d host \<Rightarrow> config \<Rightarrow> dict \<Rightarrow> ('d world, unit) M" where
  "restore_service h c s =
     bindM (state_str s ''image'') (\<lambda>img.
     thenM (operation h c ''restore-image'' (native_tag h img ''latest''))
     (bindM (state_item s ''up_intent'') (\<lambda>up.
      whenM (up = JBool True)
        (bindM (state_str s ''old_sha'') (\<lambda>old_sha.
         thenM (operation h c ''restore-up'' (native_compose h (current c) old_sha False))
               (operation h c ''restore-health'' (native_health h img old_sha)))))))"

definition rollback :: "'d host \<Rightarrow> config \<Rightarrow> ('d world, unit) M" where
  "rollback h c =
     bindM get_state (\<lambda>s.
       if unproved s
       then raise (Refusal ''native completion unproved; retain journal without recovery'')
       else bindM (state_str s ''id'') (\<lambda>ident.
         let backup = backup_path c ident in
         bindM (rollback_observe h c backup) (\<lambda>pair.
         thenM (persist h c (JStr ''recovery-intent''))
         (thenM (swap_back h c backup s pair)
         (thenM (restore_service h c s)
            (persist h c (JStr ''rolled-back'')))))))"

definition refuse_unsettled :: "dict option \<Rightarrow> ('d world, unit) M" where
  "refuse_unsettled prior =
     (case prior of
        None \<Rightarrow> ret ()
      | Some p \<Rightarrow>
          if pending p \<or> \<not> settled_phase p
          then raise (Refusal ''unsettled transaction; explicit recovery required'') else ret ())"

text \<open>
  The preconditions that \<^verbatim>\<open>check\<close> and \<^verbatim>\<open>deploy\<close> share (the same statements in both methods): the
  protected environment's \<open>stat\<close>, the installed revision and the installed image.
\<close>

definition baseline_checks ::
  "'d host \<Rightarrow> config \<Rightarrow> string \<Rightarrow> ('d world, stat \<times> string \<times> string) M" where
  "baseline_checks h c revision =
     bindM (load h c) (\<lambda>prior.
     thenM (refuse_unsettled prior)
     (thenM (tree_safe h (current c) (uid c))
     (thenM (protected h (current c @ [''.env'']) (uid c) False True)
     (bindM (protected h (env_path c) (uid c) False True) (\<lambda>env_stat.
      thenM (check_dev h (current c) (root_dir c) ''checkout mount boundary'')
      (bindM (native_head h (current c)) (\<lambda>old_sha.
       if old_sha = revision
       then raise (Refusal ''revision already installed; do not redeploy'')
       else bindM (native_baseline h old_sha) (\<lambda>img.
         bindM (native_image_optional h (IMAGE @ '':latest'')) (\<lambda>latest.
           if latest \<noteq> None \<and> latest \<noteq> Some img
           then raise (Refusal ''latest is not installed baseline'')
           else ret (env_stat, old_sha, img))))))))))"

definition check :: "'d host \<Rightarrow> config \<Rightarrow> string \<Rightarrow> ('d world, unit) M" where
  "check h c revision =
     (if \<not> SHA_fullmatch revision then raise (Refusal ''invalid revision'')
      else bindM (lock h c) (\<lambda>fd.
        finallyM (thenM (baseline_checks h c revision) (ret ())) (close_lock h fd)))"

definition credential_ok :: "string \<Rightarrow> bool" where
  "credential_ok s \<longleftrightarrow> 20 \<le> length s \<and> length s \<le> 512 \<and>
     list_all (\<lambda>ch. ch \<in> set (''ABCDEFGHIJKLMNOPQRSTUVWXYZabcdefghijklmnopqrstuvwxyz0123456789_.-'')) s"

definition env_identity :: "stat \<Rightarrow> nat \<times> int \<times> int \<times> int" where
  "env_identity st = (st_dev st, st_ino st, st_mtime_ns st, st_size st)"

text \<open>Copying the protected environment into the staged checkout.\<close>

definition stage_env :: "'d host \<Rightarrow> config \<Rightarrow> path \<Rightarrow> stat \<Rightarrow> ('d world, unit) M" where
  "stage_env h c target env_stat =
     thenM (primM (h_open_excl h target))
     (bindM (primM (h_open_read h (env_path c))) (\<lambda>src.
      tryM
        (bindM (primM (h_fstat h src)) (\<lambda>observed.
         if env_identity observed \<noteq> env_identity env_stat
         then raise (Refusal ''protected environment custody changed'')
         else bindM (primM (h_read h src)) (\<lambda>data.
           thenM (primM (h_write h target data))
           (bindM (primM (h_fstat h src)) (\<lambda>final.
            if (st_mtime_ns final, st_size final, st_kind final, st_perm final)
               \<noteq> (st_mtime_ns observed, st_size observed, st_kind observed, st_perm observed)
            then raise (Refusal ''protected environment changed during staging'')
            else primM (h_fsync h target))))))
        (\<lambda>_. raise (Refusal ''protected environment staging failed''))))"

text \<open>Staging the candidate checkout; the result is the transaction's identifier.\<close>

definition stage_checkout ::
  "'d host \<Rightarrow> config \<Rightarrow> string \<Rightarrow> string \<Rightarrow> stat \<Rightarrow> ('d world, string) M" where
  "stage_checkout h c revision credential env_stat =
     bindM (primM (h_uuid4_hex h)) (\<lambda>ident.
     let directory = private_dir c @ [ident]; stage = backup_path c ident in
     thenM (primM (h_mkdir h directory 448))
     (thenM (native_stage h stage revision credential)
     (thenM (tree_safe h stage (uid c))
     (bindM (native_head h stage) (\<lambda>hd.
      if hd \<noteq> revision then raise (Refusal ''staged revision mismatch'')
      else bindM (primM (h_exists h (stage @ [''.env'']))) (\<lambda>ex.
        bindM (if ex then ret True else primM (h_is_symlink h (stage @ [''.env'']))) (\<lambda>present.
          if present then raise (Refusal ''tracked environment refuses protected installation'')
          else thenM (stage_env h c (stage @ [''.env'']) env_stat) (ret ident))))))))"

definition initial_state :: "string \<Rightarrow> string \<Rightarrow> string \<Rightarrow> string \<Rightarrow> int \<Rightarrow> int \<Rightarrow> dict" where
  "initial_state ident old_sha revision img old_inode new_inode =
     [(''schema'', JStr ''BillingTransaction/v1''), (''id'', JStr ident),
      (''old_sha'', JStr old_sha), (''new_sha'', JStr revision), (''image'', JStr img),
      (''old_inode'', JInt old_inode), (''new_inode'', JInt new_inode), (''up_intent'', JBool False)]"

definition set_up_intent :: "bool \<Rightarrow> ('d world, unit) M" where
  "set_up_intent b = bindM get_state (\<lambda>s. put_state (dset ''up_intent'' (JBool b) s))"

text \<open>The guarded block of \<^verbatim>\<open>deploy\<close>: build, verify, exchange, start, verify, tag, commit.\<close>

definition install :: "'d host \<Rightarrow> config \<Rightarrow> string \<Rightarrow> string \<Rightarrow> string \<Rightarrow> ('d world, unit) M" where
  "install h c ident revision img =
     (let stage = backup_path c ident in
      thenM (operation h c ''tag-previous'' (native_tag h img ''previous''))
      (thenM (operation h c ''build'' (native_compose h stage revision True))
      (bindM (operation h c ''image'' (native_image h (IMAGE @ '':latest''))) (\<lambda>candidate.
       thenM (operation h c ''verify-image'' (native_verify_image h candidate revision))
       (thenM (persist h c (JStr ''exchange-intent''))
       (thenM (exchange h (current c) stage)
       (thenM (set_up_intent True)
       (thenM (tryM (persist h c (JStr ''up-intent''))
                 (\<lambda>e. if e = OSError then thenM (set_up_intent False) (raise e) else raise e))
       (thenM (operation h c ''up'' (native_compose h (current c) revision False))
       (thenM (operation h c ''health'' (native_health h candidate revision))
       (thenM (operation h c ''tag-release'' (native_tag h candidate revision))
          (persist h c (JStr ''committed'')))))))))))))"

definition recoverable :: "exc \<Rightarrow> bool" where
  "recoverable e \<longleftrightarrow> is_Refusal e \<or> e = OSError \<or> e = ValueError"

definition install_handler :: "'d host \<Rightarrow> config \<Rightarrow> exc \<Rightarrow> ('d world, unit) M" where
  "install_handler h c e =
     (if is_Unknown e \<or> e = KeyboardInterrupt
      then raise (Refusal ''native completion unknown; protected journal retained'')
      else if recoverable e
      then thenM
             (tryM (rollback h c)
               (\<lambda>e'. if recoverable e'
                      then raise (Refusal ''transaction failed; protected recovery journal retained'')
                      else raise e'))
             (raise (Refusal ''transaction failed; baseline restored''))
      else raise e)"

definition deploy_locked ::
  "'d host \<Rightarrow> config \<Rightarrow> string \<Rightarrow> string \<Rightarrow> ('d world, string) M" where
  "deploy_locked h c revision credential =
     bindM (baseline_checks h c revision) (\<lambda>(env_stat, old_sha, img).
     bindM (stage_checkout h c revision credential env_stat) (\<lambda>ident.
     bindM (primM (h_stat h (current c))) (\<lambda>a.
     bindM (primM (h_stat h (backup_path c ident))) (\<lambda>b.
     thenM (put_state (initial_state ident old_sha revision img (st_ino a) (st_ino b)))
     (thenM (persist h c (JStr ''build-intent''))
     (thenM (tryM (install h c ident revision img) (install_handler h c))
        (ret ident)))))))"

definition deploy :: "'d host \<Rightarrow> config \<Rightarrow> string \<Rightarrow> string \<Rightarrow> ('d world, string) M" where
  "deploy h c revision credential =
     (if \<not> SHA_fullmatch revision \<or> \<not> credential_ok credential
      then raise (Refusal ''invalid revision or stdin credential'')
      else bindM (lock h c) (\<lambda>fd.
        finallyM (deploy_locked h c revision credential) (close_lock h fd)))"

definition recover_locked :: "'d host \<Rightarrow> config \<Rightarrow> string \<Rightarrow> ('d world, unit) M" where
  "recover_locked h c ident =
     bindM (load h c) (\<lambda>st.
     thenM (modifyM (\<lambda>w. w\<lparr>txn_state := st\<rparr>))
       (case st of
          None \<Rightarrow> raise (Refusal ''recovery receipt does not match active transaction'')
        | Some s \<Rightarrow>
            if dget s ''id'' \<noteq> Some (JStr ident) \<or> dget s ''phase'' = Some (JStr ''rolled-back'')
            then raise (Refusal ''recovery receipt does not match active transaction'')
            else rollback h c))"

definition recover :: "'d host \<Rightarrow> config \<Rightarrow> string \<Rightarrow> ('d world, unit) M" where
  "recover h c ident =
     bindM (lock h c) (\<lambda>fd. finallyM (recover_locked h c ident) (close_lock h fd))"

subsection \<open>The entry point\<close>

text \<open>\<^verbatim>\<open>sys.stdin.readline(514).rstrip('\n')\<close>.\<close>

fun readline :: "nat \<Rightarrow> string \<Rightarrow> string" where
  "readline 0 s = []"
| "readline (Suc n) [] = []"
| "readline (Suc n) (ch # s) = (if ch = CHR 0x0A then [ch] else ch # readline n s)"

definition rstrip_newline :: "string \<Rightarrow> string" where
  "rstrip_newline s = rev (dropWhile (\<lambda>ch. ch = CHR 0x0A) (rev s))"

text \<open>\<^verbatim>\<open>main\<close>: effective user, the two arguments, standard input; the result is the printed line.\<close>

definition main_entry ::
  "'d host \<Rightarrow> config \<Rightarrow> nat \<Rightarrow> string list \<Rightarrow> string \<Rightarrow> ('d world, string) M" where
  "main_entry h c euid args stdin =
     (if euid \<noteq> 0 \<or> length args \<noteq> 2 then raise (Refusal ''root transaction entrypoint required'')
      else let action = args ! 0; value = args ! 1 in
        if action = ''check'' \<and> SHA_fullmatch value
        then thenM (native_init h) (thenM (check h c value) (ret ''BILLING_TRANSACTION_BASELINE_PASS''))
        else if action = ''deploy'' \<and> SHA_fullmatch value
        then thenM (native_init h)
               (bindM (deploy h c value (rstrip_newline (readline 514 stdin)))
                 (\<lambda>ident. ret (''BILLING_TRANSACTION_PASS id='' @ ident)))
        else if action = ''recover'' \<and> hex_string 32 value
        then thenM (native_init h)
               (thenM (recover h c value) (ret (''BILLING_TRANSACTION_ROLLBACK_PASS id='' @ value)))
        else raise (Refusal ''invalid transaction action''))"

end
