(* ===== verification/BillingSafety.thy ===== *)
theory BillingSafety
  imports BillingTransaction
begin

section \<open>Safety of the Billing transaction\<close>

text \<open>
  The locale \<open>quiet\<close> is the contract of an invariant that the read-only part of the engine cannot
  break: it does not look at the external state or the deadline, and it survives the logging of a
  read-only command and of the lock.  Every custody check, inspection and staging step keeps such
  an invariant, once and for all.  The properties of the journal are then proved for the writing
  operations only.
\<close>

subsection \<open>Commands that change the installed service\<close>

definition mutating :: "string list \<Rightarrow> bool" where
  "mutating argv \<longleftrightarrow>
     take 2 argv = [''/usr/bin/docker'', ''tag''] \<or> take 2 argv = [''/usr/bin/docker'', ''compose'']"

definition journal :: "config \<Rightarrow> disk \<Rightarrow> dict option" where
  "journal c D = (case D (active_path c) of Some (JDoc (JObj s)) \<Rightarrow> Some s | _ \<Rightarrow> None)"

definition journal_pending :: "config \<Rightarrow> disk \<Rightarrow> bool" where
  "journal_pending c D = (case journal c D of Some s \<Rightarrow> pending s | None \<Rightarrow> False)"

definition journal_phase :: "config \<Rightarrow> disk \<Rightarrow> json option" where
  "journal_phase c D = Option.bind (journal c D) (\<lambda>s. dget s ''phase'')"

lemma mutating_simps [simp]:
  "mutating (''/usr/bin/git'' # xs) = False"
  "mutating (''/usr/bin/docker'' # ''image'' # xs) = False"
  "mutating (''/usr/bin/docker'' # ''inspect'' # xs) = False"
  "mutating (''/usr/bin/docker'' # ''exec'' # xs) = False"
  "mutating (''/usr/bin/docker'' # ''tag'' # xs) = True"
  "mutating (compose_args p b) = True"
  by (simp_all add: mutating_def compose_args_def)

subsection \<open>The read-only part of the engine\<close>

definition logged :: "event \<Rightarrow> 'd world \<Rightarrow> 'd world" where
  "logged e w = w\<lparr>hist := hist w @ [(e, files w)]\<rparr>"

lemma logged_simps [simp]:
  "files (logged e w) = files w" "txn_state (logged e w) = txn_state w"
  "hist (logged e w) = hist w @ [(e, files w)]"
  by (simp_all add: logged_def)

lemma keeps_log: "(\<And>w. I w \<Longrightarrow> I (logged e w)) \<Longrightarrow> keeps I X (logM e)"
  unfolding logM_def logged_def by (rule hoare_modify)

lemma host_raises_not_Refusal [simp]: "\<not> is_Refusal (host_raises x)" "host_raises x \<noteq> Refusal m"
  by (cases x; simp)+

lemma hoare_prim:
  "(\<And>w d. R (w\<lparr>ext := d\<rparr>) = R w) \<Longrightarrow> hoare R (primM p) (\<lambda>_. R) (\<lambda>e w. R w \<and> \<not> is_Refusal e)"
  by (rule hoareI) (auto simp: primM_def split: prod.splits sum.splits)

definition baseline_restored :: string where
  "baseline_restored = ''transaction failed; baseline restored''"

lemma load_doc_exc: "load_doc doc \<noteq> Inl (Refusal baseline_restored)"
  by (auto simp: load_doc_def baseline_restored_def
      split: fcontent.splits json.splits option.splits if_splits)

locale quiet =
  fixes I :: "'d world \<Rightarrow> bool" and X :: "exc \<Rightarrow> bool"
  assumes other_exc: "e \<noteq> Refusal baseline_restored \<Longrightarrow> X e"
    and ext_frame: "I (w\<lparr>ext := d\<rparr>) = I w"
    and deadline_frame: "I (w\<lparr>deadline := t\<rparr>) = I w"
    and read_only_run: "I w \<Longrightarrow> \<not> mutating argv \<Longrightarrow> I (logged (EvRun argv) w)"
    and lock_log: "I w \<Longrightarrow> I (logged (EvLock fd) w)"
    and close_log: "I w \<Longrightarrow> I (logged (EvClose fd) w)"
begin

lemma prim [keeps_rules]: "keeps I X (primM p)"
  by (rule hoareI) (auto simp: primM_def ext_frame intro!: other_exc split: prod.splits sum.splits)

lemma native_init [keeps_rules]: "keeps I X (native_init h)"
  unfolding native_init_def
  by (intro keeps_rules hoare_modify) (simp add: deadline_frame)

lemma recovery_budget [keeps_rules]: "keeps I X (recovery_budget h)"
  unfolding recovery_budget_def
  by (intro keeps_rules hoare_modify) (simp add: deadline_frame)

lemma logged_call:
  assumes log: "\<And>w. I w \<Longrightarrow> I (logged (EvRun argv) w)"
  shows "keeps I X (native_call h argv e)"
proof -
  have "keeps I X (run_logged h argv e t)" for t
    unfolding run_logged_def by (intro keeps_rules keeps_log log)
  then show ?thesis
    unfolding native_call_def Let_def
    by (auto simp: baseline_restored_def intro!: keeps_rules other_exc split: run_result.splits)
qed

lemma native_call [keeps_rules]: "\<not> mutating argv \<Longrightarrow> keeps I X (native_call h argv e)"
  by (rule logged_call) (rule read_only_run)

lemma native_head [keeps_rules]: "keeps I X (native_head h p)"
  unfolding native_head_def  by (auto simp: baseline_restored_def intro!: keeps_rules other_exc)

lemma native_image_optional [keeps_rules]: "keeps I X (native_image_optional h ref)"
  unfolding native_image_optional_def Let_def  by (auto simp: baseline_restored_def intro!: keeps_rules other_exc)

lemma native_image [keeps_rules]: "keeps I X (native_image h ref)"
  unfolding native_image_def  by (auto simp: baseline_restored_def intro!: keeps_rules other_exc)

lemma native_container [keeps_rules]: "keeps I X (native_container h)"
  unfolding native_container_def Let_def  by (auto simp: baseline_restored_def intro!: keeps_rules other_exc)

lemma native_verify_image [keeps_rules]: "keeps I X (native_verify_image h img rv)"
  unfolding native_verify_image_def  by (auto simp: baseline_restored_def intro!: keeps_rules other_exc)

lemma health_round [keeps_rules]: "keeps I X (health_round h img)"
  unfolding health_round_def  by (auto simp: baseline_restored_def intro!: keeps_rules other_exc)

lemma health_loop [keeps_rules]: "keeps I X (health_loop h img n)"
  by (induction n) (auto simp: baseline_restored_def intro!: keeps_rules other_exc)

lemma native_health [keeps_rules]: "keeps I X (native_health h img rv)"
  unfolding native_health_def  by (auto simp: baseline_restored_def intro!: keeps_rules other_exc)

lemma native_baseline [keeps_rules]: "keeps I X (native_baseline h rv)"
  unfolding native_baseline_def  by (auto simp: baseline_restored_def intro!: keeps_rules other_exc)

lemma native_stage [keeps_rules]: "keeps I X (native_stage h p rv cred)"
  unfolding native_stage_def Let_def  by (auto simp: baseline_restored_def intro!: keeps_rules other_exc)

lemma protected [keeps_rules]: "keeps I X (protected h p u d pr)"
  unfolding protected_def protected_node_def  by (auto simp: baseline_restored_def intro!: keeps_rules other_exc)

lemma tree_safe [keeps_rules]: "keeps I X (tree_safe h p u)"
  unfolding tree_safe_def  by (auto simp: baseline_restored_def intro!: keeps_rules other_exc)

lemma check_dev [keeps_rules]: "msg \<noteq> baseline_restored \<Longrightarrow> keeps I X (check_dev h p r msg)"
  unfolding check_dev_def  by (auto simp: baseline_restored_def intro!: keeps_rules other_exc)

lemma lock [keeps_rules]: "keeps I X (lock h c)"
  unfolding lock_def by (auto simp: baseline_restored_def intro!: keeps_rules other_exc keeps_log lock_log)

lemma close_lock [keeps_rules]: "keeps I X (close_lock h fd)"
  unfolding close_lock_def by (auto simp: baseline_restored_def intro!: keeps_rules other_exc keeps_log close_log)

lemma load [keeps_rules]: "keeps I X (load h c)"
  using load_doc_exc
  unfolding load_def by (auto simp: baseline_restored_def intro!: keeps_rules other_exc split: option.splits sum.splits)

lemma refuse_unsettled [keeps_rules]: "keeps I X (refuse_unsettled p)"
  unfolding refuse_unsettled_def  by (auto simp: baseline_restored_def intro!: keeps_rules other_exc)

lemma baseline_checks [keeps_rules]: "keeps I X (baseline_checks h c rv)"
  unfolding baseline_checks_def  by (auto simp: baseline_restored_def intro!: keeps_rules other_exc)

lemma check [keeps_rules]: "keeps I X (check h c rv)"
  unfolding check_def  by (auto simp: baseline_restored_def intro!: keeps_rules other_exc)

lemma stage_checkout [keeps_rules]: "keeps I X (stage_checkout h c rv cred st)"
  unfolding stage_checkout_def stage_env_def Let_def  by (auto simp: baseline_restored_def intro!: keeps_rules other_exc)

lemma rollback_observe [keeps_rules]: "keeps I X (rollback_observe h c b)"
  unfolding rollback_observe_def  by (auto simp: baseline_restored_def intro!: keeps_rules other_exc)

end

subsection \<open>The journal writers\<close>

definition wrote :: "config \<Rightarrow> dict \<Rightarrow> 'd world \<Rightarrow> 'd world" where
  "wrote c s w =
     logged (EvWrite (active_path c) (JObj s))
       (w\<lparr>files := (files w)(active_path c \<mapsto> JDoc (JObj s))\<rparr>)"

lemma wrote_simps [simp]:
  "txn_state (wrote c s w) = txn_state w" "journal c (files (wrote c s w)) = Some s"
  "hist (wrote c s w) =
     hist w @ [(EvWrite (active_path c) (JObj s), (files w)(active_path c \<mapsto> JDoc (JObj s)))]"
  by (simp_all add: wrote_def journal_def)

text \<open>The state in memory, and the state in memory being what is on disk.\<close>

definition mem_state :: "(dict \<Rightarrow> bool) \<Rightarrow> 'd world \<Rightarrow> bool" where
  "mem_state Q w \<longleftrightarrow> (\<exists>s. txn_state w = Some s \<and> Q s)"

definition durable :: "config \<Rightarrow> (dict \<Rightarrow> bool) \<Rightarrow> 'd world \<Rightarrow> bool" where
  "durable c Q w \<longleftrightarrow> (\<exists>s. txn_state w = Some s \<and> Q s \<and> journal c (files w) = Some s)"

lemma durable_mem: "durable c Q w \<Longrightarrow> mem_state Q w"
  by (auto simp: durable_def mem_state_def)

lemma mem_state_mono: "mem_state Q w \<Longrightarrow> (\<And>s. Q s \<Longrightarrow> R s) \<Longrightarrow> mem_state R w"
  by (auto simp: mem_state_def)

lemma durable_mono: "durable c Q w \<Longrightarrow> (\<And>s. Q s \<Longrightarrow> R s) \<Longrightarrow> durable c R w"
  by (auto simp: durable_def)

definition action_is :: "string \<Rightarrow> string \<Rightarrow> dict \<Rightarrow> bool" where
  "action_is n k s \<longleftrightarrow> dget s ''native_action'' = Some (action_obj n k)"

definition phase_is :: "string \<Rightarrow> dict \<Rightarrow> bool" where
  "phase_is ph s \<longleftrightarrow> dget s ''phase'' = Some (JStr ph)"

definition swap_phases :: "json option set" where
  "swap_phases = {Some (JStr ''exchange-intent''), Some (JStr ''recovery-intent'')}"

lemma action_is_pending: "action_is n ''pending'' s \<Longrightarrow> pending s"
  by (simp add: action_is_def pending_def action_obj_def)

lemma action_is_returned: "action_is n ''returned'' s \<Longrightarrow> \<not> pending s"
  by (simp add: action_is_def pending_def action_obj_def)

lemma complete_action_obj:
  "dset ''completion'' (JStr k) [(''name'', JStr n), (''completion'', JStr k')] =
     [(''name'', JStr n), (''completion'', JStr k)]"
  by (simp add: dset_def)

lemma hoare_get_state:
  assumes "\<And>w. P w \<Longrightarrow> txn_state w \<noteq> None"
    and "\<And>s. hoare (\<lambda>w. P w \<and> txn_state w = Some s) (f s) Q E"
  shows "hoare P (bindM get_state f) Q E"
  using assms unfolding hoare_def by (fastforce simp: bindM_def get_state_def split: option.splits)

lemma hoare_state_item:
  assumes "\<And>v. dget s k = Some v \<Longrightarrow> hoare P (f v) Q E" and "\<And>e w. P w \<Longrightarrow> E e w"
  shows "hoare P (bindM (state_item s k) f) Q E"
  using assms by (cases "dget s k") (auto simp: state_item_def hoare_def M_defs)

lemma hoare_state_str:
  assumes "\<And>x. hoare P (f x) Q E" and "\<And>e w. P w \<Longrightarrow> E e w"
  shows "hoare P (bindM (state_str s k) f) Q E"
  using assms
  by (cases "dget s k")
     (auto simp: state_str_def state_item_def hoare_def M_defs split: json.splits)

definition completed :: "dict \<Rightarrow> bool" where
  "completed s \<longleftrightarrow> (\<exists>n \<in> set action_names. action_is n ''returned'' s)"

locale journaling = quiet I X for I :: "'d world \<Rightarrow> bool" and X +
  fixes c :: config and ok :: "dict \<Rightarrow> bool"
  assumes state_frame: "I (w\<lparr>txn_state := st\<rparr>) = I w"
    and write_log: "I w \<Longrightarrow> ok s \<Longrightarrow> dget s ''phase'' \<noteq> None \<Longrightarrow> I (wrote c s w)"
    and journaled_run: "I w \<Longrightarrow> journal_pending c (files w) \<Longrightarrow> I (logged (EvRun argv) w)"
    and journaled_swap: "I w \<Longrightarrow> journal_phase c (files w) \<in> swap_phases \<Longrightarrow> I (logged (EvSwap l r) w)"
    and ok_phase: "ok s \<Longrightarrow> ph \<in> set phases \<Longrightarrow> ok (dset ''phase'' (JStr ph) s)"
    and ok_phase_cases: "ok s \<Longrightarrow> dget s ''phase'' = Some p \<Longrightarrow> \<exists>ph\<in>set phases. p = JStr ph"
    and ok_action: "ok s \<Longrightarrow> n \<in> set action_names \<Longrightarrow> k \<in> set completions \<Longrightarrow>
           ok (dset ''native_action'' (action_obj n k) s)"
    and ok_up: "ok s \<Longrightarrow> ok (dset ''up_intent'' (JBool b) s)"
begin

lemma prim_state:
  "hoare (\<lambda>w. I w \<and> txn_state w = t) (primM p) (\<lambda>_ w. I w \<and> txn_state w = t)
     (\<lambda>e w. (I w \<and> txn_state w = t) \<and> \<not> is_Refusal e)"
  by (rule hoare_prim) (simp add: ext_frame)

lemma prim_journal:
  "hoare (\<lambda>w. I w \<and> txn_state w = t \<and> journal c (files w) = j) (primM p)
     (\<lambda>_ w. I w \<and> txn_state w = t \<and> journal c (files w) = j)
     (\<lambda>e w. (I w \<and> txn_state w = t) \<and> \<not> is_Refusal e)"
  by (rule hoare_conseq [OF hoare_prim [where R = "\<lambda>w. I w \<and> txn_state w = t \<and> journal c (files w) = j"]])
     (auto simp: ext_frame)

lemma replace_file:
  assumes "ok s" and "dget s ''phase'' \<noteq> None"
  shows "hoare (\<lambda>w. I w \<and> txn_state w = t) (replace_file h tmp (active_path c) (JObj s))
     (\<lambda>_ w. I w \<and> txn_state w = t \<and> journal c (files w) = Some s)
     (\<lambda>e w. (I w \<and> txn_state w = t) \<and> \<not> is_Refusal e)"
proof -
  have "I w \<Longrightarrow> I (wrote c s w)" for w using assms by (rule write_log [rotated])
  then have "hoare (\<lambda>w. I w \<and> txn_state w = t)
      (thenM (modifyM (\<lambda>w. w\<lparr>files := (files w)(active_path c \<mapsto> JDoc (JObj s))\<rparr>))
         (logM (EvWrite (active_path c) (JObj s))))
      (\<lambda>_ w. I w \<and> txn_state w = t \<and> journal c (files w) = Some s)
      (\<lambda>e w. (I w \<and> txn_state w = t) \<and> \<not> is_Refusal e)"
    by (auto simp: hoare_def M_defs logM_def wrote_def logged_def journal_def)
  then show ?thesis unfolding replace_file_def by (rule hoare_then [OF prim_state])
qed

lemma cleanup:
  "hoare (\<lambda>w. I w \<and> txn_state w = t \<and> journal c (files w) = j)
     (bindM (primM p) (\<lambda>ex. whenM ex (primM q)))
     (\<lambda>_ w. I w \<and> txn_state w = t \<and> journal c (files w) = j)
     (\<lambda>e w. (I w \<and> txn_state w = t) \<and> \<not> is_Refusal e)"
  by (rule hoare_bind [OF prim_journal]) (rule hoare_when [OF prim_journal])

lemma atomic_state:
  assumes "ok s" and "dget s ''phase'' \<noteq> None"
  shows "hoare (\<lambda>w. I w \<and> txn_state w = t) (atomic_state h (active_path c) (JObj s))
     (\<lambda>_ w. I w \<and> txn_state w = t \<and> journal c (files w) = Some s)
     (\<lambda>e w. (I w \<and> txn_state w = t) \<and> \<not> is_Refusal e)"
proof -
  have err: "hoare (\<lambda>w. (I w \<and> txn_state w = t) \<and> \<not> is_Refusal e)
      (bindM (primM p) (\<lambda>ex. whenM ex (primM q)))
      (\<lambda>_ w. (I w \<and> txn_state w = t) \<and> \<not> is_Refusal e)
      (\<lambda>e w. (I w \<and> txn_state w = t) \<and> \<not> is_Refusal e)"
    for e and p :: "('d, bool) prim" and q
  proof (rule hoare_pre_conj)
    assume "\<not> is_Refusal e"
    then show "hoare (\<lambda>w. I w \<and> txn_state w = t) (bindM (primM p) (\<lambda>ex. whenM ex (primM q)))
      (\<lambda>_ w. (I w \<and> txn_state w = t) \<and> \<not> is_Refusal e)
      (\<lambda>e w. (I w \<and> txn_state w = t) \<and> \<not> is_Refusal e)"
      by (intro hoare_bind [OF prim_state] hoare_when hoare_conseq [OF prim_state]) auto
  qed
  show ?thesis
    unfolding atomic_state_def Let_def
    by (intro hoare_bind [OF prim_state] hoare_then [OF prim_state]
        hoare_finally [OF _ cleanup err] hoare_then [OF replace_file] prim_journal assms)
qed


text \<open>The assertions of the transactional part: the invariant and a good state in memory or on disk.\<close>

lemma persist:
  assumes ph: "ph \<in> set phases" and Q: "\<And>s. Q s \<Longrightarrow> R (dset ''phase'' (JStr ph) s)"
  shows "hoare (\<lambda>w. I w \<and> mem_state (\<lambda>s. ok s \<and> Q s) w) (persist h c (JStr ph))
     (\<lambda>_ w. I w \<and> durable c (\<lambda>s. ok s \<and> R s \<and> phase_is ph s) w)
     (\<lambda>e w. I w \<and> mem_state (\<lambda>s. ok s \<and> R s) w \<and> \<not> is_Refusal e)"
proof (rule hoareI)
  fix w x w' assume w: "I w \<and> mem_state (\<lambda>s. ok s \<and> Q s) w"
    and run: "persist h c (JStr ph) w = (Inr x, w')"
  from w obtain s where s: "txn_state w = Some s" "ok s" "Q s" by (auto simp: mem_state_def)
  let ?s = "dset ''phase'' (JStr ph) s"
  have ok: "ok ?s" using s ph by (simp add: ok_phase)
  from run s have "atomic_state h (active_path c) (JObj ?s) (w\<lparr>txn_state := Some ?s\<rparr>) = (Inr x, w')"
    by (simp add: persist_def get_state_def put_state_def M_defs Let_def)
  from hoare_Inr [OF atomic_state [OF ok] _ this, of "Some ?s"] w
  have "I w' \<and> txn_state w' = Some ?s \<and> journal c (files w') = Some ?s"
    by (simp add: state_frame)
  with ok s Q show "I w' \<and> durable c (\<lambda>s. ok s \<and> R s \<and> phase_is ph s) w'"
    by (auto simp: durable_def phase_is_def)
next
  fix w e w' assume w: "I w \<and> mem_state (\<lambda>s. ok s \<and> Q s) w"
    and run: "persist h c (JStr ph) w = (Inl e, w')"
  from w obtain s where s: "txn_state w = Some s" "ok s" "Q s" by (auto simp: mem_state_def)
  let ?s = "dset ''phase'' (JStr ph) s"
  have ok: "ok ?s" using s ph by (simp add: ok_phase)
  from run s have "atomic_state h (active_path c) (JObj ?s) (w\<lparr>txn_state := Some ?s\<rparr>) = (Inl e, w')"
    by (simp add: persist_def get_state_def put_state_def M_defs Let_def)
  from hoare_Inl [OF atomic_state [OF ok] _ this, of "Some ?s"] w
  have "I w' \<and> txn_state w' = Some ?s \<and> \<not> is_Refusal e"
    by (simp add: state_frame)
  with ok s Q show "I w' \<and> mem_state (\<lambda>s. ok s \<and> R s) w' \<and> \<not> is_Refusal e"
    by (auto simp: mem_state_def)
qed

text \<open>While a native call runs, the journal on disk names it as pending.\<close>

abbreviation calling :: "string \<Rightarrow> 'd world \<Rightarrow> bool" where
  "calling n w \<equiv> I w \<and> durable c (\<lambda>s. ok s \<and> dget s ''phase'' \<noteq> None \<and> action_is n ''pending'' s) w"

lemma complete_operation:
  assumes n: "n \<in> set action_names" and k: "k \<in> set completions"
  shows "hoare (calling n) (complete_operation h c k)
     (\<lambda>_ w. I w \<and> durable c (\<lambda>s. ok s \<and> action_is n k s) w) (\<lambda>_ w. I w \<and> mem_state ok w)"
proof (rule hoareI)
  fix w x w' assume w: "calling n w" and run: "complete_operation h c k w = (Inr x, w')"
  then obtain s where s: "txn_state w = Some s" "ok s" "dget s ''phase'' \<noteq> None" "action_is n ''pending'' s"
    by (auto simp: durable_def)
  let ?s = "dset ''native_action'' (action_obj n k) s"
  have ok: "ok ?s" using s n k by (simp add: ok_action)
  have ph: "dget ?s ''phase'' \<noteq> None" using s by simp
  from run s obtain w1 where w1: "atomic_state h (active_path c) (JObj ?s) w = (Inr (), w1)"
      and w': "w' = w1\<lparr>txn_state := Some ?s\<rparr>"
    by (auto simp: complete_operation_def get_state_def put_state_def state_item_def M_defs Let_def
        action_is_def action_obj_def complete_action_obj split: prod.splits sum.splits if_splits)
  from hoare_Inr [OF atomic_state [OF ok ph] _ w1, of "Some s"] w s
  have "I w1 \<and> journal c (files w1) = Some ?s" by simp
  with ok show "I w' \<and> durable c (\<lambda>s. ok s \<and> action_is n k s) w'"
    by (auto simp: w' durable_def action_is_def state_frame)
next
  fix w e w' assume w: "calling n w" and run: "complete_operation h c k w = (Inl e, w')"
  then obtain s where s: "txn_state w = Some s" "ok s" "dget s ''phase'' \<noteq> None" "action_is n ''pending'' s"
    by (auto simp: durable_def)
  let ?s = "dset ''native_action'' (action_obj n k) s"
  have ok: "ok ?s" using s n k by (simp add: ok_action)
  have ph: "dget ?s ''phase'' \<noteq> None" using s by simp
  from run s obtain e1 where w1: "atomic_state h (active_path c) (JObj ?s) w = (Inl e1, w')"
    by (auto simp: complete_operation_def get_state_def put_state_def state_item_def M_defs Let_def
        action_is_def action_obj_def complete_action_obj split: prod.splits sum.splits if_splits)
  from hoare_Inl [OF atomic_state [OF ok ph] _ w1, of "Some s"] w s
  show "I w' \<and> mem_state ok w'" by (auto simp: mem_state_def)
qed

lemma record_outcome:
  assumes n: "n \<in> set action_names"
    and call: "hoare (calling n) call (\<lambda>_. calling n) (\<lambda>_. calling n)"
  shows "hoare (calling n) (record_outcome h c call)
     (\<lambda>_ w. I w \<and> durable c (\<lambda>s. ok s \<and> action_is n ''returned'' s) w)
     (\<lambda>_ w. I w \<and> mem_state ok w)"
  unfolding record_outcome_def
proof (rule hoare_bind)
  have comp: "''returned'' \<in> set completions" "''returned-refusal'' \<in> set completions"
    by (simp_all add: completions_def)
  show "hoare (calling n)
      (tryM call (\<lambda>e. if is_Unknown e then raise e
          else if is_Refusal e then thenM (complete_operation h c ''returned-refusal'') (raise e)
          else raise e))
      (\<lambda>_. calling n) (\<lambda>_ w. I w \<and> mem_state ok w)"
    by (rule hoare_try [OF call], intro hoare_if hoare_raise hoare_then [OF complete_operation [OF n comp(2)]])
       (auto dest!: durable_mem elim: mem_state_mono)
  show "hoare (calling n) (thenM (complete_operation h c ''returned'') (ret result))
      (\<lambda>_ w. I w \<and> durable c (\<lambda>s. ok s \<and> action_is n ''returned'' s) w)
      (\<lambda>_ w. I w \<and> mem_state ok w)" for result
    by (rule hoare_then [OF complete_operation [OF n comp(1)]]) (rule hoare_ret)
qed

text \<open>The journal entry is durable before the call starts.\<close>

lemma announce:
  assumes n: "n \<in> set action_names" and ok: "ok s"
    and k: "hoare (calling n) k Q (\<lambda>_ w. I w \<and> mem_state ok w)"
  shows "hoare (\<lambda>w. I w \<and> mem_state (\<lambda>s. ok s \<and> action_is n ''pending'' s) w)
     (bindM (state_item s ''phase'') (\<lambda>ph. thenM (persist h c ph) k)) Q (\<lambda>_ w. I w \<and> mem_state ok w)"
proof (cases "dget s ''phase''")
  case None
  then show ?thesis by (auto simp: hoare_def state_item_def M_defs elim: mem_state_mono)
next
  case (Some p)
  with ok obtain ph where ph: "ph \<in> set phases" and p: "p = JStr ph"
    using ok_phase_cases by blast
  have "hoare (\<lambda>w. I w \<and> mem_state (\<lambda>s. ok s \<and> action_is n ''pending'' s) w)
      (persist h c (JStr ph)) (\<lambda>_. calling n) (\<lambda>_ w. I w \<and> mem_state ok w)"
    by (rule hoare_conseq [OF persist [where Q = "action_is n ''pending''" and R = "action_is n ''pending''", OF ph]])
       (auto simp: action_is_def phase_is_def elim: durable_mono mem_state_mono)
  then show ?thesis
    unfolding state_item_def Some p option.case bind_ret by (rule hoare_then [OF _ k])
qed

lemma operation:
  assumes n: "n \<in> set action_names"
    and call: "hoare (calling n) call (\<lambda>_. calling n) (\<lambda>_. calling n)"
  shows "hoare (\<lambda>w. I w \<and> mem_state ok w) (operation h c n call)
     (\<lambda>_ w. I w \<and> durable c (\<lambda>s. ok s \<and> action_is n ''returned'' s) w)
     (\<lambda>_ w. I w \<and> mem_state ok w)" (is "hoare ?P _ ?Q ?E")
  unfolding operation_def
proof (rule hoare_get_state)
  fix w assume "?P w"
  then show "txn_state w \<noteq> None" by (auto simp: mem_state_def)
next
  fix s
  let ?mid = "\<lambda>w. I w \<and> mem_state (\<lambda>s. ok s \<and> action_is n ''pending'' s) w"
  let ?k = "bindM (state_item s ''phase'') (\<lambda>ph. thenM (persist h c ph) (record_outcome h c call))"
  have comp: "''pending'' \<in> set completions" by (simp add: completions_def)
  have put: "hoare (\<lambda>w. ?P w \<and> txn_state w = Some s)
      (put_state (dset ''native_action'' (action_obj n ''pending'') s)) (\<lambda>_. ?mid) ?E"
    unfolding put_state_def
    by (rule hoare_modify) (auto simp: mem_state_def state_frame action_is_def n comp intro!: ok_action)
  show "hoare (\<lambda>w. ?P w \<and> txn_state w = Some s)
      (thenM (put_state (dset ''native_action'' (action_obj n ''pending'') s)) ?k) ?Q ?E"
  proof (cases "ok s")
    case False
    then show ?thesis by (auto simp: hoare_def mem_state_def)
  next
    case True
    show ?thesis by (rule hoare_then [OF put announce [OF n True record_outcome [OF n call]]])
  qed
qed


text \<open>Read-only native calls, and the two that change the service, run under their journal entry.\<close>

lemma quiet_calling: "quiet (calling n) X"
  by unfold_locales
     (auto simp: durable_def ext_frame deadline_frame
        intro: other_exc read_only_run lock_log close_log)

lemma calling_quietly: "keeps (calling n) X m \<Longrightarrow> hoare (calling n) m (\<lambda>_. calling n) (\<lambda>_. calling n)"
  by (erule hoare_conseq) auto

lemma calling_pending: "calling n w \<Longrightarrow> journal_pending c (files w)"
  by (auto simp: durable_def journal_pending_def dest: action_is_pending)

lemma mutating_call: "hoare (calling n) (thenM (native_call h argv e) (ret ())) (\<lambda>_. calling n) (\<lambda>_. calling n)"
proof (intro calling_quietly keeps_then keeps_ret quiet.logged_call [OF quiet_calling])
  fix w assume w: "calling n w"
  then have "I (logged (EvRun argv) w)" by (blast intro: journaled_run calling_pending)
  with w show "calling n (logged (EvRun argv) w)" by (simp add: durable_def)
qed

lemma calling_natives:
  "hoare (calling n) (native_tag h img tag) (\<lambda>_. calling n) (\<lambda>_. calling n)"
  "hoare (calling n) (native_compose h p rv b) (\<lambda>_. calling n) (\<lambda>_. calling n)"
  "hoare (calling n) (native_image h ref) (\<lambda>_. calling n) (\<lambda>_. calling n)"
  "hoare (calling n) (native_verify_image h img rv) (\<lambda>_. calling n) (\<lambda>_. calling n)"
  "hoare (calling n) (native_health h img rv) (\<lambda>_. calling n) (\<lambda>_. calling n)"
  unfolding native_tag_def native_compose_def
  by (intro mutating_call calling_quietly quiet.native_image quiet.native_verify_image
      quiet.native_health quiet_calling)+

lemmas operations = operation [OF _ calling_natives(1)] operation [OF _ calling_natives(2)]
  operation [OF _ calling_natives(3)] operation [OF _ calling_natives(4)]
  operation [OF _ calling_natives(5)]

abbreviation mem :: "'d world \<Rightarrow> bool" where
  "mem w \<equiv> I w \<and> mem_state ok w"

abbreviation on_disk :: "(dict \<Rightarrow> bool) \<Rightarrow> 'd world \<Rightarrow> bool" where
  "on_disk Q w \<equiv> I w \<and> durable c (\<lambda>s. ok s \<and> Q s) w"

lemma on_disk_mem: "on_disk Q w \<Longrightarrow> mem w"
  by (auto dest: durable_mem elim: mem_state_mono)

text \<open>Sequencing an operation, a journal write and an exchange, from \<open>mem\<close> to \<open>mem\<close>.\<close>

lemma then_op:
  assumes "hoare mem (operation h c n call) (\<lambda>_ w. on_disk (action_is n ''returned'') w) (\<lambda>_. mem)"
    and "hoare mem k Q (\<lambda>_. mem)"
  shows "hoare mem (thenM (operation h c n call) k) Q (\<lambda>_. mem)"
  by (rule hoare_then [OF assms(1)], rule hoare_pre [OF assms(2)]) (rule on_disk_mem)

lemma persist_mem:
  "ph \<in> set phases \<Longrightarrow>
   hoare mem (persist h c (JStr ph)) (\<lambda>_ w. on_disk (phase_is ph) w) (\<lambda>e w. mem w \<and> \<not> is_Refusal e)"
  by (rule hoare_conseq [OF persist [where Q = "\<lambda>_. True" and R = "\<lambda>_. True"]]) auto

lemma exchange_mem:
  assumes "Some (JStr ph) \<in> swap_phases"
  shows "hoare (on_disk (phase_is ph)) (exchange h l r) (\<lambda>_. mem) (\<lambda>_. mem)"
proof -
  have q: "keeps mem (\<lambda>_. True) (primM p)" for p :: "('d, 'x) prim"
    by (rule hoare_conseq [OF hoare_prim [where R = mem]]) (auto simp: ext_frame mem_state_def)
  have log: "hoare (on_disk (phase_is ph)) (logM (EvSwap l r)) (\<lambda>_. mem) (\<lambda>_. mem)"
    unfolding logM_def
  proof (rule hoare_modify)
    fix w assume w: "on_disk (phase_is ph) w"
    with assms have "journal_phase c (files w) \<in> swap_phases"
      by (auto simp: durable_def journal_phase_def phase_is_def)
    with w have "I (logged (EvSwap l r) w)" by (simp add: journaled_swap)
    with on_disk_mem [OF w] show "mem (w\<lparr>hist := hist w @ [(EvSwap l r, files w)]\<rparr>)"
      by (simp add: logged_def mem_state_def)
  qed
  have "keeps mem (\<lambda>_. True)
      (bindM (primM (h_renameat2 h l r)) (\<lambda>rc.
          if rc \<noteq> 0 then raise (Refusal ''atomic checkout exchange unavailable'')
          else forM (remdups [parent l, parent r]) (\<lambda>p. primM (h_fsync_dir h p))))"
    by (intro keeps_rules q) simp
  then have "hoare mem
      (bindM (primM (h_renameat2 h l r)) (\<lambda>rc.
          if rc \<noteq> 0 then raise (Refusal ''atomic checkout exchange unavailable'')
          else forM (remdups [parent l, parent r]) (\<lambda>p. primM (h_fsync_dir h p)))) (\<lambda>_. mem) (\<lambda>_. mem)"
    by (rule hoare_conseq) auto
  with log show ?thesis unfolding exchange_def by (rule hoare_then)
qed

lemma set_up_intent: "hoare mem (set_up_intent b) (\<lambda>_. mem) (\<lambda>_. mem)"
  by (rule hoareI)
     (auto simp: set_up_intent_def get_state_def put_state_def M_defs mem_state_def state_frame
        intro!: ok_up)

lemma up_intent_write:
  "hoare mem (tryM (persist h c (JStr ''up-intent''))
       (\<lambda>e. if e = OSError then thenM (set_up_intent False) (raise e) else raise e))
     (\<lambda>_. mem) (\<lambda>_. mem)"
proof (rule hoare_try)
  show "hoare mem (persist h c (JStr ''up-intent'')) (\<lambda>_. mem) (\<lambda>_. mem)"
    by (rule hoare_conseq [OF persist_mem [of "''up-intent''"]]) (auto simp: phases_def dest: durable_mem elim: mem_state_mono)
  show "hoare mem (if e = OSError then thenM (set_up_intent False) (raise e) else raise e)
      (\<lambda>_. mem) (\<lambda>_. mem)" for e
    by (intro hoare_if hoare_then [OF set_up_intent] hoare_raise)
qed

lemma commit:
  "hoare (on_disk (action_is n ''returned'')) (persist h c (JStr ph))
     (\<lambda>_ w. on_disk (\<lambda>s. action_is n ''returned'' s \<and> phase_is ph s) w) (\<lambda>_. mem)"
  if "ph \<in> set phases"
  by (rule hoare_conseq [OF persist [OF that, where Q = "action_is n ''returned''" and R = "action_is n ''returned''"]])
     (auto simp: action_is_def dest: durable_mem elim: mem_state_mono durable_mono)

text \<open>A successful installation leaves the committed journal on disk.\<close>

lemma install:
  "hoare mem (install h c ident rv img)
     (\<lambda>_ w. on_disk (\<lambda>s. action_is ''tag-release'' ''returned'' s \<and> phase_is ''committed'' s) w)
     (\<lambda>_. mem)"
proof -
  have names: "''tag-previous'' \<in> set action_names" "''build'' \<in> set action_names"
    "''image'' \<in> set action_names" "''verify-image'' \<in> set action_names" "''up'' \<in> set action_names"
    "''health'' \<in> set action_names" "''tag-release'' \<in> set action_names"
    by (simp_all add: action_names_def)
  have phs: "''exchange-intent'' \<in> set phases" "''committed'' \<in> set phases" by (simp_all add: phases_def)
  have swp: "Some (JStr ''exchange-intent'') \<in> swap_phases" by (simp add: swap_phases_def)
  have ex: "hoare mem (persist h c (JStr ''exchange-intent''))
      (\<lambda>_ w. on_disk (phase_is ''exchange-intent'') w) (\<lambda>_. mem)"
    by (rule hoare_conseq [OF persist_mem [OF phs(1)]]) auto
  show ?thesis
    unfolding install_def Let_def
    by (rule then_op [OF operations(1) [OF names(1)]] then_op [OF operations(2) [OF names(2)]]
          hoare_bind [OF hoare_conseq [OF operations(3) [OF names(3)] _ on_disk_mem]]
          then_op [OF operations(4) [OF names(4)]]
          hoare_then [OF ex] hoare_then [OF exchange_mem [OF swp]] hoare_then [OF set_up_intent]
          hoare_then [OF up_intent_write] then_op [OF operations(2) [OF names(5)]]
          then_op [OF operations(5) [OF names(6)]] hoare_then [OF operations(1) [OF names(7)] commit [OF phs(2)]]
          | assumption)+
qed

lemma quiet_mem: "quiet mem X"
  by unfold_locales
     (auto simp: mem_state_def ext_frame deadline_frame
        intro: other_exc read_only_run lock_log close_log)

lemma swap_back:
  "hoare (on_disk (phase_is ''recovery-intent'')) (swap_back h c b s pr) (\<lambda>_. mem) (\<lambda>_. mem)"
proof -
  have "Some (JStr ''recovery-intent'') \<in> swap_phases" by (simp add: swap_phases_def)
  then show ?thesis
    unfolding swap_back_def
    by (intro hoare_state_item hoare_if exchange_mem hoare_raise hoare_ret on_disk_mem)
qed

lemma restore_service:
  "hoare mem (restore_service h c s) (\<lambda>_ w. on_disk completed w) (\<lambda>_. mem)"
proof -
  have names: "''restore-image'' \<in> set action_names" "''restore-up'' \<in> set action_names"
    "''restore-health'' \<in> set action_names" by (simp_all add: action_names_def)
  have img: "hoare mem (operation h c ''restore-image'' (native_tag h i t)) (\<lambda>_. on_disk completed) (\<lambda>_. mem)"
    for i t by (rule hoare_conseq [OF operations(1) [OF names(1)]]) (auto simp: completed_def names elim!: durable_mono)
  have up: "hoare mem
      (thenM (operation h c ''restore-up'' (native_compose h (current c) old False))
             (operation h c ''restore-health'' (native_health h img old)))
      (\<lambda>_ w. on_disk completed w) (\<lambda>_. mem)" for old img
    by (rule then_op [OF operations(2) [OF names(2)]], rule hoare_conseq [OF operations(5) [OF names(3)]])
       (auto simp: completed_def names elim!: durable_mono)
  have old: "hoare (on_disk completed)
      (bindM (state_str s ''old_sha'') (\<lambda>old.
         thenM (operation h c ''restore-up'' (native_compose h (current c) old False))
               (operation h c ''restore-health'' (native_health h img old))))
      (\<lambda>_ w. on_disk completed w) (\<lambda>_. mem)" for img
    by (rule hoare_state_str, rule hoare_pre [OF up], erule on_disk_mem, erule on_disk_mem)
  show ?thesis
    unfolding restore_service_def
    by (rule old hoare_then [OF img] hoare_state_str hoare_state_item hoare_when | assumption
          | erule on_disk_mem)+
qed

lemma rollback:
  "hoare mem (rollback h c) (\<lambda>_ w. on_disk (\<lambda>s. completed s \<and> phase_is ''rolled-back'' s) w) (\<lambda>_. mem)"
  unfolding rollback_def
proof (rule hoare_get_state)
  show "mem w \<Longrightarrow> txn_state w \<noteq> None" for w by (auto simp: mem_state_def)
next
  fix s
  have phs: "''recovery-intent'' \<in> set phases" "''rolled-back'' \<in> set phases" by (simp_all add: phases_def)
  have observe: "hoare mem (rollback_observe h c b) (\<lambda>_. mem) (\<lambda>_. mem)" for b
    by (rule hoare_conseq [OF quiet.rollback_observe [OF quiet_mem]]) auto
  have intent: "hoare mem (persist h c (JStr ''recovery-intent''))
      (\<lambda>_. on_disk (phase_is ''recovery-intent'')) (\<lambda>_. mem)"
    by (rule hoare_conseq [OF persist_mem [OF phs(1)]]) auto
  have settle: "hoare (on_disk completed) (persist h c (JStr ''rolled-back''))
      (\<lambda>_. on_disk (\<lambda>s. completed s \<and> phase_is ''rolled-back'' s)) (\<lambda>_. mem)"
    by (rule hoare_conseq [OF persist [OF phs(2), where Q = completed and R = completed]])
       (auto simp: completed_def action_is_def dest: durable_mem elim: mem_state_mono)
  have "hoare mem
     (if unproved s then raise (Refusal ''native completion unproved; retain journal without recovery'')
      else bindM (state_str s ''id'') (\<lambda>ident. let backup = backup_path c ident in
         bindM (rollback_observe h c backup) (\<lambda>pair.
         thenM (persist h c (JStr ''recovery-intent''))
         (thenM (swap_back h c backup s pair)
         (thenM (restore_service h c s) (persist h c (JStr ''rolled-back'')))))))
     (\<lambda>_. on_disk (\<lambda>s. completed s \<and> phase_is ''rolled-back'' s)) (\<lambda>_. mem)"
    unfolding Let_def
    by (rule hoare_if hoare_raise hoare_state_str hoare_bind [OF observe] hoare_then [OF intent]
          hoare_then [OF swap_back] hoare_then [OF restore_service] settle | assumption)+
  then show "hoare (\<lambda>w. mem w \<and> txn_state w = Some s)
     (if unproved s then raise (Refusal ''native completion unproved; retain journal without recovery'')
      else bindM (state_str s ''id'') (\<lambda>ident. let backup = backup_path c ident in
         bindM (rollback_observe h c backup) (\<lambda>pair.
         thenM (persist h c (JStr ''recovery-intent''))
         (thenM (swap_back h c backup s pair)
         (thenM (restore_service h c s) (persist h c (JStr ''rolled-back'')))))))
     (\<lambda>_. on_disk (\<lambda>s. completed s \<and> phase_is ''rolled-back'' s)) (\<lambda>_. mem)"
    by (rule hoare_pre) simp
qed

text \<open>What holds when \<^verbatim>\<open>deploy\<close> raises: the restored baseline is announced only with its journal.\<close>

abbreviation raised :: "exc \<Rightarrow> 'd world \<Rightarrow> bool" where
  "raised e w \<equiv> I w \<and> (e = Refusal baseline_restored \<longrightarrow>
       durable c (\<lambda>s. ok s \<and> completed s \<and> phase_is ''rolled-back'' s) w)"

lemma install_handler: "hoare mem (install_handler h c e) Q raised"
proof -
  have rb: "hoare mem
      (tryM (rollback h c)
        (\<lambda>e'. if recoverable e'
           then raise (Refusal ''transaction failed; protected recovery journal retained'') else raise e'))
      (\<lambda>_ w. on_disk (\<lambda>s. completed s \<and> phase_is ''rolled-back'' s) w) raised"
    by (rule hoare_try [OF rollback], intro hoare_if hoare_raise)
       (auto simp: baseline_restored_def recoverable_def)
  show ?thesis
    unfolding install_handler_def
    by (intro hoare_if hoare_raise hoare_then [OF rb])
       (auto simp: baseline_restored_def recoverable_def)
qed

lemma deploy_tail:
  assumes "ok (initial_state ident old rv img i j)"
  shows "hoare I
     (thenM (put_state (initial_state ident old rv img i j))
       (thenM (persist h c (JStr ''build-intent''))
         (thenM (tryM (install h c ident rv img) (install_handler h c)) (ret ident))))
     (\<lambda>x w. x = ident \<and>
        on_disk (\<lambda>s. action_is ''tag-release'' ''returned'' s \<and> phase_is ''committed'' s) w)
     raised"
proof -
  have put: "hoare I (put_state (initial_state ident old rv img i j)) (\<lambda>_. mem) raised"
    unfolding put_state_def by (rule hoare_modify) (simp add: mem_state_def state_frame assms)
  have build: "hoare mem (persist h c (JStr ''build-intent'')) (\<lambda>_. mem) raised"
    by (rule hoare_conseq [OF persist_mem [of "''build-intent''"]])
       (auto simp: phases_def dest: durable_mem elim: mem_state_mono)
  show ?thesis
    by (rule hoare_then [OF put] hoare_then [OF build] hoare_then [OF hoare_try [OF install install_handler]])+
       (rule hoare_ret, simp)
qed

lemma recover_locked:
  assumes "\<And>doc s. load_doc doc = Inr s \<Longrightarrow> ok s"
  shows "hoare I (recover_locked h c ident)
     (\<lambda>_ w. on_disk (\<lambda>s. completed s \<and> phase_is ''rolled-back'' s) w) (\<lambda>_. I)"
proof -
  have "returns (load h c) (\<lambda>st. \<forall>s. st = Some s \<longrightarrow> ok s)"
    unfolding load_def
    by (rule hoareI) (auto simp: M_defs assms split: option.splits sum.splits prod.splits)
  from hoare_returns [OF load this]
  have load_ok: "hoare I (load h c) (\<lambda>st w. I w \<and> (\<forall>s. st = Some s \<longrightarrow> ok s)) (\<lambda>_. I)"
    by (rule hoare_conseq) auto
  have rb: "hoare mem (rollback h c)
      (\<lambda>_ w. on_disk (\<lambda>s. completed s \<and> phase_is ''rolled-back'' s) w) (\<lambda>_. I)"
    by (rule hoare_conseq [OF rollback]) auto
  show ?thesis
    unfolding recover_locked_def
  proof (rule hoare_bind [OF load_ok], rule hoare_pre_conj, goal_cases)
    case (1 st)
    have set: "hoare I (modifyM (\<lambda>w. w\<lparr>txn_state := st\<rparr>)) (\<lambda>_ w. I w \<and> txn_state w = st) (\<lambda>_. I)"
      by (rule hoare_modify) (simp add: state_frame)
    show ?case
      using 1 by (intro hoare_then [OF set])
        (auto split: option.split simp: mem_state_def intro!: hoare_raise hoare_if hoare_pre [OF rb])
  qed
qed

end

end
