(* ===== verification/BillingProps.thy ===== *)
theory BillingProps
  imports BillingSafety
begin

section \<open>Properties of the Billing transaction\<close>

text \<open>
  The properties of \<^verbatim>\<open>deploy\<close>, \<^verbatim>\<open>recover\<close>, \<^verbatim>\<open>check\<close> and \<^verbatim>\<open>main\<close>, from interpretations of the locales
  \<open>quiet\<close> and \<open>journaling\<close> at the invariants they need, and a concrete host on which the
  witnesses run the engine.
\<close>

subsection \<open>Write-ahead discipline\<close>

definition guarded :: "config \<Rightarrow> event \<times> disk \<Rightarrow> bool" where
  "guarded c ed =
     (case fst ed of
        EvRun argv \<Rightarrow> mutating argv \<longrightarrow> journal_pending c (snd ed)
      | EvSwap l r \<Rightarrow> journal_phase c (snd ed) \<in> swap_phases
      | _ \<Rightarrow> True)"

definition all_new :: "(event \<times> disk \<Rightarrow> bool) \<Rightarrow> (event \<times> disk) list \<Rightarrow> 'd world \<Rightarrow> bool" where
  "all_new G h0 w \<longleftrightarrow> (\<exists>es. hist w = h0 @ es \<and> list_all G es)"

lemma all_new_logged: "all_new G h0 w \<Longrightarrow> G (e, files w) \<Longrightarrow> all_new G h0 (logged e w)"
  by (auto simp: all_new_def)

lemma all_new_frame [simp]:
  "all_new G h0 (w\<lparr>ext := d\<rparr>) = all_new G h0 w"
  "all_new G h0 (w\<lparr>deadline := t\<rparr>) = all_new G h0 w"
  "all_new G h0 (w\<lparr>txn_state := s\<rparr>) = all_new G h0 w"
  "all_new G h0 (w\<lparr>files := D\<rparr>) = all_new G h0 w"
  by (simp_all add: all_new_def)

lemma all_new_refl: "all_new G (hist w) w"
  by (simp add: all_new_def)

definition phase_ok :: "dict \<Rightarrow> bool" where
  "phase_ok s = (case dget s ''phase'' of None \<Rightarrow> True | Some p \<Rightarrow> \<exists>ph\<in>set phases. p = JStr ph)"

lemma phase_ok_dset [simp]:
  "ph \<in> set phases \<Longrightarrow> phase_ok (dset ''phase'' (JStr ph) s)"
  "phase_ok (dset ''native_action'' v s) = phase_ok s"
  "phase_ok (dset ''up_intent'' v s) = phase_ok s"
  by (auto simp: phase_ok_def)

lemma phase_ok_initial [simp]: "phase_ok (initial_state i old rv img a b)"
  by (simp add: phase_ok_def initial_state_def)

lemma load_doc_Inr:
  assumes "load_doc doc = Inr s"
  shows "doc = JDoc (JObj s) \<and> dget s ''schema'' = Some (JStr ''BillingTransaction/v1'')
    \<and> (\<exists>i. dget s ''id'' = Some (JStr i) \<and> hex_string 32 i) \<and> valid_fields s \<and> valid_action s"
  using assms
  by (auto simp: load_doc_def split: fcontent.splits json.splits option.splits if_splits)

lemma load_doc_phase_ok: "load_doc doc = Inr s \<Longrightarrow> phase_ok s"
  by (drule load_doc_Inr)
     (auto simp: valid_fields_def str_item_def phase_ok_def split: option.splits json.splits)

interpretation wal: journaling "all_new (guarded c) h0" "\<lambda>_. True" c phase_ok for c h0
  by unfold_locales
     (auto simp: guarded_def wrote_def phase_ok_def intro!: all_new_logged split: option.splits)

lemma wal_deploy: "keeps (all_new (guarded c) h0) (\<lambda>_. True) (deploy h c rv cred)"
proof -
  have tail: "keeps (all_new (guarded c) h0) (\<lambda>_. True)
      (thenM (put_state (initial_state ident old rv img i j))
       (thenM (persist h c (JStr ''build-intent''))
         (thenM (tryM (install h c ident rv img) (install_handler h c)) (ret ident))))"
    for ident old img i j
    by (rule hoare_conseq [OF wal.deploy_tail [OF phase_ok_initial]]) auto
  show ?thesis
    unfolding deploy_def deploy_locked_def
    by (intro tail keeps_rules wal.baseline_checks wal.stage_checkout wal.lock wal.close_lock
        wal.prim TrueI)
qed

lemma wal_recover: "keeps (all_new (guarded c) h0) (\<lambda>_. True) (recover h c i)"
proof -
  have "keeps (all_new (guarded c) h0) (\<lambda>_. True) (recover_locked h c i)"
    by (rule hoare_conseq [OF wal.recover_locked]) (auto dest: load_doc_phase_ok)
  then show ?thesis
    unfolding recover_def by (intro keeps_rules wal.lock wal.close_lock)
qed

text \<open>
  C2 (write-ahead).  In every run of the program, whatever the host does and however the run
  ends, every command that changes the installed service (\<^verbatim>\<open>docker tag\<close>, \<^verbatim>\<open>docker compose\<close>) is issued
  while the journal on disk records a pending native action, and the checkouts are exchanged only
  while the journal on disk says \<^verbatim>\<open>exchange-intent\<close> or \<^verbatim>\<open>recovery-intent\<close>.
\<close>

theorem write_ahead:
  "\<exists>es. hist (snd (main_entry h c euid args stdin w)) = hist w @ es \<and> list_all (guarded c) es"
proof -
  have "keeps (all_new (guarded c) (hist w)) (\<lambda>_. True) (main_entry h c euid args stdin)"
    unfolding main_entry_def Let_def
    by (intro wal_deploy wal_recover wal.check wal.native_init keeps_rules TrueI)
  from keeps_snd [OF this all_new_refl] show ?thesis by (simp add: all_new_def)
qed

subsection \<open>A concrete host\<close>

text \<open>
  A small deterministic machine that answers the engine's calls: two checkouts that the exchange
  swaps, an image store and a running container.  \<open>sim_fail\<close> names a \<^verbatim>\<open>docker compose\<close> verb that
  exits with status 1.  It is the instance on which the witnesses run the engine.
\<close>

record sim =
  sim_swapped :: bool
  sim_latest :: string
  sim_live :: string
  sim_fail :: string

definition sim_old_sha :: string where "sim_old_sha = replicate 40 CHR ''a''"

definition sim_new_sha :: string where "sim_new_sha = replicate 40 CHR ''b''"

definition sim_old_image :: string where "sim_old_image = ''sha256:'' @ replicate 64 CHR ''1''"

definition sim_new_image :: string where "sim_new_image = ''sha256:'' @ replicate 64 CHR ''2''"

definition sim_uuid :: string where "sim_uuid = replicate 32 CHR ''c''"

definition sim_cred :: string where "sim_cred = replicate 24 CHR ''t''"

definition sim_config :: config where
  "sim_config = \<lparr>root_dir = STATE, env_path = [''etc'', ''arcanada'', ''deploy-env'', ''billing-arcana.env''],
     uid = 0\<rparr>"

definition sim_is_file :: "path \<Rightarrow> bool" where
  "sim_is_file p \<longleftrightarrow> p \<noteq> [] \<and> last p \<in> set [''.env'', ''active.json'', ''lock'', ''billing-arcana.env'']"

definition sim_inode :: "path \<Rightarrow> sim \<Rightarrow> int" where
  "sim_inode p d =
     (if p = current sim_config then (if sim_swapped d then 22 else 11)
      else if p \<noteq> [] \<and> last p = ''checkout'' then (if sim_swapped d then 11 else 22)
      else 5)"

definition sim_stat :: "path \<Rightarrow> sim \<Rightarrow> stat" where
  "sim_stat p d =
     \<lparr>st_kind = (if sim_is_file p then Reg else Dir), st_uid = 0,
      st_perm = (if sim_is_file p then 384 else 448), st_nlink = 1, st_dev = 1,
      st_ino = sim_inode p d, st_mtime_ns = 0, st_size = 7\<rparr>"

definition sim_run :: "string list \<Rightarrow> sim \<Rightarrow> run_result \<times> sim" where
  "sim_run argv d =
     (if take 1 argv = [''/usr/bin/git''] then
        (if last argv = ''HEAD''
         then (Completed 0 (if argv ! 2 = path_str (current sim_config) \<and> \<not> sim_swapped d
                            then sim_old_sha else sim_new_sha), d)
         else (Completed 0 [], d))
      else if argv ! 1 = ''tag'' then
        (Completed 0 [], if argv ! 3 = IMAGE @ '':latest'' then d\<lparr>sim_latest := argv ! 2\<rparr> else d)
      else if argv ! 1 = ''compose'' then
        (if sim_fail d \<in> set argv then (Completed 1 [], d\<lparr>sim_fail := []\<rparr>)
         else if ''build'' \<in> set argv then (Completed 0 [], d\<lparr>sim_latest := sim_new_image\<rparr>)
         else (Completed 0 [], d\<lparr>sim_live := sim_latest d\<rparr>))
      else if argv ! 1 = ''inspect'' then
        (Completed 0 (join ''|'' [sim_live d, ''true'', ''healthy'', ''billing-arcana'', ''billing'',
            path_str (STATE @ [''billing-arcana'', ''compose.deploy.yml''])]), d)
      else if argv ! 1 = ''image'' then
        (if last argv \<in> {sim_old_image, sim_new_image}
         then (Completed 0 (if last argv = sim_old_image then sim_old_sha else sim_new_sha), d)
         else (Completed 0 (sim_latest d), d))
      else (Completed 0 [], d))"

definition sim_host :: "sim host" where
  "sim_host =
     \<lparr>h_lstat = (\<lambda>p d. (Inr (sim_stat p d), d)), h_stat = (\<lambda>p d. (Inr (sim_stat p d), d)),
      h_exists = (\<lambda>p d. (Inr (p = private_dir sim_config), d)), h_is_symlink = (\<lambda>p d. (Inr False, d)),
      h_walk = (\<lambda>p d. (Inr [], d)), h_mkdir = (\<lambda>p m d. (Inr (), d)), h_unlink = (\<lambda>p d. (Inr (), d)),
      h_open_excl = (\<lambda>p d. (Inr (), d)), h_write_fsync = (\<lambda>p j d. (Inr (), d)),
      h_replace = (\<lambda>p q d. (Inr (), d)), h_fsync_dir = (\<lambda>p d. (Inr (), d)),
      h_renameat2 = (\<lambda>p q d. (Inr 0, d\<lparr>sim_swapped := \<not> sim_swapped d\<rparr>)),
      h_open_lock = (\<lambda>p d. (Inr 3, d)), h_flock = (\<lambda>fd d. (Inr True, d)),
      h_close = (\<lambda>fd d. (Inr (), d)), h_open_read = (\<lambda>p d. (Inr 4, d)),
      h_fstat = (\<lambda>fd d. (Inr (sim_stat (env_path sim_config) d), d)),
      h_read = (\<lambda>fd d. (Inr ''SECRET=1'', d)), h_write = (\<lambda>p s d. (Inr (), d)),
      h_fsync = (\<lambda>p d. (Inr (), d)), h_uuid4_hex = (\<lambda>d. (Inr sim_uuid, d)),
      h_monotonic = (\<lambda>d. (Inr 0, d)), h_sleep = (\<lambda>t d. (Inr (), d)),
      h_run = (\<lambda>argv e t d. case sim_run argv d of (r, d') \<Rightarrow> (Inr r, d'))\<rparr>"

definition sim_world :: "string \<Rightarrow> sim world" where
  "sim_world fail =
     \<lparr>ext = \<lparr>sim_swapped = False, sim_latest = sim_old_image, sim_live = sim_old_image, sim_fail = fail\<rparr>,
      files = Map.empty, txn_state = None, deadline = 200, hist = []\<rparr>"

subsection \<open>How a deployment ends\<close>

definition record_ok :: "string \<Rightarrow> string \<Rightarrow> dict \<Rightarrow> bool" where
  "record_ok ident rv s \<longleftrightarrow> phase_ok s \<and> dget s ''id'' = Some (JStr ident) \<and> dget s ''new_sha'' = Some (JStr rv)"

interpretation outcome: journaling "\<lambda>_. True" "\<lambda>e. e \<noteq> Refusal baseline_restored" c "record_ok ident rv"
  for c ident rv
  by unfold_locales (auto simp: record_ok_def phase_ok_def split: option.splits)

definition committed_journal :: "config \<Rightarrow> string \<Rightarrow> string \<Rightarrow> disk \<Rightarrow> bool" where
  "committed_journal c ident rv D \<longleftrightarrow>
     (\<exists>s. journal c D = Some s \<and> dget s ''id'' = Some (JStr ident) \<and> dget s ''new_sha'' = Some (JStr rv)
        \<and> phase_is ''committed'' s \<and> action_is ''tag-release'' ''returned'' s)"

definition rolled_back_journal :: "config \<Rightarrow> string \<Rightarrow> disk \<Rightarrow> bool" where
  "rolled_back_journal c rv D \<longleftrightarrow>
     (\<exists>s. journal c D = Some s \<and> dget s ''new_sha'' = Some (JStr rv)
        \<and> phase_is ''rolled-back'' s \<and> \<not> pending s)"

lemma hoare_prim_files:
  "hoare (\<lambda>w. P (files w)) (primM p) (\<lambda>_ w. P (files w)) (\<lambda>e w. P (files w) \<and> \<not> is_Refusal e)"
  by (rule hoare_prim) simp

lemma close_lock_files:
  "hoare (\<lambda>w. P (files w)) (close_lock h fd) (\<lambda>_ w. P (files w)) (\<lambda>e w. P (files w) \<and> \<not> is_Refusal e)"
  unfolding close_lock_def logM_def
  by (rule hoare_then [OF hoare_modify hoare_prim_files]) simp

definition deploy_raised :: "config \<Rightarrow> string \<Rightarrow> exc \<Rightarrow> 'd world \<Rightarrow> bool" where
  "deploy_raised c rv e w = (if e = Refusal baseline_restored then rolled_back_journal c rv (files w) else True)"

lemma deploy_locked_outcome:
  "hoare (\<lambda>_. True) (deploy_locked h c rv cred) (\<lambda>ident w. committed_journal c ident rv (files w))
     (deploy_raised c rv)"
proof -
  have tail: "hoare (\<lambda>_. True)
      (thenM (put_state (initial_state ident old rv img i j))
       (thenM (persist h c (JStr ''build-intent''))
         (thenM (tryM (install h c ident rv img) (install_handler h c)) (ret ident))))
      (\<lambda>x w. committed_journal c x rv (files w)) (deploy_raised c rv)" for ident old img i j
  proof -
    have "record_ok ident rv (initial_state ident old rv img i j)"
      by (simp add: record_ok_def) (simp add: initial_state_def)
    from outcome.deploy_tail [OF this] show ?thesis
      by (rule hoare_conseq)
         (auto simp: durable_def record_ok_def committed_journal_def rolled_back_journal_def
           deploy_raised_def completed_def dest: action_is_returned)
  qed
  have quietly: "keeps (\<lambda>_. True) (\<lambda>e. e \<noteq> Refusal baseline_restored) m \<Longrightarrow>
      hoare (\<lambda>_. True) m (\<lambda>_ _. True) (deploy_raised c rv)" for m :: "('d world, 'x) M"
    by (erule hoare_conseq) (auto simp: deploy_raised_def)
  show ?thesis
    unfolding deploy_locked_def
    by (rule hoare_bind [OF quietly [OF outcome.baseline_checks]], unfold split_beta)
       (intro hoare_bind [OF quietly] outcome.stage_checkout outcome.prim tail)
qed

text \<open>
  C10 (outcome of a deployment).  When \<^verbatim>\<open>deploy\<close> returns, the journal on disk is this transaction's
  (its identifier, its revision), its phase is \<^verbatim>\<open>committed\<close> and its last native action, the release
  tag, has returned.  When \<^verbatim>\<open>deploy\<close> reports that the baseline was restored, the journal on disk is for
  this revision, its phase is \<^verbatim>\<open>rolled-back\<close> and no native action is pending.
\<close>

theorem deploy_outcome:
  "case deploy h c rv cred w of
     (Inr ident, w') \<Rightarrow> committed_journal c ident rv (files w')
   | (Inl e, w') \<Rightarrow>
       (if e = Refusal ''transaction failed; baseline restored'' then rolled_back_journal c rv (files w') else True)"
proof -
  have lock: "hoare (\<lambda>_. True) (lock h c) (\<lambda>_ _. True) (deploy_raised c rv)"
    by (rule hoare_conseq [OF outcome.lock]) (auto simp: deploy_raised_def)
  have close: "hoare (\<lambda>w. committed_journal c ident rv (files w)) (close_lock h fd)
      (\<lambda>_ w. committed_journal c ident rv (files w)) (deploy_raised c rv)" for ident fd
    by (rule hoare_conseq [OF close_lock_files]) (auto simp: deploy_raised_def)
  have close': "hoare (deploy_raised c rv e) (close_lock h fd) (\<lambda>_. deploy_raised c rv e) (deploy_raised c rv)"
    for e fd
    by (rule hoare_conseq [OF close_lock_files [where P = "\<lambda>D. e = Refusal baseline_restored \<longrightarrow> rolled_back_journal c rv D"]])
       (auto simp: deploy_raised_def split: if_splits)
  have "hoare (\<lambda>_. True) (deploy h c rv cred) (\<lambda>ident w. committed_journal c ident rv (files w)) (deploy_raised c rv)"
    unfolding deploy_def
    by (intro hoare_if hoare_raise hoare_bind [OF lock] hoare_finally [OF deploy_locked_outcome close close'])
       (simp add: deploy_raised_def baseline_restored_def)
  then show ?thesis
    by (auto simp: hoare_def deploy_raised_def baseline_restored_def split: prod.splits sum.splits)
qed

subsection \<open>The journal can always be read back\<close>

definition record_valid :: "dict \<Rightarrow> bool" where
  "record_valid s \<longleftrightarrow> phase_ok s \<and> dget s ''schema'' = Some (JStr ''BillingTransaction/v1'')
     \<and> str_item s ''id'' (hex_string 32) \<and> str_item s ''old_sha'' SHA_fullmatch
     \<and> str_item s ''new_sha'' SHA_fullmatch \<and> str_item s ''image'' DIGEST_fullmatch
     \<and> pos_int_item s ''old_inode'' \<and> pos_int_item s ''new_inode''
     \<and> (case dget s ''up_intent'' of Some (JBool _) \<Rightarrow> True | _ \<Rightarrow> False) \<and> valid_action s"

lemma record_valid_load: "record_valid s \<Longrightarrow> dget s ''phase'' \<noteq> None \<Longrightarrow> load_doc (JDoc (JObj s)) = Inr s"
  by (auto simp: record_valid_def load_doc_def valid_fields_def str_item_def phase_ok_def
      split: option.splits json.splits)

lemma load_record_valid: "load_doc doc = Inr s \<Longrightarrow> record_valid s"
  using load_doc_phase_ok [of doc s] load_doc_Inr [of doc s]
  by (auto simp: record_valid_def valid_fields_def str_item_def split: option.splits json.splits)

lemma record_valid_dset:
  "record_valid s \<Longrightarrow> ph \<in> set phases \<Longrightarrow> record_valid (dset ''phase'' (JStr ph) s)"
  "record_valid s \<Longrightarrow> record_valid (dset ''up_intent'' (JBool b) s)"
  "record_valid s \<Longrightarrow> n \<in> set action_names \<Longrightarrow> k \<in> set completions \<Longrightarrow>
     record_valid (dset ''native_action'' (action_obj n k) s)"
  by (simp_all add: record_valid_def str_item_def pos_int_item_def valid_action_def)
     (auto simp: action_obj_def str_item_def)

definition readable :: "config \<Rightarrow> event \<times> disk \<Rightarrow> bool" where
  "readable c ed =
     (case fst ed of
        EvWrite p doc \<Rightarrow> p = active_path c \<and> load_doc (JDoc doc) \<in> range Inr
      | _ \<Rightarrow> True)"

interpretation reads: journaling "all_new (readable c) h0" "\<lambda>_. True" c record_valid for c h0
proof unfold_locales
  fix w :: "'a world" and s
  assume I: "all_new (readable c) h0 w" and s: "record_valid s" and ph: "dget s ''phase'' \<noteq> None"
  from record_valid_load [OF s ph] have "readable c (EvWrite (active_path c) (JObj s), D)" for D
    by (simp add: readable_def)
  with I show "all_new (readable c) h0 (wrote c s w)" by (simp add: wrote_def all_new_logged)
next
  fix s p assume "record_valid s" "dget s ''phase'' = Some p"
  then show "\<exists>ph\<in>set phases. p = JStr ph" by (simp add: record_valid_def phase_ok_def)
qed (auto simp: readable_def intro!: all_new_logged record_valid_dset)

lemma returns_head: "returns (native_head h p) SHA_fullmatch"
  unfolding native_head_def by (intro returns_rules) simp

lemma returns_container: "returns (native_container h) (\<lambda>v. DIGEST_fullmatch (hd v))"
  unfolding native_container_def Let_def by (intro returns_rules) simp

lemma returns_baseline: "returns (native_baseline h rv) DIGEST_fullmatch"
  unfolding native_baseline_def by (intro returns_bind [OF returns_container] returns_rules)

lemma returns_baseline_checks:
  "returns (baseline_checks h c rv) (\<lambda>(_, old, img). SHA_fullmatch old \<and> DIGEST_fullmatch img)"
  unfolding baseline_checks_def
  by (rule returns_bind [OF returns_head] returns_bind [OF returns_baseline] returns_rules | simp)+

definition host_law :: "'d host \<Rightarrow> bool" where
  "host_law h \<longleftrightarrow>
     (\<forall>d i. fst (h_uuid4_hex h d) = Inr i \<longrightarrow> hex_string 32 i)
     \<and> (\<forall>p d st. fst (h_stat h p d) = Inr st \<longrightarrow> 0 < st_ino st)"

lemma returns_prim: "(\<And>d x. fst (p d) = Inr x \<Longrightarrow> A x) \<Longrightarrow> returns (primM p) A"
  by (rule hoareI) (auto simp: primM_def split: prod.splits sum.splits, metis fst_conv)

lemma returns_stage_checkout: "host_law h \<Longrightarrow> returns (stage_checkout h c rv cred st) (hex_string 32)"
  unfolding stage_checkout_def Let_def
  by (rule returns_bind [OF returns_prim [where A = "hex_string 32"]])
     (auto simp: host_law_def intro!: returns_rules)

lemma reads_deploy:
  assumes law: "host_law h"
  shows "keeps (all_new (readable c) h0) (\<lambda>_. True) (deploy h c rv cred)"
proof -
  let ?I = "all_new (readable c) h0"
  have tail: "keeps ?I (\<lambda>_. True)
      (thenM (put_state (initial_state ident old rv img i j))
       (thenM (persist h c (JStr ''build-intent''))
         (thenM (tryM (install h c ident rv img) (install_handler h c)) (ret ident))))"
    if "SHA_fullmatch rv" "SHA_fullmatch old" "DIGEST_fullmatch img" "hex_string 32 ident" "0 < i" "0 < j"
    for ident old img i j
  proof -
    have "record_valid (initial_state ident old rv img i j)"
      using that by (simp add: record_valid_def)
        (simp add: initial_state_def str_item_def pos_int_item_def valid_action_def)
    from reads.deploy_tail [OF this] show ?thesis by (rule hoare_conseq) auto
  qed
  have stat: "hoare ?I (primM (h_stat h p)) (\<lambda>st w. ?I w \<and> 0 < st_ino st) (\<lambda>e w. ?I w \<and> True)" for p
    by (rule hoare_returns [OF reads.prim returns_prim]) (use law in \<open>auto simp: host_law_def\<close>)
  have locked: "keeps ?I (\<lambda>_. True) (deploy_locked h c rv cred)" if "SHA_fullmatch rv"
    unfolding deploy_locked_def
  proof (rule hoare_bind [OF hoare_returns [OF reads.baseline_checks returns_baseline_checks]],
      rule hoare_pre_conj, clarify)
    fix env_stat old img assume *: "SHA_fullmatch old" "DIGEST_fullmatch img"
    show "keeps ?I (\<lambda>_. True)
       (bindM (stage_checkout h c rv cred env_stat) (\<lambda>ident.
        bindM (primM (h_stat h (current c))) (\<lambda>a. bindM (primM (h_stat h (backup_path c ident))) (\<lambda>b.
        thenM (put_state (initial_state ident old rv img (st_ino a) (st_ino b)))
         (thenM (persist h c (JStr ''build-intent''))
          (thenM (tryM (install h c ident rv img) (install_handler h c)) (ret ident)))))))"
      using that * by (intro hoare_bind [OF hoare_returns [OF reads.stage_checkout returns_stage_checkout [OF law]]]
          hoare_bind [OF stat] hoare_pre_conj tail)
  qed
  show ?thesis
    unfolding deploy_def
    by (rule hoare_if keeps_raise keeps_bind keeps_finally reads.lock reads.close_lock locked TrueI | simp)+
qed

text \<open>
  C13 (the journal can be read back).  On a host whose UUIDs are 32 hexadecimal digits and whose
  inode numbers are positive, every document that any run of the program writes is written to
  \<^verbatim>\<open>active.json\<close> and passes the validation of \<^verbatim>\<open>load\<close>: a later \<^verbatim>\<open>recover\<close> can always read it.
\<close>

theorem journal_readable:
  assumes "host_law h"
  shows "\<exists>es. hist (snd (main_entry h c euid args stdin w)) = hist w @ es \<and> list_all (readable c) es"
proof -
  let ?I = "all_new (readable c) (hist w)"
  have "keeps ?I (\<lambda>_. True) (recover_locked h c i)" for i
    by (rule hoare_conseq [OF reads.recover_locked]) (auto dest: load_record_valid)
  then have rec: "keeps ?I (\<lambda>_. True) (recover h c i)" for i
    unfolding recover_def by (intro keeps_rules reads.lock reads.close_lock)
  have "keeps ?I (\<lambda>_. True) (main_entry h c euid args stdin)"
    unfolding main_entry_def Let_def
    by (intro reads_deploy [OF assms] rec reads.check reads.native_init keeps_rules TrueI)
  from keeps_snd [OF this all_new_refl] show ?thesis by (simp add: all_new_def)
qed

lemma sim_host_law: "host_law sim_host"
  by (auto simp: host_law_def sim_host_def sim_stat_def sim_inode_def sim_uuid_def hex_string_def
      hex_digit_def list_all_iff)

theorem journal_readable_witness:
  "\<exists>es. hist (snd (main_entry sim_host sim_config 0 [''deploy'', sim_new_sha] sim_cred (sim_world [])))
          = hist (sim_world []) @ es
      \<and> list_all (readable sim_config) es"
  by (rule journal_readable [OF sim_host_law])

subsection \<open>Runs that must not act\<close>

text \<open>An effect that changes nothing: a read-only command, taking or releasing the lock.\<close>

definition harmless :: "event \<times> disk \<Rightarrow> bool" where
  "harmless ed =
     (case fst ed of
        EvRun argv \<Rightarrow> \<not> mutating argv | EvLock _ \<Rightarrow> True | EvClose _ \<Rightarrow> True | _ \<Rightarrow> False)"

definition untouched :: "disk \<Rightarrow> (event \<times> disk) list \<Rightarrow> 'd world \<Rightarrow> bool" where
  "untouched D h0 w \<longleftrightarrow> files w = D \<and> all_new harmless h0 w"

interpretation inert: quiet "untouched D h0" "\<lambda>_. True" for D h0
  by unfold_locales (auto simp: untouched_def harmless_def intro!: all_new_logged)

lemma untouched_refl: "untouched (files w) (hist w) w"
  by (simp add: untouched_def all_new_refl)

definition acted_not :: "'d world \<Rightarrow> 'd world \<Rightarrow> bool" where
  "acted_not w w' \<longleftrightarrow> files w' = files w \<and> (\<exists>es. hist w' = hist w @ es \<and> list_all harmless es)"

lemma acted_not_untouched: "untouched (files w) (hist w) w' \<Longrightarrow> acted_not w w'"
  by (simp add: untouched_def acted_not_def all_new_def)

text \<open>
  (\<^verbatim>\<open>check\<close> is read-only).  Whatever the host answers, \<^verbatim>\<open>check\<close> writes no state file, exchanges no
  checkout and runs no command that changes the installed service.
\<close>

lemma check_read_only: "acted_not w (snd (check h c rv w))"
  by (rule acted_not_untouched [OF keeps_snd [OF inert.check untouched_refl]])

lemma load_known:
  assumes "D (active_path c) = Some (JDoc (JObj s))"
  shows "hoare (untouched D h0) (load h c) (\<lambda>st w. untouched D h0 w \<and> st = Some s)
     (\<lambda>_. untouched D h0)"
proof -
  have "hoare (\<lambda>w. files w = D) (load h c) (\<lambda>st _. st = Some s) (\<lambda>_ _. True)"
    using assms
    by (intro hoareI)
       (auto simp: load_def M_defs dest!: load_doc_Inr split: option.splits sum.splits prod.splits)
  then show ?thesis
    using inert.load [of D h0 h c]
    by (fastforce simp: hoare_def untouched_def split: prod.splits sum.splits)
qed

lemma hoare_never:
  assumes "hoare P m (\<lambda>_ _. False) (\<lambda>_. R)" and "P w"
  shows "(\<exists>e. fst (m w) = Inl e) \<and> R (snd (m w))"
  using assms by (cases "m w"; cases "fst (m w)") (auto simp: hoare_def)

text \<open>
  C14 (one transaction at a time).  While the journal on disk is pending or its phase is neither
  \<^verbatim>\<open>committed\<close> nor \<^verbatim>\<open>rolled-back\<close>, \<^verbatim>\<open>deploy\<close> fails and acts on nothing.
\<close>

theorem deploy_refuses_unsettled:
  assumes doc: "files w (active_path c) = Some (JDoc (JObj s))"
    and unsettled: "pending s \<or> \<not> settled_phase s"
  shows "(\<exists>e. fst (deploy h c rv cred w) = Inl e) \<and> acted_not w (snd (deploy h c rv cred w))"
proof -
  let ?I = "untouched (files w) (hist w)"
  have refuse: "hoare (\<lambda>w'. ?I w' \<and> st = Some s) (refuse_unsettled st) (\<lambda>_ _. False) (\<lambda>_. ?I)" for st
    by (rule hoare_pre_conj) (use unsettled in \<open>auto simp: refuse_unsettled_def intro!: hoare_raise\<close>)
  have "hoare ?I (baseline_checks h c rv) (\<lambda>_ _. False) (\<lambda>_. ?I)"
    unfolding baseline_checks_def
    by (rule hoare_bind [OF load_known [where D = "files w", OF doc]], rule hoare_then [OF refuse]) (simp add: hoare_def)
  then have "hoare ?I (deploy_locked h c rv cred) (\<lambda>_ _. False) (\<lambda>_. ?I)"
    unfolding deploy_locked_def by (rule hoare_bind) (simp add: hoare_def)
  moreover have "hoare ?I (lock h c) (\<lambda>_. ?I) (\<lambda>_. ?I)" "hoare ?I (close_lock h fd) (\<lambda>_. ?I) (\<lambda>_. ?I)" for fd
    using inert.lock inert.close_lock by simp_all
  ultimately have "hoare ?I (deploy h c rv cred) (\<lambda>_ _. False) (\<lambda>_. ?I)"
    unfolding deploy_def
    by (intro hoare_if hoare_raise hoare_bind [where R = "\<lambda>_. ?I"] hoare_finally [where Q' = "\<lambda>_ _. False" and E' = "\<lambda>_. ?I"])
       (auto simp: hoare_def)
  from hoare_never [OF this untouched_refl] show ?thesis by (blast intro: acted_not_untouched)
qed

text \<open>
  (no recovery without proof).  While the journal on disk records a native action whose outcome
  is unknown, or an unsettled transaction that never recorded one, \<^verbatim>\<open>recover\<close> fails and acts on
  nothing, whichever identifier it is given.
\<close>

lemma recover_refuses_unproved:
  assumes doc: "files w (active_path c) = Some (JDoc (JObj s))" and unproved: "unproved s"
  shows "(\<exists>e. fst (recover h c ident w) = Inl e) \<and> acted_not w (snd (recover h c ident w))"
proof -
  let ?I = "untouched (files w) (hist w)"
  have set: "hoare ?I (modifyM (\<lambda>w. w\<lparr>txn_state := Some s\<rparr>)) (\<lambda>_ w. ?I w \<and> txn_state w = Some s) (\<lambda>_. ?I)"
    by (rule hoare_modify) (simp add: untouched_def)
  have rb: "hoare (\<lambda>w. ?I w \<and> txn_state w = Some s) (rollback h c) (\<lambda>_ _. False) (\<lambda>_. ?I)"
    using unproved by (auto simp: hoare_def rollback_def get_state_def M_defs)
  have "hoare ?I (recover_locked h c ident) (\<lambda>_ _. False) (\<lambda>_. ?I)"
    unfolding recover_locked_def
    by (rule hoare_bind [OF load_known [where D = "files w", OF doc]], rule hoare_pre_conj, hypsubst, unfold option.case)
       (intro hoare_then [OF set] hoare_if hoare_raise rb, simp)
  moreover have "hoare ?I (lock h c) (\<lambda>_. ?I) (\<lambda>_. ?I)" "hoare ?I (close_lock h fd) (\<lambda>_. ?I) (\<lambda>_. ?I)" for fd
    using inert.lock inert.close_lock by simp_all
  ultimately have "hoare ?I (recover h c ident) (\<lambda>_ _. False) (\<lambda>_. ?I)"
    unfolding recover_def
    by (intro hoare_bind [where R = "\<lambda>_. ?I"] hoare_finally [where Q' = "\<lambda>_ _. False" and E' = "\<lambda>_. ?I"])
       (auto simp: hoare_def)
  from hoare_never [OF this untouched_refl] show ?thesis by (blast intro: acted_not_untouched)
qed

text \<open>A journal as a crash during the build leaves it.\<close>

definition crashed_state :: dict where
  "crashed_state = dset ''native_action'' (action_obj ''build'' ''pending'')
     (dset ''phase'' (JStr ''build-intent'')
       (initial_state sim_uuid sim_old_sha sim_new_sha sim_old_image 11 22))"

definition crashed_world :: "sim world" where
  "crashed_world = (sim_world [])\<lparr>files := [active_path sim_config \<mapsto> JDoc (JObj crashed_state)]\<rparr>"

lemma crashed:
  "files crashed_world (active_path sim_config) = Some (JDoc (JObj crashed_state))" "pending crashed_state"
  by (simp_all add: crashed_world_def crashed_state_def pending_def action_obj_def)

theorem deploy_refuses_unsettled_witness:
  "(\<exists>e. fst (deploy sim_host sim_config sim_new_sha sim_cred crashed_world) = Inl e)
   \<and> acted_not crashed_world (snd (deploy sim_host sim_config sim_new_sha sim_cred crashed_world))"
  by (rule deploy_refuses_unsettled [OF crashed(1)]) (simp add: crashed(2))

lemma recover_refuses_unproved_witness:
  "(\<exists>e. fst (recover sim_host sim_config sim_uuid crashed_world) = Inl e)
   \<and> acted_not crashed_world (snd (recover sim_host sim_config sim_uuid crashed_world))"
  by (rule recover_refuses_unproved [OF crashed(1)]) (simp add: unproved_def crashed(2))

end
