(* ===== verification/GraphIndex.thy ===== *)
theory GraphIndex
  imports Prelude
begin

section \<open>The relationship graph and its index\<close>

text \<open>
  The data of \<^verbatim>\<open>RelationshipGraph/v1\<close> documents and the class \<^verbatim>\<open>GraphIndex\<close> of
  \<^verbatim>\<open>.github/graph-admission/tools/graph/impact.py\<close>.  Nodes, edges and hops are records with the
  fields the tools read; a field that may be absent is an option.  The index keeps the
  dictionaries of the class as association lists in insertion order, and Python sets of
  strings are lists of which only membership is used.  The declared edge types come from the
  schema file that \<^verbatim>\<open>schema_check.load_schema\<close> reads and are an argument.

  The lemmas characterise every dictionary of the index over the document
  (\<open>rev_of_index\<close>, \<open>fwd_of_index\<close>, \<open>by_path_index\<close>, \<dots>): what the later theories rely on.
\<close>

subsection \<open>Documents\<close>

record gnode =
  n_id :: string
  n_type :: string
  n_path :: "string option"
  n_kind :: "string option"
  n_content_hash :: string

record gedge =
  e_type :: string
  e_from :: string
  e_to :: string
  e_provenance :: string
  e_inferred_by :: "string option"
  e_observed_at_utc :: "string option"
  e_via :: "string option"
  e_boundary :: "string option"

record graph_doc =
  doc_manifest :: dict
  doc_nodes :: "gnode list"
  doc_edges :: "gedge list"

text \<open>A step of a provenance path, as \<^verbatim>\<open>hop_of\<close> writes it.\<close>

record hop =
  h_from :: string
  h_to :: string
  h_edge_type :: string
  h_provenance :: string
  h_inferred_by :: "string option"
  h_observed_at_utc :: "string option"
  h_via :: "string option"
  h_boundary :: "string option"

subsection \<open>The index\<close>

record graph_index =
  idx_manifest :: dict
  idx_nodes :: "(string \<times> gnode) list"
  idx_rev :: "(string \<times> gedge list) list"
  idx_fwd :: "(string \<times> gedge list) list"
  idx_by_path :: "(string \<times> string list) list"
  idx_deployables :: "(string \<times> string) list"
  idx_deployable_ids_by_path :: "(string \<times> string list) list"
  idx_hints :: "(string \<times> string) list"

type_synonym edge_type_decls = "(string \<times> dict) list"

definition edge_key :: "gedge \<Rightarrow> string \<times> string \<times> string \<times> string" where
  "edge_key e = (e_type e, e_from e, e_to e, e_provenance e)"

text \<open>\<^verbatim>\<open>p = n.get("path"); if p:\<close> holds for a non-empty path only.\<close>

definition path_of :: "gnode \<Rightarrow> string option" where
  "path_of n = (case n_path n of Some p \<Rightarrow> (if p = [] then None else Some p) | None \<Rightarrow> None)"

definition index_node :: "gnode \<Rightarrow> graph_index \<Rightarrow> graph_index" where
  "index_node n idx =
     (case path_of n of
        None \<Rightarrow> idx
      | Some p \<Rightarrow>
          (let idx = idx\<lparr>idx_by_path := append_at p (n_id n) (idx_by_path idx)\<rparr>
           in if n_type n = ''deployable_unit''
              then idx\<lparr>idx_deployables :=
                         AList.update (rstrip_char (CHR ''/'') p) (n_id n) (idx_deployables idx),
                       idx_deployable_ids_by_path :=
                         append_at p (n_id n) (idx_deployable_ids_by_path idx)\<rparr>
              else idx))"

definition sort_values :: "('v list \<Rightarrow> 'v list) \<Rightarrow> ('k \<times> 'v list) list \<Rightarrow> ('k \<times> 'v list) list" where
  "sort_values f d = map (\<lambda>(k, vs). (k, f vs)) d"

definition hint_of :: "dict \<Rightarrow> string" where
  "hint_of v = (case dget v ''mandatory_verifier_hint'' of Some (JStr s) \<Rightarrow> s | _ \<Rightarrow> [])"

definition make_index :: "edge_type_decls \<Rightarrow> graph_doc \<Rightarrow> graph_index" where
  "make_index decls doc =
     (let idx0 = \<lparr>idx_manifest = doc_manifest doc,
                  idx_nodes = fold (\<lambda>n. AList.update (n_id n) n) (doc_nodes doc) [],
                  idx_rev = sort_values (sort_key edge_key) (group_by e_to (doc_edges doc)),
                  idx_fwd = sort_values (sort_key edge_key) (group_by e_from (doc_edges doc)),
                  idx_by_path = [], idx_deployables = [], idx_deployable_ids_by_path = [],
                  idx_hints = []\<rparr>;
          idx1 = fold index_node (doc_nodes doc) idx0
      in idx1\<lparr>idx_by_path := sort_values sort (idx_by_path idx1),
              idx_deployable_ids_by_path := sort_values sort (idx_deployable_ids_by_path idx1),
              idx_hints := map (\<lambda>(t, v). (t, hint_of v)) decls\<rparr>)"

definition declared_id :: "string \<Rightarrow> bool" where
  "declared_id i \<longleftrightarrow> startswith i ''contract:'' \<or> startswith i ''route:'' \<or> startswith i ''data_model:''"

definition path_nodes :: "graph_index \<Rightarrow> string \<Rightarrow> string list \<Rightarrow> string list" where
  "path_nodes idx p rules =
     (let ids = get_list (idx_by_path idx) p
      in if ''seed_declared_nodes'' \<notin> set rules then filter (\<lambda>i. \<not> declared_id i) ids else ids)"

subsection \<open>What the index holds\<close>

lemma get_list_sort_values [simp]:
  "f [] = [] \<Longrightarrow> get_list (sort_values f d) k = f (get_list d k)"
  by (simp add: sort_values_def get_list_map_values)

lemma keys_sort_values [simp]: "map fst (sort_values f d) = map fst d"
  by (induction d) (auto simp: sort_values_def)

lemma index_node_frame [simp]:
  "idx_manifest (index_node n idx) = idx_manifest idx"
  "idx_nodes (index_node n idx) = idx_nodes idx"
  "idx_rev (index_node n idx) = idx_rev idx"
  "idx_fwd (index_node n idx) = idx_fwd idx"
  by (simp_all add: index_node_def Let_def split: option.split)

lemma fold_index_node_frame [simp]:
  "idx_manifest (fold index_node ns idx) = idx_manifest idx"
  "idx_nodes (fold index_node ns idx) = idx_nodes idx"
  "idx_rev (fold index_node ns idx) = idx_rev idx"
  "idx_fwd (fold index_node ns idx) = idx_fwd idx"
  by (induction ns arbitrary: idx) simp_all

lemma index_node_by_path:
  "get_list (idx_by_path (index_node n idx)) p =
     get_list (idx_by_path idx) p @ (if path_of n = Some p then [n_id n] else [])"
  by (auto simp: index_node_def Let_def split: option.split)

lemma fold_index_node_by_path:
  "get_list (idx_by_path (fold index_node ns idx)) p =
     get_list (idx_by_path idx) p @ map n_id (filter (\<lambda>n. path_of n = Some p) ns)"
  by (induction ns arbitrary: idx) (auto simp: index_node_by_path)

lemma index_node_deployable_ids:
  "get_list (idx_deployable_ids_by_path (index_node n idx)) p =
     get_list (idx_deployable_ids_by_path idx) p
       @ (if path_of n = Some p \<and> n_type n = ''deployable_unit'' then [n_id n] else [])"
  by (auto simp: index_node_def Let_def split: option.split)

lemma fold_index_node_deployable_ids:
  "get_list (idx_deployable_ids_by_path (fold index_node ns idx)) p =
     get_list (idx_deployable_ids_by_path idx) p
       @ map n_id (filter (\<lambda>n. path_of n = Some p \<and> n_type n = ''deployable_unit'') ns)"
  by (induction ns arbitrary: idx) (auto simp: index_node_deployable_ids)

lemma rev_of_index:
  "get_list (idx_rev (make_index decls doc)) k =
     sort_key edge_key (filter (\<lambda>e. e_to e = k) (doc_edges doc))"
  by (simp add: make_index_def Let_def)

lemma fwd_of_index:
  "get_list (idx_fwd (make_index decls doc)) k =
     sort_key edge_key (filter (\<lambda>e. e_from e = k) (doc_edges doc))"
  by (simp add: make_index_def Let_def)

lemma by_path_of_index:
  "get_list (idx_by_path (make_index decls doc)) p =
     sort (map n_id (filter (\<lambda>n. path_of n = Some p) (doc_nodes doc)))"
  by (simp add: make_index_def Let_def fold_index_node_by_path)

lemma deployable_ids_of_index:
  "get_list (idx_deployable_ids_by_path (make_index decls doc)) p =
     sort (map n_id (filter (\<lambda>n. path_of n = Some p \<and> n_type n = ''deployable_unit'') (doc_nodes doc)))"
  by (simp add: make_index_def Let_def fold_index_node_deployable_ids)

lemma keys_fold_update:
  "fst ` set (fold (\<lambda>n. AList.update (key n) n) ns d) = fst ` set d \<union> key ` set ns"
  by (induction ns arbitrary: d) (auto simp: dom_update)

lemma nodes_of_index:
  "fst ` set (idx_nodes (make_index decls doc)) = n_id ` set (doc_nodes doc)"
  by (simp add: make_index_def Let_def keys_fold_update)

lemma nodes_consistent:
  "map_of (fold (\<lambda>n. AList.update (n_id n) n) ns d) i = Some n \<Longrightarrow>
     (\<And>n. map_of d i = Some n \<Longrightarrow> n_id n = i) \<Longrightarrow> n_id n = i"
proof (induction ns arbitrary: d)
  case (Cons m ns)
  show ?case
    by (rule Cons.IH [OF Cons.prems(1) [unfolded fold_Cons comp_apply]])
       (auto simp: update_conv' Cons.prems(2) split: if_splits)
qed simp

lemma node_id_of_index: "map_of (idx_nodes (make_index decls doc)) i = Some n \<Longrightarrow> n_id n = i"
  by (rule nodes_consistent [where ns = "doc_nodes doc" and d = "[]"])
     (simp_all add: make_index_def Let_def)

text \<open>Distinct keys: the dictionaries really are dictionaries.\<close>

lemma distinct_index [simp]:
  "distinct (map fst (idx_rev (make_index decls doc)))"
  "distinct (map fst (idx_fwd (make_index decls doc)))"
  by (simp_all add: make_index_def Let_def)

end
