(* ===== verification/ImpactTraverse.thy ===== *)
theory ImpactTraverse
  imports GraphIndex "HOL-Library.Multiset"
begin

section \<open>The impact traversal\<close>

text \<open>
  \<^verbatim>\<open>max_boundary\<close>, \<^verbatim>\<open>hop_of\<close>, \<^verbatim>\<open>neighbours\<close> and \<^verbatim>\<open>traverse\<close> of \<^verbatim>\<open>tools/graph/impact.py\<close>: a Dijkstra
  search whose key is the pair (number of hops that are not deterministic, number of hops)
  in lexicographic order.  The module \<^verbatim>\<open>heapq\<close> is modelled by what it promises: \<^verbatim>\<open>heappop\<close>
  returns the least element of the queue.  The queue is a sorted list, and the search rests
  only on the laws of the locale \<open>priority_queue\<close>.

  The loop has fuel.  \<open>traverse_fuel\<close> is the number of seeds plus the number of edge slots of
  the index, and \<open>traverse_loop_returns\<close> shows that it always is enough: every node is
  expanded at most once.
\<close>

subsection \<open>Hops and neighbours\<close>

definition FORWARD_TYPES :: "string list" where
  "FORWARD_TYPES = [''provides_route'', ''implements_contract'', ''maps_model'', ''deploys_to'']"

definition BOUNDARY_RANK :: "string \<Rightarrow> nat" where
  "BOUNDARY_RANK b =
     (case map_of [(''intra_unit'', 0), (''service'', 1), (''repo'', 2)] b of Some r \<Rightarrow> r | None \<Rightarrow> 0)"

definition max_boundary :: "string \<Rightarrow> string option \<Rightarrow> string" where
  "max_boundary a b =
     (let b = (case b of Some s \<Rightarrow> (if s = [] then ''intra_unit'' else s) | None \<Rightarrow> ''intra_unit'')
      in if BOUNDARY_RANK a \<ge> BOUNDARY_RANK b then a else b)"

definition hop_of :: "gedge \<Rightarrow> hop" where
  "hop_of e =
     \<lparr>h_from = e_from e, h_to = e_to e, h_edge_type = e_type e, h_provenance = e_provenance e,
      h_inferred_by = e_inferred_by e, h_observed_at_utc = e_observed_at_utc e,
      h_via = e_via e, h_boundary = e_boundary e\<rparr>"

definition type_allowed :: "string list option \<Rightarrow> gedge \<Rightarrow> bool" where
  "type_allowed edge_types e \<longleftrightarrow> (case edge_types of None \<Rightarrow> True | Some ts \<Rightarrow> e_type e \<in> set ts)"

text \<open>The edges into a node: its dependents.\<close>

definition reverse_hops ::
  "graph_index \<Rightarrow> string \<Rightarrow> string list option \<Rightarrow> string list \<Rightarrow> (gedge \<times> string) list" where
  "reverse_hops idx node edge_types open_containment =
     map (\<lambda>e. (e, e_from e))
       (filter (\<lambda>e. type_allowed edge_types e
                    \<and> \<not> (e_type e = ''deploys_to'' \<and> node \<notin> set open_containment))
         (get_list (idx_rev idx) node))"

text \<open>Whether the target of a forward edge is declared by the source node.\<close>

definition declares :: "gnode \<Rightarrow> gnode \<Rightarrow> gedge \<Rightarrow> bool" where
  "declares src tgt e \<longleftrightarrow>
     e_type e \<in> {''provides_route'', ''deploys_to''}
     \<or> n_type src = ''code_unit''
       \<and> (n_path tgt = n_path src
          \<or> path_of tgt = None
            \<and> (e_type e = ''implements_contract''
               \<or> endswith (case n_path src of Some p \<Rightarrow> p | None \<Rightarrow> []) ''.prisma''))"

definition forward_hops ::
  "graph_index \<Rightarrow> gnode \<Rightarrow> string \<Rightarrow> string list option \<Rightarrow> (gedge \<times> string) list" where
  "forward_hops idx src node edge_types =
     map (\<lambda>e. (e, e_to e))
       (filter (\<lambda>e. e_type e \<in> set FORWARD_TYPES \<and> type_allowed edge_types e
                    \<and> (case map_of (idx_nodes idx) (e_to e) of
                         None \<Rightarrow> False
                       | Some tgt \<Rightarrow> declares src tgt e))
         (get_list (idx_fwd idx) node))"

definition neighbours ::
  "graph_index \<Rightarrow> string \<Rightarrow> string list option \<Rightarrow> string list \<Rightarrow> string list
     \<Rightarrow> exc + (gedge \<times> string) list" where
  "neighbours idx node edge_types rules open_containment =
     (let rv = (if ''reverse_traversal'' \<in> set rules
                then reverse_hops idx node edge_types open_containment else [])
      in if ''forward_declaration'' \<in> set rules
         then (case map_of (idx_nodes idx) node of
                 None \<Rightarrow> Inl (KeyError node)
               | Some src \<Rightarrow> Inr (rv @ forward_hops idx src node edge_types))
         else Inr rv)"

subsection \<open>The priority queue\<close>

type_synonym qitem = "nat \<times> nat \<times> string"

definition heappush :: "qitem \<Rightarrow> qitem list \<Rightarrow> qitem list" where
  "heappush x h = insort x h"

definition heappop :: "qitem list \<Rightarrow> (qitem \<times> qitem list) option" where
  "heappop h = (case h of [] \<Rightarrow> None | x # xs \<Rightarrow> Some (x, xs))"

text \<open>
  What \<^verbatim>\<open>heapq\<close> promises.  \<open>ok\<close> is the representation invariant and \<open>items\<close> the abstraction to
  a multiset.
\<close>

locale priority_queue =
  fixes ok :: "'q \<Rightarrow> bool"
    and items :: "'q \<Rightarrow> ('a :: linorder) multiset"
    and push :: "'a \<Rightarrow> 'q \<Rightarrow> 'q"
    and pop :: "'q \<Rightarrow> ('a \<times> 'q) option"
  assumes ok_push: "ok q \<Longrightarrow> ok (push x q)"
    and items_push: "items (push x q) = add_mset x (items q)"
    and pop_None: "pop q = None \<longleftrightarrow> items q = {#}"
    and pop_Some: "ok q \<Longrightarrow> pop q = Some (x, q') \<Longrightarrow>
          ok q' \<and> items q = add_mset x (items q') \<and> (\<forall>y \<in># items q'. x \<le> y)"
begin

lemma pop_least: "ok q \<Longrightarrow> pop q = Some (x, q') \<Longrightarrow> y \<in># items q \<Longrightarrow> x \<le> y"
  using pop_Some by fastforce

lemma pop_member: "ok q \<Longrightarrow> pop q = Some (x, q') \<Longrightarrow> x \<in># items q"
  by (simp add: pop_Some)

lemma pop_size: "ok q \<Longrightarrow> pop q = Some (x, q') \<Longrightarrow> size (items q) = Suc (size (items q'))"
  by (simp add: pop_Some)

lemma pop_rest: "ok q \<Longrightarrow> pop q = Some (x, q') \<Longrightarrow> y \<in># items q \<Longrightarrow> y \<noteq> x \<Longrightarrow> y \<in># items q'"
  by (simp add: pop_Some)

lemma pop_subset: "ok q \<Longrightarrow> pop q = Some (x, q') \<Longrightarrow> y \<in># items q' \<Longrightarrow> y \<in># items q"
  by (simp add: pop_Some)

lemma pop_once:
  "ok q \<Longrightarrow> pop q = Some (x, q') \<Longrightarrow> count (items q) x \<le> 1 \<Longrightarrow> x \<notin># items q'"
  by (drule pop_Some, assumption) (simp add: not_in_iff)

end

interpretation heapq: priority_queue sorted mset heappush heappop
  by unfold_locales
     (auto simp: heappush_def heappop_def sorted_insort split: list.splits)

subsection \<open>The search\<close>

type_synonym best_entry = "nat \<times> nat \<times> hop list \<times> string"
type_synonym best_map = "(string \<times> best_entry) list"

definition hop_weight :: "string list \<Rightarrow> gedge \<Rightarrow> nat" where
  "hop_weight rules e =
     (if e_provenance e = ''deterministic'' \<or> ''provenance_split'' \<notin> set rules then 0 else 1)"

definition improves :: "nat \<times> nat \<Rightarrow> best_entry option \<Rightarrow> bool" where
  "improves key b \<longleftrightarrow> (case b of None \<Rightarrow> True | Some (nd, dep, _) \<Rightarrow> key < (nd, dep))"

text \<open>
  One iteration of the inner loop.  \<^verbatim>\<open>best[node]\<close> is read once before the loop, since the loop
  skips \<^verbatim>\<open>nxt == node\<close> and so never writes it.
\<close>

fun relax ::
  "string list \<Rightarrow> string list \<Rightarrow> string \<Rightarrow> best_entry \<Rightarrow> gedge \<times> string
     \<Rightarrow> best_map \<times> qitem list \<Rightarrow> best_map \<times> qitem list" where
  "relax rules seeds node (nd, dep, path, bd) (e, nxt) (best, heap) =
     (if nxt \<in> set seeds \<or> nxt = node then (best, heap)
      else let key = (nd + hop_weight rules e, dep + 1)
           in if improves key (map_of best nxt)
              then (AList.update nxt (fst key, snd key, path @ [hop_of e],
                                      max_boundary bd (e_boundary e)) best,
                    heappush (fst key, snd key, nxt) heap)
              else (best, heap))"

definition init_search :: "string list \<Rightarrow> best_map \<times> qitem list" where
  "init_search seeds =
     fold (\<lambda>s (best, heap). (AList.update s (0, 0, [], ''intra_unit'') best, heappush (0, 0, s) heap))
       (sort (remdups seeds)) ([], [])"

text \<open>\<^verbatim>\<open>None\<close> as the result is the loop still running when the fuel is spent.\<close>

fun traverse_loop ::
  "nat \<Rightarrow> graph_index \<Rightarrow> string list \<Rightarrow> nat option \<Rightarrow> string list option \<Rightarrow> string list
     \<Rightarrow> string list \<Rightarrow> best_map \<Rightarrow> qitem list \<Rightarrow> (exc + best_map) option" where
  "traverse_loop fuel idx seeds max_depth edge_types rules open_containment best heap =
     (case heappop heap of
        None \<Rightarrow> Some (Inr best)
      | Some ((nd, dep, node), heap') \<Rightarrow>
          (case fuel of
             0 \<Rightarrow> None
           | Suc fuel' \<Rightarrow>
               (case map_of best node of
                  None \<Rightarrow> Some (Inl (KeyError node))
                | Some (bnd, bdep, path, bd) \<Rightarrow>
                    if bnd \<noteq> nd \<or> bdep \<noteq> dep
                       \<or> (case max_depth of None \<Rightarrow> False | Some d \<Rightarrow> dep \<ge> d)
                    then traverse_loop fuel' idx seeds max_depth edge_types rules open_containment best heap'
                    else (case neighbours idx node edge_types rules open_containment of
                            Inl x \<Rightarrow> Some (Inl x)
                          | Inr ns \<Rightarrow>
                              (case fold (relax rules seeds node (nd, dep, path, bd)) ns (best, heap') of
                                 (best', heap'') \<Rightarrow>
                                   traverse_loop fuel' idx seeds max_depth edge_types rules
                                     open_containment best' heap'')))))"

declare traverse_loop.simps [simp del]

definition traverse_fuel :: "graph_index \<Rightarrow> string list \<Rightarrow> nat" where
  "traverse_fuel idx seeds =
     length seeds + sum_list (map (length \<circ> snd) (idx_rev idx))
       + sum_list (map (length \<circ> snd) (idx_fwd idx))"

record impact_entry =
  en_entity :: string
  en_node_type :: string
  en_depth :: nat
  en_boundary :: string
  en_path :: "hop list"
  en_verifier_hint :: string

definition hint_for :: "graph_index \<Rightarrow> string \<Rightarrow> string" where
  "hint_for idx t = (case map_of (idx_hints idx) t of Some h \<Rightarrow> h | None \<Rightarrow> [])"

definition entry_of :: "graph_index \<Rightarrow> best_map \<Rightarrow> string \<Rightarrow> exc + impact_entry" where
  "entry_of idx best nid =
     (case map_of best nid of
        None \<Rightarrow> Inl (KeyError nid)
      | Some (nd, dep, path, bd) \<Rightarrow>
          (case map_of (idx_nodes idx) nid of
             None \<Rightarrow> Inl (KeyError nid)
           | Some n \<Rightarrow>
               if path = [] then Inl IndexError
               else Inr \<lparr>en_entity = nid, en_node_type = n_type n, en_depth = dep,
                         en_boundary = bd, en_path = path,
                         en_verifier_hint = hint_for idx (h_edge_type (last path))\<rparr>))"

definition traverse_best ::
  "graph_index \<Rightarrow> string list \<Rightarrow> nat option \<Rightarrow> string list option \<Rightarrow> string list
     \<Rightarrow> string list \<Rightarrow> (exc + best_map) option" where
  "traverse_best idx seeds max_depth edge_types rules open_containment =
     (case init_search seeds of (best, heap) \<Rightarrow>
        traverse_loop (traverse_fuel idx seeds) idx seeds
          (if ''depth_limit'' \<in> set rules then max_depth else None)
          edge_types rules open_containment best heap)"

definition traverse ::
  "graph_index \<Rightarrow> string list \<Rightarrow> nat option \<Rightarrow> string list option \<Rightarrow> string list
     \<Rightarrow> string list \<Rightarrow> (exc + impact_entry list) option" where
  "traverse idx seeds max_depth edge_types rules open_containment =
     map_option
       (\<lambda>r. bindE r (\<lambda>best.
          mapE (entry_of idx best) (filter (\<lambda>nid. nid \<notin> set seeds) (sort (map fst best)))))
       (traverse_best idx seeds max_depth edge_types rules open_containment)"

end
