(* ===== verification/ImpactRepo.thy ===== *)
theory ImpactRepo
  imports Prelude
begin

section \<open>Reading a change set and file contents from git\<close>

text \<open>
  The methods of class \<^verbatim>\<open>Repo\<close> of \<^verbatim>\<open>tools/graph/impact.py\<close> that parse what git prints:
  \<^verbatim>\<open>diff_files\<close> and \<^verbatim>\<open>worktree_files\<close> (NUL-separated status records) and \<^verbatim>\<open>read_at\<close> (the
  \<^verbatim>\<open>git cat-file --batch\<close> protocol), with \<^verbatim>\<open>parse_file_args\<close>.  What git prints is an argument: the
  text of the status commands, and for \<^verbatim>\<open>cat-file\<close> the function from the request to the
  answer.  The properties are round trips: the parsers recover what a printer of git's
  documented format wrote.
\<close>

text \<open>Exceptions of the graph tools: a \<^verbatim>\<open>Refusal\<close> with its code and details, or another one.\<close>

datatype gexc = Refuse string dict | Exc exc

record changed_file =
  f_path :: string
  f_status :: string
  f_renamed_to :: "string option option"
  f_renamed_from :: "string option option"
  f_config_schema_keys :: "string list option"

definition plain_file :: "string \<Rightarrow> string \<Rightarrow> changed_file" where
  "plain_file p st = \<lparr>f_path = p, f_status = st, f_renamed_to = None, f_renamed_from = None,
                      f_config_schema_keys = None\<rparr>"

definition sort_files :: "changed_file list \<Rightarrow> changed_file list" where
  "sort_files fs = sort_key f_path fs"

definition parse_file_arg :: "string \<Rightarrow> changed_file" where
  "parse_file_arg s =
     (case partition_char (CHR '':'') s of (p, st) \<Rightarrow>
        plain_file p (upper (if st = [] then ''M'' else st)))"

definition parse_file_args :: "string list \<Rightarrow> changed_file list" where
  "parse_file_args specs = sort_files (map parse_file_arg specs)"

subsection \<open>Status records\<close>

definition nul :: char where
  "nul = CHR 0x00"

text \<open>\<^verbatim>\<open>Repo._rel\<close>: the path below the scope, or nothing for a path outside it.\<close>

definition rel_path :: "string \<Rightarrow> string \<Rightarrow> string option" where
  "rel_path prefix p =
     (if prefix \<noteq> [] \<and> \<not> startswith p prefix then None else Some (drop (length prefix) p))"

text \<open>The two entries of a rename: the old path when it is in scope, then the new one.\<close>

definition rename_entries :: "string \<Rightarrow> string \<Rightarrow> string \<Rightarrow> changed_file list" where
  "rename_entries prefix old new =
     (let ro = rel_path prefix old; rn = rel_path prefix new
      in (case ro of None \<Rightarrow> [] | Some p \<Rightarrow> [(plain_file p ''R'')\<lparr>f_renamed_to := Some rn\<rparr>])
         @ (case rn of None \<Rightarrow> [] | Some p \<Rightarrow> [(plain_file p ''A'')\<lparr>f_renamed_from := Some ro\<rparr>]))"

definition diff_status :: "char \<Rightarrow> string" where
  "diff_status c = (if c = CHR ''A'' then ''A'' else if c = CHR ''D'' then ''D'' else ''M'')"

fun diff_entries :: "string \<Rightarrow> string list \<Rightarrow> exc + changed_file list" where
  "diff_entries prefix [] = Inr []"
| "diff_entries prefix ([] # parts) = Inr []"
| "diff_entries prefix ((c # st) # parts) =
     (if c = CHR ''R'' \<or> c = CHR ''C''
      then (case parts of
              old # new # rest \<Rightarrow>
                bindE (diff_entries prefix rest) (\<lambda>fs.
                  Inr ((if c = CHR ''R'' then rename_entries prefix old new
                        else case rel_path prefix new of None \<Rightarrow> [] | Some p \<Rightarrow> [plain_file p ''A'']) @ fs))
            | _ \<Rightarrow> Inl IndexError)
      else (case parts of
              p # rest \<Rightarrow>
                bindE (diff_entries prefix rest) (\<lambda>fs.
                  Inr ((case rel_path prefix p of
                          None \<Rightarrow> [] | Some q \<Rightarrow> [plain_file q (diff_status c)]) @ fs))
            | [] \<Rightarrow> Inl IndexError))"

definition diff_files :: "string \<Rightarrow> string \<Rightarrow> exc + changed_file list" where
  "diff_files prefix out = bindE (diff_entries prefix (split_on nul out)) (\<lambda>fs. Inr (sort_files fs))"

definition worktree_status :: "string \<Rightarrow> string" where
  "worktree_status code =
     (if CHR ''D'' \<in> set code then ''D''
      else if code = ''??'' \<or> CHR ''A'' \<in> set code then ''A'' else ''M'')"

text \<open>
  \<^verbatim>\<open>code[0]\<close> and \<^verbatim>\<open>code[1]\<close>: the second index is read only when the first character is not
  \<^verbatim>\<open>R\<close>, and a record of one character has none.
\<close>

fun worktree_entries :: "string \<Rightarrow> string list \<Rightarrow> exc + changed_file list" where
  "worktree_entries prefix [] = Inr []"
| "worktree_entries prefix ([] # parts) = Inr []"
| "worktree_entries prefix ((c # rec) # parts) =
     (let code = take 2 (c # rec); p = drop 3 (c # rec)
      in if c \<noteq> CHR ''R'' \<and> rec = [] then Inl IndexError
         else if c = CHR ''R'' \<or> hd rec = CHR ''R''
         then (case parts of
                 [] \<Rightarrow> Inl IndexError
               | old # rest \<Rightarrow>
                   bindE (worktree_entries prefix rest) (\<lambda>fs. Inr (rename_entries prefix old p @ fs)))
         else bindE (worktree_entries prefix parts) (\<lambda>fs.
                Inr ((case rel_path prefix p of
                        None \<Rightarrow> [] | Some q \<Rightarrow> [plain_file q (worktree_status code)]) @ fs)))"

definition worktree_files :: "string \<Rightarrow> string \<Rightarrow> exc + changed_file list" where
  "worktree_files prefix out =
     bindE (worktree_entries prefix (split_on nul out)) (\<lambda>fs. Inr (sort_files fs))"

subsection \<open>Contents at a revision\<close>

definition control_char :: "char \<Rightarrow> bool" where
  "control_char c \<longleftrightarrow> (of_char c :: nat) < 32 \<or> (of_char c :: nat) = 127"

definition source_path :: "string \<Rightarrow> gexc + string" where
  "source_path r =
     (if r = [] \<or> startswith r ''/'' \<or> CHR 0x5C \<in> set r \<or> CHR '':'' \<in> set r
         \<or> list_ex control_char r \<or> ''..'' \<in> set (split_on (CHR ''/'') r)
      then Inl (Refuse ''SOURCE_PATH_INVALID'' [])
      else let p = join ''/'' (filter (\<lambda>part. part \<noteq> [] \<and> part \<noteq> ''.'') (split_on (CHR ''/'') r))
           in if p = [] then Inl (Refuse ''SOURCE_PATH_INVALID'' []) else Inr p)"

text \<open>The answers for the requested names, one after another (\<^verbatim>\<open>res\<close> keeps the caller's spelling).\<close>

fun read_batch :: "string list \<Rightarrow> string \<Rightarrow> exc + (string \<times> string option) list" where
  "read_batch [] out = Inr []"
| "read_batch (r # rs) out =
     (if newline \<notin> set out then Inl ValueError
      else let header = takeWhile (\<lambda>c. c \<noteq> newline) out; rest = drop (Suc (length header)) out
           in if endswith header '' missing''
              then bindE (read_batch rs rest) (\<lambda>res. Inr ((r, None) # res))
              else (case split_ws header of
                      _ # _ # sz # _ \<Rightarrow>
                        bindE (parse_nat sz) (\<lambda>n.
                          bindE (read_batch rs (drop (Suc n) rest)) (\<lambda>res.
                            Inr ((r, Some (take n rest)) # res)))
                    | _ \<Rightarrow> Inl IndexError))"

definition batch_request :: "string \<Rightarrow> string \<Rightarrow> string list \<Rightarrow> string" where
  "batch_request rv prefix paths = concat (map (\<lambda>p. rv @ '':'' @ prefix @ p @ [newline]) paths)"

text \<open>
  A path requested twice is answered twice and keeps one dictionary entry.
\<close>

definition read_at ::
  "(string \<Rightarrow> string) \<Rightarrow> string \<Rightarrow> string \<Rightarrow> string list \<Rightarrow> gexc + (string \<times> string option) list" where
  "read_at cat_file prefix rv rels =
     bindE (mapE source_path rels) (\<lambda>paths.
       (case read_batch rels (cat_file (batch_request rv prefix paths)) of
          Inl x \<Rightarrow> Inl (Exc x)
        | Inr res \<Rightarrow> Inr (fold (\<lambda>(k, v). AList.update k v) res [])))"

subsection \<open>Round trips\<close>

text \<open>The records that \<^verbatim>\<open>git diff --name-status -z\<close> prints, each field ended by a NUL.\<close>

datatype diff_record =
    Plain char string
  | Renamed string string string
  | Copied string string string

fun diff_fields :: "diff_record \<Rightarrow> string list" where
  "diff_fields (Plain c p) = [[c], p]"
| "diff_fields (Renamed score old new) = [CHR ''R'' # score, old, new]"
| "diff_fields (Copied score old new) = [CHR ''C'' # score, old, new]"

fun diff_meaning :: "string \<Rightarrow> diff_record \<Rightarrow> changed_file list" where
  "diff_meaning prefix (Plain c p) =
     (case rel_path prefix p of None \<Rightarrow> [] | Some q \<Rightarrow> [plain_file q (diff_status c)])"
| "diff_meaning prefix (Renamed score old new) = rename_entries prefix old new"
| "diff_meaning prefix (Copied score old new) =
     (case rel_path prefix new of None \<Rightarrow> [] | Some q \<Rightarrow> [plain_file q ''A''])"

definition print_nul :: "string list \<Rightarrow> string" where
  "print_nul fs = concat (map (\<lambda>f. f @ [nul]) fs)"

fun diff_record_ok :: "diff_record \<Rightarrow> bool" where
  "diff_record_ok (Plain c p) \<longleftrightarrow> c \<noteq> CHR ''R'' \<and> c \<noteq> CHR ''C'' \<and> c \<noteq> nul \<and> nul \<notin> set p"
| "diff_record_ok (Renamed score old new) \<longleftrightarrow> nul \<notin> set score \<union> set old \<union> set new"
| "diff_record_ok (Copied score old new) \<longleftrightarrow> nul \<notin> set score \<union> set old \<union> set new"

lemma split_on_field: "c \<notin> set f \<Longrightarrow> split_on c (f @ c # s) = f # split_on c s"
  by (induction f) auto

lemma split_print_nul: "list_all (\<lambda>f. nul \<notin> set f) fs \<Longrightarrow> split_on nul (print_nul fs) = fs @ [[]]"
  by (induction fs) (simp_all add: print_nul_def split_on_field)

lemma diff_entries_fields:
  "list_all diff_record_ok recs \<Longrightarrow>
     diff_entries prefix (concat (map diff_fields recs) @ [[]]) = Inr (concat (map (diff_meaning prefix) recs))"
proof (induction recs)
  case (Cons r recs)
  then show ?case by (cases r) (auto split: option.split)
qed simp

lemma diff_fields_nul_free: "diff_record_ok r \<Longrightarrow> list_all (\<lambda>f. nul \<notin> set f) (diff_fields r)"
  by (cases r) (auto simp: nul_def)

text \<open>
  C19: reading a diff is a round trip.  Whatever records \<^verbatim>\<open>git diff --name-status -z\<close> prints,
  \<^verbatim>\<open>diff_files\<close> recovers their meaning, sorted by path: a rename as a removed and an added path,
  a copy as an added one, and nothing for a path outside the scope.
\<close>

theorem diff_files_roundtrip:
  assumes "list_all diff_record_ok recs"
  shows "diff_files prefix (print_nul (concat (map diff_fields recs))) =
           Inr (sort_files (concat (map (diff_meaning prefix) recs)))"
proof -
  have "list_all (\<lambda>f. nul \<notin> set f) (concat (map diff_fields recs))"
    using assms diff_fields_nul_free by (auto simp: list_all_iff)
  then show ?thesis
    by (simp add: diff_files_def split_print_nul diff_entries_fields [OF assms])
qed

definition sample_diff :: "diff_record list" where
  "sample_diff = [Plain (CHR ''M'') ''app/b.ts'', Renamed ''100'' ''app/c.ts'' ''lib/d.ts'', Copied ''90'' ''x'' ''app/a.ts'']"

theorem diff_files_roundtrip_witness:
  "list_all diff_record_ok sample_diff
   \<and> diff_files ''app/'' (print_nul (concat (map diff_fields sample_diff))) =
       Inr [plain_file ''a.ts'' ''A'', plain_file ''b.ts'' ''M'',
            (plain_file ''c.ts'' ''R'')\<lparr>f_renamed_to := Some None\<rparr>]"
proof -
  have ok: "list_all diff_record_ok sample_diff" by code_simp
  moreover have "sort_files (concat (map (diff_meaning ''app/'') sample_diff)) =
      [plain_file ''a.ts'' ''A'', plain_file ''b.ts'' ''M'',
       (plain_file ''c.ts'' ''R'')\<lparr>f_renamed_to := Some None\<rparr>]" by code_simp
  ultimately show ?thesis using diff_files_roundtrip [OF ok, of "''app/''"] by (metis (lifting))
qed

text \<open>
  \<^verbatim>\<open>git cat-file --batch\<close>: one answer per request line, \<^verbatim>\<open><oid> blob <size>\<close> and the contents, or
  the request line followed by \<^verbatim>\<open>missing\<close>.
\<close>

definition batch_answer :: "(string \<Rightarrow> string) \<Rightarrow> (string \<Rightarrow> string option) \<Rightarrow> string \<Rightarrow> string" where
  "batch_answer oid store line =
     (case store line of
        None \<Rightarrow> line @ '' missing'' @ [newline]
      | Some content \<Rightarrow>
          oid content @ '' blob '' @ show_nat (length content) @ [newline] @ content @ [newline])"

definition git_cat_file :: "(string \<Rightarrow> string) \<Rightarrow> (string \<Rightarrow> string option) \<Rightarrow> string \<Rightarrow> string" where
  "git_cat_file oid store request =
     concat (map (batch_answer oid store) (butlast (split_on newline request)))"

definition object_name :: "string \<Rightarrow> bool" where
  "object_name ob \<longleftrightarrow> ob \<noteq> [] \<and> list_all (\<lambda>c. \<not> is_space c) ob"

lemma newline_space: "is_space newline" "is_space (CHR '' '')"
  by (simp_all add: newline_def is_space_def)

lemma not_space_no_newline: "list_all (\<lambda>c. \<not> is_space c) s \<Longrightarrow> newline \<notin> set s"
  using newline_space by (auto simp: list_all_iff)

lemma digits_word: "list_all (\<lambda>c. \<not> is_space c) (show_nat n)" "newline \<notin> set (show_nat n)"
  using show_nat_digits [of n] digit_not_space by (auto simp: list_all_iff)

lemma endswith_last: "s \<noteq> [] \<Longrightarrow> p \<noteq> [] \<Longrightarrow> last s \<noteq> last p \<Longrightarrow> \<not> endswith s p"
  by (auto simp: endswith_iff)

lemma takeWhile_line: "newline \<notin> set h \<Longrightarrow> takeWhile (\<lambda>c. c \<noteq> newline) (h @ newline # s) = h"
  by (induction h) auto

lemma read_batch_line:
  assumes "newline \<notin> set h"
  shows "read_batch (r # rs) (h @ newline # rest) =
     (if endswith h '' missing''
      then bindE (read_batch rs rest) (\<lambda>res. Inr ((r, None) # res))
      else (case split_ws h of
              _ # _ # sz # _ \<Rightarrow>
                bindE (parse_nat sz) (\<lambda>n.
                  bindE (read_batch rs (drop (Suc n) rest)) (\<lambda>res.
                    Inr ((r, Some (take n rest)) # res)))
            | _ \<Rightarrow> Inl IndexError))"
  using takeWhile_line [OF assms, of rest]
  by (simp add: Let_def Suc_diff_le split: list.split)

lemma read_batch_missing:
  assumes "newline \<notin> set line"
  shows "read_batch (r # rs) (line @ '' missing'' @ newline # s) =
           bindE (read_batch rs s) (\<lambda>res. Inr ((r, None) # res))"
proof -
  have "newline \<notin> set (line @ '' missing'')" using assms by (simp add: newline_def)
  moreover have "endswith (line @ '' missing'') '' missing''" by (auto simp: endswith_iff)
  ultimately show ?thesis using read_batch_line [of "line @ '' missing''" r rs s] by simp
qed

lemma read_batch_blob:
  assumes "object_name ob"
  shows "read_batch (r # rs) (ob @ '' blob '' @ show_nat (length content) @ newline # content @ newline # s) =
           bindE (read_batch rs s) (\<lambda>res. Inr ((r, Some content) # res))"
proof -
  let ?n = "show_nat (length content)"
  let ?h = "ob @ '' blob '' @ ?n"
  have n: "?n \<noteq> []" "list_all (\<lambda>c. \<not> is_space c) ?n" using show_nat_digits digits_word by auto
  have h: "newline \<notin> set ?h"
    using assms digits_word(2) not_space_no_newline [of ob] by (auto simp: newline_def object_name_def)
  have "is_digit (last ?n)" using show_nat_digits [of "length content"] by (simp add: list_all_iff)
  then have "\<not> endswith ?h '' missing''"
    using n by (intro endswith_last) (auto simp: is_digit_def)
  moreover have "split_ws ?h = [ob, ''blob'', ?n]"
  proof -
    have "split_ws ?h = ob # split_ws (''blob'' @ CHR '' '' # ?n)"
      using split_ws_word [of ob "CHR '' ''" "''blob '' @ ?n"] assms newline_space
      by (simp add: object_name_def)
    also have "split_ws (''blob'' @ CHR '' '' # ?n) = ''blob'' # split_ws ?n"
      by (rule split_ws_word) (simp_all add: is_space_def)
    finally show ?thesis using split_ws_last n by simp
  qed
  ultimately show ?thesis
    using read_batch_line [OF h, of r rs "content @ newline # s"] by simp
qed

lemma read_batch_answer:
  assumes "object_name (oid (the (store l)))" "newline \<notin> set l"
  shows "read_batch (r # rs) (batch_answer oid store l @ s) =
           bindE (read_batch rs s) (\<lambda>res. Inr ((r, store l) # res))"
proof (cases "store l")
  case None
  then show ?thesis using read_batch_missing [OF assms(2), of r rs s] by (simp add: batch_answer_def)
next
  case (Some content)
  then show ?thesis
    using read_batch_blob [of "oid content" r rs content s] assms(1) by (simp add: batch_answer_def)
qed

lemma read_batch_answers:
  assumes "\<And>c. object_name (oid c)" "length rels = length lines" "list_all (\<lambda>l. newline \<notin> set l) lines"
  shows "read_batch rels (concat (map (batch_answer oid store) lines)) = Inr (zip rels (map store lines))"
  using assms(2,3)
proof (induction rels lines rule: list_induct2)
  case (Cons r rs l ls)
  then show ?case using read_batch_answer [of oid store l r rs] assms(1)
    by (simp del: read_batch.simps)
qed simp

lemma source_path_no_newline: "source_path r = Inr p \<Longrightarrow> newline \<notin> set p"
proof -
  assume a: "source_path r = Inr p"
  then have clean: "\<not> list_ex control_char r"
    and p: "p = join ''/'' (filter (\<lambda>part. part \<noteq> [] \<and> part \<noteq> ''.'') (split_on (CHR ''/'') r))"
    by (auto simp: source_path_def Let_def split: if_splits)
  have "set (join sep xs) \<subseteq> set sep \<union> \<Union> (set ` set xs)" for sep :: string and xs
    by (induction sep xs rule: join.induct) auto
  moreover have "\<Union> (set ` set (split_on c s)) \<subseteq> set s" for c s
    by (induction s) (auto split: list.splits if_splits, blast+)
  ultimately have "set p \<subseteq> insert (CHR ''/'') (set r)" unfolding p by fastforce
  moreover have "control_char newline" "newline \<noteq> CHR ''/''"
    by (simp_all add: control_char_def newline_def)
  ultimately show ?thesis using clean by (auto simp: list_ex_iff)
qed

lemma split_on_lines:
  "list_all (\<lambda>l. c \<notin> set l) ls \<Longrightarrow> split_on c (concat (map (\<lambda>l. l @ [c]) ls)) = ls @ [[]]"
  by (induction ls) (simp_all add: split_on_field)

lemma mapE_list_all: "mapE f xs = Inr ys \<Longrightarrow> (\<And>x y. f x = Inr y \<Longrightarrow> P y) \<Longrightarrow> list_all P ys"
  by (induction xs arbitrary: ys) auto

lemma mapE_length: "mapE f xs = Inr ys \<Longrightarrow> length ys = length xs"
  by (induction xs arbitrary: ys) auto

lemma read_at_git:
  assumes oid: "\<And>c. object_name (oid c)" and clean: "newline \<notin> set (rv @ prefix)"
  shows "read_at (git_cat_file oid store) prefix rv rels =
           bindE (mapE source_path rels) (\<lambda>paths.
             Inr (fold (\<lambda>(k, v). AList.update k v)
                    (zip rels (map (\<lambda>p. store (rv @ '':'' @ prefix @ p)) paths)) []))"
proof (cases "mapE source_path rels")
  case (Inr paths)
  let ?lines = "map (\<lambda>p. rv @ '':'' @ prefix @ p) paths"
  have "list_all (\<lambda>p. newline \<notin> set p) paths"
    by (rule mapE_list_all [OF Inr]) (rule source_path_no_newline)
  then have lines: "list_all (\<lambda>l. newline \<notin> set l) ?lines"
    using clean by (auto simp: list_all_iff newline_def)
  have "split_on newline (batch_request rv prefix paths) = ?lines @ [[]]"
    using split_on_lines [OF lines] by (simp add: batch_request_def comp_def)
  then have "read_batch rels (git_cat_file oid store (batch_request rv prefix paths)) =
      Inr (zip rels (map store ?lines))"
    using read_batch_answers [OF oid _ lines, of rels] mapE_length [OF Inr]
    by (simp add: git_cat_file_def)
  then show ?thesis by (simp add: read_at_def Inr comp_def)
qed (simp add: read_at_def)

text \<open>
  reading file contents at a revision is a round trip.  Against a git that answers the
  batch protocol, \<^verbatim>\<open>read_at\<close> returns for every requested name the bytes stored under its
  normalised path, or nothing when there are none, whatever bytes the contents hold; a name
  that would leave the scope is refused before git is asked.
\<close>

lemma read_at_roundtrip:
  assumes "\<And>c. object_name (oid c)" and "newline \<notin> set (rv @ prefix)"
  shows "read_at (git_cat_file oid store) prefix rv rels =
           bindE (mapE source_path rels) (\<lambda>paths.
             Inr (fold (\<lambda>(k, v). AList.update k v)
                    (zip rels (map (\<lambda>p. store (rv @ '':'' @ prefix @ p)) paths)) []))"
  by (rule read_at_git [OF assms])

definition sample_store :: "string \<Rightarrow> string option" where
  "sample_store = map_of [(''r1:app/package.json'', ''two'' @ [newline] @ ''lines missing'' @ [newline])]"

lemma read_at_roundtrip_witness:
  "read_at (git_cat_file (\<lambda>_. ''5f3a'') sample_store) ''app/'' ''r1'' [''./package.json'', ''b.ts''] =
     Inr [(''./package.json'', Some (''two'' @ [newline] @ ''lines missing'' @ [newline])), (''b.ts'', None)]"
proof -
  have "object_name ''5f3a''" "newline \<notin> set (''r1'' @ ''app/'')" by code_simp+
  moreover have "mapE source_path [''./package.json'', ''b.ts''] = Inr [''package.json'', ''b.ts'']"
    by code_simp
  ultimately show ?thesis
    using read_at_roundtrip [of "\<lambda>_. ''5f3a''" "''r1''" "''app/''" sample_store "[''./package.json'', ''b.ts'']"]
    by (simp add: sample_store_def)
qed

end
