(* ===== verification/ImpactChange.thy ===== *)
theory ImpactChange
  imports ImpactTraverse ImpactRepo
begin

section \<open>Classification of changed files\<close>

text \<open>
  \<^verbatim>\<open>classify_file\<close>, \<^verbatim>\<open>_safe_relative_path\<close>, \<^verbatim>\<open>deployable_root_for_uncovered\<close>,
  \<^verbatim>\<open>_is_deployable_asset_path\<close> and \<^verbatim>\<open>_committed_full_test_is_supported\<close> of \<^verbatim>\<open>tools/graph/impact.py\<close>.
  The two regular expressions of the file are written out as predicates; \<open>chomp\<close> accounts for
  \<^verbatim>\<open>$\<close>, which also matches before a final newline.
\<close>

definition LOCKFILES :: "string list" where
  "LOCKFILES = [''pnpm-lock.yaml'', ''package-lock.json'', ''yarn.lock'', ''npm-shrinkwrap.json'',
                ''Cargo.lock'', ''poetry.lock'', ''uv.lock'', ''bun.lockb'', ''bun.lock'']"

definition GLOBAL_ROOT_FILES :: "string list" where
  "GLOBAL_ROOT_FILES = [''package.json'', ''nx.json'', ''turbo.json'', ''pnpm-workspace.yaml'', ''lerna.json'',
                        ''.npmrc'', ''.nvmrc'', ''.env.example'', ''.env.schema'', ''.env.template'',
                        ''env.schema.json'']"

definition CODE_EXTS :: "string list" where
  "CODE_EXTS = [''.ts'', ''.tsx'', ''.js'', ''.jsx'', ''.mjs'', ''.cjs'', ''.mts'', ''.cts'']"

definition DOC_EXTS :: "string list" where
  "DOC_EXTS = [''.md'', ''.mdx'', ''.rst'', ''.txt'', ''.adoc'']"

definition CONFIG_EXTS :: "string list" where
  "CONFIG_EXTS = [''.json'', ''.yml'', ''.yaml'', ''.toml'', ''.ini'', ''.env'', ''.cfg'', ''.conf'', ''.properties'']"

definition DOC_KINDS :: "string list" where
  "DOC_KINDS = [''doc'', ''receipt'']"

definition FALLBACK_KINDS :: "string list" where
  "FALLBACK_KINDS = [''lockfile'', ''global_config'']"

subsection \<open>The regular expressions\<close>

text \<open>\<^verbatim>\<open>(^|/)(test|tests|__tests__|e2e|spec)(/|$)|\.(spec|test)\.[cm]?[jt]sx?$\<close>\<close>

definition TEST_DIRS :: "string list" where
  "TEST_DIRS = [''test'', ''tests'', ''__tests__'', ''e2e'', ''spec'']"

definition TEST_SUFFIXES :: "string list" where
  "TEST_SUFFIXES =
     concat (map (\<lambda>a. concat (map (\<lambda>m. concat (map (\<lambda>j. map (\<lambda>x.
       ''.'' @ a @ ''.'' @ m @ j @ ''s'' @ x) ['''', ''x'']) [''j'', ''t''])) ['''', ''c'', ''m'']))
       [''spec'', ''test''])"

definition TEST_RE :: "string \<Rightarrow> bool" where
  "TEST_RE p \<longleftrightarrow>
     list_ex (\<lambda>c. c \<in> set TEST_DIRS) (split_on (CHR ''/'') p)
     \<or> last (split_on (CHR ''/'') (chomp p)) \<in> set TEST_DIRS
     \<or> list_ex (\<lambda>e. endswith p e \<or> endswith (chomp p) e) TEST_SUFFIXES"

text \<open>\<^verbatim>\<open>(^|/)prisma/migrations/.*\.sql$\<close>\<close>

fun slash_tails :: "string \<Rightarrow> string list" where
  "slash_tails [] = []"
| "slash_tails (c # s) = (if c = CHR ''/'' then s # slash_tails s else slash_tails s)"

definition migration_at :: "string \<Rightarrow> bool" where
  "migration_at s \<longleftrightarrow>
     startswith s ''prisma/migrations/''
     \<and> (let r = chomp (drop 18 s) in endswith r ''.sql'' \<and> newline \<notin> set r)"

definition MIGRATION_RE :: "string \<Rightarrow> bool" where
  "MIGRATION_RE p \<longleftrightarrow> list_ex migration_at (p # slash_tails p)"

subsection \<open>Kinds of files\<close>

text \<open>\<^verbatim>\<open>{idx.nodes[i]["type"] for i in idx.by_path.get(path, [])}\<close>; the identifiers are keys of \<^verbatim>\<open>nodes\<close>.\<close>

definition nodes_at :: "graph_index \<Rightarrow> string \<Rightarrow> gnode list" where
  "nodes_at idx p = List.map_filter (map_of (idx_nodes idx)) (get_list (idx_by_path idx) p)"

definition classify_node_types :: "string list \<Rightarrow> string option" where
  "classify_node_types types =
     (if ''systemd_unit'' \<in> set types then Some ''systemd_unit''
      else if ''source_file'' \<in> set types then Some ''source_file''
      else if ''contract'' \<in> set types then Some ''contract''
      else if ''route'' \<in> set types then Some ''route'' else None)"

definition classify_file :: "string \<Rightarrow> graph_index option \<Rightarrow> string" where
  "classify_file p idx =
     (let base = basename p; ext = lower (ext_of base); is_root = CHR ''/'' \<notin> set p;
          ns = (case idx of None \<Rightarrow> [] | Some ix \<Rightarrow> nodes_at ix p)
      in if base \<in> set LOCKFILES then ''lockfile''
         else if is_root \<and> (base \<in> set GLOBAL_ROOT_FILES \<or> startswith base ''tsconfig'' \<and> ext = ''.json'')
         then ''global_config''
         else if startswith p ''receipts/'' \<and> ext = ''.json'' then ''receipt''
         else if ext = ''.prisma'' \<or> MIGRATION_RE p then ''data_model''
         else if ext = ''.bats''
                 \<or> TEST_RE p \<and> (ext \<in> set CODE_EXTS \<or> ext \<in> {''.json'', ''.py'', ''.sh'', ''.bash''})
         then ''test''
         else case classify_node_types (map n_type ns) of
                Some k \<Rightarrow> k
              | None \<Rightarrow>
                  if ext \<in> set DOC_EXTS \<or> startswith p ''docs/'' \<or> contains p ''/docs/'' then ''doc''
                  else if ext \<in> set CODE_EXTS \<or> ext \<in> {''.sh'', ''.bash''}
                          \<or> list_ex (\<lambda>n. n_kind n = Some ''bash_source'') ns
                  then ''code''
                  else if ext \<in> set CONFIG_EXTS \<or> startswith base ''.env'' \<or> base = ''Dockerfile''
                          \<or> startswith p ''.github/''
                  then ''config'' else ''other'')"

subsection \<open>Deployable roots\<close>

definition safe_relative_path :: "bool \<Rightarrow> string \<Rightarrow> string option" where
  "safe_relative_path is_root p =
     (if p = [] \<or> CHR 0x5C \<in> set p \<or> CHR '':'' \<in> set p then None
      else if list_ex control_char p then None
      else if is_root \<and> p = ''.'' then Some ''.''
      else if startswith p ''/'' then None
      else let parts = split_on (CHR ''/'') p
           in if list_ex (\<lambda>part. part = [] \<or> part = ''.'' \<or> part = ''..'') parts then None
              else Some (join ''/'' parts))"

definition root_contains :: "string \<Rightarrow> string \<Rightarrow> bool" where
  "root_contains r rel \<longleftrightarrow> r = ''.'' \<or> startswith rel (r @ ''/'')"

definition root_depth :: "string \<Rightarrow> nat" where
  "root_depth r = (if r = ''.'' then 0 else length (split_on (CHR ''/'') r))"

definition root_matches :: "graph_index \<Rightarrow> string \<Rightarrow> (nat \<times> string) list" where
  "root_matches idx rel =
     map (\<lambda>r. (root_depth r, r))
       (filter (\<lambda>r. root_contains r rel)
         (List.map_filter (\<lambda>(raw, ids). safe_relative_path True raw) (idx_deployable_ids_by_path idx)))"

definition deployable_root_for_uncovered :: "graph_index \<Rightarrow> string \<Rightarrow> string option" where
  "deployable_root_for_uncovered idx p =
     (case safe_relative_path False p of
        None \<Rightarrow> None
      | Some rel \<Rightarrow>
          (case root_matches idx rel of
             [] \<Rightarrow> None
           | m # ms \<Rightarrow>
               (let deepest = fold max (map fst ms) (fst m);
                    roots = sort (remdups (map snd (filter (\<lambda>(d, r). d = deepest) (m # ms))))
                in if length roots \<noteq> 1
                      \<or> length (get_list (idx_deployable_ids_by_path idx) (hd roots)) \<noteq> 1
                   then None else Some (hd roots))))"

definition is_deployable_asset_path :: "string \<Rightarrow> bool" where
  "is_deployable_asset_path p =
     (case safe_relative_path False p of
        None \<Rightarrow> False
      | Some rel \<Rightarrow>
          (let suffix = lower (ext_of rel)
           in suffix \<in> {''.php'', ''.css''}
              \<or> suffix = ''.json''
                \<and> list_ex (\<lambda>part. part \<in> {''locale'', ''locales''}) (butlast (split_on (CHR ''/'') rel))))"

subsection \<open>The committed test declaration\<close>

definition command_supported :: "json option \<Rightarrow> bool" where
  "command_supported c =
     (case c of
        Some (JArr (a # as)) \<Rightarrow>
          list_all is_str (a # as) \<and> strip (str_of a) \<noteq> []
          \<and> list_all (\<lambda>x. nul \<notin> set (str_of x)) (a # as)
      | _ \<Rightarrow> False)"

definition timeout_supported :: "json option \<Rightarrow> bool" where
  "timeout_supported t =
     (case t of None \<Rightarrow> True | Some (JInt n) \<Rightarrow> 1 \<le> n \<and> n \<le> 7200 | _ \<Rightarrow> False)"

definition declaration_supported :: "dict \<Rightarrow> bool" where
  "declaration_supported d \<longleftrightarrow>
     command_supported (dget d ''full_test'') \<and> timeout_supported (dget d ''full_test_timeout_seconds'')"

definition profile_supports :: "json \<Rightarrow> string \<Rightarrow> bool" where
  "profile_supports profile root_dir =
     (case profile of
        JObj d \<Rightarrow>
          dget d ''schema'' = Some (JStr ''VerifyProfile/v1'')
          \<and> (case dget d ''deployables'' of
               Some (JObj ds) \<Rightarrow>
                 (case dget ds root_dir of Some (JObj decl) \<Rightarrow> declaration_supported decl | _ \<Rightarrow> False)
             | _ \<Rightarrow> False)
      | _ \<Rightarrow> False)"

text \<open>
  The repository as far as the queries read it: the answers of \<^verbatim>\<open>git cat-file --batch\<close>, the
  scope prefix, the files of the working tree, and \<^verbatim>\<open>json.loads\<close> as a parser that fails with
  \<^verbatim>\<open>ValueError\<close>.
\<close>

record repo =
  r_cat_file :: "string \<Rightarrow> string"
  r_prefix :: string
  r_worktree :: "string \<Rightarrow> string option"
  r_loads :: "string \<Rightarrow> json option"

definition VERIFY_PROFILE :: string where
  "VERIFY_PROFILE = ''.arcana/verify.json''"

definition committed_full_test_is_supported :: "repo option \<Rightarrow> string option \<Rightarrow> string \<Rightarrow> bool" where
  "committed_full_test_is_supported rp revision root_dir =
     (case (rp, revision) of
        (Some r, Some rv) \<Rightarrow>
          rv \<noteq> []
          \<and> (case read_at (r_cat_file r) (r_prefix r) rv [VERIFY_PROFILE] of
               Inl _ \<Rightarrow> False
             | Inr res \<Rightarrow>
                 (case map_of res VERIFY_PROFILE of
                    Some (Some raw) \<Rightarrow>
                      (case r_loads r raw of None \<Rightarrow> False | Some profile \<Rightarrow> profile_supports profile root_dir)
                  | _ \<Rightarrow> False))
      | _ \<Rightarrow> False)"

subsection \<open>The owner of an uncovered file\<close>

lemma safe_relative_path_id: "safe_relative_path b p = Some q \<Longrightarrow> q = p"
  by (auto simp: safe_relative_path_def Let_def join_split_on split: if_splits)

text \<open>The canonical roots that the graph declares.\<close>

definition declared_roots :: "graph_index \<Rightarrow> string set" where
  "declared_roots idx =
     {r. \<exists>raw ids. (raw, ids) \<in> set (idx_deployable_ids_by_path idx) \<and> safe_relative_path True raw = Some r}"

lemma root_matches_set:
  "set (root_matches idx rel) = (\<lambda>r. (root_depth r, r)) ` {r \<in> declared_roots idx. root_contains r rel}"
  unfolding root_matches_def declared_roots_def by (force simp: List.map_filter_def)

text \<open>
  An uncovered file is attributed to a deployable only when the owner is certain.  The
  root returned is declared by exactly one deployable unit of the graph, contains the file,
  and every other declared root that contains the file is strictly less specific.
\<close>

theorem deployable_root_unique:
  "case deployable_root_for_uncovered idx p of
     None \<Rightarrow> True
   | Some r \<Rightarrow>
       r \<in> declared_roots idx \<and> root_contains r p
       \<and> length (get_list (idx_deployable_ids_by_path idx) r) = 1
       \<and> {r' \<in> declared_roots idx. root_contains r' p} \<subseteq> insert r {r'. root_depth r' < root_depth r}"
proof (cases "deployable_root_for_uncovered idx p")
  case (Some r)
  then obtain rel m ms where rel: "safe_relative_path False p = Some rel"
    and m: "root_matches idx rel = m # ms"
    by (auto simp: deployable_root_for_uncovered_def split: option.splits list.splits)
  define deepest where "deepest = fold max (map fst ms) (fst m)"
  define roots where "roots = sort (remdups (map snd (filter (\<lambda>(d, r). d = deepest) (m # ms))))"
  have "length roots = 1" "length (get_list (idx_deployable_ids_by_path idx) (hd roots)) = 1" and r: "r = hd roots"
    using Some by (auto simp: deployable_root_for_uncovered_def rel m deepest_def roots_def Let_def split: if_splits)
  then have one: "roots = [r]" by (cases roots) auto
  have set_roots: "set roots = snd ` {x \<in> set (root_matches idx rel). fst x = deepest}"
    unfolding roots_def m by force
  then have sr: "set roots = {r' \<in> declared_roots idx. root_contains r' rel \<and> root_depth r' = deepest}"
    unfolding root_matches_set by force
  have max: "root_depth r' \<le> deepest" if "r' \<in> declared_roots idx" "root_contains r' rel" for r'
  proof -
    have "(root_depth r', r') \<in> set (m # ms)" using that root_matches_set [of idx rel] m by auto
    then have "root_depth r' \<in> insert (fst m) (set (map fst ms))" by force
    then show ?thesis unfolding deepest_def by (rule fold_max_ge)
  qed
  have p: "rel = p" using safe_relative_path_id [OF rel] .
  have "r \<in> set roots" by (simp add: one)
  then have rr: "r \<in> declared_roots idx" "root_contains r p" "root_depth r = deepest"
    using sr p by auto
  have "{r' \<in> declared_roots idx. root_contains r' p} \<subseteq> insert r {r'. root_depth r' < root_depth r}"
    using max sr one rr(3) p by (auto simp: order_less_le)
  then show ?thesis
    using Some rr \<open>length (get_list _ (hd roots)) = 1\<close> r by simp
qed simp

end
