(* ===== verification/ImpactSearch.thy ===== *)
theory ImpactSearch
  imports ImpactTraverse
begin

section \<open>Correctness of the impact traversal\<close>

text \<open>
  The specification of \<^verbatim>\<open>traverse\<close> is the relation \<open>walk\<close>: a chain of neighbour steps that
  starts at a seed, with the number of its hops that are not deterministic, its length and
  its hops.  The locale \<open>search\<close> fixes an index whose dictionaries have distinct keys and the
  arguments of one call; inside it the invariant of Dijkstra's algorithm is shown to be kept
  by every iteration (\<open>core_relax\<close>, \<open>core_pop_stale\<close>, \<open>core_pop_fresh\<close>), which gives that the
  loop returns within its fuel (\<open>traverse_loop_returns\<close>).  The locale is interpreted on every
  index that \<open>make_index\<close> builds.
\<close>

inductive walk ::
  "graph_index \<Rightarrow> string list \<Rightarrow> string list option \<Rightarrow> string list \<Rightarrow> string list
     \<Rightarrow> string \<Rightarrow> nat \<Rightarrow> nat \<Rightarrow> hop list \<Rightarrow> bool"
  for idx seeds edge_types rules open_containment
where
  walk_seed: "s \<in> set seeds \<Longrightarrow> walk idx seeds edge_types rules open_containment s 0 0 []"
| walk_step: "walk idx seeds edge_types rules open_containment n nd dep p \<Longrightarrow>
    neighbours idx n edge_types rules open_containment = Inr ns \<Longrightarrow> (e, m) \<in> set ns \<Longrightarrow>
    walk idx seeds edge_types rules open_containment m (nd + hop_weight rules e) (Suc dep) (p @ [hop_of e])"

lemma walk_length: "walk idx seeds et rules opn n nd dep p \<Longrightarrow> length p = dep"
  by (induction rule: walk.induct) auto

lemma walk_depth0: "walk idx seeds et rules opn n nd 0 p \<Longrightarrow> n \<in> set seeds"
  by (cases rule: walk.cases) auto

lemma walk_weight:
  assumes "walk idx seeds et rules opn n nd dep p" "''provenance_split'' \<in> set rules"
  shows "nd = length (filter (\<lambda>h. h_provenance h \<noteq> ''deterministic'') p)"
  using assms by (induction rule: walk.induct) (auto simp: hop_weight_def hop_of_def)

text \<open>The widest boundary that a path crosses.\<close>

definition path_boundary :: "hop list \<Rightarrow> string" where
  "path_boundary p = foldl max_boundary ''intra_unit'' (map h_boundary p)"

lemma path_boundary_snoc [simp]:
  "path_boundary [] = ''intra_unit''"
  "path_boundary (p @ [hop_of e]) = max_boundary (path_boundary p) (e_boundary e)"
  by (simp_all add: path_boundary_def hop_of_def)

subsection \<open>Keys\<close>

definition bkey :: "best_map \<Rightarrow> string \<Rightarrow> (nat \<times> nat) option" where
  "bkey best n = map_option (\<lambda>(a, b, _). (a, b)) (map_of best n)"

definition le_key :: "best_map \<Rightarrow> string \<Rightarrow> nat \<times> nat \<Rightarrow> bool" where
  "le_key best n k \<longleftrightarrow> (\<exists>k'. bkey best n = Some k' \<and> k' \<le> k)"

lemma bkey_update:
  "bkey (AList.update n (a, b, p) best) m = (if m = n then Some (a, b) else bkey best m)"
  by (simp add: bkey_def update_conv')

lemma improves_bkey: "improves k (map_of best n) \<longleftrightarrow> (\<forall>k'. bkey best n = Some k' \<longrightarrow> k < k')"
  by (auto simp: improves_def bkey_def split: option.splits)

lemma le_key_mono: "le_key best n k \<Longrightarrow> k \<le> k' \<Longrightarrow> le_key best n k'"
  unfolding le_key_def using order_trans by blast

lemma le_key_update:
  "improves (a, b) (map_of best n) \<Longrightarrow> le_key best m k \<Longrightarrow> le_key (AList.update n (a, b, p) best) m k"
  unfolding le_key_def improves_bkey bkey_update
  by (metis less_imp_le order_trans)

lemma key_less: "(nd, dep) < (nd + w, Suc dep)" for nd dep w :: nat
  by (auto simp: less_prod_def')

lemma key_step_mono:
  fixes a b a' b' w :: nat
  shows "(a', b') \<le> (a, b) \<Longrightarrow> (a' + w, Suc b') \<le> (a + w, Suc b)"
  by (auto simp: less_eq_prod_def)

lemma item_key_le: "(nd, dep, n) \<le> (a, b, m) \<Longrightarrow> (nd, dep) \<le> (a, b)"
  for nd dep a b :: nat and n m :: string
  by (auto simp: less_eq_prod_def)

subsection \<open>The invariant\<close>

locale search =
  fixes idx :: graph_index
    and seeds :: "string list"
    and limit :: "nat option"
    and edge_types :: "string list option"
    and rules :: "string list"
    and open_containment :: "string list"
  assumes distinct_rev: "distinct (map fst (idx_rev idx))"
    and distinct_fwd: "distinct (map fst (idx_fwd idx))"
begin

abbreviation W :: "string \<Rightarrow> nat \<Rightarrow> nat \<Rightarrow> hop list \<Rightarrow> bool" where
  "W \<equiv> walk idx seeds edge_types rules open_containment"

abbreviation nbrs :: "string \<Rightarrow> exc + (gedge \<times> string) list" where
  "nbrs n \<equiv> neighbours idx n edge_types rules open_containment"

abbreviation loop :: "nat \<Rightarrow> best_map \<Rightarrow> qitem list \<Rightarrow> (exc + best_map) option" where
  "loop fuel best heap \<equiv>
     traverse_loop fuel idx seeds limit edge_types rules open_containment best heap"

definition in_limit :: "nat \<Rightarrow> bool" where
  "in_limit b \<longleftrightarrow> (case limit of None \<Rightarrow> True | Some d \<Rightarrow> b \<le> d)"

definition expandable :: "nat \<Rightarrow> bool" where
  "expandable b \<longleftrightarrow> (case limit of None \<Rightarrow> True | Some d \<Rightarrow> b < d)"

definition core :: "string set \<Rightarrow> nat \<times> nat \<Rightarrow> best_map \<Rightarrow> qitem list \<Rightarrow> bool" where
  "core shut front best heap \<longleftrightarrow>
     sorted heap \<and> distinct heap
     \<and> (\<forall>s \<in> set seeds. bkey best s = Some (0, 0))
     \<and> (\<forall>n a b p bd. map_of best n = Some (a, b, p, bd) \<longrightarrow>
          W n a b p \<and> in_limit b \<and> bd = path_boundary p)
     \<and> (\<forall>a b n. (a, b, n) \<in> set heap \<longrightarrow> le_key best n (a, b) \<and> front \<le> (a, b))
     \<and> (\<forall>n a b. bkey best n = Some (a, b) \<longrightarrow> n \<in> shut \<or> (a, b, n) \<in> set heap)
     \<and> (\<forall>n \<in> shut. \<exists>a b. bkey best n = Some (a, b) \<and> (a, b) \<le> front \<and> (a, b, n) \<notin> set heap)"

definition settled_on :: "best_map \<Rightarrow> string \<Rightarrow> nat \<times> nat \<Rightarrow> (gedge \<times> string) list \<Rightarrow> bool" where
  "settled_on best n k ns \<longleftrightarrow>
     (\<forall>(e, m) \<in> set ns. m \<in> set seeds \<or> m = n
        \<or> le_key best m (fst k + hop_weight rules e, Suc (snd k)))"

definition settled :: "string set \<Rightarrow> best_map \<Rightarrow> bool" where
  "settled shut best \<longleftrightarrow>
     (\<forall>n \<in> shut. \<forall>k. bkey best n = Some k \<longrightarrow> expandable (snd k) \<longrightarrow>
        (\<exists>ns. nbrs n = Inr ns \<and> settled_on best n k ns))"

lemma coreD:
  assumes "core shut front best heap"
  shows "sorted heap" "distinct heap"
    and "s \<in> set seeds \<Longrightarrow> bkey best s = Some (0, 0)"
    and "map_of best n = Some (a, b, p, bd) \<Longrightarrow> W n a b p"
    and "map_of best n = Some (a, b, p, bd) \<Longrightarrow> in_limit b"
    and "(a, b, n) \<in> set heap \<Longrightarrow> le_key best n (a, b)"
    and "(a, b, n) \<in> set heap \<Longrightarrow> front \<le> (a, b)"
    and "bkey best n = Some (a, b) \<Longrightarrow> n \<in> shut \<or> (a, b, n) \<in> set heap"
    and "n \<in> shut \<Longrightarrow> \<exists>a b. bkey best n = Some (a, b) \<and> (a, b) \<le> front \<and> (a, b, n) \<notin> set heap"
    and "map_of best n = Some (a, b, p, bd) \<Longrightarrow> bd = path_boundary p"
  using assms unfolding core_def by blast+

subsection \<open>One relaxation\<close>

lemma relax_skip:
  "nxt \<in> set seeds \<or> nxt = node \<or> \<not> improves (nd + hop_weight rules e, Suc dep) (map_of best nxt) \<Longrightarrow>
     relax rules seeds node (nd, dep, path, bd) (e, nxt) (best, heap) = (best, heap)"
  by (auto simp: Let_def)

lemma core_push:
  assumes core: "core shut (nd, dep) best heap"
    and w: "W nxt (nd + x) (Suc dep) p" and "in_limit (Suc dep)"
    and imp: "improves (nd + x, Suc dep) (map_of best nxt)" and ns: "nxt \<notin> set seeds"
    and bd: "bd = path_boundary p"
  shows "core shut (nd, dep) (AList.update nxt (nd + x, Suc dep, p, bd) best)
           (heappush (nd + x, Suc dep, nxt) heap)"
    and "nxt \<notin> shut"
proof -
  let ?best = "AList.update nxt (nd + x, Suc dep, p, bd) best"
  have lt: "(nd, dep) < (nd + x, Suc dep)" by (rule key_less)
  show nc: "nxt \<notin> shut"
  proof
    assume "nxt \<in> shut"
    then obtain k where "bkey best nxt = Some k" "k \<le> (nd, dep)"
      using coreD(9) [OF core] by blast
    moreover from this(1) imp have "(nd + x, Suc dep) < k" by (simp add: improves_bkey)
    ultimately show False using lt by (metis less_le_trans less_trans less_irrefl)
  qed
  have new: "(nd + x, Suc dep, nxt) \<notin> set heap"
  proof
    assume "(nd + x, Suc dep, nxt) \<in> set heap"
    then have "le_key best nxt (nd + x, Suc dep)" by (rule coreD(6) [OF core])
    then show False using imp by (auto simp: improves_bkey le_key_def)
  qed
  have set_push: "set (heappush y heap) = insert y (set heap)" for y
    by (simp add: heappush_def set_insort_key)
  show "core shut (nd, dep) ?best (heappush (nd + x, Suc dep, nxt) heap)"
    unfolding core_def set_push
  proof (intro conjI allI ballI impI)
    show "sorted (heappush (nd + x, Suc dep, nxt) heap)"
      by (rule heapq.ok_push [OF coreD(1) [OF core]])
    show "distinct (heappush (nd + x, Suc dep, nxt) heap)"
      using coreD(2) [OF core] new by (simp add: heappush_def distinct_insort)
    fix s assume "s \<in> set seeds"
    then show "bkey ?best s = Some (0, 0)"
      using coreD(3) [OF core] ns by (auto simp: bkey_update)
  next
    fix n a b q bd' assume "map_of ?best n = Some (a, b, q, bd')"
    then show "W n a b q" "in_limit b" "bd' = path_boundary q"
      using w \<open>in_limit (Suc dep)\<close> bd coreD(4,5,10) [OF core] by (auto simp: update_conv' split: if_splits)
  next
    fix a b n assume in_heap: "(a, b, n) \<in> insert (nd + x, Suc dep, nxt) (set heap)"
    then show "le_key ?best n (a, b)"
    proof (cases "(a, b, n) = (nd + x, Suc dep, nxt)")
      case True
      then show ?thesis by (simp add: le_key_def bkey_update)
    next
      case False
      with in_heap show ?thesis by (auto intro: le_key_update [OF imp coreD(6) [OF core]])
    qed
    from in_heap show "(nd, dep) \<le> (a, b)"
      using coreD(7) [OF core] lt by auto
  next
    fix n a b assume "bkey ?best n = Some (a, b)"
    then show "n \<in> shut \<or> (a, b, n) \<in> insert (nd + x, Suc dep, nxt) (set heap)"
      using coreD(8) [OF core] by (auto simp: bkey_update split: if_splits)
  next
    fix n assume "n \<in> shut"
    then show "\<exists>a b. bkey ?best n = Some (a, b) \<and> (a, b) \<le> (nd, dep)
                 \<and> (a, b, n) \<notin> insert (nd + x, Suc dep, nxt) (set heap)"
      using coreD(9) [OF core] nc by (auto simp: bkey_update)
  qed
qed

text \<open>The effect of relaxing edges: keys only fall, and closed nodes keep theirs.\<close>

definition improved :: "string set \<Rightarrow> best_map \<Rightarrow> best_map \<Rightarrow> bool" where
  "improved shut best best' \<longleftrightarrow>
     (\<forall>n \<in> shut. map_of best' n = map_of best n) \<and> (\<forall>n k. le_key best n k \<longrightarrow> le_key best' n k)"

lemma improved_refl: "improved shut best best"
  by (simp add: improved_def)

lemma improved_trans: "improved shut a b \<Longrightarrow> improved shut b c \<Longrightarrow> improved shut a c"
  by (auto simp: improved_def)

lemma settled_on_improved: "improved shut best best' \<Longrightarrow> settled_on best n k ns \<Longrightarrow> settled_on best' n k ns"
  by (fastforce simp: improved_def settled_on_def)

lemma settled_improved: "improved shut best best' \<Longrightarrow> settled shut best \<Longrightarrow> settled shut best'"
  unfolding settled_def
proof (intro ballI allI impI)
  fix n k
  assume imp: "improved shut best best'"
    and s: "\<forall>n\<in>shut. \<forall>k. bkey best n = Some k \<longrightarrow> expandable (snd k) \<longrightarrow>
              (\<exists>ns. nbrs n = Inr ns \<and> settled_on best n k ns)"
    and n: "n \<in> shut" "bkey best' n = Some k" "expandable (snd k)"
  from imp n have "bkey best n = Some k" by (simp add: improved_def bkey_def)
  with s n obtain ns where "nbrs n = Inr ns" "settled_on best n k ns" by blast
  then show "\<exists>ns. nbrs n = Inr ns \<and> settled_on best' n k ns"
    using settled_on_improved [OF imp] by blast
qed

lemma core_relax:
  assumes core: "core shut (nd, dep) best heap"
    and node: "W node nd dep path" "nbrs node = Inr ns" "(e, nxt) \<in> set ns" "in_limit (Suc dep)"
    and bd: "bd = path_boundary path"
    and step: "relax rules seeds node (nd, dep, path, bd) (e, nxt) (best, heap) = (best', heap')"
  shows "core shut (nd, dep) best' heap' \<and> improved shut best best'
         \<and> length heap' \<le> Suc (length heap) \<and> settled_on best' node (nd, dep) [(e, nxt)]"
proof (cases "nxt \<in> set seeds \<or> nxt = node
               \<or> \<not> improves (nd + hop_weight rules e, Suc dep) (map_of best nxt)")
  case True
  then have same: "best' = best" "heap' = heap" using step relax_skip by auto
  have "settled_on best node (nd, dep) [(e, nxt)]"
    using True unfolding settled_on_def
    by (auto simp: improves_bkey le_key_def not_less)
  then show ?thesis using core by (simp add: same improved_refl)
next
  case False
  let ?x = "hop_weight rules e" and ?p = "path @ [hop_of e]" and ?bd = "max_boundary bd (e_boundary e)"
  have eq: "best' = AList.update nxt (nd + ?x, Suc dep, ?p, ?bd) best"
    "heap' = heappush (nd + ?x, Suc dep, nxt) heap"
    using step False by (auto simp: Let_def)
  have w: "W nxt (nd + ?x) (Suc dep) ?p" by (rule walk_step [OF node(1,2,3)])
  have imp: "improves (nd + ?x, Suc dep) (map_of best nxt)" and out: "nxt \<notin> set seeds"
    using False by auto
  have c: "core shut (nd, dep) best' heap'" "nxt \<notin> shut"
    unfolding eq by (rule core_push [OF core w node(4) imp out], simp add: bd)+
  have "improved shut best best'"
    using c(2) False le_key_update unfolding improved_def eq
    by (auto simp: update_conv')
  moreover have "settled_on best' node (nd, dep) [(e, nxt)]"
    by (simp add: settled_on_def eq le_key_def bkey_update)
  ultimately show ?thesis using c(1) by (simp add: eq(2) heappush_def)
qed

lemma core_relax_all:
  assumes "core shut (nd, dep) best heap" "W node nd dep path" "nbrs node = Inr ns" "in_limit (Suc dep)"
    and "bd = path_boundary path" and "set es \<subseteq> set ns"
    and "fold (relax rules seeds node (nd, dep, path, bd)) es (best, heap) = (best', heap')"
  shows "core shut (nd, dep) best' heap' \<and> improved shut best best'
         \<and> length heap' \<le> length heap + length es \<and> settled_on best' node (nd, dep) es"
  using assms
proof (induction es arbitrary: best heap)
  case Nil
  then show ?case by (simp add: improved_refl settled_on_def)
next
  case (Cons en es)
  obtain e nxt where en: "en = (e, nxt)" by fastforce
  obtain b1 h1 where r: "relax rules seeds node (nd, dep, path, bd) (e, nxt) (best, heap) = (b1, h1)"
    by fastforce
  have one: "core shut (nd, dep) b1 h1" "improved shut best b1" "length h1 \<le> Suc (length heap)"
    "settled_on b1 node (nd, dep) [(e, nxt)]"
    using core_relax [OF Cons.prems(1,2,3) _ Cons.prems(4,5) r] Cons.prems(6) en by auto
  have rest: "core shut (nd, dep) best' heap'" "improved shut b1 best'"
    "length heap' \<le> length h1 + length es" "settled_on best' node (nd, dep) es"
    using Cons.IH [OF one(1) Cons.prems(2,3,4,5)] Cons.prems(6,7) r by (simp_all add: en del: relax.simps)
  have "settled_on best' node (nd, dep) [(e, nxt)]"
    by (rule settled_on_improved [OF rest(2) one(4)])
  then have "settled_on best' node (nd, dep) (en # es)"
    using rest(4) by (simp add: settled_on_def en)
  then show ?case
    using rest one improved_trans [OF one(2) rest(2)] by simp
qed

subsection \<open>One iteration\<close>

lemma pop_facts:
  assumes core: "core shut front best heap" and pop: "heappop heap = Some ((nd, dep, node), heap')"
  shows "set heap = insert (nd, dep, node) (set heap')" "(nd, dep, node) \<notin> set heap'"
    "sorted heap'" "distinct heap'" "length heap = Suc (length heap')" "front \<le> (nd, dep)"
    "(a, b, n) \<in> set heap' \<Longrightarrow> (nd, dep) \<le> (a, b)" "le_key best node (nd, dep)"
proof -
  have heap: "heap = (nd, dep, node) # heap'" using pop by (auto simp: heappop_def split: list.splits)
  show "set heap = insert (nd, dep, node) (set heap')" "(nd, dep, node) \<notin> set heap'"
    "sorted heap'" "distinct heap'" "length heap = Suc (length heap')"
    using coreD(1,2) [OF core] by (auto simp: heap)
  show "front \<le> (nd, dep)" "le_key best node (nd, dep)"
    by (rule coreD(7) [OF core, where n = node], simp add: heap)
       (rule coreD(6) [OF core], simp add: heap)
  show "(nd, dep) \<le> (a, b)" if "(a, b, n) \<in> set heap'"
    by (rule item_key_le [OF heapq.pop_least [OF coreD(1) [OF core] pop], where m = n])
       (simp add: heap that)
qed

lemma core_pop_stale:
  assumes core: "core shut front best heap" and pop: "heappop heap = Some ((nd, dep, node), heap')"
    and stale: "bkey best node \<noteq> Some (nd, dep)"
  shows "core shut (nd, dep) best heap'"
proof -
  note p = pop_facts [OF core pop]
  show ?thesis
    unfolding core_def
  proof (intro conjI allI ballI impI)
    fix n a b assume "bkey best n = Some (a, b)"
    then show "n \<in> shut \<or> (a, b, n) \<in> set heap'"
      using coreD(8) [OF core] stale p(1) by auto
  next
    fix n assume "n \<in> shut"
    then show "\<exists>a b. bkey best n = Some (a, b) \<and> (a, b) \<le> (nd, dep) \<and> (a, b, n) \<notin> set heap'"
      using coreD(9) [OF core] p(1,6) order_trans by (metis insertCI)
  qed (use p coreD [OF core] in auto)
qed

lemma core_pop_fresh:
  assumes core: "core shut front best heap" and pop: "heappop heap = Some ((nd, dep, node), heap')"
    and fresh: "bkey best node = Some (nd, dep)"
  shows "core (insert node shut) (nd, dep) best heap'" "node \<notin> shut"
proof -
  note p = pop_facts [OF core pop]
  show "node \<notin> shut"
    using coreD(9) [OF core, of node] fresh p(1) by auto
  show "core (insert node shut) (nd, dep) best heap'"
    unfolding core_def
  proof (intro conjI allI ballI impI)
    fix n a b assume "bkey best n = Some (a, b)"
    then show "n \<in> insert node shut \<or> (a, b, n) \<in> set heap'"
      using coreD(8) [OF core] fresh p(1) by auto
  next
    fix n assume "n \<in> insert node shut"
    then consider "n = node" | "n \<in> shut" by blast
    then show "\<exists>a b. bkey best n = Some (a, b) \<and> (a, b) \<le> (nd, dep) \<and> (a, b, n) \<notin> set heap'"
    proof cases
      case 1
      then show ?thesis using fresh p(2) by auto
    next
      case 2
      then show ?thesis using coreD(9) [OF core] p(1,6) order_trans by (metis insertCI)
    qed
  qed (use p coreD [OF core] in auto)
qed

lemma settled_insert:
  "settled shut best \<Longrightarrow> bkey best node = Some k \<Longrightarrow>
     (expandable (snd k) \<Longrightarrow> \<exists>ns. nbrs node = Inr ns \<and> settled_on best node k ns) \<Longrightarrow>
     settled (insert node shut) best"
  unfolding settled_def by auto

lemma in_limit_Suc: "expandable b \<Longrightarrow> in_limit (Suc b)"
  by (auto simp: expandable_def in_limit_def split: option.splits)

subsection \<open>The fuel is enough\<close>

definition degree :: "string \<Rightarrow> nat" where
  "degree n = length (get_list (idx_rev idx) n) + length (get_list (idx_fwd idx) n)"

definition potential :: "string set \<Rightarrow> nat" where
  "potential shut = (\<Sum>n \<in> (fst ` set (idx_rev idx) \<union> fst ` set (idx_fwd idx)) - shut. degree n)"

lemma nbrs_degree: "nbrs n = Inr ns \<Longrightarrow> length ns \<le> degree n"
  by (auto simp: neighbours_def degree_def reverse_hops_def forward_hops_def Let_def
      intro!: add_mono le_trans [OF length_filter_le] split: if_splits option.splits)

lemma potential_insert:
  assumes "n \<notin> shut" shows "potential shut = degree n + potential (insert n shut)"
proof (cases "n \<in> fst ` set (idx_rev idx) \<union> fst ` set (idx_fwd idx)")
  case True
  then show ?thesis
    using assms unfolding potential_def
    by (subst sum.remove [of _ n]) (auto intro: sum.cong)
next
  case False
  then have "degree n = 0" by (simp add: degree_def)
  moreover from False have "A - insert n shut = A - shut"
    if "A = fst ` set (idx_rev idx) \<union> fst ` set (idx_fwd idx)" for A using that by auto
  ultimately show ?thesis by (simp add: potential_def)
qed

lemma sum_get_list_le:
  assumes "distinct (map fst d)" "finite A"
  shows "(\<Sum>k \<in> A. length (get_list d k)) \<le> sum_list (map (length \<circ> snd) d)"
proof -
  have "(\<Sum>k \<in> A. length (get_list d k)) = (\<Sum>k \<in> A \<inter> fst ` set d. length (get_list d k))"
    using assms(2) by (intro sum.mono_neutral_right) auto
  also have "\<dots> \<le> (\<Sum>k \<in> fst ` set d. length (get_list d k))"
    by (rule sum_mono2) auto
  finally show ?thesis using sum_get_list [OF assms(1)] by simp
qed

lemma potential_bound:
  "length seeds + potential {} \<le> traverse_fuel idx seeds"
  using sum_get_list_le [OF distinct_rev, of "fst ` set (idx_rev idx) \<union> fst ` set (idx_fwd idx)"]
    sum_get_list_le [OF distinct_fwd, of "fst ` set (idx_rev idx) \<union> fst ` set (idx_fwd idx)"]
  by (simp add: potential_def degree_def sum.distrib traverse_fuel_def)

subsection \<open>The loop\<close>

definition finished :: "best_map \<Rightarrow> bool" where
  "finished best \<longleftrightarrow> (\<exists>shut front. core shut front best [] \<and> settled shut best)"

lemma finishedI: "core shut front best [] \<Longrightarrow> settled shut best \<Longrightarrow> finished best"
  unfolding finished_def by blast

definition dangling :: "exc \<Rightarrow> bool" where
  "dangling x \<longleftrightarrow> (\<exists>n nd dep p. x = KeyError n \<and> W n nd dep p \<and> map_of (idx_nodes idx) n = None)"

lemma nbrs_Inl: "nbrs n = Inl x \<Longrightarrow> x = KeyError n \<and> map_of (idx_nodes idx) n = None"
  by (auto simp: neighbours_def Let_def split: if_splits option.splits)

lemma loop_step:
  assumes core: "core shut front best heap" and st: "settled shut best"
    and pop: "heappop heap = Some ((nd, dep, node), heap')"
    and fuel: "length heap + potential shut \<le> Suc fuel"
  shows "(\<exists>x. loop (Suc fuel) best heap = Some (Inl x) \<and> dangling x)
    \<or> (\<exists>shut' best' heap''. loop (Suc fuel) best heap = loop fuel best' heap''
         \<and> core shut' (nd, dep) best' heap'' \<and> settled shut' best'
         \<and> length heap'' + potential shut' \<le> fuel)"
proof -
  note p = pop_facts [OF core pop]
  from p(8) obtain a b path bd where entry: "map_of best node = Some (a, b, path, bd)"
    by (auto simp: le_key_def bkey_def)
  show ?thesis
  proof (cases "(a, b) = (nd, dep)")
    case False
    then have "bkey best node \<noteq> Some (nd, dep)" by (auto simp: bkey_def entry)
    moreover have "loop (Suc fuel) best heap = loop fuel best heap'"
      using False by (subst traverse_loop.simps) (auto simp: pop entry)
    ultimately show ?thesis
      using core_pop_stale [OF core pop] st fuel p(5) by auto
  next
    case True
    then have fresh: "bkey best node = Some (nd, dep)" by (simp add: bkey_def entry)
    note c = core_pop_fresh [OF core pop fresh]
    have w: "W node nd dep path" and bd: "bd = path_boundary path"
      using coreD(4,10) [OF core entry] True by simp_all
    have pot: "potential shut = degree node + potential (insert node shut)"
      by (rule potential_insert [OF c(2)])
    show ?thesis
    proof (cases "expandable dep")
      case False
      then have "loop (Suc fuel) best heap = loop fuel best heap'"
        using True by (subst traverse_loop.simps) (auto simp: pop entry expandable_def split: option.splits)
      moreover have "settled (insert node shut) best"
        by (rule settled_insert [OF st fresh]) (use False in simp)
      moreover have "length heap' + potential (insert node shut) \<le> fuel"
        using fuel p(5) pot by linarith
      ultimately show ?thesis using c(1) by blast
    next
      case expand: True
      then have lim: "\<not> (case limit of None \<Rightarrow> False | Some d \<Rightarrow> d \<le> dep)"
        by (auto simp: expandable_def split: option.splits)
      show ?thesis
      proof (cases "nbrs node")
        case (Inl x)
        then have "loop (Suc fuel) best heap = Some (Inl x)"
          using True lim by (subst traverse_loop.simps) (simp add: pop entry)
        then show ?thesis using nbrs_Inl [OF Inl] w by (auto simp: dangling_def)
      next
        case (Inr ns)
        obtain best' heap'' where
          r: "fold (relax rules seeds node (nd, dep, path, bd)) ns (best, heap') = (best', heap'')"
          by fastforce
        have "loop (Suc fuel) best heap = loop fuel best' heap''"
          using True lim Inr r by (subst traverse_loop.simps) (simp add: pop entry)
        moreover note all = core_relax_all [OF c(1) w Inr in_limit_Suc [OF expand] bd order_refl r]
        moreover have "settled (insert node shut) best'"
        proof (rule settled_insert)
          show "settled shut best'"
            using all st settled_improved by (auto simp: improved_def)
          show "bkey best' node = Some (nd, dep)"
            using all fresh by (auto simp: improved_def bkey_def)
          show "\<exists>ns. nbrs node = Inr ns \<and> settled_on best' node (nd, dep) ns"
            using all Inr by blast
        qed
        moreover have "length heap'' + potential (insert node shut) \<le> fuel"
          using all nbrs_degree [OF Inr] pot fuel p(5) by linarith
        ultimately show ?thesis by blast
      qed
    qed
  qed
qed

lemma traverse_loop_returns:
  "core shut front best heap \<Longrightarrow> settled shut best \<Longrightarrow> length heap + potential shut \<le> fuel \<Longrightarrow>
     (\<exists>x. loop fuel best heap = Some (Inl x) \<and> dangling x)
     \<or> (\<exists>best'. loop fuel best heap = Some (Inr best') \<and> finished best')"
proof (induction fuel arbitrary: shut front best heap)
  case 0
  then have "heap = []" by simp
  then show ?case using 0 by (subst (1 2) traverse_loop.simps) (auto simp: heappop_def intro: finishedI)
next
  case (Suc fuel)
  show ?case
  proof (cases "heappop heap")
    case None
    then have "heap = []" using heapq.pop_None by simp
    then show ?thesis using Suc.prems None
      by (subst (1 2) traverse_loop.simps) (auto intro: finishedI)
  next
    case (Some item)
    obtain nd dep node heap' where "item = ((nd, dep, node), heap')" by (metis prod.exhaust)
    then show ?thesis
      using loop_step [OF Suc.prems(1,2) _ Suc.prems(3), of nd dep node heap'] Some Suc.IH by metis
  qed
qed

subsection \<open>What a finished search knows\<close>

lemma core_init:
  assumes "init_search seeds = (best, heap)"
  shows "core {} (0, 0) best heap" "length heap \<le> length seeds"
proof -
  let ?f = "\<lambda>s (best :: best_map, heap). (AList.update s (0, 0, [], ''intra_unit'') best, heappush (0, 0, s) heap)"
  have heap: "sorted (snd (fold ?f ss (b, h))) \<and> mset (snd (fold ?f ss (b, h))) =
      mset h + mset (map (\<lambda>s. (0, 0, s)) ss)" if "sorted h" for ss b h
    using that by (induction ss arbitrary: b h) (auto simp: heappush_def sorted_insort)
  have best: "map_of (fst (fold ?f ss (b, h))) n =
      (if n \<in> set ss then Some (0, 0, [], ''intra_unit'') else map_of b n)" for ss b h n
    by (induction ss arbitrary: b h) (auto simp: update_conv')
  let ?ss = "sort (remdups seeds)"
  have init: "fold ?f ?ss ([], []) = (best, heap)" using assms by (simp add: init_search_def)
  have h: "sorted heap" "mset heap = mset (map (\<lambda>s. (0, 0, s)) ?ss)"
    using heap [of "[]" ?ss "[]"] by (auto simp: init)
  have d: "distinct heap"
    by (rule mset_eq_imp_distinct_iff [OF h(2), THEN iffD2]) (auto simp: distinct_map inj_on_def)
  have s: "set heap = (\<lambda>s. (0, 0, s)) ` set seeds" using mset_eq_setD [OF h(2)] by simp
  have m: "map_of best n = (if n \<in> set seeds then Some (0, 0, [], ''intra_unit'') else None)" for n
    using best [of ?ss "[]" "[]" n] by (simp add: init)
  show "core {} (0, 0) best heap"
    unfolding core_def using h(1) d
    by (auto simp: s m bkey_def le_key_def in_limit_def walk_seed less_eq_prod_def
        split: if_splits option.splits)
  show "length heap \<le> length seeds"
    using mset_eq_length [OF h(2)] by (simp add: length_remdups_leq)
qed

lemma finishedD:
  assumes "finished best"
  shows "s \<in> set seeds \<Longrightarrow> bkey best s = Some (0, 0)"
    and "map_of best n = Some (a, b, p, bd) \<Longrightarrow> W n a b p \<and> in_limit b \<and> bd = path_boundary p"
    and "bkey best n = Some k \<Longrightarrow> expandable (snd k) \<Longrightarrow> \<exists>ns. nbrs n = Inr ns \<and> settled_on best n k ns"
proof -
  from assms obtain shut front where c: "core shut front best []" "settled shut best"
    by (auto simp: finished_def)
  show "bkey best s = Some (0, 0)" if "s \<in> set seeds" by (rule coreD(3) [OF c(1) that])
  show "W n a b p \<and> in_limit b \<and> bd = path_boundary p" if "map_of best n = Some (a, b, p, bd)"
    using coreD(4,5,10) [OF c(1) that] by blast
  show "\<exists>ns. nbrs n = Inr ns \<and> settled_on best n k ns"
    if "bkey best n = Some k" "expandable (snd k)"
    using that c(2) coreD(8) [OF c(1), of n "fst k" "snd k"]
    by (cases k) (simp add: settled_def)
qed

lemma best_minimal:
  assumes fin: "finished best"
    and "W m a b p" "limit = None \<or> a = 0 \<and> in_limit b"
  shows "le_key best m (a, b)"
  using assms(2,3)
proof (induction rule: walk.induct)
  case (walk_seed s)
  then show ?case using finishedD(1) [OF fin] by (simp add: le_key_def)
next
  case (walk_step n nd dep q ns e m)
  then have "le_key best n (nd, dep)" by (auto simp: in_limit_def split: option.splits)
  then obtain k where k: "bkey best n = Some k" "k \<le> (nd, dep)" by (auto simp: le_key_def)
  have up: "(fst k + hop_weight rules e, Suc (snd k)) \<le> (nd + hop_weight rules e, Suc dep)"
    using key_step_mono [of "fst k" "snd k" nd dep] k(2) by simp
  have "expandable (snd k)"
    using walk_step.prems k(2)
    by (cases k) (auto simp: expandable_def in_limit_def less_eq_prod_def split: option.splits)
  then have "settled_on best n k ns"
    using finishedD(3) [OF fin k(1)] walk_step.hyps(2) by auto
  with walk_step.hyps(3) consider "m \<in> set seeds" | "m = n"
    | "le_key best m (fst k + hop_weight rules e, Suc (snd k))"
    by (auto simp: settled_on_def)
  then show ?case
  proof cases
    case 1
    then show ?thesis using finishedD(1) [OF fin] by (simp add: le_key_def)
  next
    case 2
    have "k \<le> (nd + hop_weight rules e, Suc dep)"
      using k(2) key_less [of nd dep] by (meson order_trans less_imp_le)
    with 2 k(1) show ?thesis by (auto simp: le_key_def)
  next
    case 3
    then show ?thesis using up by (rule le_key_mono)
  qed
qed

end

interpretation made: search "make_index decls doc" seeds limit edge_types rules open_containment
  for decls doc seeds limit edge_types rules open_containment
  by unfold_locales simp_all

end
