(* ===== verification/ImpactProps.thy ===== *)
theory ImpactProps
  imports ImpactSearch
begin

section \<open>Properties of the impact traversal\<close>

text \<open>
  The results of the traversal stated over the documents and the relation \<open>walk\<close>: it returns
  on every graph, every reported entity carries a real path from a seed, without a depth
  limit it reports exactly the reachable entities with their least keys, and with one the
  deterministic part is complete.  The last property shows that the other part is not.
\<close>

definition RULES :: "string list" where
  "RULES = [''staleness'', ''dirty_graph'', ''hash_check'', ''unknown_node'', ''global_fallback'',
            ''scoped_fallback'', ''forward_declaration'', ''provenance_split'', ''empty_impact_event'',
            ''depth_limit'', ''edge_filter'', ''seed_declared_nodes'', ''reverse_traversal'']"

text \<open>The number of hops of a path that count as not deterministic.\<close>

definition path_weight :: "string list \<Rightarrow> hop list \<Rightarrow> nat" where
  "path_weight rules p =
     length (filter (\<lambda>h. h_provenance h \<noteq> ''deterministic'' \<and> ''provenance_split'' \<in> set rules) p)"

definition depth_limit :: "string list \<Rightarrow> nat option \<Rightarrow> nat option" where
  "depth_limit rules max_depth = (if ''depth_limit'' \<in> set rules then max_depth else None)"

definition depth_ok :: "string list \<Rightarrow> nat option \<Rightarrow> nat \<Rightarrow> bool" where
  "depth_ok rules max_depth dep \<longleftrightarrow>
     (case depth_limit rules max_depth of None \<Rightarrow> True | Some d \<Rightarrow> dep \<le> d)"

text \<open>\<open>k\<close> is the least pair (hops that are not deterministic, hops) of a walk to \<open>n\<close>.\<close>

definition least_walk ::
  "graph_index \<Rightarrow> string list \<Rightarrow> string list option \<Rightarrow> string list \<Rightarrow> string list
     \<Rightarrow> string \<Rightarrow> nat \<times> nat \<Rightarrow> bool" where
  "least_walk idx seeds edge_types rules opn n k \<longleftrightarrow>
     (\<exists>p. walk idx seeds edge_types rules opn n (fst k) (snd k) p)
     \<and> (\<forall>nd dep p. walk idx seeds edge_types rules opn n nd dep p \<longrightarrow> k \<le> (nd, dep))"

lemma walk_path_weight: "walk idx seeds et rules opn n nd dep p \<Longrightarrow> nd = path_weight rules p"
  by (induction rule: walk.induct) (auto simp: path_weight_def hop_weight_def hop_of_def)

subsection \<open>From the loop to the entries\<close>

lemma traverse_best_cases:
  obtains (err) n nd dep p where
      "traverse_best (make_index decls doc) seeds max_depth et rules opn = Some (Inl (KeyError n))"
      "walk (make_index decls doc) seeds et rules opn n nd dep p"
      "n \<notin> n_id ` set (doc_nodes doc)"
  | (ok) best where
      "traverse_best (make_index decls doc) seeds max_depth et rules opn = Some (Inr best)"
      "search.finished (make_index decls doc) seeds (depth_limit rules max_depth) et rules opn best"
proof -
  obtain best heap where init: "init_search seeds = (best, heap)" by fastforce
  let ?lim = "depth_limit rules max_depth"
  have loop: "traverse_best (make_index decls doc) seeds max_depth et rules opn =
      traverse_loop (traverse_fuel (make_index decls doc) seeds) (make_index decls doc) seeds ?lim
        et rules opn best heap"
    by (simp add: traverse_best_def init depth_limit_def)
  have "length heap + search.potential (make_index decls doc) {}
          \<le> traverse_fuel (make_index decls doc) seeds"
    using made.core_init(2) [OF init] made.potential_bound [of seeds decls doc] by linarith
  moreover have "made.settled decls doc seeds ?lim et rules opn {} best"
    by (simp add: made.settled_def)
  ultimately consider
    x where "traverse_best (make_index decls doc) seeds max_depth et rules opn = Some (Inl x)"
      "made.dangling decls doc seeds et rules opn x"
    | b where "traverse_best (make_index decls doc) seeds max_depth et rules opn = Some (Inr b)"
      "made.finished decls doc seeds ?lim et rules opn b"
    unfolding loop using made.traverse_loop_returns [OF made.core_init(1) [OF init]] by blast
  then show thesis
    by cases (auto simp: made.dangling_def map_of_eq_None_iff nodes_of_index intro: err ok)
qed

definition reported :: "string list \<Rightarrow> best_map \<Rightarrow> string list" where
  "reported seeds best = filter (\<lambda>nid. nid \<notin> set seeds) (sort (map fst best))"

lemma traverse_of_best:
  "traverse idx seeds max_depth et rules opn =
     map_option (\<lambda>r. bindE r (\<lambda>best. mapE (entry_of idx best) (reported seeds best)))
       (traverse_best idx seeds max_depth et rules opn)"
  by (simp add: traverse_def reported_def)

text \<open>What an entry says about its entity, over the finished search.\<close>

definition entry_sound ::
  "edge_type_decls \<Rightarrow> graph_doc \<Rightarrow> string list \<Rightarrow> nat option \<Rightarrow> string list option \<Rightarrow> string list
     \<Rightarrow> string list \<Rightarrow> impact_entry \<Rightarrow> bool" where
  "entry_sound decls doc seeds max_depth et rules opn en \<longleftrightarrow>
     en_entity en \<notin> set seeds
     \<and> walk (make_index decls doc) seeds et rules opn (en_entity en)
         (path_weight rules (en_path en)) (en_depth en) (en_path en)
     \<and> length (en_path en) = en_depth en \<and> 0 < en_depth en \<and> depth_ok rules max_depth (en_depth en)
     \<and> en_boundary en = path_boundary (en_path en)
     \<and> (\<exists>n \<in> set (doc_nodes doc). n_id n = en_entity en \<and> n_type n = en_node_type en)
     \<and> en_verifier_hint en = hint_for (make_index decls doc) (h_edge_type (last (en_path en)))"

lemma map_of_fold_update:
  "map_of (fold (\<lambda>n. AList.update (n_id n) n) ns d) i = Some n \<Longrightarrow>
     n \<in> set ns \<or> map_of d i = Some n"
proof (induction ns arbitrary: d)
  case (Cons m ns)
  then have "n \<in> set ns \<or> map_of (AList.update (n_id m) m d) i = Some n" by simp
  then show ?case by (auto simp: update_conv' split: if_splits)
qed simp

lemma map_of_nodes_in_doc:
  "map_of (idx_nodes (make_index decls doc)) i = Some n \<Longrightarrow> n \<in> set (doc_nodes doc)"
  using map_of_fold_update [of "doc_nodes doc" "[]" i n] by (simp add: make_index_def Let_def)

lemma entry_of_finished:
  assumes fin: "made.finished decls doc seeds (depth_limit rules max_depth) et rules opn best"
    and out: "n \<notin> set seeds" and en: "entry_of (make_index decls doc) best n = Inr en"
  shows "entry_sound decls doc seeds max_depth et rules opn en" "en_entity en = n"
    "bkey best n = Some (path_weight rules (en_path en), en_depth en)"
proof -
  from en obtain a b p bd node where e: "map_of best n = Some (a, b, p, bd)"
      "map_of (idx_nodes (make_index decls doc)) n = Some node" "p \<noteq> []"
      "en = \<lparr>en_entity = n, en_node_type = n_type node, en_depth = b, en_boundary = bd, en_path = p,
             en_verifier_hint = hint_for (make_index decls doc) (h_edge_type (last p))\<rparr>"
    by (auto simp: entry_of_def split: option.splits prod.splits if_splits)
  from made.finishedD(2) [OF fin e(1)]
  have w: "walk (make_index decls doc) seeds et rules opn n a b p" and bd: "bd = path_boundary p"
    and lim: "made.in_limit (depth_limit rules max_depth) b" by blast+
  have "0 < b" using walk_length [OF w] e(3) by auto
  then show "entry_sound decls doc seeds max_depth et rules opn en"
    using w bd lim out e(2) node_id_of_index [OF e(2)] map_of_nodes_in_doc [OF e(2)]
      walk_path_weight [OF w] walk_length [OF w]
    by (auto simp: entry_sound_def e(4) depth_ok_def made.in_limit_def split: option.splits)
  show "en_entity en = n" by (simp add: e(4))
  show "bkey best n = Some (path_weight rules (en_path en), en_depth en)"
    using walk_path_weight [OF w] by (simp add: bkey_def e(1,4))
qed

lemma entry_of_Inl:
  assumes fin: "made.finished decls doc seeds (depth_limit rules max_depth) et rules opn best"
    and n: "n \<in> set (reported seeds best)" and x: "entry_of (make_index decls doc) best n = Inl x"
  shows "x = KeyError n \<and> n \<notin> n_id ` set (doc_nodes doc)
         \<and> (\<exists>nd dep p. walk (make_index decls doc) seeds et rules opn n nd dep p)"
proof -
  from n obtain a b p bd where e: "map_of best n = Some (a, b, p, bd)"
    by (cases "map_of best n") (auto simp: reported_def map_of_eq_None_iff)
  have w: "walk (make_index decls doc) seeds et rules opn n a b p"
    using made.finishedD(2) [OF fin e] by blast
  have "p \<noteq> []" using w n walk_length [OF w] walk_depth0 [of _ _ _ _ _ n a p]
    by (auto simp: reported_def)
  then have "x = KeyError n" "map_of (idx_nodes (make_index decls doc)) n = None"
    using x by (auto simp: entry_of_def e split: option.splits)
  then show ?thesis using w by (auto simp: map_of_eq_None_iff nodes_of_index)
qed

lemma mapE_Inl: "mapE f xs = Inl x \<Longrightarrow> \<exists>y \<in> set xs. f y = Inl x"
  by (induction xs) (auto simp: bindE_eq_Inl)

lemma mapE_Inr_set: "mapE f xs = Inr ys \<Longrightarrow> set ys = {y. \<exists>x \<in> set xs. f x = Inr y}"
  by (induction xs arbitrary: ys) auto

lemma mapE_Inr_ex: "mapE f xs = Inr ys \<Longrightarrow> x \<in> set xs \<Longrightarrow> \<exists>y \<in> set ys. f x = Inr y"
  by (induction xs arbitrary: ys) auto

lemma traverse_cases:
  obtains (err) n nd dep p where
      "traverse (make_index decls doc) seeds max_depth et rules opn = Some (Inl (KeyError n))"
      "walk (make_index decls doc) seeds et rules opn n nd dep p"
      "n \<notin> n_id ` set (doc_nodes doc)"
  | (ok) best es where
      "traverse (make_index decls doc) seeds max_depth et rules opn = Some (Inr es)"
      "made.finished decls doc seeds (depth_limit rules max_depth) et rules opn best"
      "mapE (entry_of (make_index decls doc) best) (reported seeds best) = Inr es"
proof (cases rule: traverse_best_cases [of decls doc seeds max_depth et rules opn])
  case (err n nd dep p)
  then show ?thesis by (intro that(1)) (auto simp: traverse_of_best)
next
  case (ok best)
  show ?thesis
  proof (cases "mapE (entry_of (make_index decls doc) best) (reported seeds best)")
    case (Inl x)
    obtain n where n: "n \<in> set (reported seeds best)" "entry_of (make_index decls doc) best n = Inl x"
      using mapE_Inl [OF Inl] by blast
    from entry_of_Inl [OF ok(2) this] show ?thesis
      using ok(1) Inl by (auto simp: traverse_of_best intro: that(1))
  next
    case (Inr es)
    then show ?thesis using ok by (intro that(2)) (auto simp: traverse_of_best)
  qed
qed

lemma entries_sound:
  assumes "made.finished decls doc seeds (depth_limit rules max_depth) et rules opn best"
    and "mapE (entry_of (make_index decls doc) best) (reported seeds best) = Inr es"
    and "en \<in> set es"
  shows "entry_sound decls doc seeds max_depth et rules opn en"
    "bkey best (en_entity en) = Some (path_weight rules (en_path en), en_depth en)"
proof -
  from mapE_Inr_set [OF assms(2)] assms(3) obtain n where
    "n \<in> set (reported seeds best)" "entry_of (make_index decls doc) best n = Inr en" by blast
  then show "entry_sound decls doc seeds max_depth et rules opn en"
    "bkey best (en_entity en) = Some (path_weight rules (en_path en), en_depth en)"
    using entry_of_finished [OF assms(1)] by (auto simp: reported_def)
qed

lemma entries_complete:
  assumes "made.finished decls doc seeds (depth_limit rules max_depth) et rules opn best"
    and "mapE (entry_of (make_index decls doc) best) (reported seeds best) = Inr es"
    and "bkey best n = Some k" "n \<notin> set seeds"
  shows "\<exists>en \<in> set es. en_entity en = n \<and> k = (path_weight rules (en_path en), en_depth en)"
proof -
  have "n \<in> set (reported seeds best)"
    using assms(3,4) by (force simp: reported_def bkey_def dest: map_of_SomeD)
  from mapE_Inr_ex [OF assms(2) this] obtain en where
    en: "en \<in> set es" "entry_of (make_index decls doc) best n = Inr en" by blast
  show ?thesis
    using entry_of_finished [OF assms(1,4) en(2)] en(1) assms(3) by force
qed

subsection \<open>The properties\<close>

text \<open>
  C15: the impact traversal returns on every relationship graph, within the fuel; the only
  exception it can raise is the \<^verbatim>\<open>KeyError\<close> of an entity that is reached by a walk from a seed
  and is not a node of the document.
\<close>

theorem traverse_total:
  "case traverse (make_index decls doc) seeds max_depth et rules opn of
     None \<Rightarrow> False
   | Some (Inl x) \<Rightarrow> (\<exists>n nd dep p. x = KeyError n \<and> n \<notin> n_id ` set (doc_nodes doc)
                        \<and> walk (make_index decls doc) seeds et rules opn n nd dep p)
   | Some (Inr es) \<Rightarrow> True"
  by (cases rule: traverse_cases [of decls doc seeds max_depth et rules opn]) auto

text \<open>
  every entry of the impact set is sound.  Its entity is a node of the document, not a
  seed, reached by a walk whose hops are exactly the reported path; the depth is the length
  of that path and within the limit, the boundary is the widest one the path crosses, and
  the verifier hint is that of the last hop.
\<close>

lemma traverse_sound:
  "case traverse (make_index decls doc) seeds max_depth et rules opn of
     Some (Inr es) \<Rightarrow> list_all (entry_sound decls doc seeds max_depth et rules opn) es
   | _ \<Rightarrow> True"
  by (cases rule: traverse_cases [of decls doc seeds max_depth et rules opn])
     (auto simp: list_all_iff entries_sound(1))

text \<open>
  C3: without a depth limit the impact set is exact: the entities and their keys (hops that
  are not deterministic, hops) are precisely the entities other than seeds that a walk
  reaches, each with its least key.
\<close>

theorem traverse_exact:
  "case traverse (make_index decls doc) seeds None et rules opn of
     Some (Inr es) \<Rightarrow>
       (\<lambda>en. (en_entity en, path_weight rules (en_path en), en_depth en)) ` set es =
       {(n, k). n \<notin> set seeds \<and> least_walk (make_index decls doc) seeds et rules opn n k}
   | _ \<Rightarrow> True"
proof (cases rule: traverse_cases [of decls doc seeds None et rules opn])
  case (ok best es)
  let ?idx = "make_index decls doc"
  have min: "le_key best n (a, b)" if "walk ?idx seeds et rules opn n a b p" for n a b p
    by (rule made.best_minimal [OF ok(2) that]) (simp add: depth_limit_def)
  have "en_entity en \<notin> set seeds \<and> least_walk ?idx seeds et rules opn (en_entity en)
      (path_weight rules (en_path en), en_depth en)" if "en \<in> set es" for en
    using entries_sound [OF ok(2,3) that] min [of "en_entity en"]
    unfolding entry_sound_def least_walk_def le_key_def fst_conv snd_conv by fastforce
  moreover have "\<exists>en \<in> set es. (n, k) = (en_entity en, path_weight rules (en_path en), en_depth en)"
    if n: "n \<notin> set seeds" and k: "least_walk ?idx seeds et rules opn n k" for n k
  proof -
    from k obtain p where "walk ?idx seeds et rules opn n (fst k) (snd k) p"
      by (auto simp: least_walk_def)
    from min [OF this] obtain k' where k': "bkey best n = Some k'" "k' \<le> k"
      by (auto simp: le_key_def)
    from entries_complete [OF ok(2,3) k'(1) n] obtain en where
      en: "en \<in> set es" "en_entity en = n" "k' = (path_weight rules (en_path en), en_depth en)" by blast
    have "k \<le> k'"
      using k entries_sound(1) [OF ok(2,3) en(1)] en(2,3)
      by (auto simp: least_walk_def entry_sound_def)
    with k'(2) en show ?thesis by (auto simp: antisym)
  qed
  ultimately show ?thesis by (auto simp: ok(1) image_iff)
qed simp_all

text \<open>
  with a depth limit the deterministic part of the impact set is still complete: the
  entities reported with a fully deterministic path are precisely those that a
  deterministic walk within the limit reaches.
\<close>

lemma traverse_deterministic_complete:
  "case traverse (make_index decls doc) seeds max_depth et rules opn of
     Some (Inr es) \<Rightarrow>
       en_entity ` {en \<in> set es. path_weight rules (en_path en) = 0} =
       {n. n \<notin> set seeds \<and> (\<exists>dep p. depth_ok rules max_depth dep
             \<and> walk (make_index decls doc) seeds et rules opn n 0 dep p)}
   | _ \<Rightarrow> True"
proof (cases rule: traverse_cases [of decls doc seeds max_depth et rules opn])
  case (ok best es)
  let ?idx = "make_index decls doc"
  have complete: "\<exists>en \<in> set es. path_weight rules (en_path en) = 0 \<and> en_entity en = n"
    if "n \<notin> set seeds" "depth_ok rules max_depth dep" "walk ?idx seeds et rules opn n 0 dep p" for n dep p
  proof -
    have "le_key best n (0, dep)"
      by (rule made.best_minimal [OF ok(2) that(3)])
         (use that(2) in \<open>auto simp: depth_ok_def made.in_limit_def split: option.splits\<close>)
    then obtain k where "bkey best n = Some k" "k \<le> (0, dep)" by (auto simp: le_key_def)
    with entries_complete [OF ok(2,3) this(1) that(1)] show ?thesis by force
  qed
  have sound: "en_entity en \<notin> set seeds \<and> (\<exists>dep p. depth_ok rules max_depth dep
      \<and> walk ?idx seeds et rules opn (en_entity en) 0 dep p)"
    if "en \<in> set es" "path_weight rules (en_path en) = 0" for en
    using entries_sound(1) [OF ok(2,3) that(1)] that(2) by (auto simp: entry_sound_def)
  show ?thesis
    using complete sound by (auto simp: ok(1) image_iff) (metis (lifting))
qed simp_all

subsection \<open>A concrete graph\<close>

text \<open>
  A change to \<open>s\<close>: \<open>x\<close> depends on it directly through an inferred edge and through a chain of
  three deterministic imports; \<open>y\<close> imports \<open>x\<close>.
\<close>

definition unit_node :: "string \<Rightarrow> gnode" where
  "unit_node i = \<lparr>n_id = i, n_type = ''code_unit'', n_path = Some i, n_kind = None, n_content_hash = []\<rparr>"

definition edge_between :: "string \<Rightarrow> string \<Rightarrow> string \<Rightarrow> gedge" where
  "edge_between prov a b =
     \<lparr>e_type = ''imports'', e_from = a, e_to = b, e_provenance = prov, e_inferred_by = None,
      e_observed_at_utc = None, e_via = None, e_boundary = None\<rparr>"

definition diamond :: graph_doc where
  "diamond =
     \<lparr>doc_manifest = [], doc_nodes = map unit_node [''a'', ''b'', ''s'', ''x'', ''y''],
      doc_edges = map (\<lambda>(a, b). edge_between ''deterministic'' a b)
                    [(''a'', ''s''), (''b'', ''a''), (''x'', ''b''), (''y'', ''x'')]
                  @ [edge_between ''inferred'' ''x'' ''s'']\<rparr>"

definition diamond_index :: graph_index where
  "diamond_index = make_index [] diamond"

lemma diamond_neighbours:
  "neighbours diamond_index ''s'' None RULES [] =
     Inr [(edge_between ''deterministic'' ''a'' ''s'', ''a''), (edge_between ''inferred'' ''x'' ''s'', ''x'')]"
  "neighbours diamond_index ''x'' None RULES [] = Inr [(edge_between ''deterministic'' ''y'' ''x'', ''y'')]"
  by code_simp+

lemma diamond_walk:
  "walk diamond_index [''s''] None RULES [] ''y'' 1 2
     [hop_of (edge_between ''inferred'' ''x'' ''s''), hop_of (edge_between ''deterministic'' ''y'' ''x'')]"
proof -
  have "walk diamond_index [''s''] None RULES [] ''s'' 0 0 []" by (rule walk_seed) simp
  from walk_step [OF walk_step [OF this diamond_neighbours(1), of "edge_between ''inferred'' ''x'' ''s''" "''x''"]
      diamond_neighbours(2), of "edge_between ''deterministic'' ''y'' ''x''" "''y''"]
  show ?thesis by (simp add: hop_weight_def edge_between_def RULES_def numeral_2_eq_2)
qed

text \<open>
  with a depth limit the rest of the impact set is not complete.  In the graph above
  and with the default limit 3, \<open>y\<close> is two hops away from the change (an inferred and a
  deterministic one) and is not reported: \<open>x\<close> keeps only its deterministic path of length 3,
  which may not be extended.
\<close>

lemma traverse_misses_within_depth:
  "(case traverse diamond_index [''s''] (Some 3) None RULES [] of
      Some (Inr es) \<Rightarrow> map en_entity es = [''a'', ''b'', ''x'']
    | _ \<Rightarrow> False)
   \<and> (\<exists>p. walk diamond_index [''s''] None RULES [] ''y'' 1 2 p)"
proof -
  have "case traverse diamond_index [''s''] (Some 3) None RULES [] of
      Some (Inr es) \<Rightarrow> map en_entity es = [''a'', ''b'', ''x''] | _ \<Rightarrow> False"
    by code_simp
  then show ?thesis using diamond_walk by blast
qed

end
