(* ===== verification/ImpactQuery.thy ===== *)
theory ImpactQuery
  imports ImpactChange ImpactProps
begin

section \<open>The impact query\<close>

text \<open>
  \<^verbatim>\<open>check_staleness\<close>, \<^verbatim>\<open>query\<close>, \<^verbatim>\<open>_count\<close>, \<^verbatim>\<open>refusal_doc\<close> and \<^verbatim>\<open>receipt_skeleton\<close> of
  \<^verbatim>\<open>tools/graph/impact.py\<close>.  A query takes the index of a graph and a list of changed files and
  either refuses or returns the impact set.  SHA-256 (\<^verbatim>\<open>hashlib\<close>) is the argument \<open>sha\<close>, the
  time of day the argument \<open>now\<close>.  The sentences of refusals and explanations that only a
  person reads are left out of the model; the codes and the data they carry are kept.
\<close>

subsection \<open>Staleness\<close>

definition FILE_HASH_TYPES :: "string list" where
  "FILE_HASH_TYPES = [''code_unit'', ''document'', ''receipt'', ''deployable_unit'', ''systemd_unit'', ''source_file'']"

definition DEPLOYABLE_MANIFEST_NAMES :: "string list" where
  "DEPLOYABLE_MANIFEST_NAMES = [''package.json'', ''Cargo.toml'', ''pyproject.toml'', ''setup.py'', ''setup.cfg'']"

text \<open>\<^verbatim>\<open>sha_bytes\<close>, where \<open>sha\<close> is the hexadecimal digest of \<^verbatim>\<open>hashlib.sha256\<close>.\<close>

definition sha_bytes :: "(string \<Rightarrow> string) \<Rightarrow> string \<Rightarrow> string" where
  "sha_bytes sha b = ''sha256:'' @ sha b"

text \<open>Where the tree is read: a reader of fixtures, the objects at a revision, or the working tree.\<close>

datatype tree_source = Fixture "string \<Rightarrow> string option" | Objects repo string | Worktree repo

fun read_one :: "tree_source \<Rightarrow> string \<Rightarrow> gexc + string option" where
  "read_one (Fixture reader) p = Inr (reader p)"
| "read_one (Objects r rv) p =
     bindE (read_at (r_cat_file r) (r_prefix r) rv [p]) (\<lambda>res.
       Inr (case map_of res p of Some b \<Rightarrow> b | None \<Rightarrow> None))"
| "read_one (Worktree r) p = Inr (r_worktree r p)"

fun read_all :: "tree_source \<Rightarrow> string list \<Rightarrow> gexc + (string \<times> string option) list" where
  "read_all (Fixture reader) ps = Inr (map (\<lambda>p. (p, reader p)) ps)"
| "read_all (Objects r rv) ps = read_at (r_cat_file r) (r_prefix r) rv ps"
| "read_all (Worktree r) ps = Inr (map (\<lambda>p. (p, r_worktree r p)) ps)"

fun manifest_candidates :: "tree_source \<Rightarrow> string \<Rightarrow> string list \<Rightarrow> gexc + string option" where
  "manifest_candidates src p [] = Inr None"
| "manifest_candidates src p (name # names) =
     (let cand = rstrip_char (CHR ''/'') p @ ''/'' @ name
      in bindE (read_one src cand) (\<lambda>b.
           case b of Some _ \<Rightarrow> Inr (Some cand) | None \<Rightarrow> manifest_candidates src p names))"

definition deployable_manifest :: "tree_source \<Rightarrow> string \<Rightarrow> gexc + string" where
  "deployable_manifest src p =
     bindE (manifest_candidates src p DEPLOYABLE_MANIFEST_NAMES) (\<lambda>c.
       Inr (case c of
              Some cand \<Rightarrow> cand
            | None \<Rightarrow> rstrip_char (CHR ''/'') p @ ''/'' @ hd DEPLOYABLE_MANIFEST_NAMES))"

text \<open>The file whose bytes a node's content hash must match, if it has one.\<close>

definition hashed_file :: "tree_source \<Rightarrow> gnode \<Rightarrow> gexc + string option" where
  "hashed_file src n =
     (case path_of n of
        None \<Rightarrow> Inr None
      | Some p \<Rightarrow>
          if n_type n \<notin> set FILE_HASH_TYPES then Inr None
          else if n_type n = ''deployable_unit''
          then bindE (deployable_manifest src p) (\<lambda>q. Inr (Some q))
          else Inr (Some p))"

definition want_node ::
  "tree_source \<Rightarrow> bool \<Rightarrow> string list \<Rightarrow> string \<times> gnode \<Rightarrow> (string \<times> string list) list
     \<Rightarrow> gexc + (string \<times> string list) list" where
  "want_node src diff changed_paths item wanted =
     (case item of (nid, n) \<Rightarrow>
        bindE (hashed_file src n) (\<lambda>f.
          Inr (case f of
                 None \<Rightarrow> wanted
               | Some p \<Rightarrow> if \<not> diff \<and> p \<in> set changed_paths then wanted else append_at p nid wanted)))"

record mismatch =
  mm_node :: string
  mm_graph_hash :: string
  mm_tree_hash :: "string option"

definition tree_hash :: "(string \<Rightarrow> string) \<Rightarrow> (string \<times> string option) list \<Rightarrow> string \<Rightarrow> string option" where
  "tree_hash sha blobs p =
     (case map_of blobs p of Some (Some b) \<Rightarrow> Some (sha_bytes sha b) | _ \<Rightarrow> None)"

definition node_mismatch ::
  "graph_index \<Rightarrow> string option \<Rightarrow> string \<Rightarrow> mismatch list" where
  "node_mismatch idx h nid =
     (case map_of (idx_nodes idx) nid of
        None \<Rightarrow> []
      | Some n \<Rightarrow>
          if Some (n_content_hash n) \<noteq> h
          then [\<lparr>mm_node = nid, mm_graph_hash = n_content_hash n, mm_tree_hash = h\<rparr>] else [])"

definition hash_mismatches ::
  "(string \<Rightarrow> string) \<Rightarrow> graph_index \<Rightarrow> (string \<times> string list) list \<Rightarrow> (string \<times> string option) list
     \<Rightarrow> mismatch list" where
  "hash_mismatches sha idx wanted blobs =
     concat (map (\<lambda>p. concat (map (node_mismatch idx (tree_hash sha blobs p)) (get_list wanted p)))
       (sort (map fst wanted)))"

definition hash_check ::
  "(string \<Rightarrow> string) \<Rightarrow> graph_index \<Rightarrow> tree_source \<Rightarrow> bool \<Rightarrow> string list \<Rightarrow> gexc + nat" where
  "hash_check sha idx src diff changed_paths =
     bindE (foldE (want_node src diff changed_paths) (idx_nodes idx) []) (\<lambda>wanted.
       bindE (read_all src (sort (map fst wanted))) (\<lambda>blobs.
         let bad = hash_mismatches sha idx wanted blobs
         in if bad \<noteq> []
            then Inl (Refuse ''STALE_GRAPH''
                        [(''mismatched_nodes'', JArr (map (\<lambda>m. JStr (mm_node m)) (take 50 bad)))])
            else Inr (sum_list (map (length \<circ> snd) wanted))))"

record staleness =
  st_method :: "string list"
  st_verdict :: string
  st_checked_nodes :: nat
  st_checked_at_utc :: string

text \<open>
  The message of a commit mismatch slices \<^verbatim>\<open>source_commit\<close> and the reference, which raises
  \<^verbatim>\<open>TypeError\<close> when the reference is \<^verbatim>\<open>None\<close> or the manifest's value is not sliceable.
\<close>

definition commit_mismatch :: "dict \<Rightarrow> string option \<Rightarrow> gexc" where
  "commit_mismatch m ref =
     (case (dget m ''source_commit'', ref) of
        (None, Some r) \<Rightarrow> Refuse ''STALE_GRAPH'' [(''graph_source_commit'', JNull), (''expected'', JStr r)]
      | (Some (JStr s), Some r) \<Rightarrow>
          Refuse ''STALE_GRAPH'' [(''graph_source_commit'', JStr s), (''expected'', JStr r)]
      | (Some (JArr s), Some r) \<Rightarrow>
          Refuse ''STALE_GRAPH'' [(''graph_source_commit'', JArr s), (''expected'', JStr r)]
      | _ \<Rightarrow> Exc TypeError)"

definition tree_source_of ::
  "repo option \<Rightarrow> (string \<Rightarrow> string option) option \<Rightarrow> bool \<Rightarrow> string option \<Rightarrow> tree_source option" where
  "tree_source_of rp reader diff ref =
     (case reader of
        Some r \<Rightarrow> Some (Fixture r)
      | None \<Rightarrow>
          (case rp of
             None \<Rightarrow> None
           | Some r \<Rightarrow>
               if diff then Some (Objects r (case ref of Some x \<Rightarrow> x | None \<Rightarrow> ''None''))
               else Some (Worktree r)))"

definition staleness_method :: "bool \<Rightarrow> string \<Rightarrow> bool \<Rightarrow> string list" where
  "staleness_method diff graph_role hashed =
     [''manifest.dirty must be false'',
      ''manifest.source_commit == '' @ (if diff then ''change_set.'' @ graph_role else ''HEAD of the tree'')]
     @ (if diff then [''working tree must be clean (a receipt in diff mode describes committed history only)''] else [])
     @ (if hashed
        then [''content_hash of every whole-file node (code_unit, document, receipt; deployable_unit via its ''
              @ ''package.json) must equal the sha256 of the file bytes ''
              @ (if diff then ''at '' @ graph_role @ '' (git objects)'' else ''in the working tree, changed files excluded'')
              @ ''; contract/route/data_model hashes are extractor-owned (declaration text) and not recomputed'']
        else [])"

definition check_staleness ::
  "(string \<Rightarrow> string) \<Rightarrow> string \<Rightarrow> graph_index \<Rightarrow> repo option \<Rightarrow> string \<Rightarrow> string option \<Rightarrow> string
     \<Rightarrow> bool \<Rightarrow> string list \<Rightarrow> string list \<Rightarrow> (string \<Rightarrow> string option) option \<Rightarrow> string option \<Rightarrow> string
     \<Rightarrow> gexc + staleness" where
  "check_staleness sha now idx rp mode base tree_commit tree_dirty changed_paths rules reader head graph_role =
     (let diff = (mode = ''diff'')
      in if graph_role \<notin> {''base'', ''head''} \<or> graph_role = ''head'' \<and> (\<not> diff \<or> head = None \<or> head = Some [])
         then Inl (Refuse ''STALE_GRAPH'' [])
         else let ref = (if diff then (if graph_role = ''head'' then head else base) else Some tree_commit);
                  src = (if ''hash_check'' \<in> set rules then tree_source_of rp reader diff ref else None);
                  block = (\<lambda>n. \<lparr>st_method = staleness_method diff graph_role (src \<noteq> None), st_verdict = ''fresh'',
                                st_checked_nodes = n, st_checked_at_utc = now\<rparr>)
              in if ''staleness'' \<in> set rules \<and> mget (idx_manifest idx) ''source_commit'' \<noteq> opt_json ref
                 then Inl (commit_mismatch (idx_manifest idx) ref)
                 else if ''staleness'' \<in> set rules \<and> diff \<and> tree_dirty
                 then Inl (Refuse ''STALE_GRAPH'' [(''tree_dirty'', JBool True)])
                 else case src of
                        None \<Rightarrow> Inr (block 0)
                      | Some s \<Rightarrow> bindE (hash_check sha idx s diff changed_paths) (\<lambda>n. Inr (block n)))"

subsection \<open>The change set\<close>

datatype scoped_fallback = OpensDeployable string | RechecksUnits string

record change_entry =
  ce_path :: string
  ce_status :: string
  ce_kind :: string
  ce_renamed_to :: "string option option"
  ce_renamed_from :: "string option option"
  ce_scoped_fallback :: "scoped_fallback option"
  ce_node_id :: "string option"
  ce_node_ids :: "string list"
  ce_new :: bool
  ce_uncovered :: bool

record query_state =
  qs_entries :: "change_entry list"
  qs_seeds :: "string list"
  qs_open_containment :: "string list"
  qs_unknown :: "string list"
  qs_uncovered :: "string list"
  qs_uncovered_assets :: "string list"
  qs_new_files :: "string list"
  qs_fallback_files :: "string list"
  qs_profile_bindings :: "(string \<times> bool) list"

definition file_kind :: "graph_index \<Rightarrow> changed_file \<Rightarrow> string" where
  "file_kind idx f =
     (if f_config_schema_keys f \<notin> {None, Some []} \<and> f_path f = ''.env.example'' then ''config''
      else classify_file (f_path f) (Some idx))"

text \<open>\<^verbatim>\<open>sorted(set(xs))\<close>.\<close>

definition sorted_set :: "string list \<Rightarrow> string list" where
  "sorted_set xs = sort (remdups xs)"

definition has_node :: "graph_index \<Rightarrow> string \<Rightarrow> bool" where
  "has_node idx i \<longleftrightarrow> map_of (idx_nodes idx) i \<noteq> None"

definition file_ids :: "graph_index \<Rightarrow> string list \<Rightarrow> changed_file \<Rightarrow> string list" where
  "file_ids idx rules f =
     (let narrow = (if f_path f = ''.env.example''
                    then (case f_config_schema_keys f of Some ks \<Rightarrow> ks | None \<Rightarrow> []) else [])
      in sorted_set (path_nodes idx (f_path f) rules
           @ filter (has_node idx) (map (\<lambda>k. ''config_key:'' @ k) narrow)))"

definition deployable_of_dir :: "graph_index \<Rightarrow> string \<Rightarrow> string option" where
  "deployable_of_dir idx d =
     (let by_name = (if has_node idx (''deployable_unit:'' @ d) then Some (''deployable_unit:'' @ d) else None)
      in case map_of (idx_deployables idx) d of
           Some i \<Rightarrow> (if i = [] then by_name else Some i)
         | None \<Rightarrow> by_name)"

definition word_char :: "char \<Rightarrow> bool" where
  "word_char c \<longleftrightarrow>
     (let n = of_char c :: nat
      in 48 \<le> n \<and> n \<le> 57 \<or> 65 \<le> n \<and> n \<le> 90 \<or> 97 \<le> n \<and> n \<le> 122 \<or> n = 95)"

text \<open>\<^verbatim>\<open>re.fullmatch(r"tsconfig(?:\.[\w.-]+)?\.json", name)\<close>\<close>

definition tsconfig_name :: "string \<Rightarrow> bool" where
  "tsconfig_name name \<longleftrightarrow>
     startswith name ''tsconfig'' \<and> endswith name ''.json'' \<and> length name \<ge> 13
     \<and> (let mid = take (length name - 13) (drop 8 name)
        in mid = []
           \<or> 2 \<le> length mid \<and> hd mid = CHR ''.''
             \<and> list_all (\<lambda>c. word_char c \<or> c = CHR ''.'' \<or> c = CHR ''-'') (tl mid))"

definition compiler_units :: "graph_index \<Rightarrow> string \<Rightarrow> string list" where
  "compiler_units idx d =
     sort (map fst (filter (\<lambda>(nid, n).
       n_type n = ''code_unit''
       \<and> (case n_path n of
            None \<Rightarrow> False
          | Some p \<Rightarrow> startswith p (d @ ''/'') \<and> lower (ext_of p) \<in> set CODE_EXTS)) (idx_nodes idx)))"

text \<open>The scoped fallback: the identifiers, the opened deployables and the note of an entry.\<close>

definition scope_file ::
  "graph_index \<Rightarrow> string list \<Rightarrow> string \<Rightarrow> string list \<Rightarrow> string list \<times> string list \<times> scoped_fallback option" where
  "scope_file idx rules p ids =
     (let base_name = basename p; d = dirname p; dep_id = deployable_of_dir idx d
      in if d \<noteq> [] \<and> ''scoped_fallback'' \<in> set rules
         then (case dep_id of
                 Some i \<Rightarrow>
                   if base_name = ''package.json'' \<or> startswith base_name ''tsconfig''
                   then (sorted_set (ids @ [i]), [i], Some (OpensDeployable i)) else (ids, [], None)
               | None \<Rightarrow>
                   if base_name = ''package.json'' \<or> tsconfig_name base_name
                   then (let us = compiler_units idx d
                         in (sorted_set (ids @ us), [], if us = [] then None else Some (RechecksUnits d)))
                   else (ids, [], None))
         else (ids, [], None))"

text \<open>\<^verbatim>\<open>bound_asset_root\<close> with its memo table \<^verbatim>\<open>profile_bindings\<close>.\<close>

definition bound_asset_root ::
  "graph_index \<Rightarrow> repo option \<Rightarrow> string option \<Rightarrow> string \<Rightarrow> (string \<times> bool) list
     \<Rightarrow> string option \<times> (string \<times> bool) list" where
  "bound_asset_root idx rp revision p bindings =
     (if \<not> is_deployable_asset_path p then (None, bindings)
      else case deployable_root_for_uncovered idx p of
             None \<Rightarrow> (None, bindings)
           | Some r \<Rightarrow>
               (let bindings' = (case map_of bindings r of
                                   Some _ \<Rightarrow> bindings
                                 | None \<Rightarrow> AList.update r (committed_full_test_is_supported rp revision r) bindings)
                in (if map_of bindings' r = Some True then Some r else None, bindings')))"

text \<open>An uncovered deployable asset either widens the query to every node or stays uncovered.\<close>

definition asset_file ::
  "graph_index \<Rightarrow> repo option \<Rightarrow> string option \<Rightarrow> string \<Rightarrow> change_entry \<times> query_state
     \<Rightarrow> change_entry \<times> query_state" where
  "asset_file idx rp revision p es =
     (case es of (entry, st) \<Rightarrow>
        (case bound_asset_root idx rp revision p (qs_profile_bindings st) of
           (Some _, b) \<Rightarrow>
             (entry, st\<lparr>qs_profile_bindings := b, qs_fallback_files := qs_fallback_files st @ [p]\<rparr>)
         | (None, b) \<Rightarrow>
             (entry\<lparr>ce_uncovered := True\<rparr>,
              st\<lparr>qs_profile_bindings := b, qs_uncovered := qs_uncovered st @ [p],
                 qs_uncovered_assets := qs_uncovered_assets st @ [p]\<rparr>)))"

definition node_id_of :: "string list \<Rightarrow> string" where
  "node_id_of ids = (case filter (\<lambda>i. startswith i ''code_unit:'') ids of i # _ \<Rightarrow> i | [] \<Rightarrow> hd ids)"

definition query_file ::
  "graph_index \<Rightarrow> string list \<Rightarrow> repo option \<Rightarrow> string option \<Rightarrow> changed_file \<Rightarrow> query_state \<Rightarrow> query_state" where
  "query_file idx rules rp revision f st0 =
     (let p = f_path f; kind = file_kind idx f;
          (ids, opened, scoped) = scope_file idx rules p (file_ids idx rules f);
          entry = \<lparr>ce_path = p, ce_status = f_status f, ce_kind = kind, ce_renamed_to = f_renamed_to f,
                   ce_renamed_from = f_renamed_from f, ce_scoped_fallback = scoped, ce_node_id = None,
                   ce_node_ids = [], ce_new = False, ce_uncovered = False\<rparr>;
          st = st0\<lparr>qs_open_containment := qs_open_containment st0 @ opened,
                   qs_fallback_files := qs_fallback_files st0 @ (if kind \<in> set FALLBACK_KINDS then [p] else [])\<rparr>;
          (entry', st') =
            (if ids \<noteq> []
             then (entry\<lparr>ce_node_id := Some (node_id_of ids), ce_node_ids := ids\<rparr>,
                   st\<lparr>qs_seeds := qs_seeds st @ ids\<rparr>)
             else if f_status f = ''A''
             then (let es = (entry\<lparr>ce_new := True\<rparr>, st\<lparr>qs_new_files := qs_new_files st @ [p]\<rparr>)
                   in if is_deployable_asset_path p then asset_file idx rp revision p es else es)
             else if kind \<in> set FALLBACK_KINDS then (entry, st)
             else if is_deployable_asset_path p then asset_file idx rp revision p (entry, st)
             else if lower (ext_of p) \<in> set (''.prisma'' # CODE_EXTS)
             then (entry, st\<lparr>qs_unknown := qs_unknown st @ [p]\<rparr>)
             else (entry\<lparr>ce_uncovered := True\<rparr>, st\<lparr>qs_uncovered := qs_uncovered st @ [p]\<rparr>))
      in st'\<lparr>qs_entries := qs_entries st' @ [entry']\<rparr>)"

definition empty_state :: query_state where
  "empty_state = \<lparr>qs_entries = [], qs_seeds = [], qs_open_containment = [], qs_unknown = [], qs_uncovered = [],
                  qs_uncovered_assets = [], qs_new_files = [], qs_fallback_files = [], qs_profile_bindings = []\<rparr>"

definition strs :: "string list \<Rightarrow> json" where
  "strs xs = JArr (map JStr xs)"

text \<open>The refusal of files that no node covers.\<close>

definition unknown_refusal :: "string list \<Rightarrow> query_state \<Rightarrow> gexc option" where
  "unknown_refusal rules st =
     (if (qs_unknown st \<noteq> [] \<or> qs_uncovered_assets st \<noteq> []) \<and> ''unknown_node'' \<in> set rules
      then let files = sorted_set (qs_unknown st @ qs_uncovered_assets st)
           in Some (Refuse ''UNKNOWN_NODE''
                (if qs_uncovered_assets st \<noteq> []
                 then [(''files'', strs files), (''uncovered_assets'', strs (sorted_set (qs_uncovered_assets st)))]
                 else [(''files'', strs files)]))
      else None)"

subsection \<open>The impact set\<close>

record impact_set =
  is_max_depth :: "nat option"
  is_edge_types :: "string list option"
  is_fallback_files :: "string list option"
  is_deterministic_core :: "impact_entry list"
  is_inferred_tail :: "impact_entry list"

definition is_total :: "impact_set \<Rightarrow> nat" where
  "is_total imp = length (is_deterministic_core imp) + length (is_inferred_tail imp)"

definition is_entries :: "impact_set \<Rightarrow> impact_entry list" where
  "is_entries imp = is_deterministic_core imp @ is_inferred_tail imp"

definition non_det :: "impact_entry \<Rightarrow> bool" where
  "non_det e \<longleftrightarrow> list_ex (\<lambda>h. h_provenance h \<noteq> ''deterministic'') (en_path e)"

definition fallback_entry :: "graph_index \<Rightarrow> string \<Rightarrow> string \<times> gnode \<Rightarrow> impact_entry" where
  "fallback_entry idx trig item =
     (case item of (nid, n) \<Rightarrow>
        \<lparr>en_entity = nid, en_node_type = n_type n, en_depth = 0, en_boundary = ''intra_unit'',
         en_path = [\<lparr>h_from = ''code_unit:'' @ trig, h_to = nid, h_edge_type = ''deploys_to'',
                     h_provenance = ''deterministic'', h_inferred_by = None, h_observed_at_utc = None,
                     h_via = Some ''global-fallback'', h_boundary = None\<rparr>],
         en_verifier_hint = hint_for idx ''deploys_to''\<rparr>)"

definition add_fallback ::
  "graph_index \<Rightarrow> string list \<Rightarrow> query_state \<Rightarrow> impact_entry list \<Rightarrow> impact_set \<Rightarrow> impact_set" where
  "add_fallback idx rules st reached imp =
     (if qs_fallback_files st \<noteq> [] \<and> ''global_fallback'' \<in> set rules
      then imp\<lparr>is_fallback_files := Some (qs_fallback_files st),
               is_deterministic_core := is_deterministic_core imp
                 @ map (fallback_entry idx (hd (qs_fallback_files st)))
                     (filter (\<lambda>item. fst item \<notin> set (qs_seeds st) \<and> fst item \<notin> set (map en_entity reached))
                       (sort_key fst (idx_nodes idx)))\<rparr>
      else imp)"

definition impact_of ::
  "graph_index \<Rightarrow> string list \<Rightarrow> nat option \<Rightarrow> string list option \<Rightarrow> query_state \<Rightarrow> impact_entry list \<Rightarrow> impact_set" where
  "impact_of idx rules max_depth edge_types st reached =
     add_fallback idx rules st reached
       \<lparr>is_max_depth = max_depth, is_edge_types = edge_types, is_fallback_files = None,
        is_deterministic_core = filter (\<lambda>e. \<not> non_det e) reached,
        is_inferred_tail = filter non_det reached\<rparr>"

subsection \<open>Statistics and the empty impact\<close>

text \<open>\<^verbatim>\<open>_count\<close>: occurrences by printed key, in the order of the keys.\<close>

definition bump :: "string \<Rightarrow> (string \<times> nat) list \<Rightarrow> (string \<times> nat) list" where
  "bump x c = AList.update x ((case map_of c x of Some n \<Rightarrow> n | None \<Rightarrow> 0) + 1) c"

definition count_keys :: "string list \<Rightarrow> (string \<times> nat) list" where
  "count_keys xs = sort_key fst (fold bump xs [])"

record query_stats =
  qt_seeds :: nat
  qt_by_depth :: "(string \<times> nat) list"
  qt_by_node_type :: "(string \<times> nat) list"
  qt_service_boundary_entries :: nat
  qt_uncovered_files :: "string list"
  qt_new_files :: "string list"
  qt_graph_nodes :: nat

definition stats_of :: "graph_index \<Rightarrow> query_state \<Rightarrow> impact_set \<Rightarrow> query_stats" where
  "stats_of idx st imp =
     \<lparr>qt_seeds = length (remdups (qs_seeds st)),
      qt_by_depth = count_keys (map (\<lambda>e. show_nat (en_depth e)) (is_entries imp)),
      qt_by_node_type = count_keys (map en_node_type (is_entries imp)),
      qt_service_boundary_entries =
        length (filter (\<lambda>e. en_boundary e \<in> {''service'', ''repo''}) (is_inferred_tail imp)),
      qt_uncovered_files = qs_uncovered st, qt_new_files = qs_new_files st,
      qt_graph_nodes = length (idx_nodes idx)\<rparr>"

datatype why_empty = NewFile | UncoveredKind | LeafUnit | FilteredEdges nat | NoNode

definition reverse_degree :: "graph_index \<Rightarrow> string list \<Rightarrow> nat" where
  "reverse_degree idx ids =
     sum_list (map (\<lambda>i. length (filter (\<lambda>e. e_type e \<noteq> ''deploys_to'') (get_list (idx_rev idx) i))) ids)"

definition why_of :: "graph_index \<Rightarrow> change_entry \<Rightarrow> why_empty" where
  "why_of idx f =
     (if ce_new f then NewFile
      else if ce_uncovered f then UncoveredKind
      else if ce_node_ids f \<noteq> []
      then (let rv = reverse_degree idx (ce_node_ids f) in if rv = 0 then LeafUnit else FilteredEdges rv)
      else NoNode)"

record explanation =
  ex_changed_node_known :: bool
  ex_reverse_edges :: nat
  ex_per_file :: "(string \<times> string \<times> why_empty) list"

definition non_doc :: "query_state \<Rightarrow> change_entry list" where
  "non_doc st = filter (\<lambda>f. ce_kind f \<notin> set DOC_KINDS) (qs_entries st)"

definition explain_empty ::
  "graph_index \<Rightarrow> string list \<Rightarrow> query_state \<Rightarrow> impact_set \<Rightarrow> explanation option" where
  "explain_empty idx rules st imp =
     (if is_total imp = 0 \<and> is_fallback_files imp = None \<and> non_doc st \<noteq> []
         \<and> ''empty_impact_event'' \<in> set rules
      then Some \<lparr>ex_changed_node_known = list_ex (\<lambda>f. ce_node_ids f \<noteq> []) (non_doc st),
                 ex_reverse_edges =
                   sum_list (map (\<lambda>s. length (get_list (idx_rev idx) s)) (remdups (qs_seeds st))),
                 ex_per_file = map (\<lambda>f. (ce_path f, ce_kind f, why_of idx f)) (non_doc st)\<rparr>
      else None)"

subsection \<open>The query\<close>

record impact_query =
  q_captured_at_utc :: string
  q_repo_name :: json
  q_graph :: dict
  q_tree :: "string \<times> bool"
  q_staleness :: staleness
  q_mode :: string
  q_revisions :: "(string option \<times> string option) option"
  q_files :: "change_entry list"
  q_seeds :: "string list"
  q_impact_set :: impact_set
  q_stats :: query_stats
  q_explanation :: "explanation option"
  q_events :: "string list"

definition graph_block :: "dict \<Rightarrow> string option \<Rightarrow> string list \<Rightarrow> dict" where
  "graph_block m graph_path ks = (''path'', opt_json graph_path) # map (\<lambda>k. (k, mget m k)) ks"

record query_args =
  qa_mode :: string
  qa_base :: "string option"
  qa_head :: "string option"
  qa_tree_commit :: string
  qa_tree_dirty :: bool
  qa_repo :: "repo option"
  qa_reader :: "(string \<Rightarrow> string option) option"
  qa_max_depth :: "nat option"
  qa_edge_types :: "string list option"
  qa_rules :: "string list"
  qa_graph_path :: "string option"
  qa_graph_role :: string

definition scan_files :: "graph_index \<Rightarrow> query_args \<Rightarrow> changed_file list \<Rightarrow> query_state" where
  "scan_files idx a files =
     fold (query_file idx (qa_rules a) (qa_repo a)
             (if qa_mode a = ''diff'' then qa_head a else Some (qa_tree_commit a)))
       files empty_state"

definition edge_filter :: "query_args \<Rightarrow> string list option" where
  "edge_filter a = (if ''edge_filter'' \<in> set (qa_rules a) then qa_edge_types a else None)"

definition finish_query ::
  "string \<Rightarrow> graph_index \<Rightarrow> query_args \<Rightarrow> staleness \<Rightarrow> query_state \<Rightarrow> impact_entry list \<Rightarrow> impact_query" where
  "finish_query now idx a stale st reached =
     (let imp = impact_of idx (qa_rules a) (qa_max_depth a) (edge_filter a) st reached;
          ex = explain_empty idx (qa_rules a) st imp; m = idx_manifest idx
      in \<lparr>q_captured_at_utc = now, q_repo_name = mget m ''source_repo'',
          q_graph = graph_block m (qa_graph_path a)
            [''source_commit'', ''graph_digest'', ''builder_version'', ''built_at_utc'', ''node_count'', ''edge_count''],
          q_tree = (qa_tree_commit a, qa_tree_dirty a), q_staleness = stale, q_mode = qa_mode a,
          q_revisions = (if qa_mode a = ''diff'' then Some (qa_base a, qa_head a) else None),
          q_files = qs_entries st, q_seeds = sorted_set (qs_seeds st), q_impact_set = imp,
          q_stats = stats_of idx st imp, q_explanation = ex,
          q_events = (if ex = None then [] else [''EMPTY_IMPACT_REQUIRES_EXPLANATION''])\<rparr>)"

text \<open>\<^verbatim>\<open>None\<close>: the traversal still runs when its fuel is spent, which does not happen.\<close>

definition query ::
  "(string \<Rightarrow> string) \<Rightarrow> string \<Rightarrow> graph_index \<Rightarrow> changed_file list \<Rightarrow> query_args
     \<Rightarrow> (gexc + impact_query) option" where
  "query sha now idx files a =
     (if files = [] then Some (Inl (Refuse ''EMPTY_CHANGE_SET'' []))
      else case check_staleness sha now idx (qa_repo a) (qa_mode a) (qa_base a) (qa_tree_commit a)
                  (qa_tree_dirty a) (map f_path files) (qa_rules a) (qa_reader a) (qa_head a) (qa_graph_role a) of
             Inl x \<Rightarrow> Some (Inl x)
           | Inr stale \<Rightarrow>
               (let st = scan_files idx a files
                in case unknown_refusal (qa_rules a) st of
                     Some x \<Rightarrow> Some (Inl x)
                   | None \<Rightarrow>
                       map_option
                         (\<lambda>r. case r of
                                Inl x \<Rightarrow> Inl (Exc x)
                              | Inr reached \<Rightarrow> Inr (finish_query now idx a stale st reached))
                         (traverse idx (qs_seeds st) (qa_max_depth a) (edge_filter a) (qa_rules a)
                            (qs_open_containment st))))"

end
