(* ===== verification/ImpactQueryProps.thy ===== *)
theory ImpactQueryProps
  imports ImpactQuery
begin

section \<open>Properties of the impact query\<close>

text \<open>
  What a query that returns promises: its graph is fresh, every changed code file is covered,
  the two sections of the impact set partition it, a change to a lockfile or global
  configuration reaches every node, and without a depth limit every dependent is selected.
\<close>

subsection \<open>Distinct entities\<close>

lemma distinct_relax:
  "distinct (map fst best) \<Longrightarrow> relax rules seeds node b en (best, heap) = (best', heap') \<Longrightarrow>
     distinct (map fst best')"
  by (cases b; cases en) (auto simp: Let_def distinct_update split: if_splits)

lemma distinct_fold_relax:
  "distinct (map fst best) \<Longrightarrow> fold (relax rules seeds node b) es (best, heap) = (best', heap') \<Longrightarrow>
     distinct (map fst best')"
proof (induction es arbitrary: best heap)
  case (Cons e es)
  obtain b1 h1 where "relax rules seeds node b e (best, heap) = (b1, h1)" by fastforce
  then show ?case using Cons distinct_relax by (metis (no_types) comp_apply fold_Cons)
qed simp

lemma distinct_loop:
  "traverse_loop fuel idx seeds lm et rules opn best heap = Some (Inr best') \<Longrightarrow>
     distinct (map fst best) \<Longrightarrow> distinct (map fst best')"
proof (induction fuel arbitrary: best heap)
  case 0
  from 0(1) show ?case
    by (subst (asm) traverse_loop.simps) (use 0(2) in \<open>auto split: option.splits\<close>)
next
  case (Suc fuel)
  note step = Suc.prems(1) [unfolded traverse_loop.simps [of "Suc fuel"]]
  show ?case
  proof (cases "heappop heap")
    case None
    then show ?thesis using step Suc.prems(2) by simp
  next
    case (Some item)
    obtain nd dep node heap' where item: "item = ((nd, dep, node), heap')" by (metis prod.exhaust)
    from step Some item obtain a b p bd where e: "map_of best node = Some (a, b, p, bd)"
      by (auto split: option.splits)
    consider "traverse_loop fuel idx seeds lm et rules opn best heap' = Some (Inr best')"
      | ns b1 h1 where "fold (relax rules seeds node (nd, dep, p, bd)) ns (best, heap') = (b1, h1)"
          "traverse_loop fuel idx seeds lm et rules opn b1 h1 = Some (Inr best')"
      using step Some item e
      by (auto split: if_splits sum.splits prod.splits)
    then show ?thesis
      using Suc.IH Suc.prems(2) distinct_fold_relax by cases blast+
  qed
qed

lemma distinct_init: "distinct (map fst (fst (init_search seeds)))"
proof -
  let ?f = "\<lambda>s (best :: best_map, heap). (AList.update s (0, 0, [], ''intra_unit'') best, heappush (0, 0, s) heap)"
  have "distinct (map fst b) \<Longrightarrow> distinct (map fst (fst (fold ?f ss (b, h))))" for ss b h
    by (induction ss arbitrary: b h) (auto simp: distinct_update)
  from this [of "[]"] show ?thesis by (simp add: init_search_def)
qed

lemma traverse_distinct:
  assumes "traverse idx seeds max_depth et rules opn = Some (Inr es)"
  shows "distinct (map en_entity es)" "set (map en_entity es) \<inter> set seeds = {}"
proof -
  from assms obtain best where b: "traverse_best idx seeds max_depth et rules opn = Some (Inr best)"
      "mapE (entry_of idx best) (reported seeds best) = Inr es"
    by (auto simp: traverse_of_best)
  have "distinct (map fst best)"
    using b(1) distinct_init [of seeds]
    by (auto simp: traverse_best_def split: prod.splits dest!: distinct_loop)
  moreover have "entry_of idx best n = Inr en \<Longrightarrow> en_entity en = n" for n en
    by (auto simp: entry_of_def split: option.splits if_splits)
  then have "mapE (entry_of idx best) ns = Inr es \<Longrightarrow> map en_entity es = ns" for ns
    by (induction ns arbitrary: es) auto
  with b(2) have "map en_entity es = reported seeds best" by blast
  ultimately show "distinct (map en_entity es)" "set (map en_entity es) \<inter> set seeds = {}"
    by (auto simp: reported_def)
qed

lemma distinct_idx_nodes [simp]: "distinct (map fst (idx_nodes (make_index decls doc)))"
proof -
  have "distinct (map fst d) \<Longrightarrow> distinct (map fst (fold (\<lambda>n. AList.update (n_id n) n) ns d))" for ns d
    by (induction ns arbitrary: d) (auto simp: distinct_update)
  from this [of "[]"] show ?thesis by (simp add: make_index_def Let_def)
qed

subsection \<open>Queries that return\<close>

lemma query_Inr:
  assumes "query sha now idx files a = Some (Inr q)"
  obtains stale reached where
    "check_staleness sha now idx (qa_repo a) (qa_mode a) (qa_base a) (qa_tree_commit a)
       (qa_tree_dirty a) (map f_path files) (qa_rules a) (qa_reader a) (qa_head a) (qa_graph_role a) = Inr stale"
    "unknown_refusal (qa_rules a) (scan_files idx a files) = None"
    "traverse idx (qs_seeds (scan_files idx a files)) (qa_max_depth a) (edge_filter a) (qa_rules a)
       (qs_open_containment (scan_files idx a files)) = Some (Inr reached)"
    "q = finish_query now idx a stale (scan_files idx a files) reached"
  using assms
  by (cases "traverse idx (qs_seeds (scan_files idx a files)) (qa_max_depth a) (edge_filter a) (qa_rules a)
       (qs_open_containment (scan_files idx a files))")
     (auto simp: query_def Let_def split: if_splits sum.splits option.splits)

lemma set_sorted_set [simp]: "set (sorted_set xs) = set xs"
  by (simp add: sorted_set_def)

lemma entity_fallback_entry [simp]: "en_entity (fallback_entry idx trig item) = fst item"
  by (cases item) (simp add: fallback_entry_def)

lemma set_impact_of:
  "en_entity ` set (is_entries (impact_of idx rules md et st reached)) =
     en_entity ` set reached
     \<union> (if qs_fallback_files st \<noteq> [] \<and> ''global_fallback'' \<in> set rules
        then fst ` set (idx_nodes idx) - set (qs_seeds st) - en_entity ` set reached else {})"
proof -
  have "{x \<in> set reached. \<not> non_det x} \<union> {x \<in> set reached. non_det x} = set reached" by blast
  then have "en_entity ` {x \<in> set reached. \<not> non_det x} \<union> en_entity ` {x \<in> set reached. non_det x}
      = en_entity ` set reached" by (metis image_Un)
  moreover have "fst ` {x \<in> A. fst x \<notin> B \<and> fst x \<notin> C} = fst ` A - B - C" for A B C
    by blast
  ultimately show ?thesis
    by (auto simp: impact_of_def add_fallback_def is_entries_def image_Un image_image)
qed

lemma fallback_det: "\<not> non_det (fallback_entry idx trig item)"
  by (cases item) (simp add: non_det_def fallback_entry_def)

text \<open>The two sections of an impact set partition it.\<close>

definition well_split :: "string list \<Rightarrow> impact_set \<Rightarrow> bool" where
  "well_split seeds imp \<longleftrightarrow>
     list_all (\<lambda>e. \<not> non_det e) (is_deterministic_core imp) \<and> list_all non_det (is_inferred_tail imp)
     \<and> distinct (map en_entity (is_entries imp))
     \<and> set (map en_entity (is_entries imp)) \<inter> set seeds = {}"

lemma impact_of_well_split:
  assumes "distinct (map en_entity reached)" "set (map en_entity reached) \<inter> set (qs_seeds st) = {}"
    and "distinct (map fst (idx_nodes idx))"
  shows "well_split (qs_seeds st) (impact_of idx rules md et st reached)"
proof -
  let ?new = "map (fallback_entry idx (hd (qs_fallback_files st)))
     (filter (\<lambda>item. fst item \<notin> set (qs_seeds st) \<and> fst item \<notin> set (map en_entity reached))
        (sort_key fst (idx_nodes idx)))"
  have names: "map en_entity ?new = filter (\<lambda>nid. nid \<notin> set (qs_seeds st) \<and> nid \<notin> set (map en_entity reached))
      (map fst (sort_key fst (idx_nodes idx)))"
    by (simp add: filter_map comp_def fallback_entry_def case_prod_beta)
  have "distinct (map fst (sort_key fst (idx_nodes idx)))"
    by (rule mset_eq_imp_distinct_iff [THEN iffD2, OF _ assms(3)]) simp
  then have new: "distinct (map en_entity ?new)" "set (map en_entity ?new) \<inter> set (map en_entity reached) = {}"
      "set (map en_entity ?new) \<inter> set (qs_seeds st) = {}"
    unfolding names by auto
  have parts: "distinct (map en_entity (filter P reached))" for P
    using assms(1) by (rule distinct_map_filter)
  have inj: "inj_on en_entity (set reached)" using assms(1) by (simp add: distinct_map)
  have split: "en_entity ` {x \<in> set reached. \<not> non_det x} \<inter> en_entity ` {x \<in> set reached. non_det x} = {}"
    using inj by (auto simp: inj_on_def)
  show ?thesis
    using new parts split assms(2)
    unfolding well_split_def impact_of_def add_fallback_def is_entries_def
    by (auto simp: list_all_iff fallback_det)
qed

subsection \<open>The scan of the changed files\<close>

text \<open>The state only grows while files are scanned.\<close>

definition grows :: "query_state \<Rightarrow> query_state \<Rightarrow> bool" where
  "grows st st' \<longleftrightarrow>
     set (qs_seeds st) \<subseteq> set (qs_seeds st') \<and> set (qs_fallback_files st) \<subseteq> set (qs_fallback_files st')
     \<and> set (qs_unknown st) \<subseteq> set (qs_unknown st')
     \<and> set (qs_uncovered_assets st) \<subseteq> set (qs_uncovered_assets st')"

text \<open>A file that a query may leave without a node: new, or neither code nor a deployable asset.\<close>

definition needs_no_node :: "change_entry \<Rightarrow> bool" where
  "needs_no_node e \<longleftrightarrow>
     \<not> is_deployable_asset_path (ce_path e)
     \<and> (ce_status e = ''A'' \<or> lower (ext_of (ce_path e)) \<notin> set (''.prisma'' # CODE_EXTS))"

definition accounted :: "query_state \<Rightarrow> change_entry \<Rightarrow> bool" where
  "accounted st e \<longleftrightarrow>
     ce_node_ids e \<noteq> [] \<and> set (ce_node_ids e) \<subseteq> set (qs_seeds st)
     \<or> ce_path e \<in> set (qs_fallback_files st) \<or> ce_path e \<in> set (qs_unknown st)
     \<or> ce_path e \<in> set (qs_uncovered_assets st)
     \<or> needs_no_node e"

lemma accounted_grows: "grows st st' \<Longrightarrow> accounted st e \<Longrightarrow> accounted st' e"
  by (auto simp: grows_def accounted_def)

lemma asset_file_cases:
  obtains (bound) b where "asset_file idx rp rv p (entry, st) =
      (entry, st\<lparr>qs_profile_bindings := b, qs_fallback_files := qs_fallback_files st @ [p]\<rparr>)"
  | (unbound) b where "asset_file idx rp rv p (entry, st) =
      (entry\<lparr>ce_uncovered := True\<rparr>,
       st\<lparr>qs_profile_bindings := b, qs_uncovered := qs_uncovered st @ [p],
          qs_uncovered_assets := qs_uncovered_assets st @ [p]\<rparr>)"
proof -
  obtain r b where "bound_asset_root idx rp rv p (qs_profile_bindings st) = (r, b)" by fastforce
  then show thesis
    by (cases r) (auto simp: asset_file_def intro: that)
qed

lemma scope_file_extends: "set ids \<subseteq> set (fst (scope_file idx rules p ids))"
  by (auto simp: scope_file_def Let_def split: option.split)

lemma query_file_step:
  "\<exists>e. qs_entries (query_file idx rules rp rv f st) = qs_entries st @ [e]
       \<and> ce_path e = f_path f \<and> ce_status e = f_status f \<and> ce_kind e = file_kind idx f
       \<and> grows st (query_file idx rules rp rv f st) \<and> accounted (query_file idx rules rp rv f st) e
       \<and> (file_kind idx f \<in> set FALLBACK_KINDS \<longrightarrow>
            f_path f \<in> set (qs_fallback_files (query_file idx rules rp rv f st)))
       \<and> set (path_nodes idx (f_path f) rules) \<subseteq> set (qs_seeds (query_file idx rules rp rv f st))"
proof -
  obtain ids opened scoped where sc: "scope_file idx rules (f_path f) (file_ids idx rules f) = (ids, opened, scoped)"
    by (cases "scope_file idx rules (f_path f) (file_ids idx rules f)")
  have ids: "set (path_nodes idx (f_path f) rules) \<subseteq> set ids"
  proof -
    have "set (file_ids idx rules f) \<subseteq> set ids"
      using scope_file_extends [of "file_ids idx rules f" idx rules "f_path f"] sc by simp
    moreover have "set (path_nodes idx (f_path f) rules) \<subseteq> set (file_ids idx rules f)"
      unfolding file_ids_def Let_def set_sorted_set set_append by (rule Un_upper1)
    ultimately show ?thesis by (rule order_trans [rotated])
  qed
  let ?entry = "\<lparr>ce_path = f_path f, ce_status = f_status f, ce_kind = file_kind idx f, ce_renamed_to = f_renamed_to f,
                   ce_renamed_from = f_renamed_from f, ce_scoped_fallback = scoped, ce_node_id = None,
                   ce_node_ids = [], ce_new = False, ce_uncovered = False\<rparr>"
  let ?st = "st\<lparr>qs_open_containment := qs_open_containment st @ opened,
                   qs_fallback_files := qs_fallback_files st @ (if file_kind idx f \<in> set FALLBACK_KINDS then [f_path f] else [])\<rparr>"
  show ?thesis
  proof (cases "ids = [] \<and> is_deployable_asset_path (f_path f)
                \<and> (f_status f = ''A'' \<or> file_kind idx f \<notin> set FALLBACK_KINDS)")
    case True
    show ?thesis
    proof (cases "f_status f = ''A''")
      case A: True
      show ?thesis
        by (cases rule: asset_file_cases [of idx rp rv "f_path f" "?entry\<lparr>ce_new := True\<rparr>"
              "?st\<lparr>qs_new_files := qs_new_files ?st @ [f_path f]\<rparr>"])
           (use True A ids in \<open>auto simp: query_file_def Let_def sc grows_def accounted_def needs_no_node_def\<close>)
    next
      case A: False
      show ?thesis
        by (cases rule: asset_file_cases [of idx rp rv "f_path f" ?entry ?st])
           (use True A ids in \<open>auto simp: query_file_def Let_def sc grows_def accounted_def needs_no_node_def\<close>)
    qed
  next
    case False
    then show ?thesis
      using ids by (auto simp: query_file_def Let_def sc grows_def accounted_def needs_no_node_def)
  qed
qed

lemma grows_refl: "grows st st"
  by (simp add: grows_def)

lemma grows_trans: "grows a b \<Longrightarrow> grows b c \<Longrightarrow> grows a c"
  by (auto simp: grows_def)

lemma scan_fold:
  "list_all (accounted st) (qs_entries st) \<Longrightarrow> st' = fold (query_file idx rules rp rv) files st \<Longrightarrow>
     grows st st' \<and> list_all (accounted st') (qs_entries st')
     \<and> map (\<lambda>e. (ce_path e, ce_status e, ce_kind e)) (qs_entries st') =
         map (\<lambda>e. (ce_path e, ce_status e, ce_kind e)) (qs_entries st)
         @ map (\<lambda>f. (f_path f, f_status f, file_kind idx f)) files
     \<and> f_path ` {f \<in> set files. file_kind idx f \<in> set FALLBACK_KINDS} \<subseteq> set (qs_fallback_files st')
     \<and> (\<Union>f \<in> set files. set (path_nodes idx (f_path f) rules)) \<subseteq> set (qs_seeds st')"
proof (induction files arbitrary: st)
  case (Cons f files)
  let ?s1 = "query_file idx rules rp rv f st"
  obtain e where e: "qs_entries ?s1 = qs_entries st @ [e]" "ce_path e = f_path f" "ce_status e = f_status f"
    "ce_kind e = file_kind idx f" "grows st ?s1" "accounted ?s1 e"
    "file_kind idx f \<in> set FALLBACK_KINDS \<Longrightarrow> f_path f \<in> set (qs_fallback_files ?s1)"
    "set (path_nodes idx (f_path f) rules) \<subseteq> set (qs_seeds ?s1)"
    using query_file_step [of idx rules rp rv f st] by blast
  have "list_all (accounted ?s1) (qs_entries ?s1)"
    using Cons.prems(1) e(1,5,6) accounted_grows by (auto simp: list_all_iff)
  from Cons.IH [OF this] Cons.prems(2)
  have r: "grows ?s1 st'" "list_all (accounted st') (qs_entries st')"
    "map (\<lambda>e. (ce_path e, ce_status e, ce_kind e)) (qs_entries st') =
         map (\<lambda>e. (ce_path e, ce_status e, ce_kind e)) (qs_entries ?s1)
         @ map (\<lambda>f. (f_path f, f_status f, file_kind idx f)) files"
    "f_path ` {f \<in> set files. file_kind idx f \<in> set FALLBACK_KINDS} \<subseteq> set (qs_fallback_files st')"
    "(\<Union>f \<in> set files. set (path_nodes idx (f_path f) rules)) \<subseteq> set (qs_seeds st')"
    by simp_all
  have "set (qs_fallback_files ?s1) \<subseteq> set (qs_fallback_files st')" "set (qs_seeds ?s1) \<subseteq> set (qs_seeds st')"
    using r(1) by (simp_all add: grows_def)
  then show ?case
    using r e grows_trans [OF e(5) r(1)] by auto
qed (simp add: grows_refl)

lemma scan_files_facts:
  defines "key \<equiv> \<lambda>e. (ce_path e, ce_status e, ce_kind e)"
  shows "list_all (accounted (scan_files idx a files)) (qs_entries (scan_files idx a files))"
    "map key (qs_entries (scan_files idx a files)) =
       map (\<lambda>f. (f_path f, f_status f, file_kind idx f)) files"
    "f_path ` {f \<in> set files. file_kind idx f \<in> set FALLBACK_KINDS}
       \<subseteq> set (qs_fallback_files (scan_files idx a files))"
    "(\<Union>f \<in> set files. set (path_nodes idx (f_path f) (qa_rules a)))
       \<subseteq> set (qs_seeds (scan_files idx a files))"
  using scan_fold [of empty_state _ idx "qa_rules a" "qa_repo a", OF _ scan_files_def]
  by (auto simp: empty_state_def key_def)

subsection \<open>Freshness\<close>

text \<open>What a tree source stores under a path, for a git that answers the batch protocol.\<close>

fun tree_content :: "tree_source \<Rightarrow> (string \<Rightarrow> string option) \<Rightarrow> string \<Rightarrow> string option" where
  "tree_content (Fixture reader) store p = reader p"
| "tree_content (Objects r rv) store p =
     (case source_path p of Inl _ \<Rightarrow> None | Inr q \<Rightarrow> store (rv @ '':'' @ r_prefix r @ q))"
| "tree_content (Worktree r) store p = r_worktree r p"

fun tree_lawful :: "tree_source \<Rightarrow> (string \<Rightarrow> string) \<Rightarrow> (string \<Rightarrow> string option) \<Rightarrow> bool" where
  "tree_lawful (Objects r rv) oid store \<longleftrightarrow>
     r_cat_file r = git_cat_file oid store \<and> (\<forall>c. object_name (oid c)) \<and> newline \<notin> set (rv @ r_prefix r)"
| "tree_lawful _ oid store \<longleftrightarrow> True"

lemma map_of_fold_zip:
  "map_of (fold (\<lambda>(k, v). AList.update k v) (map (\<lambda>p. (p, g p)) ps) d) p =
     (if p \<in> set ps then Some (g p) else map_of d p)"
  by (induction ps arbitrary: d) (auto simp: update_conv')

lemma mapE_zip:
  "mapE f xs = Inr ys \<Longrightarrow> zip xs (map h ys) = map (\<lambda>x. (x, case f x of Inl e \<Rightarrow> d | Inr y \<Rightarrow> h y)) xs"
  by (induction xs arbitrary: ys) auto

lemma read_all_content:
  assumes "tree_lawful src oid store" "read_all src ps = Inr blobs" "p \<in> set ps"
  shows "map_of blobs p = Some (tree_content src store p)"
proof (cases src)
  case (Objects r rv)
  let ?g = "tree_content src store"
  from assms(2) Objects obtain paths where m: "mapE source_path ps = Inr paths"
    and b: "blobs = fold (\<lambda>(k, v). AList.update k v) (zip ps (map (\<lambda>q. store (rv @ '':'' @ r_prefix r @ q)) paths)) []"
    using assms(1) read_at_git [of oid rv "r_prefix r" store ps] by auto
  have "zip ps (map (\<lambda>q. store (rv @ '':'' @ r_prefix r @ q)) paths) = map (\<lambda>p. (p, ?g p)) ps"
    using mapE_zip [OF m, of "\<lambda>q. store (rv @ '':'' @ r_prefix r @ q)" None]
    by (simp only: Objects tree_content.simps)
  then show ?thesis using assms(3) map_of_fold_zip [of ?g ps "[]" p] by (simp add: b)
qed (use assms in \<open>auto simp: map_of_map_restrict split: if_splits\<close>)

text \<open>The content hash of a node agrees with the tree.\<close>

definition node_fresh ::
  "(string \<Rightarrow> string) \<Rightarrow> tree_source \<Rightarrow> (string \<Rightarrow> string option) \<Rightarrow> bool \<Rightarrow> string list \<Rightarrow> gnode \<Rightarrow> bool" where
  "node_fresh sha src store diff changed n =
     (case hashed_file src n of
        Inl _ \<Rightarrow> False
      | Inr None \<Rightarrow> True
      | Inr (Some p) \<Rightarrow>
          (\<not> diff \<and> p \<in> set changed)
          \<or> map_option (sha_bytes sha) (tree_content src store p) = Some (n_content_hash n))"

definition wanted_ok where
  "wanted_ok src diff changed items wanted \<longleftrightarrow>
     list_all (\<lambda>(nid, n). case hashed_file src n of
         Inl _ \<Rightarrow> False
       | Inr None \<Rightarrow> True
       | Inr (Some p) \<Rightarrow> (\<not> diff \<and> p \<in> set changed) \<or> nid \<in> set (get_list wanted p)) items"

lemma want_fold:
  "foldE (want_node src diff changed) items wanted = Inr wanted' \<Longrightarrow>
     wanted_ok src diff changed items wanted' \<and> (\<forall>p. set (get_list wanted p) \<subseteq> set (get_list wanted' p))"
proof (induction items arbitrary: wanted)
  case (Cons item items)
  obtain nid n where item: "item = (nid, n)" by fastforce
  from Cons.prems obtain w where w: "want_node src diff changed item wanted = Inr w"
    "foldE (want_node src diff changed) items w = Inr wanted'" by auto
  note ih = Cons.IH [OF w(2)]
  from w(1) item obtain h where h: "hashed_file src n = Inr h"
    and wd: "w = (case h of None \<Rightarrow> wanted
       | Some p \<Rightarrow> if \<not> diff \<and> p \<in> set changed then wanted else append_at p nid wanted)"
    by (auto simp: want_node_def)
  have "set (get_list wanted p) \<subseteq> set (get_list w p)" for p
    by (auto simp: wd split: option.splits)
  moreover have "case h of None \<Rightarrow> True
      | Some p \<Rightarrow> (\<not> diff \<and> p \<in> set changed) \<or> nid \<in> set (get_list w p)"
    by (auto simp: wd split: option.splits)
  ultimately show ?case
    using ih by (fastforce simp: wanted_ok_def item h split: option.splits)
qed (simp add: wanted_ok_def)

lemma get_list_in_keys: "x \<in> set (get_list d p) \<Longrightarrow> p \<in> set (map fst d)"
  using get_list_outside [of p d] by fastforce

lemma hash_check_fresh:
  assumes "hash_check sha idx src diff changed = Inr k" "tree_lawful src oid store"
    and "distinct (map fst (idx_nodes idx))"
  shows "list_all (\<lambda>(nid, n). node_fresh sha src store diff changed n) (idx_nodes idx)"
proof -
  from assms(1) obtain wanted blobs where
    w: "foldE (want_node src diff changed) (idx_nodes idx) [] = Inr wanted"
    and b: "read_all src (sort (map fst wanted)) = Inr blobs"
    and none: "hash_mismatches sha idx wanted blobs = []"
    by (auto simp: hash_check_def Let_def split: if_splits)
  have "node_fresh sha src store diff changed n" if n: "(nid, n) \<in> set (idx_nodes idx)" for nid n
  proof -
    have node: "map_of (idx_nodes idx) nid = Some n" using n assms(3) by simp
    have ok: "case hashed_file src n of Inl _ \<Rightarrow> False | Inr None \<Rightarrow> True
       | Inr (Some p) \<Rightarrow> (\<not> diff \<and> p \<in> set changed) \<or> nid \<in> set (get_list wanted p)"
      using want_fold [OF w] n by (auto simp: wanted_ok_def list_all_iff)
    have match: "map_option (sha_bytes sha) (tree_content src store p) = Some (n_content_hash n)"
      if "nid \<in> set (get_list wanted p)" for p
    proof -
      have p: "p \<in> set (sort (map fst wanted))" using get_list_in_keys [OF that] by simp
      have "node_mismatch idx (tree_hash sha blobs p) nid = []"
        using none p that by (auto simp: hash_mismatches_def)
      then have "tree_hash sha blobs p = Some (n_content_hash n)"
        by (auto simp: node_mismatch_def node split: if_splits)
      then show ?thesis
        using read_all_content [OF assms(2) b p] by (auto simp: tree_hash_def split: option.splits)
    qed
    then show ?thesis
      using ok by (auto simp: node_fresh_def split: sum.splits option.splits)
  qed
  then show ?thesis by (auto simp: list_all_iff)
qed


text \<open>A graph of one file, with a checksum in the place of SHA-256.\<close>

definition toy_sha :: "string \<Rightarrow> string" where
  "toy_sha b = show_nat (sum_list (map of_char b))"

definition one_file_doc :: graph_doc where
  "one_file_doc =
     \<lparr>doc_manifest = [(''source_commit'', JStr ''c1'')],
      doc_nodes = [\<lparr>n_id = ''code_unit:a.ts'', n_type = ''code_unit'', n_path = Some ''a.ts'', n_kind = None,
                    n_content_hash = ''sha256:294''\<rparr>],
      doc_edges = []\<rparr>"

definition one_file_tree :: "string \<Rightarrow> string option" where
  "one_file_tree = map_of [(''a.ts'', ''abc'')]"


subsection \<open>Exceptions of a query\<close>

definition error_ok :: "gexc \<Rightarrow> bool" where
  "error_ok x = (case x of
      Refuse c _ \<Rightarrow> c \<in> {''STALE_GRAPH'', ''SOURCE_PATH_INVALID''}
    | Exc e \<Rightarrow> e \<in> {TypeError, ValueError, IndexError})"

lemma read_batch_error: "read_batch rs out = Inl x \<Longrightarrow> x \<in> {ValueError, IndexError}"
  by (induction rs out rule: read_batch.induct)
     (auto simp: bindE_eq_Inl Let_def parse_nat_def split: if_splits list.splits)

lemma source_path_error: "source_path p = Inl x \<Longrightarrow> error_ok x"
  by (auto simp: source_path_def Let_def error_ok_def split: if_splits)

lemma read_at_error: "read_at cat prefix rv ps = Inl x \<Longrightarrow> error_ok x"
proof (cases "mapE source_path ps")
  case (Inl y)
  moreover assume "read_at cat prefix rv ps = Inl x"
  ultimately show ?thesis using mapE_Inl [OF Inl] source_path_error by (auto simp: read_at_def)
next
  case (Inr paths)
  assume a: "read_at cat prefix rv ps = Inl x"
  show ?thesis
  proof (cases "read_batch ps (cat (batch_request rv prefix paths))")
    case (Inl y)
    then show ?thesis using a Inr read_batch_error [OF Inl] by (auto simp: read_at_def error_ok_def)
  next
    case (Inr res)
    then show ?thesis using a \<open>mapE source_path ps = Inr paths\<close> by (simp add: read_at_def)
  qed
qed

lemma read_one_error: "read_one src p = Inl x \<Longrightarrow> error_ok x"
  by (cases src) (auto simp: bindE_eq_Inl dest: read_at_error)

lemma read_all_error: "read_all src ps = Inl x \<Longrightarrow> error_ok x"
  by (cases src) (auto dest: read_at_error)

lemma manifest_candidates_error: "manifest_candidates src p names = Inl x \<Longrightarrow> error_ok x"
  by (induction names) (auto simp: Let_def bindE_eq_Inl dest: read_one_error split: option.splits)

lemma hashed_file_error: "hashed_file src n = Inl x \<Longrightarrow> error_ok x"
  by (auto simp: hashed_file_def deployable_manifest_def bindE_eq_Inl dest: manifest_candidates_error
      split: option.splits if_splits)

lemma foldE_Inl: "foldE f xs s = Inl x \<Longrightarrow> \<exists>y \<in> set xs. \<exists>t. f y t = Inl x"
  by (induction xs arbitrary: s) (auto simp: bindE_eq_Inl)

lemma want_fold_error: "foldE (want_node src diff changed) items wanted = Inl x \<Longrightarrow> error_ok x"
  by (drule foldE_Inl) (auto simp: want_node_def bindE_eq_Inl dest: hashed_file_error)

lemma hash_check_error: "hash_check sha idx src diff changed = Inl x \<Longrightarrow> error_ok x"
  by (auto simp: hash_check_def bindE_eq_Inl Let_def dest: want_fold_error read_all_error split: if_splits)
     (simp_all add: error_ok_def)

lemma commit_mismatch_error: "error_ok (commit_mismatch m ref)"
  by (simp add: commit_mismatch_def error_ok_def split: option.split json.split)

lemma check_staleness_error:
  "check_staleness sha now idx rp mode base tc td changed rules reader head role = Inl x \<Longrightarrow> error_ok x"
  unfolding check_staleness_def Let_def
  by (auto simp: bindE_eq_Inl commit_mismatch_error dest: hash_check_error split: if_splits option.splits)
     (simp_all add: error_ok_def)

lemma query_Inl:
  assumes "query sha now idx files a = Some (Inl x)"
  obtains "x = Refuse ''EMPTY_CHANGE_SET'' []"
  | "check_staleness sha now idx (qa_repo a) (qa_mode a) (qa_base a) (qa_tree_commit a)
       (qa_tree_dirty a) (map f_path files) (qa_rules a) (qa_reader a) (qa_head a) (qa_graph_role a) = Inl x"
  | "unknown_refusal (qa_rules a) (scan_files idx a files) = Some x"
  | e where "x = Exc e" "traverse idx (qs_seeds (scan_files idx a files)) (qa_max_depth a) (edge_filter a) (qa_rules a)
       (qs_open_containment (scan_files idx a files)) = Some (Inl e)"
  using assms
  by (cases "traverse idx (qs_seeds (scan_files idx a files)) (qa_max_depth a) (edge_filter a) (qa_rules a)
       (qs_open_containment (scan_files idx a files))")
     (auto simp: query_def Let_def split: if_splits sum.splits option.splits)

lemma traverse_not_None: "traverse (make_index decls doc) seeds md et rules opn \<noteq> None"
  by (cases rule: traverse_cases [of decls doc seeds md et rules opn]) auto

lemma traverse_error:
  "traverse (make_index decls doc) seeds md et rules opn = Some (Inl x) \<Longrightarrow>
     x \<in> KeyError ` (- n_id ` set (doc_nodes doc))"
  by (cases rule: traverse_cases [of decls doc seeds md et rules opn]) auto

subsection \<open>Dependents\<close>

lemma traverse_reaches:
  assumes t: "traverse (make_index decls doc) seeds None et rules opn = Some (Inr es)"
    and w: "walk (make_index decls doc) seeds et rules opn n nd dep p"
  shows "n \<in> set seeds \<union> en_entity ` set es"
proof (cases rule: traverse_cases [of decls doc seeds None et rules opn])
  case (ok best es')
  then have es: "es' = es" using t by simp
  have "le_key best n (nd, dep)"
    by (rule made.best_minimal [OF ok(2) w]) (simp add: depth_limit_def)
  then show ?thesis
    using entries_complete [OF ok(2,3), of n] by (auto simp: le_key_def es)
qed (use t in simp)

lemma walk_mono:
  "walk idx seeds et rules opn n nd dep p \<Longrightarrow> set seeds \<subseteq> set seeds' \<Longrightarrow>
     walk idx seeds' et rules opn n nd dep p"
  by (induction rule: walk.induct) (auto intro: walk.intros)

subsection \<open>The properties of a query\<close>

text \<open>
  C18: a query always returns.  It raises a refusal with one of the documented codes, or an
  exception of malformed input: the \<^verbatim>\<open>KeyError\<close> of a dangling edge, or what reading the tree
  and the manifest raises.
\<close>

theorem query_total:
  "case query sha now (make_index decls doc) files a of
     None \<Rightarrow> False
   | Some (Inl (Refuse code details)) \<Rightarrow>
       code \<in> {''EMPTY_CHANGE_SET'', ''STALE_GRAPH'', ''UNKNOWN_NODE'', ''SOURCE_PATH_INVALID''}
   | Some (Inl (Exc x)) \<Rightarrow>
       x \<in> {TypeError, ValueError, IndexError} \<union> KeyError ` (- n_id ` set (doc_nodes doc))
   | Some (Inr q) \<Rightarrow> True"
proof (cases "query sha now (make_index decls doc) files a")
  case None
  then show ?thesis
    using traverse_not_None [of decls doc "qs_seeds (scan_files (make_index decls doc) a files)" "qa_max_depth a"
        "edge_filter a" "qa_rules a" "qs_open_containment (scan_files (make_index decls doc) a files)"]
    by (simp add: query_def Let_def split: if_splits sum.splits option.splits)
next
  case (Some r)
  show ?thesis
  proof (cases r)
    case (Inl x)
    then have x: "query sha now (make_index decls doc) files a = Some (Inl x)" using Some by simp
    from query_Inl [OF x] show ?thesis
      by cases (auto simp: x error_ok_def unknown_refusal_def Let_def
        dest!: check_staleness_error traverse_error split: gexc.splits if_splits)
  qed (simp add: Some)
qed

text \<open>
  the two sections of an impact set partition it.  Every path of the deterministic core
  is fully deterministic and none of the inferred tail is, no entity is listed twice, and no
  changed node is listed as affected.
\<close>

lemma query_well_split:
  "case query sha now (make_index decls doc) files a of
     Some (Inr q) \<Rightarrow> well_split (q_seeds q) (q_impact_set q)
   | _ \<Rightarrow> True"
proof (cases "\<exists>q. query sha now (make_index decls doc) files a = Some (Inr q)")
  case True
  then obtain q where q: "query sha now (make_index decls doc) files a = Some (Inr q)" by blast
  from query_Inr [OF this] obtain stale reached where
    t: "traverse (make_index decls doc) (qs_seeds (scan_files (make_index decls doc) a files)) (qa_max_depth a)
          (edge_filter a) (qa_rules a) (qs_open_containment (scan_files (make_index decls doc) a files)) = Some (Inr reached)"
    and r: "q = finish_query now (make_index decls doc) a stale (scan_files (make_index decls doc) a files) reached" .
  show ?thesis
    using impact_of_well_split [OF traverse_distinct [OF t] distinct_idx_nodes]
    by (simp add: q r finish_query_def Let_def well_split_def)
qed (auto split: option.splits sum.splits)

text \<open>
  a change to a lockfile or to global configuration affects every node: each node of the
  graph is a changed node or an entry of the impact set.
\<close>

lemma query_global_fallback:
  "case query sha now (make_index decls doc) files a of
     Some (Inr q) \<Rightarrow>
       (if ''global_fallback'' \<in> set (qa_rules a)
           \<and> list_ex (\<lambda>f. file_kind (make_index decls doc) f \<in> set FALLBACK_KINDS) files
        then n_id ` set (doc_nodes doc)
               \<subseteq> set (q_seeds q) \<union> en_entity ` set (is_entries (q_impact_set q))
        else True)
   | _ \<Rightarrow> True"
proof (cases "\<exists>q. query sha now (make_index decls doc) files a = Some (Inr q)")
  case True
  then obtain q where q: "query sha now (make_index decls doc) files a = Some (Inr q)" by blast
  let ?st = "scan_files (make_index decls doc) a files"
  from query_Inr [OF q] obtain stale reached where
    r: "q = finish_query now (make_index decls doc) a stale ?st reached" .
  have "list_ex (\<lambda>f. file_kind (make_index decls doc) f \<in> set FALLBACK_KINDS) files \<Longrightarrow> qs_fallback_files ?st \<noteq> []"
    using scan_files_facts(3) [of files "make_index decls doc" a] by (auto simp: list_ex_iff)
  then show ?thesis
    by (auto simp: q r finish_query_def Let_def set_impact_of nodes_of_index)
qed (auto split: option.splits sum.splits)


text \<open>
  C17: without a depth limit a query selects every dependent.  Whatever a walk of neighbour
  steps reaches from the nodes of a changed file is a changed node or an entry of the impact
  set.
\<close>

theorem query_selects_dependents:
  "case query sha now (make_index decls doc) files (a\<lparr>qa_max_depth := None\<rparr>) of
     Some (Inr q) \<Rightarrow>
       {n. \<exists>nd dep p. walk (make_index decls doc)
              (concat (map (\<lambda>f. path_nodes (make_index decls doc) (f_path f) (qa_rules a)) files))
              (edge_filter a) (qa_rules a) (qs_open_containment (scan_files (make_index decls doc) a files)) n nd dep p}
       \<subseteq> set (q_seeds q) \<union> en_entity ` set (is_entries (q_impact_set q))
   | _ \<Rightarrow> True"
proof (cases "\<exists>q. query sha now (make_index decls doc) files (a\<lparr>qa_max_depth := None\<rparr>) = Some (Inr q)")
  case True
  then obtain q where q: "query sha now (make_index decls doc) files (a\<lparr>qa_max_depth := None\<rparr>) = Some (Inr q)"
    by blast
  let ?idx = "make_index decls doc"
  let ?st = "scan_files ?idx a files"
  have st: "scan_files ?idx (a\<lparr>qa_max_depth := None\<rparr>) files = ?st" "edge_filter (a\<lparr>qa_max_depth := None\<rparr>) = edge_filter a"
    by (simp_all add: scan_files_def edge_filter_def)
  from query_Inr [OF q] obtain stale reached where
    t': "traverse ?idx (qs_seeds (scan_files ?idx (a\<lparr>qa_max_depth := None\<rparr>) files))
          (qa_max_depth (a\<lparr>qa_max_depth := None\<rparr>)) (edge_filter (a\<lparr>qa_max_depth := None\<rparr>))
          (qa_rules (a\<lparr>qa_max_depth := None\<rparr>))
          (qs_open_containment (scan_files ?idx (a\<lparr>qa_max_depth := None\<rparr>) files)) = Some (Inr reached)"
    and r': "q = finish_query now ?idx (a\<lparr>qa_max_depth := None\<rparr>) stale
          (scan_files ?idx (a\<lparr>qa_max_depth := None\<rparr>) files) reached" .
  have t: "traverse ?idx (qs_seeds ?st) None (edge_filter a) (qa_rules a) (qs_open_containment ?st) = Some (Inr reached)"
    using t' by (simp add: st)
  have r: "q = finish_query now ?idx (a\<lparr>qa_max_depth := None\<rparr>) stale ?st reached"
    using r' by (simp add: st)
  have seeds: "set (concat (map (\<lambda>f. path_nodes ?idx (f_path f) (qa_rules a)) files)) \<subseteq> set (qs_seeds ?st)"
    using scan_files_facts(4) [of ?idx a files] by simp
  have sub: "{n. \<exists>nd dep p. walk ?idx (concat (map (\<lambda>f. path_nodes ?idx (f_path f) (qa_rules a)) files))
      (edge_filter a) (qa_rules a) (qs_open_containment ?st) n nd dep p}
      \<subseteq> set (qs_seeds ?st) \<union> en_entity ` set reached"
    using traverse_reaches [OF t walk_mono [OF _ seeds]] by blast
  show ?thesis
    by (simp add: q r finish_query_def Let_def set_impact_of) (use sub in blast)
qed (auto split: option.splits sum.splits)

end
