(* ===== verification/ImpactReceipt.thy ===== *)
theory ImpactReceipt
  imports ImpactQuery
begin

section \<open>Receipt skeletons\<close>

text \<open>
  \<^verbatim>\<open>strip_volatile\<close>, \<^verbatim>\<open>refusal_doc\<close>, \<^verbatim>\<open>receipt_skeleton\<close> and the exit codes of \<^verbatim>\<open>run_query\<close> in
  \<^verbatim>\<open>tools/graph/impact.py\<close>.  A skeleton names every selected entity once, all of them not
  measured, and can only pause.
\<close>

definition VOLATILE :: "string list" where
  "VOLATILE = [''captured_at_utc'', ''checked_at_utc'', ''duration_s'']"

fun strip_volatile :: "json \<Rightarrow> json" where
  "strip_volatile (JObj d) =
     JObj (map (\<lambda>(k, v). (k, strip_volatile v)) (filter (\<lambda>(k, v). k \<notin> set VOLATILE) d))"
| "strip_volatile (JArr xs) = JArr (map strip_volatile xs)"
| "strip_volatile j = j"

record refusal_document =
  rd_captured_at_utc :: string
  rd_repo_name :: json
  rd_graph :: dict
  rd_tree :: "string option \<times> bool option"
  rd_staleness_verdict :: string
  rd_mode :: string
  rd_files :: "changed_file list"
  rd_code :: string
  rd_details :: dict

definition refusal_doc ::
  "string \<Rightarrow> graph_index option \<Rightarrow> string \<Rightarrow> dict \<Rightarrow> string \<Rightarrow> string option \<Rightarrow> bool option
     \<Rightarrow> string option \<Rightarrow> changed_file list \<Rightarrow> refusal_document" where
  "refusal_doc now idx code details mode tree_commit tree_dirty graph_path files =
     (let m = (case idx of Some ix \<Rightarrow> idx_manifest ix | None \<Rightarrow> [])
      in \<lparr>rd_captured_at_utc = now, rd_repo_name = mget m ''source_repo'',
          rd_graph = graph_block m graph_path [''source_commit'', ''graph_digest'', ''builder_version'', ''built_at_utc''],
          rd_tree = (tree_commit, tree_dirty),
          rd_staleness_verdict = (if code = ''STALE_GRAPH'' then ''stale'' else ''not_checked''),
          rd_mode = mode, rd_files = files, rd_code = code, rd_details = details\<rparr>)"

text \<open>The answer of a query document: a refusal or an impact query.\<close>

type_synonym query_doc = "refusal_document + impact_query"

record receipt =
  rc_receipt_id :: string
  rc_captured_at_utc :: string
  rc_host :: string
  rc_graph :: dict
  rc_files :: "change_entry list"
  rc_impact_set :: impact_set
  rc_verdicts :: "(string \<times> string) list"
  rc_admission :: string
  rc_explanation :: "explanation option"
  rc_work_item :: "string option"

text \<open>\<^verbatim>\<open>f.get("node_ids") or ([f["node_id"]] if f.get("node_id") else [])\<close>\<close>

definition changed_ids :: "change_entry \<Rightarrow> string list" where
  "changed_ids f =
     (if ce_node_ids f \<noteq> [] then ce_node_ids f
      else case ce_node_id f of Some i \<Rightarrow> (if i = [] then [] else [i]) | None \<Rightarrow> [])"

text \<open>The loop over \<^verbatim>\<open>entities + changed\<close> with the set \<^verbatim>\<open>seen\<close>.\<close>

fun skeleton_verdicts :: "string list \<Rightarrow> string list \<Rightarrow> (string \<times> string) list" where
  "skeleton_verdicts seen [] = []"
| "skeleton_verdicts seen (ent # es) =
     (if ent \<in> set seen then skeleton_verdicts seen es
      else (ent, ''not_measured'') # skeleton_verdicts (ent # seen) es)"

definition receipt_skeleton :: "string \<Rightarrow> query_doc \<Rightarrow> string option \<Rightarrow> gexc + receipt" where
  "receipt_skeleton host doc work_item =
     (case doc of
        Inl r \<Rightarrow> Inl (Refuse (rd_code r) [])
      | Inr q \<Rightarrow>
          (let imp = q_impact_set q
           in Inr \<lparr>rc_receipt_id = ''car-impact-'' @ filter (\<lambda>c. c \<noteq> CHR ''-'' \<and> c \<noteq> CHR '':'') (q_captured_at_utc q),
                   rc_captured_at_utc = q_captured_at_utc q, rc_host = host,
                   rc_graph = filter (\<lambda>(k, v). k \<in> set [''path'', ''source_commit'', ''graph_digest'',
                                        ''builder_version'', ''built_at_utc'']) (q_graph q),
                   rc_files = q_files q, rc_impact_set = imp,
                   rc_verdicts = skeleton_verdicts []
                     (map en_entity (is_entries imp) @ concat (map changed_ids (q_files q))),
                   rc_admission = ''paused_safe'', rc_explanation = q_explanation q,
                   rc_work_item = (case work_item of Some w \<Rightarrow> (if w = [] then None else Some w) | None \<Rightarrow> None)\<rparr>))"

text \<open>The exit codes of the command: 0 or 3 for an answer, 2 for a refusal.\<close>

definition exit_code :: "query_doc \<Rightarrow> nat" where
  "exit_code doc = (case doc of Inl _ \<Rightarrow> 2 | Inr q \<Rightarrow> if q_events q \<noteq> [] then 3 else 0)"

subsection \<open>Properties\<close>

lemma skeleton_verdicts_entities: "fst ` set (skeleton_verdicts seen es) = set es - set seen"
  by (induction seen es rule: skeleton_verdicts.induct) auto

lemma skeleton_verdicts_distinct: "distinct (map fst (skeleton_verdicts seen es))"
  by (induction seen es rule: skeleton_verdicts.induct) (auto simp: skeleton_verdicts_entities)

lemma skeleton_verdicts_values: "snd ` set (skeleton_verdicts seen es) \<subseteq> {''not_measured''}"
  by (induction seen es rule: skeleton_verdicts.induct) auto

lemmas skeleton_verdicts_spec =
  skeleton_verdicts_entities skeleton_verdicts_distinct skeleton_verdicts_values

text \<open>
  A receipt skeleton is complete and cannot admit.  It gives every entity of the impact
  set and every changed node exactly one verdict, all of them not measured, and pauses; for a
  refused query there is none.
\<close>

theorem receipt_skeleton_complete:
  "case receipt_skeleton host doc work_item of
     Inl x \<Rightarrow> (\<exists>r. doc = Inl r \<and> x = Refuse (rd_code r) [])
   | Inr rec \<Rightarrow>
       (\<exists>q. doc = Inr q
          \<and> fst ` set (rc_verdicts rec) =
              en_entity ` set (is_entries (q_impact_set q)) \<union> \<Union> (set ` changed_ids ` set (q_files q))
          \<and> distinct (map fst (rc_verdicts rec)) \<and> snd ` set (rc_verdicts rec) \<subseteq> {''not_measured''}
          \<and> rc_admission rec = ''paused_safe'')"
  by (cases doc) (simp_all add: receipt_skeleton_def Let_def skeleton_verdicts_spec)

text \<open>Two documents that differ in wall-clock fields only are equal after stripping.\<close>

fun no_volatile :: "json \<Rightarrow> bool" where
  "no_volatile (JObj d) \<longleftrightarrow> list_all (\<lambda>(k, v). k \<notin> set VOLATILE \<and> no_volatile v) d"
| "no_volatile (JArr xs) \<longleftrightarrow> list_all no_volatile xs"
| "no_volatile j \<longleftrightarrow> True"

lemma no_volatile_strip: "no_volatile (strip_volatile j)"
proof (induction j rule: strip_volatile.induct)
  case (1 d)
  then show ?case by (auto simp: list_all_iff)
qed (auto simp: list_all_iff)

lemma strip_id: "no_volatile j \<Longrightarrow> strip_volatile j = j"
proof (induction j rule: strip_volatile.induct)
  case (1 d)
  have "filter (\<lambda>(k, v). k \<notin> set VOLATILE) d = d"
    using 1(2) by (auto simp: list_all_iff intro!: filter_True)
  moreover have "map (\<lambda>(k, v). (k, strip_volatile v)) d = d"
    using 1 by (auto simp: list_all_iff intro!: map_idI)
  ultimately show ?case by simp
next
  case (2 xs)
  then show ?case by (auto simp: list_all_iff intro!: map_idI)
qed simp_all

text \<open>
  Stripping the wall-clock fields leaves none of them at any depth, and stripping twice
  is stripping once.
\<close>

theorem strip_volatile_idempotent:
  "no_volatile (strip_volatile j) \<and> strip_volatile (strip_volatile j) = strip_volatile j"
  by (simp add: no_volatile_strip strip_id)

end
