(* ===== verification/SdkErrors.thy ===== *)
theory SdkErrors
  imports Prelude
begin

section \<open>The Python SDK: redaction and errors\<close>

text \<open>
  \<^verbatim>\<open>packages/sdk-python/arcanada_model_connector/errors.py\<close>: the redaction of bearer tokens and
  authorization headers, and the exception classes.  The regular expression
  \<^verbatim>\<open>Bearer\s+[A-Za-z0-9._\-+/=]+\<close> is a function that returns the rest of the string after a
  match; \<^verbatim>\<open>sub\<close> replaces the leftmost matches from left to right.
\<close>

subsection \<open>Redaction of strings\<close>

definition token_char :: "char \<Rightarrow> bool" where
  "token_char c \<longleftrightarrow>
     (let n = of_char c :: nat
      in 48 \<le> n \<and> n \<le> 57 \<or> 65 \<le> n \<and> n \<le> 90 \<or> 97 \<le> n \<and> n \<le> 122 \<or> c \<in> set ''._-+/='')"

definition bearer_match :: "string \<Rightarrow> string option" where
  "bearer_match s =
     (if startswith s ''Bearer''
      then let r = drop 6 s; t = dropWhile is_space r
           in if takeWhile is_space r \<noteq> [] \<and> takeWhile token_char t \<noteq> []
              then Some (dropWhile token_char t) else None
      else None)"

lemma bearer_match_shorter: "bearer_match s = Some r \<Longrightarrow> length r < length s"
proof -
  assume m: "bearer_match s = Some r"
  then have st: "startswith s ''Bearer''" and r: "r = dropWhile token_char (dropWhile is_space (drop 6 s))"
    by (auto simp: bearer_match_def Let_def split: if_splits)
  from st have "6 \<le> length s" by (auto simp: startswith_iff)
  moreover have "length r \<le> length (drop 6 s)"
    unfolding r by (meson le_trans length_dropWhile_le)
  ultimately show ?thesis by simp
qed

function redact_str :: "string \<Rightarrow> string" where
  "redact_str [] = []"
| "redact_str (c # s) =
     (case bearer_match (c # s) of
        Some rest \<Rightarrow> ''Bearer [REDACTED]'' @ redact_str rest
      | None \<Rightarrow> c # redact_str s)"
  by pat_completeness auto
termination
  by (relation "measure length") (auto dest: bearer_match_shorter)

subsection \<open>Redaction of data\<close>

text \<open>\<^verbatim>\<open>redact_cause(cause, depth)\<close>: below depth 10 the data are returned as they are.\<close>

fun redact_cause :: "nat \<Rightarrow> json \<Rightarrow> json" where
  "redact_cause depth (JStr s) = (if depth > 10 then JStr s else JStr (redact_str s))"
| "redact_cause depth (JObj d) =
     (if depth > 10 then JObj d
      else JObj (map (\<lambda>(k, v). (k, if lower k = ''authorization'' then JStr ''[REDACTED]''
                                   else redact_cause (Suc depth) v)) d))"
| "redact_cause depth (JArr xs) =
     (if depth > 10 then JArr xs else JArr (map (redact_cause (Suc depth)) xs))"
| "redact_cause depth j = j"

subsection \<open>The exception classes\<close>

text \<open>
  A Python float.  Rounding is not modelled: a finite value is exact.
\<close>

datatype flt = Fin rat | PosInf | NegInf | NaN

record envelope =
  env_type :: string
  env_message :: string
  env_retry_after :: "flt option"
  env_retry_after_seconds :: "flt option"
  env_retryable :: bool
  env_recommendation :: string

datatype error_class = Connector | GuardExhausted | Timeout | Network

text \<open>\<open>'o\<close> is the type of a validated \<^verbatim>\<open>FirstDispatchObservationV0\<close>.\<close>

record 'o connector_error =
  ce_class :: error_class
  ce_message :: string
  ce_http_status :: int
  ce_envelope :: "envelope option"
  ce_retry_after :: "flt option"
  ce_retry_after_seconds :: "flt option"
  ce_first_dispatch_observation :: "'o option"
  ce_cause :: json

definition make_error ::
  "error_class \<Rightarrow> string \<Rightarrow> int \<Rightarrow> envelope option \<Rightarrow> json \<Rightarrow> 'o option \<Rightarrow> 'o connector_error" where
  "make_error cls message status env cause obs =
     \<lparr>ce_class = cls, ce_message = redact_str message, ce_http_status = status, ce_envelope = env,
      ce_retry_after = (case env of Some e \<Rightarrow> env_retry_after e | None \<Rightarrow> None),
      ce_retry_after_seconds = (case env of Some e \<Rightarrow> env_retry_after_seconds e | None \<Rightarrow> None),
      ce_first_dispatch_observation = obs, ce_cause = redact_cause 0 cause\<rparr>"

text \<open>\<^verbatim>\<open>TimeoutError(timeout)\<close>; \<open>shown\<close> is the timeout as Python prints it.\<close>

definition timeout_error :: "string \<Rightarrow> 'o connector_error" where
  "timeout_error shown = make_error Timeout (''Request timed out after '' @ shown @ ''s'') 0 None JNull None"

subsection \<open>No token survives\<close>

text \<open>No position of the string starts a match.\<close>

fun bearer_free :: "string \<Rightarrow> bool" where
  "bearer_free [] \<longleftrightarrow> True"
| "bearer_free (c # s) \<longleftrightarrow> bearer_match (c # s) = None \<and> bearer_free s"

lemma redact_hd: "s \<noteq> [] \<Longrightarrow> redact_str s \<noteq> [] \<and> hd (redact_str s) = hd s"
proof (cases s)
  case (Cons c t)
  then show ?thesis
    by (auto simp: bearer_match_def Let_def split: option.split if_splits)
qed simp

lemma redact_empty_iff [simp]: "redact_str s = [] \<longleftrightarrow> s = []"
  using redact_hd by force

lemma bearer_match_B: "c \<noteq> CHR ''B'' \<Longrightarrow> bearer_match (c # s) = None"
  by (simp add: bearer_match_def)

lemma redact_copies: "CHR ''B'' \<notin> set w \<Longrightarrow> redact_str (w @ s) = w @ redact_str s"
proof (induction w)
  case (Cons c w)
  then have "bearer_match (c # w @ s) = None" by (intro bearer_match_B) auto
  with Cons show ?case by simp
qed simp

lemma while_stops: "v = [] \<or> \<not> P (hd v) \<Longrightarrow> takeWhile P v = [] \<and> dropWhile P v = v"
  by (cases v) auto

lemma takeWhile_redact:
  assumes "\<And>c. P c \<Longrightarrow> c \<noteq> CHR ''B''"
  shows "takeWhile P (redact_str s) = takeWhile P s"
    and "dropWhile P (redact_str s) = redact_str (dropWhile P s)"
proof -
  let ?w = "takeWhile P s" and ?r = "dropWhile P s"
  have "CHR ''B'' \<notin> set ?w" using assms by (auto dest: set_takeWhileD)
  then have eq: "redact_str s = ?w @ redact_str ?r" using redact_copies [of ?w ?r] by simp
  have stop: "redact_str ?r = [] \<or> \<not> P (hd (redact_str ?r))"
  proof (cases "?r = []")
    case False
    then show ?thesis using redact_hd [OF False] hd_dropWhile [OF False] by simp
  qed simp
  have all: "\<forall>c \<in> set ?w. P c" by (auto dest: set_takeWhileD)
  have "takeWhile P (redact_str ?r) = []" "dropWhile P (redact_str ?r) = redact_str ?r"
    using while_stops [of "redact_str ?r" P, OF stop] by blast+
  moreover have "takeWhile P (?w @ u) = ?w @ takeWhile P u" "dropWhile P (?w @ u) = dropWhile P u" for u
    using all by (simp_all add: takeWhile_append2 dropWhile_append2)
  ultimately show "takeWhile P (redact_str s) = ?w" "dropWhile P (redact_str s) = redact_str ?r"
    by (simp_all only: eq append_Nil2)
qed

lemma redact_prefix:
  "CHR ''B'' \<notin> set w \<Longrightarrow> redact_str s = w @ u \<Longrightarrow> \<exists>t. s = w @ t \<and> u = redact_str t"
proof (induction w arbitrary: s)
  case (Cons c w)
  then obtain t where s: "s = c # t" using redact_hd [of s] by (cases s) auto
  have "bearer_match (c # t) = None" using Cons.prems(1) by (intro bearer_match_B) auto
  then have "redact_str t = w @ u" using Cons.prems(2) s by simp
  with Cons.IH [of t] Cons.prems(1) s show ?case by auto
qed auto

lemma space_not_B: "is_space c \<Longrightarrow> c \<noteq> CHR ''B''"
  by (auto simp: is_space_def)

lemma bearer_match_stable:
  assumes "bearer_match (c # s) = None"
  shows "bearer_match (c # redact_str s) = None"
proof (rule ccontr)
  assume "bearer_match (c # redact_str s) \<noteq> None"
  then obtain u where c: "c = CHR ''B''" and u: "redact_str s = ''earer'' @ u"
    and sp: "takeWhile is_space u \<noteq> []" and tok: "takeWhile token_char (dropWhile is_space u) \<noteq> []"
    by (auto simp: bearer_match_def Let_def startswith_iff split: if_splits)
  obtain t where t: "s = ''earer'' @ t" "u = redact_str t"
    using redact_prefix [OF _ u] by auto
  let ?r = "dropWhile is_space t"
  have "takeWhile is_space t \<noteq> []" "takeWhile token_char (redact_str ?r) \<noteq> []"
    using sp tok t(2) takeWhile_redact [of is_space t] space_not_B by auto
  moreover from this(2) have r: "redact_str ?r \<noteq> []" "token_char (hd (redact_str ?r))"
    by (cases "redact_str ?r", simp_all split: if_splits)+
  from r(1) have "?r \<noteq> []" by simp
  with r(2) redact_hd [OF this] have "takeWhile token_char ?r \<noteq> []" by (cases ?r) simp_all
  ultimately have "bearer_match (c # s) \<noteq> None"
    by (simp add: bearer_match_def Let_def c t(1))
  with assms show False by simp
qed

lemma bearer_free_redacted_tail: "bearer_free u \<Longrightarrow> bearer_free (''Bearer [REDACTED]'' @ u)"
  by (simp add: bearer_match_def is_space_def token_char_def)

lemma redact_str_free: "bearer_free (redact_str s)"
proof (induction s rule: redact_str.induct)
  case (2 c s)
  show ?case
  proof (cases "bearer_match (c # s)")
    case None
    then show ?thesis using 2 bearer_match_stable [OF None] by simp
  next
    case (Some r)
    then show ?thesis using 2(2) [OF Some] bearer_free_redacted_tail by (simp del: append.simps)
  qed
qed simp

text \<open>
  redaction leaves no bearer token that its pattern describes: after \<^verbatim>\<open>_redact_str\<close> no
  position of the string starts the word \<^verbatim>\<open>Bearer\<close>, white space and a token.  In particular
  the replacement cannot create a new match.
\<close>

lemma redact_str_bearer_free: "bearer_free (redact_str s)"
  by (rule redact_str_free)

text \<open>Data without tokens: no string starts a match anywhere and authorization values are hidden.\<close>

fun scrubbed :: "json \<Rightarrow> bool" where
  "scrubbed (JStr s) \<longleftrightarrow> bearer_free s"
| "scrubbed (JObj d) \<longleftrightarrow>
     list_all (\<lambda>(k, v). if lower k = ''authorization'' then v = JStr ''[REDACTED]'' else scrubbed v) d"
| "scrubbed (JArr xs) \<longleftrightarrow> list_all scrubbed xs"
| "scrubbed j \<longleftrightarrow> True"

fun nesting :: "json \<Rightarrow> nat" where
  "nesting (JObj d) = Suc (fold max (map (\<lambda>(k, v). nesting v) d) 0)"
| "nesting (JArr xs) = Suc (fold max (map nesting xs) 0)"
| "nesting j = 0"

lemma nesting_member:
  "v \<in> set xs \<Longrightarrow> nesting v \<le> fold max (map nesting xs) 0"
  "(k, v) \<in> set d \<Longrightarrow> nesting v \<le> fold max (map (\<lambda>(k, v). nesting v) d) 0"
  by (rule fold_max_ge; force)+

lemma redact_cause_scrubbed: "depth + nesting j \<le> 10 \<Longrightarrow> scrubbed (redact_cause depth j)"
proof (induction depth j rule: redact_cause.induct)
  case (2 depth d)
  have "scrubbed (redact_cause (Suc depth) v)" if "(k, v) \<in> set d" "lower k \<noteq> ''authorization''" for k v
    using 2(1) [OF _ that(1) refl] 2(2) nesting_member(2) [OF that(1)] that(2) by simp
  with 2(2) show ?case by (auto simp: list_all_iff)
next
  case (3 depth xs)
  have "scrubbed (redact_cause (Suc depth) v)" if "v \<in> set xs" for v
    using 3(1) [OF _ that] 3(2) nesting_member(1) [OF that] by simp
  with 3(2) show ?case by (auto simp: list_all_iff)
qed (auto simp: redact_str_free)

text \<open>
  the cause kept in an error holds no bearer token and no authorization header, for any
  data nested at most ten levels deep.
\<close>

lemma make_error_scrubs:
  "if nesting cause \<le> 10
   then scrubbed (ce_cause (make_error cls message status env cause obs))
        \<and> bearer_free (ce_message (make_error cls message status env cause obs))
   else True"
  by (simp add: make_error_def redact_cause_scrubbed redact_str_free)

text \<open>
  below ten levels the data are kept as they are: a token under eleven nested lists
  survives redaction.
\<close>

definition deep_secret :: json where
  "deep_secret = ((\<lambda>j. JArr [j]) ^^ 11) (JStr ''Bearer s3cret'')"

lemma redact_cause_depth_leak:
  "redact_cause 0 deep_secret = deep_secret \<and> \<not> scrubbed deep_secret"
  by (simp add: deep_secret_def eval_nat_numeral bearer_match_def is_space_def token_char_def)

declare redact_str.simps [simp del]

end
