(* ===== verification/SdkClient.thy ===== *)
theory SdkClient
  imports SdkErrors
begin

section \<open>The Python SDK: declared models and the client\<close>

text \<open>
  \<^verbatim>\<open>packages/sdk-python/arcanada_model_connector/models.py\<close> and \<^verbatim>\<open>client.py\<close>.  Validation and
  dumping are pydantic's, the transport is httpx's: both are arguments.  The model classes are
  translated as declarations (\<open>model_decl\<close>), and \<open>obeys\<close> states what pydantic documents about
  an accepted document: required fields are present under their alias or name, literals and
  patterns hold, and a class with \<^verbatim>\<open>extra="forbid"\<close> has no other field.
\<close>

subsection \<open>Declared models\<close>

datatype field_type =
    TStr | TInt | TFloat | TBool | TNone | TAny | TDict
  | TIdent                          \<comment> \<open>1 to 128 characters of \<^verbatim>\<open>MEASUREMENT_IDENTIFIER_PATTERN\<close>\<close>
  | TRange int int
  | TLit "string list"
  | TList field_type
  | TModel string
  | TOpt field_type

record field_decl =
  fd_name :: string
  fd_alias :: "string option"
  fd_type :: field_type
  fd_required :: bool

record model_decl =
  md_forbid_extra :: bool
  md_by_name :: bool
  md_fields :: "field_decl list"

definition req :: "string \<Rightarrow> string option \<Rightarrow> field_type \<Rightarrow> field_decl" where
  "req n a t = \<lparr>fd_name = n, fd_alias = a, fd_type = t, fd_required = True\<rparr>"

definition opt :: "string \<Rightarrow> string option \<Rightarrow> field_type \<Rightarrow> field_decl" where
  "opt n a t = \<lparr>fd_name = n, fd_alias = a, fd_type = t, fd_required = False\<rparr>"

definition OutputFormat :: "string list" where
  "OutputFormat = [''json'', ''yaml'', ''toml'', ''python'', ''auto'']"

definition ExecuteStatus :: "string list" where
  "ExecuteStatus = [''success'', ''error'', ''timeout'', ''rate_limited'']"

definition ErrorAction :: "string list" where
  "ErrorAction = [''retry'', ''abort'', ''wait'', ''reauth'']"

definition identifier_char :: "char \<Rightarrow> bool" where
  "identifier_char c \<longleftrightarrow>
     (let n = of_char c :: nat
      in 48 \<le> n \<and> n \<le> 57 \<or> 65 \<le> n \<and> n \<le> 90 \<or> 97 \<le> n \<and> n \<le> 122 \<or> c \<in> set ''._:/-'')"

definition ResponseFormat :: model_decl where
  "ResponseFormat = \<lparr>md_forbid_extra = False, md_by_name = False,
     md_fields = [req ''type'' None (TLit [''json_object'', ''text''])]\<rparr>"

definition FirstDispatchMeasurementV0 :: model_decl where
  "FirstDispatchMeasurementV0 = \<lparr>md_forbid_extra = True, md_by_name = True, md_fields =
     [req ''version'' None (TLit [''first-dispatch-measurement/v0'']),
      req ''corpus_id'' (Some ''corpusId'') TIdent,
      req ''case_id'' (Some ''caseId'') TIdent,
      req ''role_id'' (Some ''roleId'') TIdent,
      req ''task_class_id'' (Some ''taskClassId'') TIdent,
      req ''command_id'' (Some ''commandId'') TIdent,
      req ''replay_index'' (Some ''replayIndex'') (TRange 1 65535),
      req ''variant'' None (TLit [''baseline'', ''compiled'']),
      req ''adapter_boundary'' (Some ''adapterBoundary'')
        (TLit [''arcana-agent-system/driver/first-dispatch-v0''])]\<rparr>"

definition ExecuteRequest :: model_decl where
  "ExecuteRequest = \<lparr>md_forbid_extra = False, md_by_name = True, md_fields =
     [req ''connector'' None TStr, req ''prompt'' None TStr, opt ''model'' None TStr,
      opt ''system_prompt'' (Some ''systemPrompt'') TStr, opt ''tools'' None (TList TStr),
      opt ''max_turns'' (Some ''maxTurns'') TInt, opt ''max_budget_usd'' (Some ''maxBudgetUsd'') TFloat,
      opt ''effort'' None (TLit [''low'', ''medium'', ''high'']),
      opt ''json_schema'' (Some ''jsonSchema'') TDict,
      opt ''response_format'' (Some ''responseFormat'') (TModel ''ResponseFormat''),
      opt ''timeout'' None TInt, opt ''extra'' None TDict,
      opt ''output_format'' None (TLit OutputFormat), opt ''schema_'' (Some ''schema'') TDict,
      opt ''first_dispatch_measurement'' (Some ''firstDispatchMeasurement'')
        (TModel ''FirstDispatchMeasurementV0'')]\<rparr>"

definition RepairReport :: model_decl where
  "RepairReport = \<lparr>md_forbid_extra = False, md_by_name = False, md_fields =
     [req ''strategies_applied'' None (TList TStr), req ''retries'' None TInt, req ''final_valid'' None TBool,
      req ''pass_'' (Some ''pass'') (TLit [''native'', ''guarded'', ''failed'']), opt ''error'' None TStr]\<rparr>"

definition ExecuteUsage :: model_decl where
  "ExecuteUsage = \<lparr>md_forbid_extra = False, md_by_name = True, md_fields =
     [req ''input_tokens'' (Some ''inputTokens'') TInt, req ''output_tokens'' (Some ''outputTokens'') TInt,
      req ''total_tokens'' (Some ''totalTokens'') TInt, req ''cost_usd'' (Some ''costUsd'') TFloat]\<rparr>"

definition ExecuteErrorEnvelope :: model_decl where
  "ExecuteErrorEnvelope = \<lparr>md_forbid_extra = False, md_by_name = True, md_fields =
     [req ''type'' None TStr, req ''message'' None TStr,
      opt ''retry_after'' (Some ''retryAfter'') TFloat,
      opt ''retry_after_seconds'' (Some ''retryAfterSeconds'') TFloat,
      opt ''retryable'' None TBool, opt ''recommendation'' None (TLit ErrorAction)]\<rparr>"

definition FirstDispatchObservationUsageV0 :: model_decl where
  "FirstDispatchObservationUsageV0 = \<lparr>md_forbid_extra = True, md_by_name = True, md_fields =
     [req ''input_tokens'' (Some ''inputTokens'') TInt,
      req ''cached_input_tokens'' (Some ''cachedInputTokens'') TNone,
      req ''output_tokens'' (Some ''outputTokens'') TInt, req ''total_tokens'' (Some ''totalTokens'') TInt,
      req ''cost_usd'' (Some ''costUsd'') TFloat,
      req ''source'' None (TLit [''CONNECTOR_RESPONSE_UNVERIFIED''])]\<rparr>"

definition FirstDispatchObservationV0 :: model_decl where
  "FirstDispatchObservationV0 = \<lparr>md_forbid_extra = True, md_by_name = True, md_fields =
     [req ''version'' None (TLit [''first-dispatch-observation/v0'']),
      req ''observation_id'' (Some ''observationId'') TStr,
      req ''measurement'' None (TModel ''FirstDispatchMeasurementV0''),
      req ''connector'' None TStr, req ''model'' None TStr,
      req ''connector_response_id'' (Some ''connectorResponseId'') TStr,
      req ''request_payload_digest_sha256'' (Some ''requestPayloadDigestSha256'') TStr,
      req ''request_payload_bytes'' (Some ''requestPayloadBytes'') TInt,
      req ''observation_boundary'' (Some ''observationBoundary'') (TLit [''model-connector/service/pre-adapter-v0'']),
      req ''usage'' None (TModel ''FirstDispatchObservationUsageV0''),
      req ''latency_ms'' (Some ''latencyMs'') TInt, req ''outcome'' None (TLit ExecuteStatus),
      req ''persistence'' None (TLit [''MODEL_CONNECTOR_POSTGRESQL'']),
      req ''evidence_status'' (Some ''evidenceStatus'') (TLit [''PERSISTED_PRE_ADAPTER_OBSERVATION'']),
      req ''authorization'' None (TLit [''NOT_AUTHORIZED'']),
      req ''receipt_digest_sha256'' (Some ''receiptDigestSha256'') TStr]\<rparr>"

definition ModelSubstitution :: model_decl where
  "ModelSubstitution = \<lparr>md_forbid_extra = False, md_by_name = True,
     md_fields = [req ''requested'' None TStr, req ''served'' None TStr]\<rparr>"

definition ExecuteResponse :: model_decl where
  "ExecuteResponse = \<lparr>md_forbid_extra = False, md_by_name = True, md_fields =
     [req ''id'' None TStr, req ''connector'' None TStr, req ''model'' None TStr,
      opt ''model_substituted'' (Some ''modelSubstituted'') (TModel ''ModelSubstitution''),
      req ''result'' None TStr, opt ''structured'' None TAny, req ''usage'' None (TModel ''ExecuteUsage''),
      req ''latency_ms'' (Some ''latencyMs'') TInt, opt ''queue_wait_ms'' (Some ''queueWaitMs'') TInt,
      opt ''attempt'' None TInt, opt ''max_attempts'' (Some ''maxAttempts'') TInt,
      req ''status'' None (TLit ExecuteStatus), opt ''error'' None (TModel ''ExecuteErrorEnvelope''),
      opt ''repair_report'' None (TModel ''RepairReport''),
      opt ''first_dispatch_observation'' (Some ''firstDispatchObservation'') (TModel ''FirstDispatchObservationV0'')]\<rparr>"

definition model_table :: "(string \<times> model_decl) list" where
  "model_table =
     [(''ResponseFormat'', ResponseFormat), (''FirstDispatchMeasurementV0'', FirstDispatchMeasurementV0),
      (''ExecuteRequest'', ExecuteRequest), (''RepairReport'', RepairReport), (''ExecuteUsage'', ExecuteUsage),
      (''ExecuteErrorEnvelope'', ExecuteErrorEnvelope),
      (''FirstDispatchObservationUsageV0'', FirstDispatchObservationUsageV0),
      (''FirstDispatchObservationV0'', FirstDispatchObservationV0), (''ModelSubstitution'', ModelSubstitution),
      (''ExecuteResponse'', ExecuteResponse)]"

subsection \<open>What validation promises\<close>

text \<open>The value of a field: under its alias, or under its name where \<^verbatim>\<open>populate_by_name\<close> allows it.\<close>

definition field_value :: "model_decl \<Rightarrow> field_decl \<Rightarrow> dict \<Rightarrow> json option" where
  "field_value md f d =
     (case fd_alias f of
        None \<Rightarrow> dget d (fd_name f)
      | Some a \<Rightarrow> (case dget d a of Some v \<Rightarrow> Some v | None \<Rightarrow> if md_by_name md then dget d (fd_name f) else None))"

definition field_keys :: "model_decl \<Rightarrow> string list" where
  "field_keys md =
     concat (map (\<lambda>f. case fd_alias f of
                        None \<Rightarrow> [fd_name f]
                      | Some a \<Rightarrow> if md_by_name md then [a, fd_name f] else [a]) (md_fields md))"

text \<open>
  The checks of one field that do not depend on pydantic's coercions.  \<open>n\<close> bounds the depth
  of nested models: two steps for each of at most three levels.
\<close>

fun conforms :: "nat \<Rightarrow> model_decl \<Rightarrow> dict \<Rightarrow> bool"
  and type_ok :: "nat \<Rightarrow> field_type \<Rightarrow> json \<Rightarrow> bool" where
  "conforms n md d \<longleftrightarrow>
     (case n of 0 \<Rightarrow> False | Suc m \<Rightarrow>
       (\<not> md_forbid_extra md \<or> set (map fst d) \<subseteq> set (field_keys md))
       \<and> list_all (\<lambda>f. case field_value md f d of
                         None \<Rightarrow> \<not> fd_required f
                       | Some v \<Rightarrow> (v = JNull \<and> \<not> fd_required f) \<or> type_ok m (fd_type f) v) (md_fields md))"
| "type_ok n TStr v \<longleftrightarrow> (case v of JStr _ \<Rightarrow> True | _ \<Rightarrow> False)"
| "type_ok n TNone v \<longleftrightarrow> v = JNull"
| "type_ok n TDict v \<longleftrightarrow> (case v of JObj _ \<Rightarrow> True | _ \<Rightarrow> False)"
| "type_ok n TIdent v \<longleftrightarrow>
     (case v of JStr s \<Rightarrow> 1 \<le> length s \<and> length s \<le> 128 \<and> list_all identifier_char s | _ \<Rightarrow> False)"
| "type_ok n (TRange lo hi) v \<longleftrightarrow> (case v of JInt i \<Rightarrow> lo \<le> i \<and> i \<le> hi | _ \<Rightarrow> v \<noteq> JNull)"
| "type_ok n (TLit ls) v \<longleftrightarrow> (case v of JStr s \<Rightarrow> s \<in> set ls | _ \<Rightarrow> False)"
| "type_ok n (TList t) v \<longleftrightarrow> (case v of JArr vs \<Rightarrow> True | _ \<Rightarrow> False)"
| "type_ok n (TModel c) v \<longleftrightarrow>
     (case v of
        JObj d \<Rightarrow> (case n of 0 \<Rightarrow> False | Suc m \<Rightarrow>
                     (case map_of model_table c of Some md \<Rightarrow> conforms m md d | None \<Rightarrow> False))
      | _ \<Rightarrow> False)"
| "type_ok n (TOpt t) v \<longleftrightarrow> v = JNull \<or> type_ok n t v"
| "type_ok n t v \<longleftrightarrow> True"

subsection \<open>The client\<close>

text \<open>
  What pydantic and httpx do for the client: \<open>v_envelope\<close> validates an error envelope, where the
  second argument is the value that \<^verbatim>\<open>_extract_envelope\<close> adds as \<^verbatim>\<open>retryAfter\<close>; \<^verbatim>\<open>None\<close> is a
  \<^verbatim>\<open>ValidationError\<close> (a \<^verbatim>\<open>ValueError\<close>).  \<open>v_float\<close> is \<^verbatim>\<open>float(header)\<close>.
\<close>

record ('o, 'r) services =
  v_envelope :: "dict \<Rightarrow> flt option \<Rightarrow> envelope option"
  v_observation :: "dict \<Rightarrow> 'o option"
  v_response :: "dict \<Rightarrow> 'r option"
  v_float :: "string \<Rightarrow> flt option"

record http_response =
  hr_status :: int
  hr_content :: string
  hr_json :: "json option"
  hr_text :: string
  hr_retry_after :: "string option"

datatype post_outcome = Response http_response | TimeoutException | HTTPError string

datatype 'o sdk_exc = Raised "'o connector_error" | ValidationError | OverflowErr | ValueErr

datatype 'm request = RequestModel 'm | RequestDict dict

record client =
  cl_base_url :: string
  cl_headers :: "(string \<times> string) list"
  cl_timeout :: string

definition build_headers :: "string \<Rightarrow> (string \<times> string) list" where
  "build_headers api_key =
     [(''Authorization'', ''Bearer '' @ api_key), (''Content-Type'', ''application/json''),
      (''Accept'', ''application/json''), (''User-Agent'', ''arcanada-model-connector-python/0.1.0'')]"

definition DEFAULT_BASE_URL :: string where
  "DEFAULT_BASE_URL = ''https://connector.arcanada.one''"

definition make_client :: "string \<Rightarrow> string \<Rightarrow> string \<Rightarrow> 'o sdk_exc + client" where
  "make_client api_key base_url timeout =
     (if api_key = [] then Inl ValueErr
      else Inr \<lparr>cl_base_url = rstrip_char (CHR ''/'') base_url, cl_headers = build_headers api_key,
                cl_timeout = timeout\<rparr>)"

text \<open>\<open>dump\<close> is \<^verbatim>\<open>model_dump(by_alias=True, exclude_none=True)\<close>.\<close>

definition serialize :: "('m \<Rightarrow> dict) \<Rightarrow> 'm request \<Rightarrow> dict" where
  "serialize dump request =
     (case request of RequestModel r \<Rightarrow> dump r | RequestDict d \<Rightarrow> filter (\<lambda>(k, v). v \<noteq> JNull) d)"

definition extract_first_dispatch_observation :: "('o, 'r) services \<Rightarrow> json \<Rightarrow> 'o option" where
  "extract_first_dispatch_observation V body =
     (case body of
        JObj d \<Rightarrow> (case dget d ''firstDispatchObservation'' of Some (JObj c) \<Rightarrow> v_observation V c | _ \<Rightarrow> None)
      | _ \<Rightarrow> None)"

text \<open>\<^verbatim>\<open>math.ceil(envelope.retry_after / 1000)\<close>\<close>

definition ceil_seconds :: "flt \<Rightarrow> 'o sdk_exc + flt" where
  "ceil_seconds x =
     (case x of Fin r \<Rightarrow> Inr (Fin (of_int \<lceil>r / 1000\<rceil>)) | NaN \<Rightarrow> Inl ValueErr | _ \<Rightarrow> Inl OverflowErr)"

definition times_1000 :: "flt \<Rightarrow> flt" where
  "times_1000 x = (case x of Fin r \<Rightarrow> Fin (r * 1000) | y \<Rightarrow> y)"

definition error_candidate :: "json \<Rightarrow> dict option" where
  "error_candidate body =
     (case body of
        JObj d \<Rightarrow>
          (let c = (case dget d ''error'' of Some (JObj e) \<Rightarrow> e | _ \<Rightarrow> d)
           in case dget c ''type'' of Some (JStr _) \<Rightarrow> Some c | _ \<Rightarrow> None)
      | _ \<Rightarrow> None)"

definition injected_retry :: "dict \<Rightarrow> flt option \<Rightarrow> flt option" where
  "injected_retry payload retry_after =
     (case retry_after of
        None \<Rightarrow> None
      | Some s \<Rightarrow> if dget payload ''retryAfter'' = None \<and> dget payload ''retry_after'' = None
                   then Some (times_1000 s) else None)"

definition extract_envelope ::
  "('o, 'r) services \<Rightarrow> json \<Rightarrow> flt option \<Rightarrow> 'o sdk_exc + envelope option" where
  "extract_envelope V body retry_after =
     (case error_candidate body of
        None \<Rightarrow> Inr None
      | Some payload \<Rightarrow>
          (case v_envelope V payload (injected_retry payload retry_after) of
             None \<Rightarrow> Inl ValidationError
           | Some env \<Rightarrow>
               (case (env_retry_after env, env_retry_after_seconds env) of
                  (Some ms, None) \<Rightarrow>
                    bindE (ceil_seconds ms) (\<lambda>s. Inr (Some (env\<lparr>env_retry_after_seconds := Some s\<rparr>)))
                | _ \<Rightarrow> Inr (Some env))))"

definition positive :: "flt \<Rightarrow> bool" where
  "positive x \<longleftrightarrow> (case x of Fin r \<Rightarrow> 0 < r | PosInf \<Rightarrow> True | _ \<Rightarrow> False)"

definition retry_after_seconds :: "('o, 'r) services \<Rightarrow> http_response \<Rightarrow> flt option" where
  "retry_after_seconds V r =
     (case hr_retry_after r of
        None \<Rightarrow> None
      | Some h \<Rightarrow> (case v_float V h of Some x \<Rightarrow> (if positive x then Some x else None) | None \<Rightarrow> None))"

definition decode :: "http_response \<Rightarrow> json" where
  "decode r =
     (if hr_content r = [] then JNull
      else case hr_json r of Some j \<Rightarrow> j | None \<Rightarrow> JObj [(''raw'', JStr (hr_text r))])"

definition show_int :: "int \<Rightarrow> string" where
  "show_int i = (if i < 0 then ''-'' @ show_nat (nat (- i)) else show_nat (nat i))"

definition raise_from_response ::
  "('o, 'r) services \<Rightarrow> int \<Rightarrow> json \<Rightarrow> flt option \<Rightarrow> 'o sdk_exc" where
  "raise_from_response V status body retry_after =
     (case extract_envelope V body retry_after of
        Inl x \<Rightarrow> x
      | Inr env \<Rightarrow>
          (let obs = extract_first_dispatch_observation V body;
               message = (case env of Some e \<Rightarrow> env_message e | None \<Rightarrow> ''HTTP '' @ show_int status);
               cls = (case env of Some e \<Rightarrow> (if env_type e = ''guard_exhausted'' then GuardExhausted else Connector)
                                | None \<Rightarrow> Connector)
           in Raised (make_error cls message status env body obs)))"

definition parse_response :: "('o, 'r) services \<Rightarrow> http_response \<Rightarrow> 'o sdk_exc + 'r" where
  "parse_response V r =
     (let body = decode r
      in if hr_status r = 200 \<or> hr_status r = 201
         then (case body of
                 JObj d \<Rightarrow> (case v_response V d of Some x \<Rightarrow> Inr x | None \<Rightarrow> Inl ValidationError)
               | _ \<Rightarrow> Inl (Raised (make_error Connector ''Empty success body'' (hr_status r) None body None)))
         else Inl (raise_from_response V (hr_status r) body (retry_after_seconds V r)))"

text \<open>
  \<^verbatim>\<open>Client.execute\<close>, and \<^verbatim>\<open>AsyncClient.execute\<close>, which awaits the same call; \<open>post\<close> is
  \<^verbatim>\<open>self._http.post("/execute", json=body)\<close>.
\<close>

definition execute ::
  "('o, 'r) services \<Rightarrow> ('m \<Rightarrow> dict) \<Rightarrow> (dict \<Rightarrow> post_outcome) \<Rightarrow> client \<Rightarrow> 'm request \<Rightarrow> 'o sdk_exc + 'r" where
  "execute V dump post cl request =
     (case post (serialize dump request) of
        TimeoutException \<Rightarrow> Inl (Raised (timeout_error (cl_timeout cl)))
      | HTTPError text \<Rightarrow> Inl (Raised (make_error Network text 0 None JNull None))
      | Response r \<Rightarrow> parse_response V r)"

subsection \<open>Properties\<close>

lemma error_fields:
  "ce_message (make_error c m st env b ob) = redact_str m" "ce_class (make_error c m st env b ob) = c"
  "ce_envelope (make_error c m st env b ob) = env" "ce_http_status (make_error c m st env b ob) = st"
  by (simp_all add: make_error_def)

definition is_guard :: "envelope option \<Rightarrow> bool" where
  "is_guard env \<longleftrightarrow> (\<exists>e. env = Some e \<and> env_type e = ''guard_exhausted'')"

lemma extract_not_Raised: "extract_envelope V body ra \<noteq> Inl (Raised e)"
  by (auto simp: extract_envelope_def ceil_seconds_def bindE_eq_Inl split: option.split flt.splits)

lemma raise_Raised:
  assumes "raise_from_response V st body ra = Raised e"
  obtains env m obs where "e = make_error (if is_guard env then GuardExhausted else Connector) m st env body obs"
proof (cases "extract_envelope V body ra")
  case (Inl x)
  then show ?thesis using assms extract_not_Raised [of V body ra e] by (simp add: raise_from_response_def)
next
  case (Inr env)
  then show ?thesis
    using assms that [of env] by (cases env) (auto simp: raise_from_response_def Let_def is_guard_def)
qed

lemma parse_Inr:
  "parse_response V r = Inr x \<Longrightarrow>
     hr_status r \<in> {200, 201} \<and> (\<exists>d. decode r = JObj d \<and> v_response V d = Some x)"
  by (auto simp: parse_response_def Let_def split: if_splits json.splits option.splits)

lemma parse_Raised:
  assumes "parse_response V r = Inl (Raised e)"
  shows "bearer_free (ce_message e)" "ce_http_status e = hr_status r"
    "ce_class e = GuardExhausted \<longleftrightarrow> is_guard (ce_envelope e)"
proof -
  consider m where "e = make_error Connector m (hr_status r) None (decode r) None"
    | ra where "raise_from_response V (hr_status r) (decode r) ra = Raised e"
    using assms by (auto simp: parse_response_def Let_def split: if_splits json.splits option.splits)
  then have "bearer_free (ce_message e) \<and> ce_http_status e = hr_status r
      \<and> (ce_class e = GuardExhausted \<longleftrightarrow> is_guard (ce_envelope e))"
  proof cases
    case 1
    then show ?thesis by (simp add: error_fields redact_str_free is_guard_def)
  next
    case 2
    then show ?thesis by (rule raise_Raised) (simp add: error_fields redact_str_free)
  qed
  then show "bearer_free (ce_message e)" "ce_http_status e = hr_status r"
    "ce_class e = GuardExhausted \<longleftrightarrow> is_guard (ce_envelope e)" by blast+
qed

text \<open>
  C20: what a call can do.  It returns a value only for a response with status 200 or 201 whose
  body is an object that validates; every \<^verbatim>\<open>ConnectorError\<close> has a message without bearer
  tokens, and one of class \<^verbatim>\<open>GuardExhaustedError\<close> carries an envelope of type
  \<^verbatim>\<open>guard_exhausted\<close> and the status of the response.
\<close>

theorem execute_outcomes:
  "case execute V dump post cl request of
     Inr x \<Rightarrow>
       (\<exists>r d. post (serialize dump request) = Response r \<and> hr_status r \<in> {200, 201}
              \<and> decode r = JObj d \<and> v_response V d = Some x)
   | Inl (Raised e) \<Rightarrow>
       bearer_free (ce_message e)
       \<and> (ce_class e = GuardExhausted) =
           (is_guard (ce_envelope e)
            \<and> (\<exists>r. post (serialize dump request) = Response r \<and> hr_status r = ce_http_status e))
   | Inl _ \<Rightarrow> (\<exists>r. post (serialize dump request) = Response r)"
proof (cases "post (serialize dump request)")
  case (Response r)
  show ?thesis
  proof (cases "parse_response V r")
    case (Inl x)
    then show ?thesis
      using Response parse_Raised [of V r] by (cases x) (auto simp: execute_def)
  next
    case (Inr x)
    then show ?thesis using Response parse_Inr [OF Inr] by (simp add: execute_def)
  qed
qed (simp_all add: execute_def timeout_error_def error_fields redact_str_free is_guard_def)

text \<open>What the client relies on in pydantic's validation of an error envelope.\<close>

definition lawful_envelopes :: "('o, 'r) services \<Rightarrow> bool" where
  "lawful_envelopes V \<longleftrightarrow>
     (\<forall>p x e. v_envelope V p (Some x) = Some e \<longrightarrow> env_retry_after e = Some x)
     \<and> (\<forall>p x e. v_envelope V p x = Some e \<longrightarrow>
          dget p ''retryAfterSeconds'' = None \<longrightarrow> dget p ''retry_after_seconds'' = None \<longrightarrow>
          env_retry_after_seconds e = None)"

text \<open>
  The units of a retry delay.  A positive \<^verbatim>\<open>Retry-After\<close> header of \<open>s\<close> seconds reaches the
  caller as \<^verbatim>\<open>retry_after\<close> in milliseconds and \<^verbatim>\<open>retry_after_seconds\<close> rounded up to whole seconds,
  when the error body carries no delay of its own.
\<close>

theorem retry_after_units:
  assumes "lawful_envelopes V" "hr_status r \<notin> {200, 201}"
    and "hr_retry_after r = Some h" "v_float V h = Some (Fin s)" "0 < s"
    and "error_candidate (decode r) = Some payload"
    and "dget payload ''retryAfter'' = None" "dget payload ''retry_after'' = None"
    and "dget payload ''retryAfterSeconds'' = None" "dget payload ''retry_after_seconds'' = None"
    and "v_envelope V payload (Some (Fin (s * 1000))) \<noteq> None"
  shows "\<exists>e. parse_response V r = Inl (Raised e) \<and> ce_retry_after e = Some (Fin (s * 1000))
             \<and> ce_retry_after_seconds e = Some (Fin (of_int \<lceil>s\<rceil>))"
proof -
  from assms(11) obtain env where env: "v_envelope V payload (Some (Fin (s * 1000))) = Some env" by blast
  have f: "env_retry_after env = Some (Fin (s * 1000))" "env_retry_after_seconds env = None"
    using assms(1,9,10) env unfolding lawful_envelopes_def by blast+
  have sec: "retry_after_seconds V r = Some (Fin s)"
    by (simp add: retry_after_seconds_def assms(3-5) positive_def)
  have "extract_envelope V (decode r) (Some (Fin s)) =
      Inr (Some (env\<lparr>env_retry_after_seconds := Some (Fin (of_int \<lceil>s\<rceil>))\<rparr>))"
    by (simp add: extract_envelope_def assms(6) injected_retry_def times_1000_def assms(7,8) env f ceil_seconds_def)
  then show ?thesis
    using assms(2) by (simp add: parse_response_def raise_from_response_def Let_def sec make_error_def f)
qed

text \<open>A validator of envelopes that follows the declaration, for the witness.\<close>

definition plain_services :: "(unit, unit) services" where
  "plain_services =
     \<lparr>v_envelope = (\<lambda>p x. case (dget p ''type'', dget p ''message'') of
          (Some (JStr t), Some (JStr msg)) \<Rightarrow>
            Some \<lparr>env_type = t, env_message = msg, env_retry_after = x, env_retry_after_seconds = None,
                  env_retryable = False, env_recommendation = ''abort''\<rparr>
        | _ \<Rightarrow> None),
      v_observation = (\<lambda>d. None), v_response = (\<lambda>d. Some ()),
      v_float = (\<lambda>h. if h = ''2.5'' then Some (Fin (5 / 2)) else if h = ''inf'' then Some PosInf else None)\<rparr>"

definition limited_response :: "string \<Rightarrow> json \<Rightarrow> http_response" where
  "limited_response h body =
     \<lparr>hr_status = 429, hr_content = ''x'', hr_json = Some body, hr_text = ''x'', hr_retry_after = Some h\<rparr>"

definition limited_body :: json where
  "limited_body = JObj [(''error'', JObj [(''type'', JStr ''rate_limited''), (''message'', JStr ''slow down'')])]"

theorem retry_after_units_witness:
  "\<exists>e. parse_response plain_services (limited_response ''2.5'' limited_body) = Inl (Raised e)
       \<and> ce_retry_after e = Some (Fin 2500) \<and> ce_retry_after_seconds e = Some (Fin 3)"
proof -
  have "lawful_envelopes plain_services"
    by (auto simp: lawful_envelopes_def plain_services_def split: option.splits json.splits)
  moreover have "error_candidate (decode (limited_response ''2.5'' limited_body)) =
      Some [(''type'', JStr ''rate_limited''), (''message'', JStr ''slow down'')]"
    by (simp add: error_candidate_def decode_def limited_response_def limited_body_def Let_def)
  moreover have "\<lceil>5 / 2 :: rat\<rceil> = 3" by (simp add: ceiling_unique)
  ultimately show ?thesis
    using retry_after_units [of plain_services "limited_response ''2.5'' limited_body" "''2.5''" "5 / 2"
        "[(''type'', JStr ''rate_limited''), (''message'', JStr ''slow down'')]"]
    by (simp add: plain_services_def limited_response_def)
qed

text \<open>
  two responses that no caller expects.  An error body whose type is a string but whose
  envelope does not validate (no message) ends in the \<^verbatim>\<open>ValidationError\<close> of pydantic and not in a
  \<^verbatim>\<open>ConnectorError\<close>; a \<^verbatim>\<open>Retry-After\<close> header with the text of an infinite float ends in the
  \<^verbatim>\<open>OverflowError\<close> of the rounding.
\<close>

lemma parse_escapes:
  "parse_response plain_services (limited_response ''2.5'' (JObj [(''type'', JStr ''rate_limited'')])) = Inl ValidationError
   \<and> parse_response plain_services (limited_response ''inf'' limited_body) = Inl OverflowErr"
  by (simp add: parse_response_def raise_from_response_def extract_envelope_def error_candidate_def decode_def
      limited_response_def limited_body_def plain_services_def retry_after_seconds_def positive_def
      injected_retry_def times_1000_def ceil_seconds_def Let_def)

subsection \<open>Observations\<close>

definition obeys :: "(dict \<Rightarrow> 'a option) \<Rightarrow> model_decl \<Rightarrow> bool" where
  "obeys validate md \<longleftrightarrow> (\<forall>d. validate d \<noteq> None \<longrightarrow> conforms 7 md d)"

lemma conforms_field:
  assumes "conforms (Suc n) md d" "f \<in> set (md_fields md)" "fd_required f"
  shows "\<exists>v. field_value md f d = Some v \<and> type_ok n (fd_type f) v"
proof (cases "field_value md f d")
  case None
  then show ?thesis using assms by (auto simp: list_all_iff)
next
  case (Some v)
  then show ?thesis using assms by (auto simp: list_all_iff)
qed

lemma TLit_value: "type_ok n (TLit ls) v \<longleftrightarrow> (\<exists>s \<in> set ls. v = JStr s)"
  by (cases v) auto

lemma TModel_value: "type_ok (Suc n) (TModel c) v \<Longrightarrow>
    \<exists>d md. v = JObj d \<and> map_of model_table c = Some md \<and> conforms n md d"
  by (cases v) (auto simp del: conforms.simps split: option.splits)

lemma TIdent_value: "type_ok n TIdent v \<longleftrightarrow>
    (\<exists>s. v = JStr s \<and> s \<noteq> [] \<and> length s \<le> 128 \<and> list_all identifier_char s)"
  by (cases v) (auto simp: Suc_le_eq)

declare conforms.simps [simp del] type_ok.simps [simp del]

lemma field_value_plain [simp]: "field_value md (req n None t) d = dget d n"
  by (simp add: field_value_def req_def)

text \<open>
  An observation kept on an error never authorises.  With a validator that accepts only
  documents of the declared model, the observation of a \<^verbatim>\<open>ConnectorError\<close> was read from an object
  whose field \<^verbatim>\<open>authorization\<close> is \<^verbatim>\<open>NOT_AUTHORIZED\<close>, and the case identifier of its measurement has
  1 to 128 characters of the declared pattern.
\<close>

theorem observation_not_authorized:
  assumes "obeys (v_observation V) FirstDispatchObservationV0"
    and "extract_first_dispatch_observation V body = Some obs"
  shows "\<exists>d c m s. body = JObj d \<and> dget d ''firstDispatchObservation'' = Some (JObj c)
           \<and> dget c ''authorization'' = Some (JStr ''NOT_AUTHORIZED'')
           \<and> dget c ''measurement'' = Some (JObj m)
           \<and> field_value FirstDispatchMeasurementV0 (req ''case_id'' (Some ''caseId'') TIdent) m = Some (JStr s)
           \<and> s \<noteq> [] \<and> length s \<le> 128 \<and> list_all identifier_char s"
proof -
  from assms(2) obtain d c where body: "body = JObj d" "dget d ''firstDispatchObservation'' = Some (JObj c)"
    and v: "v_observation V c = Some obs"
    by (auto simp: extract_first_dispatch_observation_def split: json.splits option.splits)
  have c: "conforms (Suc 6) FirstDispatchObservationV0 c"
    using assms(1) v by (simp add: obeys_def)
  have "req ''authorization'' None (TLit [''NOT_AUTHORIZED'']) \<in> set (md_fields FirstDispatchObservationV0)"
    and "req ''measurement'' None (TModel ''FirstDispatchMeasurementV0'') \<in> set (md_fields FirstDispatchObservationV0)"
    by (simp_all add: FirstDispatchObservationV0_def)
  note f = this [THEN conforms_field [OF c]]
  from f(1) have auth: "dget c ''authorization'' = Some (JStr ''NOT_AUTHORIZED'')"
    by (auto simp: req_def TLit_value field_value_def)
  from f(2) obtain mv where mv: "dget c ''measurement'' = Some mv" "type_ok (Suc 5) (TModel ''FirstDispatchMeasurementV0'') mv"
    by (auto simp: req_def field_value_def)
  from TModel_value [OF mv(2)] obtain m where m: "mv = JObj m" "conforms (Suc 4) FirstDispatchMeasurementV0 m"
    by (auto simp: model_table_def)
  have "req ''case_id'' (Some ''caseId'') TIdent \<in> set (md_fields FirstDispatchMeasurementV0)"
    by (simp add: FirstDispatchMeasurementV0_def)
  from conforms_field [OF m(2) this] obtain s where
    "field_value FirstDispatchMeasurementV0 (req ''case_id'' (Some ''caseId'') TIdent) m = Some (JStr s)"
    "s \<noteq> []" "length s \<le> 128" "list_all identifier_char s"
    by (auto simp: req_def TIdent_value)
  then show ?thesis using body auth mv(1) m(1) by blast
qed

definition sample_measurement :: dict where
  "sample_measurement =
     [(''version'', JStr ''first-dispatch-measurement/v0''), (''corpusId'', JStr ''c''), (''caseId'', JStr ''case-1''),
      (''roleId'', JStr ''r''), (''taskClassId'', JStr ''t''), (''commandId'', JStr ''m''), (''replayIndex'', JInt 1),
      (''variant'', JStr ''compiled''), (''adapterBoundary'', JStr ''arcana-agent-system/driver/first-dispatch-v0'')]"

definition sample_observation :: dict where
  "sample_observation =
     [(''version'', JStr ''first-dispatch-observation/v0''), (''observationId'', JStr ''o''),
      (''measurement'', JObj sample_measurement), (''connector'', JStr ''x''), (''model'', JStr ''y''),
      (''connectorResponseId'', JStr ''z''), (''requestPayloadDigestSha256'', JStr ''d''),
      (''requestPayloadBytes'', JInt 3), (''observationBoundary'', JStr ''model-connector/service/pre-adapter-v0''),
      (''usage'', JObj [(''inputTokens'', JInt 1), (''cachedInputTokens'', JNull), (''outputTokens'', JInt 1),
         (''totalTokens'', JInt 2), (''costUsd'', JFloat 1), (''source'', JStr ''CONNECTOR_RESPONSE_UNVERIFIED'')]),
      (''latencyMs'', JInt 4), (''outcome'', JStr ''error''), (''persistence'', JStr ''MODEL_CONNECTOR_POSTGRESQL''),
      (''evidenceStatus'', JStr ''PERSISTED_PRE_ADAPTER_OBSERVATION''), (''authorization'', JStr ''NOT_AUTHORIZED''),
      (''receiptDigestSha256'', JStr ''e'')]"

definition declared_services :: "(dict, unit) services" where
  "declared_services =
     \<lparr>v_envelope = (\<lambda>p x. None),
      v_observation = (\<lambda>d. if conforms 7 FirstDispatchObservationV0 d then Some d else None),
      v_response = (\<lambda>d. None), v_float = (\<lambda>h. None)\<rparr>"

lemma sample_conforms: "conforms 7 FirstDispatchObservationV0 sample_observation"
  by code_simp

theorem observation_not_authorized_witness:
  "extract_first_dispatch_observation declared_services (JObj [(''firstDispatchObservation'', JObj sample_observation)])
     = Some sample_observation
   \<and> dget sample_observation ''authorization'' = Some (JStr ''NOT_AUTHORIZED'')"
proof -
  have e: "extract_first_dispatch_observation declared_services (JObj [(''firstDispatchObservation'', JObj sample_observation)])
     = Some sample_observation"
    by (simp add: extract_first_dispatch_observation_def declared_services_def sample_conforms)
  moreover have "obeys (v_observation declared_services) FirstDispatchObservationV0"
    by (simp add: obeys_def declared_services_def)
  ultimately show ?thesis
    using observation_not_authorized [OF _ e] by auto
qed

end
