(* ===== verification/Regex.thy ===== *)
theory Regex
  imports Prelude
begin

section \<open>Regular expressions\<close>

text \<open>
  The regular expressions of the sources, as trees, and a matcher that returns every way a
  match can end.  A position is the character before it (for \<^verbatim>\<open>^\<close> in multi-line mode and \<^verbatim>\<open>\b\<close>)
  and the rest of the text.  \<^verbatim>\<open>$\<close> matches at the end and before a final newline, as in Python.
  Only whether there is a match is used, so the order of alternatives does not matter.

  \<open>matches_iff\<close> relates the matcher to the declarative relation \<open>lang\<close>.
\<close>

type_synonym pos = "char option \<times> string"

datatype rx =
    RCh "char \<Rightarrow> bool"
  | RSeq rx rx
  | RAlt rx rx
  | RStar rx
  | REps
  | RBegin
  | RLineBegin
  | REnd
  | RWordB

definition word_ch :: "char \<Rightarrow> bool" where
  "word_ch c \<longleftrightarrow>
     (let n = of_char c :: nat in 48 \<le> n \<and> n \<le> 57 \<or> 65 \<le> n \<and> n \<le> 90 \<or> 97 \<le> n \<and> n \<le> 122 \<or> n = 95)"

definition at_word_boundary :: "pos \<Rightarrow> bool" where
  "at_word_boundary p \<longleftrightarrow>
     (case fst p of None \<Rightarrow> False | Some c \<Rightarrow> word_ch c) \<noteq> (case snd p of [] \<Rightarrow> False | c # _ \<Rightarrow> word_ch c)"

definition at_end :: "pos \<Rightarrow> bool" where
  "at_end p \<longleftrightarrow> snd p = [] \<or> snd p = [newline]"

text \<open>Every position reachable by repeating a step that consumes input, the start included.\<close>

primrec iterate :: "nat \<Rightarrow> (pos \<Rightarrow> pos list) \<Rightarrow> pos \<Rightarrow> pos list" where
  "iterate 0 f p = [p]"
| "iterate (Suc n) f p =
     p # concat (map (iterate n f) (filter (\<lambda>q. length (snd q) < length (snd p)) (f p)))"

primrec ends :: "rx \<Rightarrow> pos \<Rightarrow> pos list" where
  "ends (RCh P) p = (case snd p of [] \<Rightarrow> [] | c # s \<Rightarrow> if P c then [(Some c, s)] else [])"
| "ends (RSeq r t) p = concat (map (ends t) (ends r p))"
| "ends (RAlt r t) p = ends r p @ ends t p"
| "ends (RStar r) p = iterate (length (snd p)) (ends r) p"
| "ends REps p = [p]"
| "ends RBegin p = (if fst p = None then [p] else [])"
| "ends RLineBegin p = (if fst p = None \<or> fst p = Some newline then [p] else [])"
| "ends REnd p = (if at_end p then [p] else [])"
| "ends RWordB p = (if at_word_boundary p then [p] else [])"

text \<open>\<^verbatim>\<open>re.match\<close>, \<^verbatim>\<open>re.fullmatch\<close> and \<^verbatim>\<open>re.search\<close>.\<close>

definition re_match :: "rx \<Rightarrow> string \<Rightarrow> bool" where
  "re_match r s \<longleftrightarrow> ends r (None, s) \<noteq> []"

definition re_fullmatch :: "rx \<Rightarrow> string \<Rightarrow> bool" where
  "re_fullmatch r s \<longleftrightarrow> list_ex (\<lambda>q. snd q = []) (ends r (None, s))"

fun positions :: "pos \<Rightarrow> pos list" where
  "positions (c, []) = [(c, [])]"
| "positions (c, d # s) = (c, d # s) # positions (Some d, s)"

definition re_search :: "rx \<Rightarrow> string \<Rightarrow> bool" where
  "re_search r s \<longleftrightarrow> list_ex (\<lambda>p. ends r p \<noteq> []) (positions (None, s))"

subsection \<open>Building expressions\<close>

primrec rx_lit :: "string \<Rightarrow> rx" where
  "rx_lit [] = REps"
| "rx_lit (c # s) = RSeq (RCh (\<lambda>x. x = c)) (rx_lit s)"

primrec rx_seq :: "rx list \<Rightarrow> rx" where
  "rx_seq [] = REps"
| "rx_seq (r # rs) = RSeq r (rx_seq rs)"

fun rx_alts :: "rx list \<Rightarrow> rx" where
  "rx_alts [] = RCh (\<lambda>_. False)"
| "rx_alts [r] = r"
| "rx_alts (r # rs) = RAlt r (rx_alts rs)"

definition rx_opt :: "rx \<Rightarrow> rx" where
  "rx_opt r = RAlt r REps"

definition rx_plus :: "rx \<Rightarrow> rx" where
  "rx_plus r = RSeq r (RStar r)"

definition rx_of :: "string \<Rightarrow> rx" where
  "rx_of cs = RCh (\<lambda>c. c \<in> set cs)"

text \<open>\<^verbatim>\<open>.\<close>, \<^verbatim>\<open>\s\<close>, \<^verbatim>\<open>\d\<close>, \<^verbatim>\<open>[0-9a-f]\<close>\<close>

definition rx_any :: rx where
  "rx_any = RCh (\<lambda>c. c \<noteq> newline)"

definition rx_space :: rx where
  "rx_space = RCh is_space"

definition rx_digit :: rx where
  "rx_digit = RCh is_digit"

definition rx_words :: "string list \<Rightarrow> rx" where
  "rx_words ws = rx_alts (map rx_lit ws)"

definition rx_times :: "nat \<Rightarrow> rx \<Rightarrow> rx" where
  "rx_times n r = rx_seq (replicate n r)"

subsection \<open>The declarative meaning\<close>

inductive lang :: "rx \<Rightarrow> pos \<Rightarrow> pos \<Rightarrow> bool" where
  lang_ch: "P c \<Longrightarrow> lang (RCh P) (b, c # s) (Some c, s)"
| lang_seq: "lang r p q \<Longrightarrow> lang t q u \<Longrightarrow> lang (RSeq r t) p u"
| lang_alt1: "lang r p q \<Longrightarrow> lang (RAlt r t) p q"
| lang_alt2: "lang t p q \<Longrightarrow> lang (RAlt r t) p q"
| lang_star0: "lang (RStar r) p p"
| lang_star: "lang r p q \<Longrightarrow> lang (RStar r) q u \<Longrightarrow> lang (RStar r) p u"
| lang_eps: "lang REps p p"
| lang_begin: "lang RBegin (None, s) (None, s)"
| lang_line1: "lang RLineBegin (None, s) (None, s)"
| lang_line2: "lang RLineBegin (Some newline, s) (Some newline, s)"
| lang_end: "at_end p \<Longrightarrow> lang REnd p p"
| lang_word: "at_word_boundary p \<Longrightarrow> lang RWordB p p"

inductive_cases lang_RCh: "lang (RCh P) p q"
inductive_cases lang_RSeq: "lang (RSeq r t) p q"
inductive_cases lang_RAlt: "lang (RAlt r t) p q"
inductive_cases lang_RStar: "lang (RStar r) p q"
inductive_cases lang_REps: "lang REps p q"
inductive_cases lang_RBegin: "lang RBegin p q"
inductive_cases lang_RLineBegin: "lang RLineBegin p q"
inductive_cases lang_REnd: "lang REnd p q"
inductive_cases lang_RWordB: "lang RWordB p q"

lemma lang_shorter: "lang r p q \<Longrightarrow> length (snd q) \<le> length (snd p)"
  by (induction rule: lang.induct) auto

lemma lang_same: "lang r p q \<Longrightarrow> length (snd q) = length (snd p) \<Longrightarrow> q = p"
proof (induction rule: lang.induct)
  case (lang_seq r p q t u)
  then have "length (snd q) = length (snd p)"
    using lang_shorter [OF lang_seq.hyps(1)] lang_shorter [OF lang_seq.hyps(2)] by simp
  with lang_seq show ?case by simp
next
  case (lang_star r p q u)
  then have "length (snd q) = length (snd p)"
    using lang_shorter [OF lang_star.hyps(1)] lang_shorter [OF lang_star.hyps(2)] by simp
  with lang_star show ?case by simp
qed auto

lemma iterate_lang:
  assumes "\<And>p q. q \<in> set (f p) \<Longrightarrow> lang r p q"
  shows "q \<in> set (iterate n f p) \<Longrightarrow> lang (RStar r) p q"
  by (induction n arbitrary: p) (auto intro: lang_star0 lang_star assms)

lemma lang_iterate:
  assumes "\<And>p q. lang r p q \<Longrightarrow> q \<in> set (f p)"
  shows "lang (RStar r) p q \<Longrightarrow> length (snd p) \<le> n \<Longrightarrow> q \<in> set (iterate n f p)"
proof (induction "RStar r" p q arbitrary: n rule: lang.induct)
  case (lang_star0 p)
  then show ?case by (cases n) simp_all
next
  case (lang_star p q u)
  show ?case
  proof (cases "length (snd q) < length (snd p)")
    case True
    then obtain m where n: "n = Suc m" using lang_star.prems by (cases n) auto
    then have "u \<in> set (iterate m f q)" using lang_star True by simp
    moreover have "q \<in> set (filter (\<lambda>q. length (snd q) < length (snd p)) (f p))"
      using True assms [OF lang_star.hyps(1)] by simp
    ultimately show ?thesis unfolding n iterate.simps set_concat set_map list.set by blast
  next
    case False
    then have "q = p" using lang_shorter [OF lang_star.hyps(1)] lang_same [OF lang_star.hyps(1)] by simp
    with lang_star show ?thesis by simp
  qed
qed

lemma matches_iff: "q \<in> set (ends r p) \<longleftrightarrow> lang r p q"
proof (induction r arbitrary: p q)
  case (RCh P)
  show ?case
    by (cases p; cases "snd p") (auto elim: lang_RCh intro: lang.intros split: if_splits)
next
  case (RSeq r t)
  have "q \<in> set (ends (RSeq r t) p) \<longleftrightarrow> (\<exists>u. lang r p u \<and> lang t u q)"
    unfolding RSeq.IH [symmetric] ends.simps set_concat set_map by blast
  then show ?case by (blast elim: lang_RSeq intro: lang_seq)
next
  case (RAlt r t)
  then show ?case by (auto elim: lang_RAlt intro: lang.intros)
next
  case (RStar r)
  have "lang (RStar r) p q \<Longrightarrow> q \<in> set (iterate (length (snd p)) (ends r) p)"
    by (rule lang_iterate [where r = r]) (use RStar in auto)
  then show ?case using iterate_lang [of "ends r" r q "length (snd p)" p] RStar by auto
next
  case REnd
  show ?case by (auto elim: lang_REnd intro: lang.intros)
next
  case RWordB
  show ?case by (auto elim: lang_RWordB intro: lang.intros)
qed (cases p; auto elim: lang_REps lang_RBegin lang_RLineBegin intro: lang.intros)+

end
