(* ===== verification/SchemaBase.thy ===== *)
theory SchemaBase
  imports Regex
begin

section \<open>Helpers of the document validator\<close>

text \<open>
  The helper functions of \<^verbatim>\<open>tools/graph/schema_check.py\<close>: forms of hashes and commits, paths
  inside the repository, ISO-8601 times, versions, and the context that collects findings.
  A finding is its code; the sentence that explains it is left out.

  Documents are JSON trees.  Where the code hashes or iterates a value without checking its
  type (an identifier that is a list, a section that is a number), Python raises; the model
  reads such a value as empty or as different from every string, so its answers are about
  documents whose identifiers are strings and whose iterated sections are lists.
\<close>

subsection \<open>Forms\<close>

definition sha_form :: "string \<Rightarrow> bool" where
  "sha_form s \<longleftrightarrow> startswith s ''sha256:'' \<and> hex_string 64 (drop 7 s)"

text \<open>\<^verbatim>\<open>SHA_RE.match\<close>, \<^verbatim>\<open>COMMIT_RE.match\<close>, \<^verbatim>\<open>SHA_RE.fullmatch\<close> of a value that must be a string.\<close>

definition SHA_RE_match :: "json \<Rightarrow> bool" where
  "SHA_RE_match j \<longleftrightarrow> is_str j \<and> sha_form (chomp (str_of j))"

definition COMMIT_RE_match :: "json \<Rightarrow> bool" where
  "COMMIT_RE_match j \<longleftrightarrow> is_str j \<and> hex_string 40 (chomp (str_of j))"

definition sha_fullmatch :: "json \<Rightarrow> bool" where
  "sha_fullmatch j \<longleftrightarrow> is_str j \<and> sha_form (str_of j)"

text \<open>\<^verbatim>\<open>_is_sha40\<close>\<close>

definition is_sha40 :: "json \<Rightarrow> bool" where
  "is_sha40 j \<longleftrightarrow> is_str j \<and> hex_string 40 (str_of j)"

definition letter :: "char \<Rightarrow> bool" where
  "letter c \<longleftrightarrow> (let n = of_char c :: nat in 65 \<le> n \<and> n \<le> 90 \<or> 97 \<le> n \<and> n \<le> 122)"

definition backslash :: char where
  "backslash = CHR 0x5C"

definition url_scheme :: rx where
  "url_scheme = rx_seq [RBegin, rx_plus (RCh letter), rx_lit ''://'']"

definition drive_prefix :: rx where
  "drive_prefix = rx_seq [RBegin, RCh letter, rx_lit '':'', RCh (\<lambda>c. c = backslash \<or> c = CHR ''/'')]"

definition repo_relative :: "string \<Rightarrow> bool" where
  "repo_relative ref0 \<longleftrightarrow>
     (let ref = strip ref0
      in ref \<noteq> []
         \<and> \<not> (hd ref \<in> {CHR ''/'', CHR ''~'', backslash} \<or> re_match url_scheme ref \<or> re_match drive_prefix ref)
         \<and> ''..'' \<notin> set (split_on (CHR ''/'') (map (\<lambda>c. if c = backslash then CHR ''/'' else c) ref)))"

subsection \<open>Times\<close>

type_synonym instant = "nat \<times> nat \<times> nat \<times> nat \<times> nat \<times> nat"

definition leap_year :: "nat \<Rightarrow> bool" where
  "leap_year y \<longleftrightarrow> 4 dvd y \<and> (\<not> 100 dvd y \<or> 400 dvd y)"

definition days_in_month :: "nat \<Rightarrow> nat \<Rightarrow> nat" where
  "days_in_month y m =
     (if m = 2 then (if leap_year y then 29 else 28) else if m \<in> {4, 6, 9, 11} then 30 else 31)"

text \<open>What \<^verbatim>\<open>datetime\<close> accepts.\<close>

definition valid_instant :: "instant \<Rightarrow> bool" where
  "valid_instant t =
     (case t of (y, mo, d, h, mi, s) \<Rightarrow>
        1 \<le> y \<and> 1 \<le> mo \<and> mo \<le> 12 \<and> 1 \<le> d \<and> d \<le> days_in_month y mo \<and> h \<le> 23 \<and> mi \<le> 59 \<and> s \<le> 59)"

definition slice :: "nat \<Rightarrow> nat \<Rightarrow> string \<Rightarrow> string" where
  "slice i j s = take (j - i) (drop i s)"

text \<open>\<^verbatim>\<open>^\d{4}-\d{2}-\d{2}T\d{2}:\d{2}(:\d{2})?(\.\d+)?Z$\<close>\<close>

definition ISO_RE :: rx where
  "ISO_RE =
     rx_seq [RBegin, rx_times 4 rx_digit, rx_lit ''-'', rx_times 2 rx_digit, rx_lit ''-'', rx_times 2 rx_digit,
             rx_lit ''T'', rx_times 2 rx_digit, rx_lit '':'', rx_times 2 rx_digit,
             rx_opt (RSeq (rx_lit '':'') (rx_times 2 rx_digit)),
             rx_opt (RSeq (rx_lit ''.'') (rx_plus rx_digit)), rx_lit ''Z'', REnd]"

text \<open>
  For a text of that form the first \<^verbatim>\<open>strptime\<close> succeeds exactly when there are seconds (a
  colon at position 16) and the second exactly for \<^verbatim>\<open>YYYY-MM-DDTHH:MMZ\<close>; both then check the
  ranges of the fields.
\<close>

definition parse_iso :: "json \<Rightarrow> instant option" where
  "parse_iso j =
     (let s = str_of j;
          date = (digits_value (slice 0 4 s), digits_value (slice 5 7 s), digits_value (slice 8 10 s),
                  digits_value (slice 11 13 s), digits_value (slice 14 16 s));
          t = (case date of (y, mo, d, h, mi) \<Rightarrow>
                 if length s \<ge> 19 \<and> s ! 16 = CHR '':'' then Some (y, mo, d, h, mi, digits_value (slice 17 19 s))
                 else if length s = 17 then Some (y, mo, d, h, mi, 0) else None)
      in if is_str j \<and> re_match ISO_RE s
         then (case t of Some x \<Rightarrow> (if valid_instant x then Some x else None) | None \<Rightarrow> None)
         else None)"

subsection \<open>Versions\<close>

text \<open>\<^verbatim>\<open>_version\<close>: the first three numbers, or the empty tuple; tuples compare lexicographically.\<close>

definition version_of :: "json \<Rightarrow> nat list" where
  "version_of j =
     (case j of
        JStr s \<Rightarrow> (case mapE parse_nat (take 3 (split_on (CHR ''.'') s)) of Inr ns \<Rightarrow> ns | Inl _ \<Rightarrow> [])
      | JInt i \<Rightarrow> (if i \<ge> 0 then [nat i] else [])
      | _ \<Rightarrow> [])"

definition version_ge :: "nat list \<Rightarrow> nat list \<Rightarrow> bool" where
  "version_ge a b \<longleftrightarrow> b \<le> a"

subsection \<open>Findings\<close>

text \<open>\<^verbatim>\<open>Ctx.add\<close>: a disabled rule adds nothing.\<close>

definition add :: "string list \<Rightarrow> string \<Rightarrow> string list" where
  "add disabled code = (if code \<in> set disabled then [] else [code])"

definition add_if :: "string list \<Rightarrow> bool \<Rightarrow> string \<Rightarrow> string list" where
  "add_if disabled b code = (if b then add disabled code else [])"

text \<open>One finding for each required field that is absent.\<close>

definition missing_fields :: "string list \<Rightarrow> string \<Rightarrow> string list \<Rightarrow> dict \<Rightarrow> string list" where
  "missing_fields disabled code fields d = concat (map (\<lambda>f. add_if disabled (\<not> has_key d f) code) fields)"

text \<open>
  Disabling a rule only removes its findings: what a check reports under \<open>disabled\<close> is what it
  reports with every rule on, without the disabled codes.
\<close>

definition filters :: "(string list \<Rightarrow> string list) \<Rightarrow> bool" where
  "filters check \<longleftrightarrow> (\<forall>D. check D = filter (\<lambda>c. c \<notin> set D) (check []))"

named_theorems filters_rules \<open>checks that only lose the findings of disabled rules\<close>

lemma filtersI: "(\<And>D. check D = filter (\<lambda>c. c \<notin> set D) (check [])) \<Longrightarrow> filters check"
  unfolding filters_def by blast

lemma filtersD: "filters check \<Longrightarrow> check D = filter (\<lambda>c. c \<notin> set D) (check [])"
  unfolding filters_def by blast

lemma filters_add [filters_rules]: "filters (\<lambda>D. add D c)"
  by (rule filtersI) (simp add: add_def)

lemma filters_nil [filters_rules]: "filters (\<lambda>D. [])"
  by (rule filtersI) simp

lemma filters_append [filters_rules]:
  assumes "filters f" "filters g" shows "filters (\<lambda>D. f D @ g D)"
  unfolding filters_def filter_append
  by (intro allI arg_cong2 [where f = append] filtersD assms)

lemma filters_if [filters_rules]: "filters f \<Longrightarrow> filters g \<Longrightarrow> filters (\<lambda>D. if b then f D else g D)"
  by (cases b) simp_all

lemma filters_option [filters_rules]:
  "filters f \<Longrightarrow> (\<And>x. filters (g x)) \<Longrightarrow> filters (\<lambda>D. case y of None \<Rightarrow> f D | Some x \<Rightarrow> g x D)"
  by (cases y) simp_all

lemma filters_add_if [filters_rules]: "filters (\<lambda>D. add_if D b c)"
  unfolding add_if_def by (intro filters_rules)

lemma filters_concat [filters_rules]:
  assumes "\<And>x. filters (\<lambda>D. f D x)" shows "filters (\<lambda>D. concat (map (f D) xs))"
proof (rule filtersI)
  fix D
  have "filter (\<lambda>c. c \<notin> set D) (concat (map (f []) xs)) = concat (map (\<lambda>x. filter (\<lambda>c. c \<notin> set D) (f [] x)) xs)"
    by (simp add: filter_concat comp_def)
  also have "(\<lambda>x. filter (\<lambda>c. c \<notin> set D) (f [] x)) = f D"
    using filtersD [OF assms, symmetric] by blast
  finally show "concat (map (f D) xs) = filter (\<lambda>c. c \<notin> set D) (concat (map (f []) xs))" by (rule sym)
qed

lemma filters_missing [filters_rules]: "filters (\<lambda>D. missing_fields D c fs d)"
  unfolding missing_fields_def by (intro filters_rules)

lemma add_mem [simp]: "c \<in> set (add [] c') \<longleftrightarrow> c = c'"
  by (simp add: add_def)

lemma add_if_nil [simp]: "add_if [] b c = [] \<longleftrightarrow> \<not> b"
  by (simp add: add_if_def add_def)

lemma missing_fields_nil [simp]: "missing_fields [] c fs d = [] \<longleftrightarrow> (\<forall>f \<in> set fs. has_key d f)"
  by (simp add: missing_fields_def)

end
