(* ===== verification/SchemaArms.thy ===== *)
theory SchemaArms
  imports SchemaBase
begin

section \<open>Full-suite evidence\<close>

text \<open>
  The part of \<^verbatim>\<open>tools/graph/schema_check.py\<close> that judges the evidence of a repository-wide test run:
  the canonical definition of the test arms, the verdict over per-arm evidence, the typed class of
  repositories without a test suite, and the units a global fallback collapses onto.
  \<open>loads\<close> is \<^verbatim>\<open>json.loads\<close> on bytes (\<^verbatim>\<open>None\<close> for a \<^verbatim>\<open>ValueError\<close>) and \<open>sha\<close> the hexadecimal SHA-256.
\<close>

subsection \<open>The definition of the arms\<close>

datatype verdict = Verified | NotMeasured | Failed

definition ARM_BACKENDS :: "string list" where
  "ARM_BACKENDS = [''real_disposable'', ''real_external'', ''stub'', ''none'']"

definition ARM_REQUIRES :: "string list" where
  "ARM_REQUIRES = [''real_disposable'', ''real_external'', ''stub_ok'']"

definition ARM_DEFINITION_PATH :: string where
  "ARM_DEFINITION_PATH = ''.arcana/verify.json''"

definition ARM_SATISFIES :: "string \<Rightarrow> string list" where
  "ARM_SATISFIES slot =
     (if slot = ''real_disposable'' then [''real_disposable'']
      else if slot = ''real_external'' then [''real_external'']
      else if slot = ''stub_ok'' then [''real_disposable'', ''real_external'', ''stub''] else [])"

definition EVIDENCE_KEYS :: "string list" where
  "EVIDENCE_KEYS = [''schema'', ''head'', ''definition'', ''arms'', ''not_run'']"

definition ARM_KEYS :: "string list" where
  "ARM_KEYS = [''name'', ''backend'', ''counts'', ''head'', ''control'', ''verdict'', ''probes'']"

record arm_def =
  ad_sha256 :: string
  ad_arms :: "(string \<times> string) list"

definition keys_are :: "dict \<Rightarrow> string list \<Rightarrow> bool" where
  "keys_are d ks \<longleftrightarrow> set (map fst d) = set ks"

text \<open>\<^verbatim>\<open>(profile.get("deployables") or {}).get(".") or {}).get("full_test_arms")\<close>, \<^verbatim>\<open>None\<close> for an \<^verbatim>\<open>AttributeError\<close>.\<close>

definition get_or_empty :: "json \<Rightarrow> string \<Rightarrow> json option" where
  "get_or_empty j k =
     (case j of JObj d \<Rightarrow> Some (if truthy (mget d k) then mget d k else JObj []) | _ \<Rightarrow> None)"

definition arm_entries :: "json \<Rightarrow> json list option" where
  "arm_entries profile =
     (case get_or_empty profile ''deployables'' of
        None \<Rightarrow> None
      | Some ds \<Rightarrow>
          (case get_or_empty ds ''.'' of
             Some (JObj d) \<Rightarrow> (case mget d ''full_test_arms'' of JArr (e # es) \<Rightarrow> Some (e # es) | _ \<Rightarrow> None)
           | _ \<Rightarrow> None))"

definition arm_entry_ok :: "(string \<times> string) list \<Rightarrow> json \<Rightarrow> bool" where
  "arm_entry_ok arms e \<longleftrightarrow>
     is_dict e \<and> keys_are (as_dict e) [''name'', ''requires''] \<and> is_str (mget (as_dict e) ''name'')
     \<and> str_of (mget (as_dict e) ''name'') \<noteq> [] \<and> str_in (mget (as_dict e) ''requires'') ARM_REQUIRES
     \<and> map_of arms (str_of (mget (as_dict e) ''name'')) = None"

fun collect_arms :: "(string \<times> string) list \<Rightarrow> json list \<Rightarrow> (string \<times> string) list option" where
  "collect_arms arms [] = Some arms"
| "collect_arms arms (e # es) =
     (if arm_entry_ok arms e
      then collect_arms (arms @ [(str_of (mget (as_dict e) ''name''), str_of (mget (as_dict e) ''requires''))]) es
      else None)"

definition arm_definition :: "(string \<Rightarrow> json option) \<Rightarrow> (string \<Rightarrow> string) \<Rightarrow> string option \<Rightarrow> arm_def option" where
  "arm_definition loads sha raw =
     (case raw of
        None \<Rightarrow> None
      | Some b \<Rightarrow>
          if b = [] then None
          else (case loads b of
                  None \<Rightarrow> None
                | Some profile \<Rightarrow>
                    (case arm_entries profile of
                       None \<Rightarrow> None
                     | Some es \<Rightarrow>
                         map_option (\<lambda>arms. \<lparr>ad_sha256 = sha b, ad_arms = arms\<rparr>) (collect_arms [] es))))"

datatype range_def = Refused string | Defined arm_def

definition arm_definition_for_range ::
  "(string \<Rightarrow> json option) \<Rightarrow> (string \<Rightarrow> string) \<Rightarrow> string option \<Rightarrow> string option \<Rightarrow> range_def" where
  "arm_definition_for_range loads sha base_raw head_raw =
     (case arm_definition loads sha base_raw of
        None \<Rightarrow> Refused ''ARM_DEFINITION_BASE_MISSING_OR_INVALID''
      | Some b \<Rightarrow>
          (case arm_definition loads sha head_raw of
             None \<Rightarrow> Refused ''ARM_DEFINITION_CHANGED_IN_RANGE''
           | Some h \<Rightarrow> if set (ad_arms h) \<noteq> set (ad_arms b) then Refused ''ARM_DEFINITION_CHANGED_IN_RANGE''
                       else Defined b))"

subsection \<open>The verdict over the arms\<close>

definition count_of :: "dict \<Rightarrow> string \<Rightarrow> nat option" where
  "count_of counts k = (case mget counts k of JInt n \<Rightarrow> (if n \<ge> 0 then Some (nat n) else None) | _ \<Rightarrow> None)"

definition arm_verdict :: "json \<Rightarrow> json \<Rightarrow> string \<Rightarrow> verdict" where
  "arm_verdict armj head slot =
     (let arm = as_dict armj; counts = as_dict (mget arm ''counts''); backend = mget arm ''backend'';
          control = mget arm ''control''
      in if \<not> is_dict armj \<or> \<not> is_str (mget arm ''name'') \<or> str_of (mget arm ''name'') = [] then NotMeasured
         else if \<not> set (map fst arm) \<subseteq> set ARM_KEYS then NotMeasured
         else if \<not> is_dict (mget arm ''counts'') \<or> \<not> keys_are counts [''total'', ''passed'', ''failed'', ''skipped'']
         then NotMeasured
         else case (count_of counts ''total'', count_of counts ''passed'', count_of counts ''failed'',
                    count_of counts ''skipped'') of
                (Some tot, Some passed, Some failed, Some skipped) \<Rightarrow>
                  if passed + failed + skipped \<noteq> tot then NotMeasured
                  else if failed > 0 \<or> mget arm ''verdict'' = JStr ''failed'' then Failed
                  else if mget arm ''head'' \<noteq> head then NotMeasured
                  else if tot = 0 \<or> skipped > 0 \<or> passed \<noteq> tot then NotMeasured
                  else if \<not> str_in backend ARM_BACKENDS then NotMeasured
                  else if \<not> str_in backend (ARM_SATISFIES slot) then NotMeasured
                  else if backend \<noteq> JStr ''stub''
                          \<and> \<not> (is_dict control \<and> mget (as_dict control) ''result'' = JStr ''PASS_RED'')
                  then NotMeasured
                  else Verified
              | _ \<Rightarrow> NotMeasured)"

definition arm_name :: "json \<Rightarrow> json" where
  "arm_name a = mget (as_dict a) ''name''"

definition slot_of :: "arm_def \<Rightarrow> json \<Rightarrow> string" where
  "slot_of d n = (case map_of (ad_arms d) (str_of n) of
       Some s \<Rightarrow> (if is_str n then s else ''real_disposable'') | None \<Rightarrow> ''real_disposable'')"

definition evidence_bound :: "json \<Rightarrow> json \<Rightarrow> arm_def \<Rightarrow> bool" where
  "evidence_bound evidence head d \<longleftrightarrow>
     (let ev = as_dict evidence; ref = as_dict (mget ev ''definition'')
      in is_dict evidence \<and> mget ev ''schema'' = JStr ''FullSuiteArmEvidence/v1''
         \<and> set (map fst ev) \<subseteq> set EVIDENCE_KEYS
         \<and> is_sha40 head \<and> mget ev ''head'' = head
         \<and> is_dict (mget ev ''definition'') \<and> keys_are ref [''path'', ''sha256'']
         \<and> mget ref ''path'' = JStr ARM_DEFINITION_PATH \<and> mget ref ''sha256'' = JStr (ad_sha256 d)
         \<and> as_list (mget ev ''arms'') \<noteq> [] \<and> is_list (mget ev ''not_run''))"

definition arm_set_ok :: "arm_def \<Rightarrow> json list \<Rightarrow> bool" where
  "arm_set_ok d names \<longleftrightarrow>
     distinct names \<and> list_all is_str names \<and> set (map str_of names) = set (map fst (ad_arms d))"

definition arms_verdict :: "json \<Rightarrow> json \<Rightarrow> range_def option \<Rightarrow> verdict" where
  "arms_verdict evidence head definition =
     (case definition of
        Some (Defined d) \<Rightarrow>
          (let arms = as_list (mget (as_dict evidence) ''arms'');
               results = map (\<lambda>a. arm_verdict a head (slot_of d (arm_name a))) arms
           in if ad_arms d = [] then NotMeasured
              else if \<not> evidence_bound evidence head d then NotMeasured
              else if Failed \<in> set results then Failed
              else if arm_set_ok d (map arm_name arms) \<and> list_all (\<lambda>v. v = Verified) results
                      \<and> as_list (mget (as_dict evidence) ''not_run'') = []
              then Verified else NotMeasured)
      | _ \<Rightarrow> NotMeasured)"

subsection \<open>Units of a global fallback\<close>

definition before_colon :: "string \<Rightarrow> string" where
  "before_colon s = fst (partition_char (CHR '':'') s)"

text \<open>\<^verbatim>\<open>entity.split(":", 1)[1]\<close>, which raises without a colon.\<close>

definition after_colon :: "string \<Rightarrow> exc + string" where
  "after_colon s = (if CHR '':'' \<in> set s then Inr (snd (partition_char (CHR '':'') s)) else Inl IndexError)"

definition strip_slashes :: "string \<Rightarrow> string" where
  "strip_slashes s = rstrip_char (CHR ''/'') (dropWhile (\<lambda>c. c = CHR ''/'') s)"

definition deployable_dir :: "string \<Rightarrow> exc + string" where
  "deployable_dir entity =
     bindE (after_colon entity) (\<lambda>e.
       let d = strip_slashes e in Inr (if d = [] \<or> d = ''.'' then [] else d @ ''/''))"

definition entry_type :: "dict \<Rightarrow> string" where
  "entry_type e =
     (if truthy (mget e ''node_type'') then str_of (mget e ''node_type'') else before_colon (str_of (mget e ''entity'')))"

definition entities_of_type :: "string \<Rightarrow> json list \<Rightarrow> string list" where
  "entities_of_type t rows =
     remdups (map (\<lambda>r. str_of (mget (as_dict r) ''entity''))
       (filter (\<lambda>r. is_dict r \<and> is_str (mget (as_dict r) ''entity'') \<and> entry_type (as_dict r) = t) rows))"

primrec filterE :: "('a \<Rightarrow> 'e + bool) \<Rightarrow> 'a list \<Rightarrow> 'e + 'a list" where
  "filterE f [] = Inr []"
| "filterE f (x # xs) = bindE (f x) (\<lambda>b. bindE (filterE f xs) (\<lambda>ys. Inr (if b then x # ys else ys)))"

text \<open>Without a deployable unit \<^verbatim>\<open>any\<close> is over nothing and no code unit is split.\<close>

definition uncovered_by :: "string list \<Rightarrow> string \<Rightarrow> exc + bool" where
  "uncovered_by dirs c =
     (if dirs = [] then Inr True
      else bindE (after_colon c) (\<lambda>p. Inr (\<not> list_ex (\<lambda>d. startswith p d) dirs)))"

definition fallback_units :: "json list \<Rightarrow> exc + string list" where
  "fallback_units rows =
     (let units = entities_of_type ''deployable_unit'' rows
      in bindE (mapE deployable_dir units) (\<lambda>dirs.
           bindE (filterE (uncovered_by (sort dirs)) (entities_of_type ''code_unit'' rows)) (\<lambda>uncovered.
             Inr (remdups (units @ uncovered)))))"

definition real_path :: "dict \<Rightarrow> bool" where
  "real_path p \<longleftrightarrow>
     truthy (mget p ''path'')
     \<and> \<not> list_all (\<lambda>h. mget (as_dict h) ''via'' = JStr ''global-fallback'') (as_list (mget p ''path''))"

definition traversal_entities :: "json list \<Rightarrow> json list" where
  "traversal_entities rows =
     map (\<lambda>r. mget (as_dict r) ''entity'')
       (filter (\<lambda>r. is_dict r \<and> has_key (as_dict r) ''entity''
                    \<and> (let e = as_dict r
                       in if has_key e ''revision_paths''
                          then list_ex (\<lambda>p. real_path (as_dict p)) (as_list (mget e ''revision_paths''))
                          else real_path e)) rows)"

subsection \<open>A declared absent suite\<close>

text \<open>\<^verbatim>\<open>{v.get(k): v for v in rows}.get(x)\<close>: the last row with that key.\<close>

definition last_row :: "string \<Rightarrow> json \<Rightarrow> json list \<Rightarrow> dict option" where
  "last_row k x rows =
     (case filter (\<lambda>r. mget (as_dict r) k = x) rows of [] \<Rightarrow> None | r # rs \<Rightarrow> Some (as_dict (last (r # rs))))"

definition nonblank_str :: "json \<Rightarrow> bool" where
  "nonblank_str j \<longleftrightarrow> is_str j \<and> strip (str_of j) \<noteq> []"

text \<open>\<^verbatim>\<open>str(v or "").strip()\<close>\<close>

definition nonblank :: "json \<Rightarrow> bool" where
  "nonblank j \<longleftrightarrow> truthy j \<and> (\<not> is_str j \<or> strip (str_of j) \<noteq> [])"

definition static_row_ok :: "dict \<Rightarrow> string \<Rightarrow> json \<Rightarrow> bool" where
  "static_row_ok doc eid xj \<longleftrightarrow>
     (let x = as_dict xj; rows = filter is_dict (as_list (mget doc ''verifiers''))
      in is_dict xj \<and> nonblank_str (mget x ''command'') \<and> mget x ''exit_code'' = JInt 0
         \<and> nonblank_str (mget x ''output_ref'')
         \<and> (case last_row ''id'' (mget x ''verifier_id'') rows of
              None \<Rightarrow> False
            | Some r \<Rightarrow> equals_zero (mget r ''exit_code'') \<and> mget r ''command'' = mget x ''command''
                        \<and> mget r ''output_ref'' = mget x ''output_ref''
                        \<and> JStr eid \<in> set (as_list (mget r ''entities''))))"

definition absent_suite_problems :: "dict \<Rightarrow> string \<Rightarrow> string list option" where
  "absent_suite_problems doc eid =
     (let ts = as_dict (mget doc ''test_suite''); decl = as_dict (mget ts ''declaration'');
          tree = as_dict (mget ts ''tree''); static = as_list (mget ts ''static_validation'')
      in if \<not> is_dict (mget doc ''test_suite'') then None
         else Some
           ((if mget ts ''status'' \<noteq> JStr ''absent_declared'' then [''status''] else [])
            @ (if mget ts ''behavior'' \<noteq> JStr ''not_measured'' then [''behavior''] else [])
            @ (if JStr eid \<notin> set (as_list (mget ts ''entities'')) then [''entity''] else [])
            @ (if dget decl ''full_test'' \<noteq> Some JNull \<or> \<not> nonblank (mget decl ''full_test_absent_reason'')
               then [''declaration''] else [])
            @ (if mget tree ''test_files'' \<noteq> JArr [] \<or> mget tree ''scripts_test'' \<noteq> JNull \<or> mget tree ''unknown'' \<noteq> JArr []
               then [''tree''] else [])
            @ (if static = [] \<or> \<not> list_all (static_row_ok doc eid) static then [''static validation''] else [])
            @ (if (case last_row ''entity'' (JStr eid) (filter is_dict (as_list (mget doc ''verdicts''))) of
                     Some v \<Rightarrow> mget v ''verdict'' | None \<Rightarrow> JNull) \<noteq> JStr ''not_measured''
               then [''unit verdict''] else [])
            @ (if mget (as_dict (mget doc ''admission'')) ''verdict'' \<noteq> JStr ''admitted_with_exemptions''
               then [''admission''] else [])
            @ (if list_ex (\<lambda>x. is_dict x \<and> mget (as_dict x) ''entity'' = JStr eid
                     \<and> nonblank (mget (as_dict x) ''owner'') \<and> nonblank (mget (as_dict x) ''expires_at_utc''))
                    (as_list (mget doc ''exemptions''))
               then [] else [''exemption''])))"

subsection \<open>The measurement of a fallback\<close>

definition is_full_suite :: "dict \<Rightarrow> bool" where
  "is_full_suite row \<longleftrightarrow> mget row ''scope'' = JStr ''global_fallback_full_suite''"

definition arm_rows :: "dict \<Rightarrow> dict list" where
  "arm_rows doc =
     filter (\<lambda>r. is_full_suite r \<and> has_key r ''arms'') (map as_dict (as_list (mget doc ''verifiers'')))"

definition row_arms_verdict :: "dict \<Rightarrow> range_def option \<Rightarrow> dict \<Rightarrow> verdict" where
  "row_arms_verdict doc definition row =
     arms_verdict (mget row ''arms'') (mget (as_dict (mget doc ''change_set'')) ''head'') definition"

definition arms_mismatch :: "dict \<Rightarrow> string list \<Rightarrow> range_def option \<Rightarrow> dict \<Rightarrow> bool" where
  "arms_mismatch doc units definition row \<longleftrightarrow>
     row_arms_verdict doc definition row \<noteq> Verified
     \<and> list_ex (\<lambda>u. mget (as_dict (mget row ''entity_verdicts'')) u = JStr ''verified'') units"

definition id_verdict :: "dict \<Rightarrow> range_def option \<Rightarrow> json \<Rightarrow> verdict option" where
  "id_verdict doc definition i =
     (case filter (\<lambda>r. mget r ''id'' = i) (arm_rows doc) of
        [] \<Rightarrow> None | r # rs \<Rightarrow> Some (row_arms_verdict doc definition (last (r # rs))))"

definition measures :: "dict \<Rightarrow> range_def option \<Rightarrow> string \<Rightarrow> dict \<Rightarrow> bool" where
  "measures doc definition eid v \<longleftrightarrow>
     is_full_suite v \<and> mget v ''kind'' = JStr ''targeted_test'' \<and> JStr eid \<in> set (as_list (mget v ''entities''))
     \<and> equals_zero (mget v ''exit_code'') \<and> mget (as_dict (mget v ''entity_verdicts'')) eid = JStr ''verified''
     \<and> truthy (mget v ''output_ref'')
     \<and> (\<not> has_key v ''arms'' \<or> id_verdict doc definition (mget v ''id'') = Some Verified)"

definition referenced_rows :: "dict \<Rightarrow> string \<Rightarrow> dict list" where
  "referenced_rows doc eid =
     (let record = (case last_row ''entity'' (JStr eid) (as_list (mget doc ''verdicts'')) of Some v \<Rightarrow> v | None \<Rightarrow> [])
      in map (\<lambda>i. case last_row ''id'' i (as_list (mget doc ''verifiers'')) of Some v \<Rightarrow> v | None \<Rightarrow> [])
           (as_list (mget record ''verifier_ids'')))"

definition admitting :: "json \<Rightarrow> bool" where
  "admitting v \<longleftrightarrow> str_in v [''admitted'', ''admitted_with_exemptions'']"

definition fallback_evidence_problems :: "dict \<Rightarrow> string list \<Rightarrow> range_def option \<Rightarrow> string list" where
  "fallback_evidence_problems doc units definition =
     (let bad = filter (arms_mismatch doc units definition) (arm_rows doc)
      in if bad \<noteq> [] then map (\<lambda>r. str_of (mget r ''id'')) bad
         else if \<not> admitting (mget (as_dict (mget doc ''admission'')) ''verdict'') then []
         else filter (\<lambda>eid. \<not> list_ex (measures doc definition eid) (referenced_rows doc eid)
                            \<and> absent_suite_problems doc eid \<noteq> Some []) (sort units))"

subsection \<open>What a verified suite means\<close>

lemma collect_arms_step:
  "collect_arms arms (e # es) = Some arms' \<Longrightarrow>
   collect_arms (arms @ [(str_of (mget (as_dict e) ''name''), str_of (mget (as_dict e) ''requires''))]) es = Some arms'"
  by (simp split: if_splits)

lemma collect_arms_distinct:
  "collect_arms arms es = Some arms' \<Longrightarrow> distinct (map fst arms) \<Longrightarrow> distinct (map fst arms')"
proof (induction es arbitrary: arms)
  case (Cons e es)
  from Cons.prems(1) have ok: "arm_entry_ok arms e" by (simp split: if_splits)
  show ?case
    by (rule Cons.IH [OF collect_arms_step [OF Cons.prems(1)]])
      (use Cons.prems(2) ok in \<open>simp add: arm_entry_ok_def map_of_eq_None_iff image_iff\<close>)
qed simp

lemma collect_arms_slots:
  "collect_arms arms es = Some arms' \<Longrightarrow> snd ` set arms \<subseteq> set ARM_REQUIRES \<Longrightarrow> snd ` set arms' \<subseteq> set ARM_REQUIRES"
proof (induction es arbitrary: arms)
  case (Cons e es)
  from Cons.prems(1) have ok: "arm_entry_ok arms e" by (simp split: if_splits)
  show ?case
    by (rule Cons.IH [OF collect_arms_step [OF Cons.prems(1)]])
      (use Cons.prems(2) ok in \<open>simp add: arm_entry_ok_def str_in_def\<close>)
qed simp

text \<open>The names of a definition are distinct and its slots are known ones.\<close>

lemma arm_definition_wf:
  assumes "arm_definition loads sha raw = Some d"
  shows "distinct (map fst (ad_arms d))" "snd ` set (ad_arms d) \<subseteq> set ARM_REQUIRES"
proof -
  obtain es where es: "collect_arms [] es = Some (ad_arms d)"
    using assms by (auto simp: arm_definition_def split: option.splits if_splits)
  show "distinct (map fst (ad_arms d))" by (rule collect_arms_distinct [OF es]) simp
  show "snd ` set (ad_arms d) \<subseteq> set ARM_REQUIRES" by (rule collect_arms_slots [OF es]) simp
qed

text \<open>An arm that ran: tests were run at the head, all of them passed, on a backend the slot allows, with a retained red control unless the backend is a stub.\<close>

definition arm_ran :: "json \<Rightarrow> string \<Rightarrow> dict \<Rightarrow> bool" where
  "arm_ran head slot arm \<longleftrightarrow>
     (let counts = as_dict (mget arm ''counts'')
      in mget arm ''head'' = head
         \<and> (\<exists>n > 0. mget counts ''total'' = JInt n \<and> mget counts ''passed'' = JInt n)
         \<and> mget counts ''failed'' = JInt 0 \<and> mget counts ''skipped'' = JInt 0
         \<and> str_in (mget arm ''backend'') (ARM_SATISFIES slot)
         \<and> (mget arm ''backend'' = JStr ''stub'' \<or> mget (as_dict (mget arm ''control'')) ''result'' = JStr ''PASS_RED''))"

lemma count_ofD: "count_of c k = Some n \<Longrightarrow> mget c k = JInt (int n)"
  by (auto simp: count_of_def split: json.splits if_splits)

lemma arm_verdict_verified:
  assumes "arm_verdict a head slot = Verified"
  shows "is_dict a \<and> arm_ran head slot (as_dict a)"
proof -
  let ?c = "as_dict (mget (as_dict a) ''counts'')"
  obtain t p f s where c: "count_of ?c ''total'' = Some t" "count_of ?c ''passed'' = Some p"
      "count_of ?c ''failed'' = Some f" "count_of ?c ''skipped'' = Some s"
    using assms by (auto simp: arm_verdict_def Let_def split: if_splits option.splits)
  then have v: "t > 0" "p = t" "f = 0" "s = 0" "is_dict a" "mget (as_dict a) ''head'' = head"
      "str_in (mget (as_dict a) ''backend'') (ARM_SATISFIES slot)"
      "mget (as_dict a) ''backend'' = JStr ''stub'' \<or> mget (as_dict (mget (as_dict a) ''control'')) ''result'' = JStr ''PASS_RED''"
    using assms by (auto simp: arm_verdict_def Let_def split: if_splits)
  then show ?thesis
    using c [THEN count_ofD] by (auto simp: arm_ran_def Let_def)
qed

lemma arms_verdict_verified:
  assumes "arms_verdict evidence head (Some (Defined d)) = Verified"
  defines "arms \<equiv> as_list (mget (as_dict evidence) ''arms'')"
  shows "evidence_bound evidence head d" "arm_set_ok d (map arm_name arms)"
    "as_list (mget (as_dict evidence) ''not_run'') = []"
    "\<And>a. a \<in> set arms \<Longrightarrow> is_dict a \<and> arm_ran head (slot_of d (arm_name a)) (as_dict a)"
  using assms(1) unfolding arms_def
  by (auto simp: arms_verdict_def Let_def list_all_iff dest!: arm_verdict_verified split: if_splits)

lemma map_of_eq_of_set:
  assumes "distinct (map fst xs)" "distinct (map fst ys)" "set xs = set ys" shows "map_of xs = map_of ys"
  using assms by (metis map_of_inject_set)

lemma slot_of_defined: "distinct (map fst (ad_arms d)) \<Longrightarrow> (n, s) \<in> set (ad_arms d) \<Longrightarrow> slot_of d (JStr n) = s"
  by (simp add: slot_of_def is_str_def str_of_def)

text \<open>
  C21: a verified suite ran completely on the trusted definition.  When the verdict over the evidence is
  \<^verbatim>\<open>verified\<close> for the definition of a range, the base commit carries a definition, the range left its
  arms alone, and every defined arm occurs exactly once in the evidence, having run at the head on a
  backend its defined slot allows with every test passed.
\<close>

theorem arms_verdict_sound:
  assumes "arms_verdict evidence head (Some (arm_definition_for_range loads sha base_raw head_raw)) = Verified"
  shows "\<exists>d h. arm_definition loads sha base_raw = Some d \<and> arm_definition loads sha head_raw = Some h
     \<and> map_of (ad_arms h) = map_of (ad_arms d)
     \<and> mget (as_dict (mget (as_dict evidence) ''definition'')) ''sha256'' = JStr (ad_sha256 d)
     \<and> (\<forall>(name, slot) \<in> set (ad_arms d).
          \<exists>!i. i < length (as_list (mget (as_dict evidence) ''arms''))
             \<and> mget (as_dict (as_list (mget (as_dict evidence) ''arms'') ! i)) ''name'' = JStr name
             \<and> arm_ran head slot (as_dict (as_list (mget (as_dict evidence) ''arms'') ! i)))"
proof -
  let ?arms = "as_list (mget (as_dict evidence) ''arms'')"
  obtain d h where d: "arm_definition loads sha base_raw = Some d" and h: "arm_definition loads sha head_raw = Some h"
      and same: "set (ad_arms h) = set (ad_arms d)" and v: "arms_verdict evidence head (Some (Defined d)) = Verified"
    using assms
    by (auto simp: arm_definition_for_range_def arms_verdict_def split: option.splits if_splits)
  note sound = arms_verdict_verified [OF v]
  have "\<exists>!i. i < length ?arms \<and> mget (as_dict (?arms ! i)) ''name'' = JStr n \<and> arm_ran head s (as_dict (?arms ! i))"
    if "(n, s) \<in> set (ad_arms d)" for n s
  proof -
    have "n \<in> set (map fst (ad_arms d))" using that by (metis fst_conv image_eqI list.set_map)
    then have "n \<in> str_of ` set (map arm_name ?arms)" and str: "\<And>x. x \<in> set (map arm_name ?arms) \<Longrightarrow> is_str x"
      using sound(2) unfolding arm_set_ok_def list_all_iff set_map by blast+
    then obtain x where "x \<in> set (map arm_name ?arms)" "n = str_of x" by blast
    then have "JStr n \<in> set (map arm_name ?arms)" using JStr_str_of [OF str] by simp
    then obtain i where i: "i < length ?arms" "arm_name (?arms ! i) = JStr n"
      by (auto simp: in_set_conv_nth)
    have "arm_ran head s (as_dict (?arms ! i))"
      using sound(4) [of "?arms ! i"] i slot_of_defined [OF arm_definition_wf(1) [OF d] that] by simp
    moreover have "j = i" if "j < length ?arms" "arm_name (?arms ! j) = JStr n" for j
      using sound(2) that i nth_eq_iff_index_eq [of "map arm_name ?arms" j i] by (simp add: arm_set_ok_def)
    ultimately show ?thesis using i unfolding arm_name_def by blast
  qed
  moreover have "map_of (ad_arms h) = map_of (ad_arms d)"
    by (rule map_of_eq_of_set [OF arm_definition_wf(1) [OF h] arm_definition_wf(1) [OF d] same])
  ultimately show ?thesis
    using d h sound(1) unfolding evidence_bound_def Let_def case_prod_unfold
    by (intro exI [of _ d] exI [of _ h] conjI ballI) (simp_all add: prod.collapse)
qed

definition sample_profile :: json where
  "sample_profile =
     JObj [(''deployables'', JObj [(''.'', JObj [(''full_test_arms'',
       JArr [JObj [(''name'', JStr ''unit''), (''requires'', JStr ''stub_ok'')]])])])]"

definition sample_evidence :: "string \<Rightarrow> json" where
  "sample_evidence head =
     JObj [(''schema'', JStr ''FullSuiteArmEvidence/v1''), (''head'', JStr head),
       (''definition'', JObj [(''path'', JStr ARM_DEFINITION_PATH), (''sha256'', JStr ''d'')]),
       (''arms'', JArr [JObj [(''name'', JStr ''unit''), (''backend'', JStr ''stub''), (''head'', JStr head),
          (''counts'', JObj [(''total'', JInt 2), (''passed'', JInt 2), (''failed'', JInt 0), (''skipped'', JInt 0)])]]),
       (''not_run'', JArr [])]"

theorem arms_verdict_sound_witness:
  "\<exists>d. arm_definition (\<lambda>_. Some sample_profile) (\<lambda>_. ''d'') (Some ''profile'') = Some d
     \<and> arms_verdict (sample_evidence (replicate 40 (CHR ''a''))) (JStr (replicate 40 (CHR ''a'')))
         (Some (arm_definition_for_range (\<lambda>_. Some sample_profile) (\<lambda>_. ''d'') (Some ''profile'') (Some ''profile''))) = Verified"
proof -
  have v: "arms_verdict (sample_evidence (replicate 40 (CHR ''a''))) (JStr (replicate 40 (CHR ''a'')))
         (Some (arm_definition_for_range (\<lambda>_. Some sample_profile) (\<lambda>_. ''d'') (Some ''profile'') (Some ''profile''))) = Verified"
    by code_simp
  show ?thesis using arms_verdict_sound [OF v] v by blast
qed

end
