(* ===== verification/SchemaSections.thy ===== *)
theory SchemaSections
  imports SchemaArms
begin

section \<open>The sections of a change-admission receipt\<close>

text \<open>
  \<^verbatim>\<open>check_verifier_selection\<close> and the sections of \<^verbatim>\<open>check_receipt\<close> of \<^verbatim>\<open>tools/graph/schema_check.py\<close>, one
  definition for each loop or rule, in the order of the code.  The tables of
  \<^verbatim>\<open>change-admission-receipt.v1.json\<close> are a record.  A check takes the disabled rules first; the
  sets the code collects on the way (\<^verbatim>\<open>changed_nodes\<close>, \<^verbatim>\<open>excluded\<close>, \<^verbatim>\<open>verdict_of\<close>, \<^verbatim>\<open>valid_exempt\<close>, \<dots>)
  are functions of the document.
\<close>

record receipt_schema =
  rs_name :: string
  rs_required :: "string list"
  rs_sections :: "(string \<times> string list) list"
  rs_modes :: "string list"
  rs_file_required :: "string list"
  rs_status :: "string list"
  rs_kind :: "string list"
  rs_sel_tool :: string
  rs_sel_version :: json
  rs_sel_schema :: string
  rs_sel_required :: "string list"
  rs_selectable :: "string list"
  rs_sel_reasons :: "string list"
  rs_impact_required :: "string list"
  rs_verifier_kinds :: "string list"
  rs_verifier_required :: "string list"
  rs_observed_required :: "string list"
  rs_observed_verdicts :: "string list"
  rs_verdicts :: "string list"
  rs_admission_required :: "string list"
  rs_admission :: "string list"

definition sub :: "dict \<Rightarrow> string \<Rightarrow> dict" where
  "sub doc name = as_dict (mget doc name)"

definition rows :: "dict \<Rightarrow> string \<Rightarrow> json list" where
  "rows doc name = as_list (mget doc name)"

subsection \<open>Fields, graph reference\<close>

definition check_fields :: "receipt_schema \<Rightarrow> dict \<Rightarrow> string list \<Rightarrow> string list" where
  "check_fields S doc D =
     add_if D (mget doc ''schema'' \<noteq> JStr (rs_name S)) ''RECEIPT_SCHEMA_MISMATCH''
     @ missing_fields D ''RECEIPT_MISSING_FIELD'' (rs_required S) doc
     @ concat (map (\<lambda>x. missing_fields D ''RECEIPT_MISSING_FIELD'' (snd x) (sub doc (fst x))) (rs_sections S))
     @ add_if D (\<not> COMMIT_RE_match (mget (sub doc ''graph'') ''source_commit'')) ''RECEIPT_WITHOUT_GRAPH_COMMIT''
     @ add_if D (\<not> SHA_RE_match (mget (sub doc ''graph'') ''graph_digest'')) ''RECEIPT_WITHOUT_GRAPH_DIGEST''"

subsection \<open>Change set\<close>

definition RECEIPT_DOC_KINDS :: "string list" where
  "RECEIPT_DOC_KINDS = [''doc'', ''receipt'']"

definition mode_of :: "dict \<Rightarrow> json" where
  "mode_of doc = mget (sub doc ''change_set'') ''mode''"

definition change_files :: "dict \<Rightarrow> json list" where
  "change_files doc = as_list (mget (sub doc ''change_set'') ''files'')"

definition file_ok :: "receipt_schema \<Rightarrow> json \<Rightarrow> bool" where
  "file_ok S f \<longleftrightarrow>
     is_dict f \<and> list_all (has_key (as_dict f)) (rs_file_required S)
     \<and> str_in (mget (as_dict f) ''status'') (rs_status S) \<and> str_in (mget (as_dict f) ''kind'') (rs_kind S)"

definition changed_nodes :: "receipt_schema \<Rightarrow> dict \<Rightarrow> json list" where
  "changed_nodes S doc =
     filter truthy (map (\<lambda>f. mget (as_dict f) ''node_id'') (filter (file_ok S) (change_files doc)))"

definition non_doc_change :: "receipt_schema \<Rightarrow> dict \<Rightarrow> bool" where
  "non_doc_change S doc \<longleftrightarrow>
     list_ex (\<lambda>f. \<not> str_in (mget (as_dict f) ''kind'') RECEIPT_DOC_KINDS) (filter (file_ok S) (change_files doc))"

definition check_change_set :: "receipt_schema \<Rightarrow> dict \<Rightarrow> string list \<Rightarrow> string list" where
  "check_change_set S doc D =
     (let cs = sub doc ''change_set''
      in add_if D (\<not> has_key cs ''mode'' \<or> \<not> has_key cs ''files'') ''RECEIPT_MISSING_FIELD''
         @ add_if D (\<not> str_in (mode_of doc) (rs_modes S)) ''CHANGE_SET_FILE_INVALID''
         @ (if mode_of doc = JStr ''diff'' then missing_fields D ''RECEIPT_MISSING_FIELD'' [''base'', ''head''] cs else [])
         @ add_if D (change_files doc = []) ''CHANGE_SET_EMPTY''
         @ concat (map (\<lambda>f. add_if D (\<not> file_ok S f) ''CHANGE_SET_FILE_INVALID'') (change_files doc)))"

subsection \<open>Structural exclusions\<close>

definition recorded_entities :: "dict \<Rightarrow> json list" where
  "recorded_entities doc = map (\<lambda>v. mget (as_dict v) ''entity'') (filter is_dict (rows doc ''verdicts''))"

definition null_or_sha :: "json \<Rightarrow> bool" where
  "null_or_sha j \<longleftrightarrow> j = JNull \<or> sha_fullmatch j"

definition work_item_of :: "dict \<Rightarrow> json" where
  "work_item_of doc =
     (case mget doc ''work_item'' of JStr s \<Rightarrow> JStr s | JObj d \<Rightarrow> mget d ''task_id'' | _ \<Rightarrow> JNull)"

definition superseded_ok :: "dict \<Rightarrow> dict \<Rightarrow> bool" where
  "superseded_ok doc x \<longleftrightarrow>
     (let sup = as_dict (mget x ''superseded''); ch = as_dict (mget x ''content_hash''); path = mget x ''path''
      in is_str path \<and> str_of path \<noteq> [] \<and> mget x ''entity'' = JStr (''receipt:'' @ str_of path)
         \<and> path = mget doc ''receipt_path''
         \<and> truthy (work_item_of doc) \<and> mget sup ''work_item'' = work_item_of doc
         \<and> mget sup ''receipt_path'' = path
         \<and> null_or_sha (mget ch ''head'') \<and> null_or_sha (mget ch ''base'')
         \<and> \<not> (mget ch ''base'' = JNull \<and> mget ch ''head'' = JNull)
         \<and> mget x ''entity'' \<notin> set (recorded_entities doc))"

definition unchanged_ok :: "receipt_schema \<Rightarrow> dict \<Rightarrow> dict \<Rightarrow> bool" where
  "unchanged_ok S doc x \<longleftrightarrow>
     (let ch = as_dict (mget x ''content_hash'')
      in mget ch ''base'' = mget ch ''head'' \<and> sha_fullmatch (mget ch ''base'')
         \<and> mget x ''entity'' \<notin> set (recorded_entities doc) \<and> mget x ''entity'' \<notin> set (changed_nodes S doc))"

definition exclusion_ok :: "receipt_schema \<Rightarrow> dict \<Rightarrow> json \<Rightarrow> bool" where
  "exclusion_ok S doc j \<longleftrightarrow>
     (let x = as_dict j
      in is_dict j \<and> is_str (mget x ''entity'') \<and> str_of (mget x ''entity'') \<noteq> []
         \<and> truthy (mget x ''node_type'') \<and> truthy (mget x ''reason'')
         \<and> (if mget x ''rule'' = JStr ''DEC-AUP-0035'' then superseded_ok doc x else unchanged_ok S doc x))"

definition excluded :: "receipt_schema \<Rightarrow> dict \<Rightarrow> json list" where
  "excluded S doc =
     map (\<lambda>x. mget (as_dict x) ''entity'') (filter (exclusion_ok S doc) (rows doc ''structural_exclusions''))"

definition check_exclusions :: "receipt_schema \<Rightarrow> dict \<Rightarrow> string list \<Rightarrow> string list" where
  "check_exclusions S doc D =
     concat (map (\<lambda>x. add_if D (\<not> exclusion_ok S doc x) ''STRUCTURAL_EXCLUSION_INVALID'') (rows doc ''structural_exclusions''))"

subsection \<open>Staleness and paired revisions\<close>

definition ref_commit :: "dict \<Rightarrow> json" where
  "ref_commit doc =
     (if mode_of doc = JStr ''diff'' then mget (sub doc ''change_set'') ''base'' else mget (sub doc ''tree'') ''commit'')"

definition check_staleness_section :: "dict \<Rightarrow> string list \<Rightarrow> string list" where
  "check_staleness_section doc D =
     (let sv = mget (sub doc ''staleness'') ''verdict''; g = mget (sub doc ''graph'') ''source_commit''
      in if sv = JStr ''not_checked'' then add D ''STALENESS_NOT_CHECKED''
         else if sv \<noteq> JStr ''fresh'' then add D ''RECEIPT_ON_STALE_GRAPH''
         else add_if D (truthy g \<and> truthy (ref_commit doc) \<and> g \<noteq> ref_commit doc) ''RECEIPT_ON_STALE_GRAPH''
              @ add_if D (mode_of doc = JStr ''diff'' \<and> mget (sub doc ''tree'') ''dirty'' = JBool True) ''RECEIPT_ON_STALE_GRAPH''
              @ add_if D (truthy (mget (sub doc ''staleness'') ''mismatched_nodes'')) ''RECEIPT_ON_STALE_GRAPH'')"

definition head_graph_ok :: "dict \<Rightarrow> bool" where
  "head_graph_ok doc \<longleftrightarrow>
     (let hg = sub doc ''head_graph''
      in mode_of doc = JStr ''diff'' \<and> mget hg ''source_commit'' = mget (sub doc ''change_set'') ''head''
         \<and> sha_fullmatch (mget hg ''graph_digest'') \<and> mget (as_dict (mget hg ''staleness'')) ''verdict'' = JStr ''fresh'')"

definition selection_typed :: "dict \<Rightarrow> bool" where
  "selection_typed rs \<longleftrightarrow>
     mget rs ''schema'' = JStr ''RevisionImpactSelection/v1''
     \<and> list_all (\<lambda>k. is_list (mget rs k) \<and> list_all is_str (as_list (mget rs k))) [''base'', ''head'', ''unmeasured_head_files'']"

definition selected_entities :: "dict \<Rightarrow> json list" where
  "selected_entities rs = as_list (mget rs ''base'') @ as_list (mget rs ''head'')"

definition selection_covered :: "receipt_schema \<Rightarrow> dict \<Rightarrow> bool" where
  "selection_covered S doc \<longleftrightarrow>
     (let selected = set (selected_entities (sub doc ''revision_selection''));
          required = mget (sub doc ''verify'') ''required_by_entity''
      in selected \<subseteq> set (recorded_entities doc) \<union> set (excluded S doc)
         \<and> (required = JNull \<or> is_dict required \<and> str_of ` selected \<subseteq> set (map fst (as_dict required))))"

definition admission_of :: "dict \<Rightarrow> json" where
  "admission_of doc = mget (sub doc ''admission'') ''verdict''"

definition check_revisions :: "receipt_schema \<Rightarrow> dict \<Rightarrow> string list \<Rightarrow> string list" where
  "check_revisions S doc D =
     (let rs = sub doc ''revision_selection''
      in if has_key doc ''head_graph'' \<or> has_key doc ''revision_selection''
         then add_if D (\<not> head_graph_ok doc) ''HEAD_GRAPH_BINDING_INVALID''
              @ (if \<not> selection_typed rs then add D ''REVISION_SELECTION_INCOMPLETE''
                 else add_if D (\<not> selection_covered S doc) ''REVISION_SELECTION_INCOMPLETE''
                      @ add_if D (truthy (mget rs ''unmeasured_head_files'') \<and> admitting (admission_of doc))
                          ''REVISION_SELECTION_INCOMPLETE'')
         else [])"

subsection \<open>Verifier selection\<close>

text \<open>\<^verbatim>\<open>re.compile(r"selected: (\[[^\]]*\]|none)").search(n)\<close>, its group.\<close>

definition note_group :: "string \<Rightarrow> string option" where
  "note_group r =
     (if startswith r ''['' \<and> CHR '']'' \<in> set r then Some (takeWhile (\<lambda>c. c \<noteq> CHR '']'') r @ '']'')
      else if startswith r ''none'' then Some ''none'' else None)"

fun selected_note :: "string \<Rightarrow> string option" where
  "selected_note [] = None"
| "selected_note (c # s) =
     (case (if startswith (c # s) ''selected: '' then note_group (drop 10 (c # s)) else None) of
        Some g \<Rightarrow> Some g | None \<Rightarrow> selected_note s)"

fun odd_parts :: "'a list \<Rightarrow> 'a list" where
  "odd_parts (a # b # c # rest) = b # odd_parts (c # rest)"
| "odd_parts _ = []"

text \<open>\<^verbatim>\<open>re.findall(r"'([^']*)'", s)\<close>\<close>

definition quoted :: "string \<Rightarrow> string list" where
  "quoted s = odd_parts (split_on (CHR 0x27) s)"

definition said_in_note :: "string \<Rightarrow> string list option" where
  "said_in_note n = map_option (\<lambda>g. if g = ''none'' then [] else quoted g) (selected_note n)"

definition requested_ok :: "json \<Rightarrow> bool" where
  "requested_ok req \<longleftrightarrow> is_list req \<and> list_all is_str (as_list req) \<and> distinct (as_list req)"

definition applied_ok :: "json \<Rightarrow> bool" where
  "applied_ok app \<longleftrightarrow>
     is_dict app \<and> list_all (\<lambda>(k, v). as_list v \<noteq> [] \<and> list_all is_str (as_list v)) (as_dict app)"

definition not_applied_ok :: "json \<Rightarrow> bool" where
  "not_applied_ok na \<longleftrightarrow>
     is_list na \<and> list_all (\<lambda>x. is_dict x \<and> is_list (mget (as_dict x) ''entities'')) (as_list na)"

definition na_row_ok :: "receipt_schema \<Rightarrow> string list \<Rightarrow> json \<Rightarrow> bool" where
  "na_row_ok S req j \<longleftrightarrow>
     (let x = as_dict j
      in str_in (mget x ''verifier'') req \<and> str_in (mget x ''reason'') (rs_sel_reasons S)
         \<and> (mget x ''reason'' = JStr ''NO_ENTITY_OF_APPLICABLE_TYPE'' \<longleftrightarrow> as_list (mget x ''entities'') = []))"

definition demands_match :: "receipt_schema \<Rightarrow> dict \<Rightarrow> dict \<Rightarrow> bool" where
  "demands_match S rbe app \<longleftrightarrow>
     list_all (\<lambda>v. set (map fst (filter (\<lambda>(e, r). JStr v \<in> set (as_list r)) rbe)) = str_of ` set (as_list (mget app v)))
       (rs_selectable S)"

definition requested_of :: "dict \<Rightarrow> string list" where
  "requested_of vs = (if requested_ok (mget vs ''requested'') then map str_of (as_list (mget vs ''requested'')) else [])"

definition selection_ok :: "receipt_schema \<Rightarrow> dict \<Rightarrow> dict \<Rightarrow> bool" where
  "selection_ok S doc vs \<longleftrightarrow>
     (let req = requested_of vs;
          app = (if applied_ok (mget vs ''applied'') then as_dict (mget vs ''applied'') else []);
          na = (if not_applied_ok (mget vs ''not_applied'') then as_list (mget vs ''not_applied'') else []);
          rbe = mget (sub doc ''verify'') ''required_by_entity''
      in mget vs ''schema'' = JStr (rs_sel_schema S)
         \<and> requested_ok (mget vs ''requested'') \<and> applied_ok (mget vs ''applied'') \<and> not_applied_ok (mget vs ''not_applied'')
         \<and> list_all (\<lambda>x. x \<in> set (rs_selectable S)) req
         \<and> list_all (\<lambda>v. fst v \<in> set req) app
         \<and> list_all (na_row_ok S req) na
         \<and> list_all (\<lambda>v. v \<in> set (map fst app) \<or> JStr v \<in> set (map (\<lambda>x. mget (as_dict x) ''verifier'') na)) req
         \<and> (is_dict rbe \<longrightarrow> demands_match S (as_dict rbe) app))"

definition knows_selection :: "receipt_schema \<Rightarrow> dict \<Rightarrow> bool" where
  "knows_selection S doc \<longleftrightarrow>
     mget (sub doc ''producer'') ''tool'' = JStr (rs_sel_tool S)
     \<and> version_ge (version_of (mget (sub doc ''producer'') ''version'')) (version_of (rs_sel_version S))"

definition note_contradicts :: "string list \<Rightarrow> json \<Rightarrow> bool" where
  "note_contradicts req n \<longleftrightarrow>
     (case (if is_str n then said_in_note (str_of n) else None) of
        None \<Rightarrow> False | Some said \<Rightarrow> sort said \<noteq> sort req)"

definition check_verifier_selection :: "receipt_schema \<Rightarrow> dict \<Rightarrow> string list \<Rightarrow> string list" where
  "check_verifier_selection S doc D =
     (let vsj = mget doc ''verifier_selection''; vs = as_dict vsj
      in if \<not> has_key doc ''verifier_selection'' then add_if D (knows_selection S doc) ''VERIFIER_SELECTION_MISSING''
         else if \<not> is_dict vsj \<or> \<not> list_all (has_key vs) (rs_sel_required S) then add D ''VERIFIER_SELECTION_INVALID''
         else add_if D (\<not> selection_ok S doc vs) ''VERIFIER_SELECTION_INVALID''
              @ concat (map (\<lambda>n. add_if D (note_contradicts (requested_of vs) n) ''VERIFIER_SELECTION_CONTRADICTS_NOTES'')
                  (rows doc ''notes'')))"

end
