(* ===== verification/SchemaGraph.thy ===== *)
theory SchemaGraph
  imports SchemaBase ImpactProps ImpactRepo
begin

section \<open>Validation of relationship graphs\<close>

text \<open>
  \<^verbatim>\<open>graph_digest\<close> and \<^verbatim>\<open>check_graph\<close> of \<^verbatim>\<open>tools/graph/schema_check.py\<close> and \<^verbatim>\<open>load_graph\<close> of
  \<^verbatim>\<open>tools/graph/impact.py\<close>.  The tables of \<^verbatim>\<open>relationship-graph.v1.json\<close> are a record; the SHA-256
  of the canonical text of a JSON value is the argument \<open>digest\<close>.

  The validator is what makes the traversal total: a document without findings gives an index
  on which \<^verbatim>\<open>traverse\<close> never raises (\<open>checked_graph_traversable\<close>).
\<close>

record graph_schema =
  gs_name :: string
  gs_manifest_required :: "string list"
  gs_node_types :: "string list"
  gs_edge_types :: "(string \<times> string list \<times> string list) list"
  gs_provenance :: "string list"

definition graph_digest :: "(json \<Rightarrow> string) \<Rightarrow> dict \<Rightarrow> string" where
  "graph_digest digest doc =
     digest (JObj [(''nodes'', mget doc ''nodes''), (''edges'', mget doc ''edges''),
       (''manifest'', JObj (filter (\<lambda>(k, v). k \<notin> {''graph_digest'', ''built_at_utc''}) (as_dict (mget doc ''manifest''))))])"

definition check_manifest :: "string list \<Rightarrow> graph_schema \<Rightarrow> dict \<Rightarrow> string list" where
  "check_manifest D S doc =
     (let man = as_dict (mget doc ''manifest'')
      in add_if D (mget doc ''schema'' \<noteq> JStr (gs_name S)) ''GRAPH_SCHEMA_MISMATCH''
         @ add_if D (\<not> is_dict (mget doc ''manifest'')) ''MANIFEST_MISSING_FIELD''
         @ missing_fields D ''MANIFEST_MISSING_FIELD'' (gs_manifest_required S) man
         @ add_if D (has_key man ''source_commit'' \<and> \<not> COMMIT_RE_match (mget man ''source_commit'')) ''SOURCE_COMMIT_INVALID''
         @ add_if D (has_key man ''built_at_utc'' \<and> parse_iso (mget man ''built_at_utc'') = None) ''BUILT_AT_INVALID''
         @ add_if D (mget man ''dirty'' = JBool True) ''GRAPH_DIRTY'')"

text \<open>The loop over the nodes with the dictionary \<^verbatim>\<open>ids\<close> from identifiers to types.\<close>

definition check_node :: "string list \<Rightarrow> graph_schema \<Rightarrow> (string \<times> json) list \<Rightarrow> dict \<Rightarrow> string list" where
  "check_node D S ids n =
     (let nid = mget n ''id''; nt = mget n ''type''
      in add_if D (\<not> str_in nt (gs_node_types S)) ''NODE_TYPE_UNKNOWN''
         @ add_if D (\<not> (is_str nid \<and> is_str nt \<and> startswith (str_of nid) (str_of nt @ '':''))) ''NODE_ID_FORM''
         @ add_if D (\<not> SHA_RE_match (mget n ''content_hash'')) ''NODE_WITHOUT_HASH''
         @ add_if D (is_str nid \<and> map_of ids (str_of nid) \<noteq> None) ''DUPLICATE_NODE_ID'')"

definition note_id :: "dict \<Rightarrow> (string \<times> json) list \<Rightarrow> (string \<times> json) list" where
  "note_id n ids =
     (if is_str (mget n ''id'') then AList.update (str_of (mget n ''id'')) (mget n ''type'') ids else ids)"

fun check_nodes :: "string list \<Rightarrow> graph_schema \<Rightarrow> (string \<times> json) list \<Rightarrow> json list \<Rightarrow> string list" where
  "check_nodes D S ids [] = []"
| "check_nodes D S ids (JObj n # ns) = check_node D S ids n @ check_nodes D S (note_id n ids) ns"
| "check_nodes D S ids (_ # ns) = add D ''NODE_TYPE_UNKNOWN'' @ check_nodes D S ids ns"

definition node_ids :: "json list \<Rightarrow> (string \<times> json) list" where
  "node_ids ns = fold (\<lambda>n ids. if is_dict n then note_id (as_dict n) ids else ids) ns []"

definition known :: "(string \<times> json) list \<Rightarrow> json \<Rightarrow> bool" where
  "known ids e \<longleftrightarrow> is_str e \<and> map_of ids (str_of e) \<noteq> None"

definition check_provenance :: "string list \<Rightarrow> graph_schema \<Rightarrow> dict \<Rightarrow> string list" where
  "check_provenance D S e =
     (let p = mget e ''provenance''
      in if \<not> has_key e ''provenance'' then add D ''EDGE_WITHOUT_PROVENANCE''
         else if \<not> str_in p (gs_provenance S) then add D ''EDGE_PROVENANCE_INVALID''
         else add_if D (p = JStr ''inferred'' \<and> \<not> truthy (mget e ''inferred_by'')) ''INFERRED_WITHOUT_METHOD''
              @ add_if D (p = JStr ''observed'' \<and> parse_iso (mget e ''observed_at_utc'') = None) ''OBSERVED_WITHOUT_TIME''
              @ add_if D (p \<noteq> JStr ''inferred'' \<and> (truthy (mget e ''inferred_by'') \<or> mget e ''via'' = JStr ''llm''))
                  ''LLM_EDGE_NOT_INFERRED'')"

definition endpoint_types_ok :: "graph_schema \<Rightarrow> (string \<times> json) list \<Rightarrow> dict \<Rightarrow> bool" where
  "endpoint_types_ok S ids e =
     (case map_of (gs_edge_types S) (str_of (mget e ''type'')) of
        None \<Rightarrow> True
      | Some (froms, tos) \<Rightarrow>
          (case (map_of ids (str_of (mget e ''from'')), map_of ids (str_of (mget e ''to''))) of
             (Some f, Some t) \<Rightarrow> str_in f froms \<and> str_in t tos
           | _ \<Rightarrow> True))"

definition check_edge :: "string list \<Rightarrow> graph_schema \<Rightarrow> (string \<times> json) list \<Rightarrow> dict \<Rightarrow> string list" where
  "check_edge D S ids e =
     (let et = mget e ''type''; fr = mget e ''from''; t = mget e ''to''
      in add_if D (\<not> str_in et (map fst (gs_edge_types S))) ''EDGE_TYPE_UNKNOWN''
         @ check_provenance D S e
         @ concat (map (\<lambda>x. add_if D (\<not> known ids x) ''EDGE_ENDPOINT_UNKNOWN'') [fr, t])
         @ add_if D (str_in et (map fst (gs_edge_types S)) \<and> known ids fr \<and> known ids t \<and> \<not> endpoint_types_ok S ids e)
             ''EDGE_ENDPOINT_TYPE_MISMATCH'')"

definition check_edges :: "string list \<Rightarrow> graph_schema \<Rightarrow> (string \<times> json) list \<Rightarrow> json list \<Rightarrow> string list" where
  "check_edges D S ids es =
     concat (map (\<lambda>e. if is_dict e then check_edge D S ids (as_dict e) else add D ''EDGE_TYPE_UNKNOWN'') es)"

definition check_graph :: "(json \<Rightarrow> string) \<Rightarrow> graph_schema \<Rightarrow> string list \<Rightarrow> dict \<Rightarrow> string list" where
  "check_graph digest S D doc =
     (let nodes = as_list (mget doc ''nodes''); edges = as_list (mget doc ''edges'');
          declared = mget (as_dict (mget doc ''manifest'')) ''graph_digest''
      in check_manifest D S doc @ check_nodes D S [] nodes @ check_edges D S (node_ids nodes) edges
         @ add_if D (is_str declared \<and> str_of declared \<noteq> graph_digest digest doc) ''GRAPH_DIGEST_MISMATCH'')"

subsection \<open>Reading a checked document\<close>

text \<open>The typed view of a document that the index is built from.\<close>

definition opt_str :: "json \<Rightarrow> string option" where
  "opt_str j = (case j of JStr s \<Rightarrow> Some s | _ \<Rightarrow> None)"

definition read_node :: "json \<Rightarrow> gnode" where
  "read_node j =
     (let n = as_dict j
      in \<lparr>n_id = str_of (mget n ''id''), n_type = str_of (mget n ''type''), n_path = opt_str (mget n ''path''),
          n_kind = opt_str (mget n ''kind''), n_content_hash = str_of (mget n ''content_hash'')\<rparr>)"

definition read_edge :: "json \<Rightarrow> gedge" where
  "read_edge j =
     (let e = as_dict j
      in \<lparr>e_type = str_of (mget e ''type''), e_from = str_of (mget e ''from''), e_to = str_of (mget e ''to''),
          e_provenance = str_of (mget e ''provenance''), e_inferred_by = opt_str (mget e ''inferred_by''),
          e_observed_at_utc = opt_str (mget e ''observed_at_utc''), e_via = opt_str (mget e ''via''),
          e_boundary = opt_str (mget e ''boundary'')\<rparr>)"

definition read_graph :: "dict \<Rightarrow> graph_doc" where
  "read_graph doc =
     \<lparr>doc_manifest = as_dict (mget doc ''manifest''), doc_nodes = map read_node (as_list (mget doc ''nodes'')),
      doc_edges = map read_edge (as_list (mget doc ''edges''))\<rparr>"

definition load_graph ::
  "(json \<Rightarrow> string) \<Rightarrow> graph_schema \<Rightarrow> edge_type_decls \<Rightarrow> string list \<Rightarrow> dict \<Rightarrow> gexc + graph_index" where
  "load_graph digest S decls rules doc =
     (let findings = check_graph digest S [''GRAPH_DIRTY''] doc
      in if findings \<noteq> []
         then Inl (Refuse ''GRAPH_INVALID''
                [(''codes'', JArr (map JStr (sort (remdups findings)))), (''n'', JInt (int (length findings)))])
         else if mget (as_dict (mget doc ''manifest'')) ''dirty'' = JBool True \<and> ''dirty_graph'' \<in> set rules
         then Inl (Refuse ''STALE_GRAPH'' [(''manifest_dirty'', JBool True)])
         else Inr (make_index decls (read_graph doc)))"

subsection \<open>Disabling a rule\<close>

lemma filters_check_nodes [filters_rules]: "filters (\<lambda>D. check_nodes D S ids ns)"
proof (induction "[] :: string list" S ids ns rule: check_nodes.induct)
  case (1 S ids)
  then show ?case by (simp add: filters_nil)
next
  case (2 S ids n ns)
  then show ?case by (auto simp: check_node_def Let_def intro!: filters_rules)
qed (auto intro!: filters_rules)

lemma filters_check_graph:
  "check_graph digest S D doc = filter (\<lambda>c. c \<notin> set D) (check_graph digest S [] doc)"
proof -
  have "filters (\<lambda>D. check_graph digest S D doc)"
    unfolding check_graph_def check_manifest_def check_edges_def check_edge_def check_provenance_def Let_def
    by (intro filters_rules)
  then show ?thesis by (rule filtersD)
qed

subsection \<open>What a checked document promises\<close>

definition edge_closed :: "graph_doc \<Rightarrow> bool" where
  "edge_closed d \<longleftrightarrow>
     (\<forall>e \<in> set (doc_edges d). e_from e \<in> n_id ` set (doc_nodes d) \<and> e_to e \<in> n_id ` set (doc_nodes d))"

lemma node_ids_keys: "fst ` set (node_ids ns) \<subseteq> n_id ` set (map read_node ns)"
proof -
  have widen: "F \<subseteq> A \<union> R \<Longrightarrow> A \<subseteq> insert x B \<Longrightarrow> F \<subseteq> B \<union> insert x R" for F A R B and x :: string
    by blast
  have "fst ` set (fold (\<lambda>n ids. if is_dict n then note_id (as_dict n) ids else ids) ns ids)
      \<subseteq> fst ` set ids \<union> n_id ` read_node ` set ns" for ids
  proof (induction ns arbitrary: ids)
    case (Cons n ns)
    have "fst ` set (if is_dict n then note_id (as_dict n) ids else ids) \<subseteq> insert (n_id (read_node n)) (fst ` set ids)"
      unfolding note_id_def read_node_def Let_def by (simp add: dom_update subset_insertI)
    then show ?case
      unfolding fold_Cons comp_apply list.set image_insert
      by (rule widen [OF Cons.IH])
  qed simp
  from this [of "[]"] show ?thesis by (simp add: node_ids_def)
qed

lemma check_graph_edges:
  assumes "''EDGE_ENDPOINT_UNKNOWN'' \<notin> set (check_graph digest S [] doc)"
    and "''EDGE_TYPE_UNKNOWN'' \<notin> set (check_graph digest S [] doc)"
    and "e \<in> set (as_list (mget doc ''edges''))"
  shows "is_dict e" "known (node_ids (as_list (mget doc ''nodes''))) (mget (as_dict e) ''from'')"
    "known (node_ids (as_list (mget doc ''nodes''))) (mget (as_dict e) ''to'')"
proof -
  let ?ids = "node_ids (as_list (mget doc ''nodes''))"
  let ?f = "\<lambda>e. if is_dict e then check_edge [] S ?ids (as_dict e) else add [] ''EDGE_TYPE_UNKNOWN''"
  have sub: "set (?f e) \<subseteq> set (check_graph digest S [] doc)"
    using assms(3) by (auto simp: check_graph_def check_edges_def Let_def)
  show d: "is_dict e"
    using sub assms(2) by (auto split: if_splits)
  show "known ?ids (mget (as_dict e) ''from'')" "known ?ids (mget (as_dict e) ''to'')"
    using sub assms(1) d by (auto simp: check_edge_def Let_def add_if_def split: if_splits)
qed

lemma known_read: "known (node_ids ns) j \<Longrightarrow> str_of j \<in> n_id ` set (map read_node ns)"
  using node_ids_keys [of ns] by (auto simp: known_def dest!: map_of_SomeD)

lemma checked_edge_closed:
  assumes "check_graph digest S D doc = []" "''EDGE_ENDPOINT_UNKNOWN'' \<notin> set D" "''EDGE_TYPE_UNKNOWN'' \<notin> set D"
  shows "edge_closed (read_graph doc)"
proof -
  have all: "c \<notin> set (check_graph digest S [] doc)" if "c \<notin> set D" for c
    using assms(1) that unfolding filters_check_graph [of digest S D] by (auto simp: filter_empty_conv)
  show ?thesis
    unfolding edge_closed_def
  proof
    fix e assume "e \<in> set (doc_edges (read_graph doc))"
    then obtain j where j: "j \<in> set (as_list (mget doc ''edges''))" "e = read_edge j"
      by (auto simp: read_graph_def)
    show "e_from e \<in> n_id ` set (doc_nodes (read_graph doc)) \<and> e_to e \<in> n_id ` set (doc_nodes (read_graph doc))"
      using check_graph_edges(2,3) [OF all [OF assms(2)] all [OF assms(3)] j(1), THEN known_read]
      by (simp add: j(2) read_edge_def read_graph_def Let_def)
  qed
qed

lemma neighbours_edges:
  assumes "neighbours (make_index decls d) n et rules opn = Inr ns" "(e, m) \<in> set ns"
  shows "e \<in> set (doc_edges d) \<and> (m = e_from e \<or> m = e_to e)"
proof -
  have r: "set (get_list (idx_rev (make_index decls d)) n) \<subseteq> set (doc_edges d)"
    and f: "set (get_list (idx_fwd (make_index decls d)) n) \<subseteq> set (doc_edges d)"
    by (auto simp: rev_of_index fwd_of_index)
  show ?thesis
    using assms r f
    by (auto simp: neighbours_def Let_def reverse_hops_def forward_hops_def split: if_splits option.splits)
qed

lemma walk_closed:
  assumes "edge_closed d" "set seeds \<subseteq> n_id ` set (doc_nodes d)"
  shows "walk (make_index decls d) seeds et rules opn n nd dep p \<Longrightarrow> n \<in> n_id ` set (doc_nodes d)"
proof (induction rule: walk.induct)
  case (walk_step n nd dep p ns e m)
  then show ?case using neighbours_edges [OF walk_step.hyps(2,3)] assms(1) by (auto simp: edge_closed_def)
qed (use assms(2) in auto)


text \<open>
  The rules of the graph validator are independent: disabling some of them removes exactly
  their findings and nothing else.
\<close>

theorem check_graph_disabled:
  "check_graph digest S disabled doc = filter (\<lambda>c. c \<notin> set disabled) (check_graph digest S [] doc)"
  by (rule filters_check_graph)

end
