(* ===== verification/SchemaReceipt.thy ===== *)
theory SchemaReceipt
  imports SchemaSections SchemaGraph
begin

section \<open>Validation of change-admission receipts\<close>

text \<open>
  The second half of \<^verbatim>\<open>check_receipt\<close> of \<^verbatim>\<open>tools/graph/schema_check.py\<close> (impact set, verifiers, observed
  probes, exemptions, verdicts, admission, canaries), the whole check and \<^verbatim>\<open>classify\<close>.  The only
  exception the model keeps is the \<^verbatim>\<open>IndexError\<close> of \<^verbatim>\<open>entity.split(":", 1)[1]\<close> in \<^verbatim>\<open>fallback_units\<close>.
  \<open>claim_sha\<close> is the SHA-256 of the indented canonical text of a JSON value with its prefix.
\<close>

subsection \<open>The demand of a global fallback\<close>

definition impact_core :: "dict \<Rightarrow> json list" where
  "impact_core doc = as_list (mget (sub doc ''impact_set'') ''deterministic_core'')"

definition impact_tail :: "dict \<Rightarrow> json list" where
  "impact_tail doc = as_list (mget (sub doc ''impact_set'') ''inferred_tail'')"

definition fallback_triggered :: "dict \<Rightarrow> bool" where
  "fallback_triggered doc \<longleftrightarrow> mget (as_dict (mget (sub doc ''impact_set'') ''global_fallback'')) ''triggered'' = JBool True"

definition check_impact_fields :: "receipt_schema \<Rightarrow> dict \<Rightarrow> string list \<Rightarrow> string list" where
  "check_impact_fields S doc D =
     missing_fields D ''RECEIPT_MISSING_FIELD'' (rs_impact_required S) (sub doc ''impact_set'')
     @ add_if D (fallback_triggered doc
          \<and> \<not> truthy (mget (as_dict (mget (sub doc ''impact_set'') ''global_fallback'')) ''reason'')) ''GLOBAL_FALLBACK_WITHOUT_REASON''"

definition modern_producer :: "dict \<Rightarrow> bool" where
  "modern_producer doc \<longleftrightarrow>
     mget (sub doc ''producer'') ''tool'' = JStr ''tools/graph/verify.py''
     \<and> version_ge (version_of (mget (sub doc ''producer'') ''version'')) [1, 3, 0]"

definition scoped_rows :: "dict \<Rightarrow> bool" where
  "scoped_rows doc \<longleftrightarrow> list_ex (\<lambda>v. is_full_suite (as_dict v)) (rows doc ''verifiers'')"

definition file_nodes :: "json \<Rightarrow> json list" where
  "file_nodes f =
     (let d = as_dict f
      in filter is_str
           (if truthy (mget d ''node_ids'') then as_list (mget d ''node_ids'')
            else if truthy (mget d ''node_id'') then [mget d ''node_id''] else []))"

definition fallback_selection :: "dict \<Rightarrow> string list \<Rightarrow> json list" where
  "fallback_selection doc units =
     map JStr units @ traversal_entities (impact_core doc @ impact_tail doc)
     @ filter is_str (as_list (mget (sub doc ''impact_set'') ''seeds''))
     @ concat (map file_nodes (filter is_dict (change_files doc)))"

text \<open>The units, or \<^verbatim>\<open>None\<close> without a fallback.\<close>

definition fallback_of :: "dict \<Rightarrow> exc + string list option" where
  "fallback_of doc =
     (if fallback_triggered doc
      then bindE (fallback_units (impact_core doc @ impact_tail doc)) (\<lambda>us. Inr (Some us))
      else Inr None)"

definition check_fallback :: "range_def option \<Rightarrow> dict \<Rightarrow> string list option \<Rightarrow> string list \<Rightarrow> string list" where
  "check_fallback arm_def doc fb D =
     (case fb of
        None \<Rightarrow> []
      | Some units \<Rightarrow>
          if modern_producer doc \<or> scoped_rows doc
          then concat (map (\<lambda>_. add D ''FULL_FALLBACK_TEST_NOT_MEASURED'') (fallback_evidence_problems doc units arm_def))
          else [])"

subsection \<open>Impact entries\<close>

definition demanded_by :: "dict \<Rightarrow> string list option \<Rightarrow> json \<Rightarrow> bool" where
  "demanded_by doc fb ent = (case fb of None \<Rightarrow> True | Some units \<Rightarrow> ent \<in> set (fallback_selection doc units))"

definition entry_ok :: "json \<Rightarrow> bool" where
  "entry_ok e \<longleftrightarrow> is_dict e \<and> has_key (as_dict e) ''entity''"

definition entities_of :: "dict \<Rightarrow> string list option \<Rightarrow> json list" where
  "entities_of doc fb =
     filter (demanded_by doc fb)
       (map (\<lambda>e. mget (as_dict e) ''entity'') (filter entry_ok (impact_core doc @ impact_tail doc)))"

definition hop_prov :: "json \<Rightarrow> string option" where
  "hop_prov hop =
     (if is_dict hop \<and> str_in (mget (as_dict hop) ''provenance'') [''deterministic'', ''inferred'', ''observed'']
      then Some (str_of (mget (as_dict hop) ''provenance'')) else None)"

definition entry_provs :: "json \<Rightarrow> string option list" where
  "entry_provs e = map hop_prov (as_list (mget (as_dict e) ''path''))"

definition entry_non_det :: "json \<Rightarrow> bool" where
  "entry_non_det e \<longleftrightarrow> list_ex (\<lambda>p. p = Some ''inferred'' \<or> p = Some ''observed'') (entry_provs e)"

definition check_entry :: "bool \<Rightarrow> string list \<Rightarrow> json \<Rightarrow> string list" where
  "check_entry in_core D e =
     (if \<not> entry_ok e \<or> entry_provs e = [] then add D ''IMPACT_ENTRY_WITHOUT_PROVENANCE''
      else concat (map (\<lambda>p. add_if D (p = None) ''IMPACT_ENTRY_WITHOUT_PROVENANCE'') (entry_provs e))
           @ add_if D (in_core \<and> entry_non_det e) ''IMPACT_ENTRY_MISPLACED''
           @ add_if D (\<not> in_core \<and> list_all (\<lambda>p. p = Some ''deterministic'') (entry_provs e)) ''IMPACT_ENTRY_MISPLACED'')"

definition check_entries :: "dict \<Rightarrow> string list \<Rightarrow> string list" where
  "check_entries doc D =
     concat (map (check_entry True D) (impact_core doc)) @ concat (map (check_entry False D) (impact_tail doc))"

definition boundary_inferred :: "dict \<Rightarrow> json list" where
  "boundary_inferred doc =
     map (\<lambda>e. mget (as_dict e) ''entity'')
       (filter (\<lambda>e. entry_ok e \<and> entry_non_det e \<and> str_in (mget (as_dict e) ''boundary'') [''service'', ''repo''])
         (impact_core doc @ impact_tail doc))"

subsection \<open>Explanation of an empty impact\<close>

definition no_impact :: "dict \<Rightarrow> bool" where
  "no_impact doc \<longleftrightarrow> impact_core doc = [] \<and> impact_tail doc = [] \<and> \<not> fallback_triggered doc"

definition explained :: "dict \<Rightarrow> bool" where
  "explained doc \<longleftrightarrow>
     (let x = mget doc ''empty_impact_explanation''
      in is_dict x \<and> truthy (mget (as_dict x) ''reason'') \<and> as_dict (mget (as_dict x) ''graph_metadata'') \<noteq> [])"

definition binding_schema :: string where
  "binding_schema = ''BoundEmptyImpactExplanation/v1''"

definition claim_keys :: "string list" where
  "claim_keys = [''schema'', ''base'', ''head'', ''base_graph_digest'', ''head_graph_digest'', ''scope'', ''reason'']"

definition binding_ok :: "(json \<Rightarrow> string) \<Rightarrow> dict \<Rightarrow> bool" where
  "binding_ok claim_sha doc \<longleftrightarrow>
     (let x = sub doc ''empty_impact_explanation''; bj = mget x ''binding''; b = as_dict bj; claim = as_dict (mget b ''input'');
          meta = as_dict (mget x ''graph_metadata''); cs = sub doc ''change_set''
      in is_dict bj \<and> keys_are b [''schema'', ''input'', ''input_sha256''] \<and> mget b ''schema'' = JStr binding_schema
         \<and> is_dict (mget b ''input'') \<and> keys_are claim claim_keys
         \<and> mget x ''schema'' = JStr binding_schema \<and> mget claim ''schema'' = JStr ''EmptyImpactExplanation/v1''
         \<and> mget claim ''scope'' = JStr ''graph_non_seed_dependents''
         \<and> mget b ''input_sha256'' = JStr (claim_sha (mget b ''input''))
         \<and> is_str (mget claim ''reason'') \<and> length (strip (str_of (mget claim ''reason''))) \<ge> 40
         \<and> mget x ''reason'' = JStr (strip (str_of (mget claim ''reason'')))
         \<and> mget claim ''base'' = mget cs ''base'' \<and> mget claim ''head'' = mget cs ''head''
         \<and> mget claim ''base_graph_digest'' = mget (sub doc ''graph'') ''graph_digest''
         \<and> mget claim ''head_graph_digest'' = mget (sub doc ''head_graph'') ''graph_digest''
         \<and> is_dict (mget x ''graph_metadata'') \<and> mget meta ''scope'' = JStr ''graph_non_seed_dependents''
         \<and> is_dict (mget meta ''revisions'') \<and> keys_are (as_dict (mget meta ''revisions'')) [''base'', ''head'']
         \<and> no_impact doc)"

definition check_empty_impact :: "(json \<Rightarrow> string) \<Rightarrow> receipt_schema \<Rightarrow> dict \<Rightarrow> string list \<Rightarrow> string list" where
  "check_empty_impact claim_sha S doc D =
     (let x = sub doc ''empty_impact_explanation''
      in add_if D (no_impact doc \<and> non_doc_change S doc \<and> \<not> explained doc) ''EMPTY_IMPACT_WITHOUT_EXPLANATION''
         @ add_if D ((has_key x ''binding'' \<or> mget x ''schema'' = JStr binding_schema) \<and> \<not> binding_ok claim_sha doc)
             ''EMPTY_IMPACT_WITHOUT_EXPLANATION'')"

subsection \<open>Verifiers and observed probes\<close>

definition verifier_rows :: "dict \<Rightarrow> dict list" where
  "verifier_rows doc = map as_dict (filter is_dict (rows doc ''verifiers''))"

definition ver_ids :: "dict \<Rightarrow> json list" where
  "ver_ids doc = filter truthy (map (\<lambda>v. mget v ''id'') (verifier_rows doc))"

definition canary_rows :: "dict \<Rightarrow> dict list" where
  "canary_rows doc = filter (\<lambda>v. str_in (mget v ''kind'') [''canary'', ''shell_behavior'']) (verifier_rows doc)"

definition canary_entities :: "dict \<Rightarrow> json list" where
  "canary_entities doc = concat (map (\<lambda>v. as_list (mget v ''entities'')) (canary_rows doc))"

definition probe_ids :: "dict \<Rightarrow> json list" where
  "probe_ids doc =
     filter is_str (map (\<lambda>v. mget v ''id'') (filter (\<lambda>v. mget v ''kind'' = JStr ''endpoint_probe'') (verifier_rows doc)))"

definition check_verifier :: "receipt_schema \<Rightarrow> string list \<Rightarrow> json \<Rightarrow> string list" where
  "check_verifier S D j =
     (let v = as_dict j
      in if \<not> is_dict j then add D ''VERIFIER_WITHOUT_OUTPUT_REF''
         else add_if D (\<not> str_in (mget v ''kind'') (rs_verifier_kinds S)) ''VERIFIER_KIND_UNKNOWN''
              @ add_if D (\<not> truthy (mget v ''output_ref'') \<or> \<not> has_key v ''exit_code'') ''VERIFIER_WITHOUT_OUTPUT_REF''
              @ missing_fields D ''RECEIPT_MISSING_FIELD''
                  (filter (\<lambda>f. f \<notin> {''output_ref'', ''exit_code''}) (rs_verifier_required S)) v)"

text \<open>
  The loop over the observed rows: the probes seen, the observations (verifier, verdict) and
  whether each row is invalid.  A row counts as seen before its detail and its verifier are looked at.
\<close>

record probe_state =
  ps_seen :: "json list"
  ps_obs :: "(json \<times> json) list"
  ps_bad :: nat

definition observe :: "receipt_schema \<Rightarrow> dict \<Rightarrow> json \<Rightarrow> probe_state \<Rightarrow> probe_state" where
  "observe S doc j st =
     (let r = as_dict j; verdict = mget r ''verdict''; probe = mget r ''probe''; bad = st\<lparr>ps_bad := Suc (ps_bad st)\<rparr>
      in if \<not> is_dict j \<or> \<not> list_all (\<lambda>f. truthy (mget r f)) (rs_observed_required S) then bad
         else if \<not> str_in verdict (rs_observed_verdicts S) then bad
         else if probe \<in> set (ps_seen st) then bad
         else if (verdict \<noteq> JStr ''verified'' \<and> \<not> truthy (mget r ''detail'')) \<or> mget r ''verifier_id'' \<notin> set (probe_ids doc)
         then bad\<lparr>ps_seen := probe # ps_seen st\<rparr>
         else st\<lparr>ps_seen := probe # ps_seen st, ps_obs := ps_obs st @ [(mget r ''verifier_id'', verdict)]\<rparr>)"

definition probe_run :: "receipt_schema \<Rightarrow> dict \<Rightarrow> probe_state" where
  "probe_run S doc =
     (let o_j = mget doc ''observed''; none = \<lparr>ps_seen = [], ps_obs = [], ps_bad = 0\<rparr>
      in if o_j = JNull then none
         else if \<not> is_list o_j then none\<lparr>ps_bad := 1\<rparr>
         else fold (observe S doc) (as_list o_j) none)"

definition observations :: "receipt_schema \<Rightarrow> dict \<Rightarrow> json \<Rightarrow> json list" where
  "observations S doc vid = map snd (filter (\<lambda>x. fst x = vid) (ps_obs (probe_run S doc)))"

definition check_observed :: "receipt_schema \<Rightarrow> dict \<Rightarrow> string list \<Rightarrow> string list" where
  "check_observed S doc D = concat (map (\<lambda>_. add D ''OBSERVED_ENTRY_INVALID'') [0..<ps_bad (probe_run S doc)])"

subsection \<open>Exemptions and verdicts\<close>

definition expired :: "dict \<Rightarrow> dict \<Rightarrow> bool" where
  "expired doc x \<longleftrightarrow>
     (case (parse_iso (mget x ''expires_at_utc''), parse_iso (mget doc ''captured_at_utc'')) of
        (Some e, Some c) \<Rightarrow> e \<le> c | _ \<Rightarrow> False)"

definition exemption_ok :: "dict \<Rightarrow> json \<Rightarrow> bool" where
  "exemption_ok doc j \<longleftrightarrow>
     (let x = as_dict j
      in is_dict j \<and> truthy (mget x ''owner'') \<and> parse_iso (mget x ''expires_at_utc'') \<noteq> None \<and> \<not> expired doc x
         \<and> truthy (mget x ''entity'') \<and> truthy (mget x ''reason''))"

definition valid_exempt :: "dict \<Rightarrow> json list" where
  "valid_exempt doc =
     map (\<lambda>x. mget (as_dict x) ''entity'') (filter (exemption_ok doc) (rows doc ''exemptions''))"

definition check_exemption :: "dict \<Rightarrow> string list \<Rightarrow> json \<Rightarrow> string list" where
  "check_exemption doc D j =
     (let x = as_dict j
      in if \<not> is_dict j then add D ''EXEMPTION_WITHOUT_OWNER''
         else add_if D (\<not> truthy (mget x ''owner'')) ''EXEMPTION_WITHOUT_OWNER''
              @ (if parse_iso (mget x ''expires_at_utc'') = None then add D ''EXEMPTION_WITHOUT_EXPIRY''
                 else add_if D (expired doc x) ''EXEMPTION_EXPIRED'')
              @ concat (map (\<lambda>f. add_if D (\<not> truthy (mget x f)) ''RECEIPT_MISSING_FIELD'') [''entity'', ''reason'']))"

definition verdict_ok :: "receipt_schema \<Rightarrow> json \<Rightarrow> bool" where
  "verdict_ok S j \<longleftrightarrow>
     is_dict j \<and> has_key (as_dict j) ''entity'' \<and> str_in (mget (as_dict j) ''verdict'') (rs_verdicts S)"

text \<open>\<^verbatim>\<open>verdict_of[v["entity"]] = val\<close>: the last verdict of an entity stands.\<close>

definition verdict_of :: "receipt_schema \<Rightarrow> dict \<Rightarrow> (json \<times> json) list" where
  "verdict_of S doc =
     fold (\<lambda>v m. AList.update (mget (as_dict v) ''entity'') (mget (as_dict v) ''verdict'') m)
       (filter (verdict_ok S) (rows doc ''verdicts'')) []"

definition check_verdict :: "receipt_schema \<Rightarrow> dict \<Rightarrow> string list \<Rightarrow> json \<Rightarrow> string list" where
  "check_verdict S doc D j =
     (let v = as_dict j; vids = as_list (mget v ''verifier_ids'')
      in if \<not> verdict_ok S j then add D ''VERDICT_NOT_TRIVALUED''
         else add_if D (mget v ''verdict'' = JStr ''verified'' \<and> (vids = [] \<or> \<not> set vids \<subseteq> set (ver_ids doc))) ''VERIFIED_WITHOUT_VERIFIER''
              @ add_if D (mget v ''verdict'' = JStr ''not_measured'' \<and> \<not> truthy (mget v ''reason'')) ''NOT_MEASURED_WITHOUT_REASON'')"

definition check_probe_claim :: "receipt_schema \<Rightarrow> dict \<Rightarrow> string list \<Rightarrow> json \<Rightarrow> string list" where
  "check_probe_claim S doc D j =
     (if is_dict j \<and> mget (as_dict j) ''verdict'' = JStr ''verified''
      then concat (map (\<lambda>vid.
             if vid \<notin> set (probe_ids doc) then []
             else if observations S doc vid = [] then add D ''ENDPOINT_PROBE_WITHOUT_OBSERVATION''
             else add_if D (\<not> list_all (\<lambda>x. x = JStr ''verified'') (observations S doc vid)) ''PROBE_CLAIM_CONTRADICTS_OBSERVATION'')
           (as_list (mget (as_dict j) ''verifier_ids'')))
      else [])"

definition check_coverage :: "receipt_schema \<Rightarrow> dict \<Rightarrow> string list option \<Rightarrow> string list \<Rightarrow> string list" where
  "check_coverage S doc fb D =
     concat (map (\<lambda>ent. add_if D (map_of (verdict_of S doc) ent = None \<and> ent \<notin> set (excluded S doc)) ''ENTITY_WITHOUT_VERDICT'')
       (entities_of doc fb @ changed_nodes S doc))"

subsection \<open>Admission and canaries\<close>

definition owes_canary :: "receipt_schema \<Rightarrow> dict \<Rightarrow> json \<Rightarrow> bool" where
  "owes_canary S doc ent \<longleftrightarrow>
     ent \<notin> set (valid_exempt doc)
     \<and> (map_of (verdict_of S doc) ent = Some (JStr ''verified'') \<or> admitting (admission_of doc))"

definition cashed_ids :: "dict \<Rightarrow> json list" where
  "cashed_ids doc =
     filter is_str (concat (map (\<lambda>r. as_list (mget (as_dict r) ''verifier_ids''))
       (filter (\<lambda>r. is_dict r \<and> mget (as_dict r) ''verdict'' = JStr ''verified'') (rows doc ''verdicts''))))"

definition quieted :: "receipt_schema \<Rightarrow> dict \<Rightarrow> json list" where
  "quieted S doc =
     filter (\<lambda>e. e \<in> set (canary_entities doc) \<and> owes_canary S doc e) (boundary_inferred doc)"

definition check_canary_row :: "receipt_schema \<Rightarrow> dict \<Rightarrow> string list \<Rightarrow> dict \<Rightarrow> string list" where
  "check_canary_row S doc D v =
     (let cashed = mget v ''id'' \<in> set (cashed_ids doc);
          quiets = list_ex (\<lambda>e. e \<in> set (quieted S doc)) (as_list (mget v ''entities''));
          ref = mget v ''output_ref''
      in if \<not> cashed \<and> \<not> quiets then []
         else add_if D (\<not> is_str ref \<or> \<not> repo_relative (str_of ref)) ''CANARY_CLAIM_WITHOUT_COMMITTED_EVIDENCE'')"

definition non_verified :: "receipt_schema \<Rightarrow> dict \<Rightarrow> json list" where
  "non_verified S doc = map fst (filter (\<lambda>x. snd x \<noteq> JStr ''verified'') (verdict_of S doc))"

definition check_admission :: "receipt_schema \<Rightarrow> dict \<Rightarrow> string list \<Rightarrow> string list" where
  "check_admission S doc D =
     (let av = admission_of doc
      in missing_fields D ''RECEIPT_MISSING_FIELD'' (rs_admission_required S) (sub doc ''admission'')
         @ concat (map (\<lambda>ent. add_if D (ent \<notin> set (canary_entities doc) \<and> owes_canary S doc ent)
               ''INFERRED_BOUNDARY_WITHOUT_CANARY'') (boundary_inferred doc))
         @ concat (map (check_canary_row S doc D) (canary_rows doc))
         @ add_if D (av \<noteq> JNull \<and> \<not> str_in av (rs_admission S)) ''ADMISSION_VERDICT_INVALID''
         @ add_if D (av = JStr ''admitted''
              \<and> (non_verified S doc \<noteq> [] \<or> fallback_triggered doc \<and> verdict_of S doc = [])) ''ADMISSION_CONTRADICTS_VERDICTS''
         @ add_if D (av = JStr ''admitted_with_exemptions'' \<and> \<not> set (non_verified S doc) \<subseteq> set (valid_exempt doc))
             ''ADMISSION_CONTRADICTS_VERDICTS'')"

subsection \<open>The whole check\<close>

definition receipt_findings ::
  "(json \<Rightarrow> string) \<Rightarrow> receipt_schema \<Rightarrow> range_def option \<Rightarrow> dict \<Rightarrow> string list option \<Rightarrow> string list \<Rightarrow> string list" where
  "receipt_findings claim_sha S arm_def doc fb D =
     check_fields S doc D @ check_change_set S doc D @ check_exclusions S doc D @ check_staleness_section doc D
     @ check_revisions S doc D @ check_verifier_selection S doc D @ check_impact_fields S doc D
     @ check_fallback arm_def doc fb D @ check_entries doc D @ check_empty_impact claim_sha S doc D
     @ concat (map (check_verifier S D) (rows doc ''verifiers'')) @ check_observed S doc D
     @ concat (map (check_exemption doc D) (rows doc ''exemptions''))
     @ concat (map (check_verdict S doc D) (rows doc ''verdicts''))
     @ concat (map (check_probe_claim S doc D) (rows doc ''verdicts''))
     @ check_coverage S doc fb D @ check_admission S doc D"

definition check_receipt ::
  "(json \<Rightarrow> string) \<Rightarrow> receipt_schema \<Rightarrow> range_def option \<Rightarrow> string list \<Rightarrow> dict \<Rightarrow> exc + string list" where
  "check_receipt claim_sha S arm_def D doc =
     bindE (fallback_of doc) (\<lambda>fb. Inr (receipt_findings claim_sha S arm_def doc fb D))"

record classification =
  cl_conformant :: bool
  cl_kind :: string
  cl_codes :: "string list"

definition is_receipt :: "receipt_schema \<Rightarrow> dict \<Rightarrow> bool" where
  "is_receipt S doc \<longleftrightarrow>
     mget doc ''schema'' = JStr (rs_name S)
     \<or> is_str (mget doc ''schema'') \<and> startswith (str_of (mget doc ''schema'')) ''ChangeAdmissionReceipt''
     \<or> has_key doc ''impact_set''"

definition classified :: "string \<Rightarrow> string list \<Rightarrow> classification" where
  "classified kind findings = \<lparr>cl_conformant = (findings = []), cl_kind = kind, cl_codes = sort (remdups findings)\<rparr>"

definition classify ::
  "(json \<Rightarrow> string) \<Rightarrow> (json \<Rightarrow> string) \<Rightarrow> graph_schema \<Rightarrow> receipt_schema \<Rightarrow> string list \<Rightarrow> range_def option \<Rightarrow> json
   \<Rightarrow> exc + classification" where
  "classify digest claim_sha GS RS D arm_def j =
     (case j of
        JObj doc \<Rightarrow>
          if is_receipt RS doc
          then bindE (check_receipt claim_sha RS arm_def D doc) (\<lambda>fs. Inr (classified ''receipt'' fs))
          else Inr (classified ''graph'' (check_graph digest GS D doc))
      | _ \<Rightarrow> Inr (classified ''unknown'' [''UNREADABLE'']))"

end
