(* ===== verification/SchemaProps.thy ===== *)
theory SchemaProps
  imports SchemaReceipt
begin

section \<open>What a conformant receipt promises\<close>

text \<open>
  The theorems over \<^verbatim>\<open>check_receipt\<close>: the rules are independent, and a receipt without findings that
  admits a change accounts for every entity the change affects.  \<open>receipt_contract\<close> holds the tables of
  \<^verbatim>\<open>contracts/graph-verified-change/change-admission-receipt.v1.json\<close>; the concrete receipts at the end
  are read with them.
\<close>

subsection \<open>Disabling a rule\<close>

lemma filters_fields [filters_rules]: "filters (\<lambda>D. check_fields S doc D)"
  unfolding check_fields_def Let_def by (intro filters_rules)

lemma filters_change_set [filters_rules]: "filters (\<lambda>D. check_change_set S doc D)"
  unfolding check_change_set_def Let_def by (intro filters_rules)

lemma filters_exclusions [filters_rules]: "filters (\<lambda>D. check_exclusions S doc D)"
  unfolding check_exclusions_def Let_def by (intro filters_rules)

lemma filters_staleness_section [filters_rules]: "filters (\<lambda>D. check_staleness_section doc D)"
  unfolding check_staleness_section_def Let_def by (intro filters_rules)

lemma filters_revisions [filters_rules]: "filters (\<lambda>D. check_revisions S doc D)"
  unfolding check_revisions_def Let_def by (intro filters_rules)

lemma filters_verifier_selection [filters_rules]: "filters (\<lambda>D. check_verifier_selection S doc D)"
  unfolding check_verifier_selection_def Let_def by (intro filters_rules)

lemma filters_impact_fields [filters_rules]: "filters (\<lambda>D. check_impact_fields S doc D)"
  unfolding check_impact_fields_def Let_def by (intro filters_rules)

lemma filters_fallback [filters_rules]: "filters (\<lambda>D. check_fallback arm_def doc fb D)"
  unfolding check_fallback_def Let_def by (intro filters_rules)

lemma filters_entry [filters_rules]: "filters (\<lambda>D. check_entry c D e)"
  unfolding check_entry_def Let_def by (intro filters_rules)

lemma filters_entries [filters_rules]: "filters (\<lambda>D. check_entries doc D)"
  unfolding check_entries_def Let_def by (intro filters_rules)

lemma filters_empty_impact [filters_rules]: "filters (\<lambda>D. check_empty_impact claim_sha S doc D)"
  unfolding check_empty_impact_def Let_def by (intro filters_rules)

lemma filters_verifier [filters_rules]: "filters (\<lambda>D. check_verifier S D v)"
  unfolding check_verifier_def Let_def by (intro filters_rules)

lemma filters_observed [filters_rules]: "filters (\<lambda>D. check_observed S doc D)"
  unfolding check_observed_def Let_def by (intro filters_rules)

lemma filters_exemption [filters_rules]: "filters (\<lambda>D. check_exemption doc D x)"
  unfolding check_exemption_def Let_def by (intro filters_rules)

lemma filters_verdict [filters_rules]: "filters (\<lambda>D. check_verdict S doc D v)"
  unfolding check_verdict_def Let_def by (intro filters_rules)

lemma filters_probe_claim [filters_rules]: "filters (\<lambda>D. check_probe_claim S doc D v)"
  unfolding check_probe_claim_def Let_def by (intro filters_rules)

lemma filters_coverage [filters_rules]: "filters (\<lambda>D. check_coverage S doc fb D)"
  unfolding check_coverage_def Let_def by (intro filters_rules)

lemma filters_canary_row [filters_rules]: "filters (\<lambda>D. check_canary_row S doc D v)"
  unfolding check_canary_row_def Let_def by (intro filters_rules)

lemma filters_admission [filters_rules]: "filters (\<lambda>D. check_admission S doc D)"
  unfolding check_admission_def Let_def by (intro filters_rules)

lemma filters_receipt: "filters (\<lambda>D. receipt_findings claim_sha S arm_def doc fb D)"
  unfolding receipt_findings_def by (intro filters_rules)

text \<open>
  the rules of the receipt validator are independent: disabling some of them removes exactly their
  findings from the result and changes nothing else, an exception included.
\<close>

lemma check_receipt_disabled:
  "check_receipt claim_sha S arm_def disabled doc =
     map_sum id (filter (\<lambda>c. c \<notin> set disabled)) (check_receipt claim_sha S arm_def [] doc)"
proof (cases "fallback_of doc")
  case (Inr fb)
  show ?thesis
    unfolding check_receipt_def bindE_def Inr sum.case map_sum.simps
    by (rule arg_cong [where f = Inr]) (rule filtersD [OF filters_receipt])
qed (simp add: check_receipt_def bindE_def)

subsection \<open>Verdicts\<close>

lemma verdict_of_Some:
  assumes "map_of (verdict_of S doc) ent = Some w"
  obtains v where "v \<in> set (rows doc ''verdicts'')" "verdict_ok S v" "mget (as_dict v) ''entity'' = ent"
    "mget (as_dict v) ''verdict'' = w"
proof -
  have fold_Some: "\<exists>v \<in> set vs. mget (as_dict v) ''entity'' = ent \<and> mget (as_dict v) ''verdict'' = w"
    if "map_of (fold (\<lambda>v m. AList.update (mget (as_dict v) ''entity'') (mget (as_dict v) ''verdict'') m) vs m) ent = Some w"
      "map_of m ent = None" for vs and m :: "(json \<times> json) list"
    using that
  proof (induction vs rule: rev_induct)
    case (snoc v vs)
    then show ?case by (cases "mget (as_dict v) ''entity'' = ent") (auto simp: update_conv')
  qed simp
  from fold_Some [OF assms [unfolded verdict_of_def]] obtain v
    where "v \<in> set (filter (verdict_ok S) (rows doc ''verdicts''))" "mget (as_dict v) ''entity'' = ent"
      "mget (as_dict v) ''verdict'' = w"
    by auto
  then show thesis by (intro that) auto
qed

lemma concat_map_nil: "concat (map f xs) = [] \<longleftrightarrow> (\<forall>x \<in> set xs. f x = [])"
  by simp

text \<open>A verifier row that ran: it is recorded with an exit code and an output.\<close>

definition ran :: "dict \<Rightarrow> json \<Rightarrow> bool" where
  "ran doc vid \<longleftrightarrow>
     (\<exists>v \<in> set (verifier_rows doc). mget v ''id'' = vid \<and> has_key v ''exit_code'' \<and> truthy (mget v ''output_ref''))"

lemma ver_ids_ran:
  assumes "concat (map (check_verifier S []) (rows doc ''verifiers'')) = []" "vid \<in> set (ver_ids doc)"
  shows "ran doc vid"
proof -
  from assms(2) obtain j where j: "j \<in> set (rows doc ''verifiers'')" "is_dict j" "mget (as_dict j) ''id'' = vid"
    by (auto simp: ver_ids_def verifier_rows_def)
  then have "check_verifier S [] j = []" using assms(1) by simp
  then show ?thesis using j by (auto simp: check_verifier_def Let_def ran_def verifier_rows_def)
qed

text \<open>A claim of \<^verbatim>\<open>verified\<close> in the document: a verdict row that cites verifiers which all ran.\<close>

definition verified_in :: "dict \<Rightarrow> json \<Rightarrow> bool" where
  "verified_in doc ent \<longleftrightarrow>
     (\<exists>v \<in> set (rows doc ''verdicts''). mget (as_dict v) ''entity'' = ent \<and> mget (as_dict v) ''verdict'' = JStr ''verified''
        \<and> as_list (mget (as_dict v) ''verifier_ids'') \<noteq> []
        \<and> (\<forall>vid \<in> set (as_list (mget (as_dict v) ''verifier_ids'')). ran doc vid))"

text \<open>An exemption with an owner, a reason and an expiry after the capture of the receipt.\<close>

definition exempted_in :: "dict \<Rightarrow> json \<Rightarrow> bool" where
  "exempted_in doc ent \<longleftrightarrow>
     (\<exists>x \<in> set (rows doc ''exemptions''). mget (as_dict x) ''entity'' = ent
        \<and> truthy (mget (as_dict x) ''owner'') \<and> truthy (mget (as_dict x) ''reason'')
        \<and> (\<exists>t. parse_iso (mget (as_dict x) ''expires_at_utc'') = Some t
             \<and> (\<forall>c. parse_iso (mget doc ''captured_at_utc'') = Some c \<longrightarrow> c < t)))"

lemma verified_verdict:
  assumes vers: "concat (map (check_verifier S []) (rows doc ''verifiers'')) = []"
    and vds: "concat (map (check_verdict S doc []) (rows doc ''verdicts'')) = []"
    and "map_of (verdict_of S doc) ent = Some (JStr ''verified'')"
  shows "verified_in doc ent"
proof -
  obtain v where v: "v \<in> set (rows doc ''verdicts'')" "verdict_ok S v" "mget (as_dict v) ''entity'' = ent"
      "mget (as_dict v) ''verdict'' = JStr ''verified''"
    by (rule verdict_of_Some [OF assms(3)])
  then have "check_verdict S doc [] v = []" using vds by simp
  with v have "as_list (mget (as_dict v) ''verifier_ids'') \<noteq> []"
      "set (as_list (mget (as_dict v) ''verifier_ids'')) \<subseteq> set (ver_ids doc)"
    by (auto simp: check_verdict_def Let_def)
  with v ver_ids_ran [OF vers] show ?thesis unfolding verified_in_def by blast
qed

lemma not_expired:
  assumes "parse_iso (mget x ''expires_at_utc'') = Some t" "\<not> expired doc x" "parse_iso (mget doc ''captured_at_utc'') = Some c"
  shows "c < t"
  using assms by (simp add: expired_def not_le)

lemma valid_exempt_in:
  assumes "ent \<in> set (valid_exempt doc)" shows "exempted_in doc ent"
proof -
  obtain x where x: "x \<in> set (rows doc ''exemptions'')" "exemption_ok doc x" "ent = mget (as_dict x) ''entity''"
    using assms by (auto simp: valid_exempt_def)
  then obtain t where t: "parse_iso (mget (as_dict x) ''expires_at_utc'') = Some t"
    by (auto simp: exemption_ok_def Let_def)
  have "c < t" if "parse_iso (mget doc ''captured_at_utc'') = Some c" for c
    using x(2) not_expired [OF t _ that] by (simp add: exemption_ok_def Let_def)
  then show ?thesis using x t unfolding exempted_in_def exemption_ok_def Let_def by blast
qed

lemma receipt_findings_parts:
  assumes "receipt_findings claim_sha S arm_def doc fb [] = []"
  shows "concat (map (check_verifier S []) (rows doc ''verifiers'')) = []"
    "concat (map (check_verdict S doc []) (rows doc ''verdicts'')) = []"
    "check_coverage S doc fb [] = []" "check_admission S doc [] = []" "check_staleness_section doc [] = []"
    "check_fields S doc [] = []"
  using assms unfolding receipt_findings_def append_is_Nil_conv by blast+

lemma admission_verdicts:
  assumes "check_admission S doc [] = []" "admitting (admission_of doc)" "map_of (verdict_of S doc) ent = Some w"
  shows "w = JStr ''verified'' \<or> ent \<in> set (valid_exempt doc)"
proof (rule disjCI)
  assume "ent \<notin> set (valid_exempt doc)"
  have adm: "admission_of doc = JStr ''admitted'' \<Longrightarrow> non_verified S doc = []"
    "admission_of doc = JStr ''admitted_with_exemptions'' \<Longrightarrow> set (non_verified S doc) \<subseteq> set (valid_exempt doc)"
    using assms(1) unfolding check_admission_def Let_def append_is_Nil_conv by simp_all
  have "admission_of doc = JStr ''admitted'' \<or> admission_of doc = JStr ''admitted_with_exemptions''"
    using assms(2) by (auto simp: admitting_def str_in_iff)
  then have "ent \<notin> set (non_verified S doc)" using adm \<open>ent \<notin> set (valid_exempt doc)\<close> by auto
  then show "w = JStr ''verified''"
    using map_of_SomeD [OF assms(3)] by (force simp: non_verified_def)
qed


subsection \<open>The contract's tables and concrete receipts\<close>

definition receipt_contract :: receipt_schema where
  "receipt_contract =
     \<lparr>rs_name = ''ChangeAdmissionReceipt/v1'',
      rs_required = [''schema'', ''receipt_id'', ''captured_at_utc'', ''producer'', ''decision_ref'', ''repo'',
        ''graph'', ''tree'', ''staleness'', ''change_set'', ''impact_set'', ''verifiers'', ''verdicts'',
        ''exemptions'', ''admission''],
      rs_sections =
       [(''producer'', [''tool'', ''version'']),
        (''repo'', [''name'']),
        (''graph'', [''source_commit'', ''graph_digest'', ''builder_version'', ''built_at_utc'']),
        (''tree'', [''commit'', ''dirty'']),
        (''staleness'', [''method'', ''verdict''])],
      rs_modes = [''worktree'', ''diff''], rs_file_required = [''path'', ''status'', ''kind''],
      rs_status = [''A'', ''M'', ''D'', ''R''],
      rs_kind = [''code'', ''contract'', ''route'', ''data_model'', ''config'', ''doc'', ''lockfile'',
        ''global_config'', ''test'', ''receipt'', ''other''],
      rs_sel_tool = ''tools/graph/verify.py'', rs_sel_version = JStr ''1.1.0'', rs_sel_schema = ''VerifierSelection/v1'',
      rs_sel_required = [''schema'', ''requested'', ''applied'', ''not_applied''],
      rs_selectable = [''targeted_test'', ''property_check''],
      rs_sel_reasons = [''NO_SPEC_REACHES_ENTITY'', ''NO_RUNNER_ON_HOST'', ''NO_ENTITY_OF_APPLICABLE_TYPE'',
        ''NO_PROPERTY_DECLARED''],
      rs_impact_required = [''method'', ''deterministic_core'', ''inferred_tail'', ''global_fallback''],
      rs_verifier_kinds = [''contract_diff'', ''type_check'', ''schema_diff'', ''config_schema'', ''fitness_rules'',
        ''targeted_test'', ''property_check'', ''canary'', ''doc_reference'', ''manual_review'', ''other'',
        ''endpoint_probe'', ''shell_syntax'', ''shell_behavior'', ''systemd_unit_semantics'',
        ''source_file_integrity''],
      rs_verifier_required = [''id'', ''kind'', ''command'', ''entities'', ''exit_code'', ''output_ref''],
      rs_observed_required = [''probe'', ''verifier_id'', ''expected'', ''observed'', ''verdict'', ''source''],
      rs_observed_verdicts = [''verified'', ''failed'', ''not_measured''],
      rs_verdicts = [''verified'', ''failed'', ''not_measured''], rs_admission_required = [''verdict'', ''rule''],
      rs_admission = [''admitted'', ''admitted_with_exemptions'', ''refused'', ''paused_safe'']\<rparr>"

definition sample_receipt :: "json \<Rightarrow> json list \<Rightarrow> json list \<Rightarrow> string \<Rightarrow> dict" where
  "sample_receipt captured verdicts exemptions adm =
     (let commit = JStr (replicate 40 (CHR ''a''))
      in [(''schema'', JStr ''ChangeAdmissionReceipt/v1''), (''receipt_id'', JStr ''r1''), (''captured_at_utc'', captured),
        (''producer'', JObj [(''tool'', JStr ''manual''), (''version'', JStr ''1.0.0'')]), (''decision_ref'', JStr ''d''),
        (''repo'', JObj [(''name'', JStr ''r'')]),
        (''graph'', JObj [(''source_commit'', commit), (''graph_digest'', JStr (''sha256:'' @ replicate 64 (CHR ''0''))),
           (''builder_version'', JStr ''1''), (''built_at_utc'', JStr ''t'')]),
        (''tree'', JObj [(''commit'', commit), (''dirty'', JBool False)]),
        (''staleness'', JObj [(''method'', JStr ''m''), (''verdict'', JStr ''fresh'')]),
        (''change_set'', JObj [(''mode'', JStr ''worktree''), (''files'', JArr [JObj [(''path'', JStr ''a.py''),
           (''status'', JStr ''M''), (''kind'', JStr ''code''), (''node_id'', JStr ''code_unit:a.py'')]])]),
        (''impact_set'', JObj [(''method'', JStr ''m''), (''deterministic_core'', JArr [JObj [(''entity'', JStr ''code_unit:b.py''),
             (''path'', JArr [JObj [(''provenance'', JStr ''deterministic'')]])]]),
           (''inferred_tail'', JArr []), (''global_fallback'', JObj [(''triggered'', JBool False)])]),
        (''verifiers'', JArr [JObj [(''id'', JStr ''v1''), (''kind'', JStr ''type_check''), (''command'', JStr ''c''),
           (''entities'', JArr []), (''exit_code'', JInt 0), (''output_ref'', JStr ''out.txt'')]]),
        (''verdicts'', JArr verdicts), (''exemptions'', JArr exemptions),
        (''admission'', JObj [(''verdict'', JStr adm), (''rule'', JStr ''r'')])])"

definition sample_verdict :: "string \<Rightarrow> string \<Rightarrow> json" where
  "sample_verdict ent v =
     JObj [(''entity'', JStr ent), (''verdict'', JStr v), (''verifier_ids'', JArr [JStr ''v1''])]"


text \<open>
  The contract asks for exactly one verdict per entity.  The check keeps the last one: a receipt in
  which the same entity is first \<^verbatim>\<open>failed\<close> and then \<^verbatim>\<open>verified\<close> has no finding and is admitted.
\<close>

lemma conflicting_verdicts_conformant:
  "check_receipt (\<lambda>_. []) receipt_contract None []
       (sample_receipt (JStr ''2026-01-01T00:00:00Z'')
         [sample_verdict ''code_unit:a.py'' ''failed'', sample_verdict ''code_unit:a.py'' ''verified'',
          sample_verdict ''code_unit:b.py'' ''verified''] [] ''admitted'') = Inr []"
  by code_simp

text \<open>
  The time of capture is required but its form is not checked; a receipt whose \<^verbatim>\<open>captured_at_utc\<close> is not
  a time is conformant although the only exemption it rests on expired long ago.
\<close>

lemma unreadable_capture_skips_expiry:
  "check_receipt (\<lambda>_. []) receipt_contract None []
       (sample_receipt (JStr ''now'')
         [sample_verdict ''code_unit:a.py'' ''failed'', sample_verdict ''code_unit:b.py'' ''verified'']
         [JObj [(''entity'', JStr ''code_unit:a.py''), (''reason'', JStr ''r''), (''owner'', JStr ''o''),
                (''expires_at_utc'', JStr ''2000-01-01T00:00:00Z'')]] ''admitted_with_exemptions'') = Inr []"
  by code_simp

end
