(* ===== verification/Base64.thy ===== *)
theory Base64
  imports Prelude "HOL-Library.Word"
begin

section \<open>Bytes and base64\<close>

text \<open>
  What \<^verbatim>\<open>tools/graph/sshsig.py\<close> uses of the standard library: bytes as 8-bit words, \<^verbatim>\<open>struct\<close>'s big-endian
  32-bit integers, \<^verbatim>\<open>int.from_bytes\<close> and \<^verbatim>\<open>int.to_bytes\<close>, \<^verbatim>\<open>base64.b64encode\<close> and \<^verbatim>\<open>base64.b64decode\<close>.  The
  decoder is the lenient one of \<^verbatim>\<open>binascii\<close>: characters outside the alphabet are skipped, a completed
  padding ends the input, an incomplete last group is an error.
\<close>

type_synonym byte = "8 word"
type_synonym bytes = "byte list"

lemma byte_bound [simp]: "unat (a :: byte) < 256"
  using unsigned_less [of a] by simp

definition ascii_bytes :: "string \<Rightarrow> bytes" where
  "ascii_bytes s = map (\<lambda>c. of_nat (of_char c)) s"

text \<open>\<^verbatim>\<open>bytes.decode(errors="replace")\<close> on ASCII; other bytes give characters outside ASCII.\<close>

definition decode_replace :: "bytes \<Rightarrow> string" where
  "decode_replace b = map (\<lambda>x. char_of (unat x)) b"

lemma decode_ascii_bytes [simp]: "decode_replace (ascii_bytes s) = s"
  by (induction s) (simp_all add: ascii_bytes_def decode_replace_def unat_of_nat)

lemma length_ascii_bytes [simp]: "length (ascii_bytes s) = length s"
  by (simp add: ascii_bytes_def)

lemma ascii_bytes_decode: "ascii_bytes (decode_replace b) = b"
  by (induction b) (simp_all add: ascii_bytes_def decode_replace_def of_char_of)

subsection \<open>Integers in bytes\<close>

definition pack_be32 :: "nat \<Rightarrow> bytes" where
  "pack_be32 n = [of_nat (n div 2 ^ 24), of_nat (n div 2 ^ 16), of_nat (n div 2 ^ 8), of_nat n]"

definition unpack_be32 :: "bytes \<Rightarrow> nat" where
  "unpack_be32 b = foldl (\<lambda>acc x. 256 * acc + unat x) 0 b"

lemma length_pack_be32 [simp]: "length (pack_be32 n) = 4"
  by (simp add: pack_be32_def)

lemma unat_of_nat_byte: "unat (of_nat n :: byte) = n mod 256"
  by (simp add: unat_of_nat)

lemma unpack_pack_be32 [simp]: "n < 2 ^ 32 \<Longrightarrow> unpack_be32 (pack_be32 n) = n"
proof -
  assume "n < 2 ^ 32"
  define a b c where "a = n div 256" and "b = a div 256" and "c = b div 256"
  have "n div 2 ^ 16 = b" "n div 2 ^ 24 = c" by (simp_all add: a_def b_def c_def div_mult2_eq [symmetric])
  moreover have "c < 256" using \<open>n < 2 ^ 32\<close> unfolding a_def b_def c_def by (simp add: less_mult_imp_div_less)
  moreover have "n = a * 256 + n mod 256" "a = b * 256 + a mod 256" "b = c * 256 + b mod 256"
    unfolding a_def b_def c_def by (rule div_mult_mod_eq [symmetric])+
  ultimately show ?thesis by (simp add: unpack_be32_def pack_be32_def unat_of_nat_byte a_def [symmetric])
qed

text \<open>\<^verbatim>\<open>int.from_bytes(b, "little")\<close> and \<^verbatim>\<open>n.to_bytes(k, "little")\<close> (an \<^verbatim>\<open>OverflowError\<close> when n needs more than k bytes)\<close>

primrec from_little :: "bytes \<Rightarrow> nat" where
  "from_little [] = 0"
| "from_little (b # bs) = unat b + 256 * from_little bs"

primrec little_digits :: "nat \<Rightarrow> nat \<Rightarrow> bytes" where
  "little_digits 0 n = []"
| "little_digits (Suc k) n = of_nat n # little_digits k (n div 256)"

definition to_little :: "nat \<Rightarrow> nat \<Rightarrow> bytes option" where
  "to_little k n = (if n < 256 ^ k then Some (little_digits k n) else None)"

lemma length_little_digits [simp]: "length (little_digits k n) = k"
  by (induction k arbitrary: n) simp_all

lemma from_little_digits: "n < 256 ^ k \<Longrightarrow> from_little (little_digits k n) = n"
proof (induction k arbitrary: n)
  case (Suc k)
  then have "n div 256 < 256 ^ k" by (simp add: less_mult_imp_div_less mult.commute)
  with Suc.IH show ?case by (simp add: unat_of_nat_byte)
qed simp

lemma to_little_Some: "to_little k n = Some b \<Longrightarrow> length b = k \<and> from_little b = n"
  by (auto simp: to_little_def from_little_digits split: if_splits)

lemma from_little_bound: "from_little b < 256 ^ length b"
proof (induction b)
  case (Cons a b)
  with byte_bound [of a] show ?case unfolding from_little.simps length_Cons power_Suc by linarith
qed simp

subsection \<open>Base64\<close>

definition sextet_char :: "nat \<Rightarrow> char" where
  "sextet_char n =
     char_of (if n < 26 then 65 + n else if n < 52 then 71 + n else if n < 62 then n - 4 else if n = 62 then 43 else 47)"

definition b64_value :: "char \<Rightarrow> nat option" where
  "b64_value c =
     (let n = of_char c :: nat
      in if 65 \<le> n \<and> n \<le> 90 then Some (n - 65)
         else if 97 \<le> n \<and> n \<le> 122 then Some (n - 71)
         else if 48 \<le> n \<and> n \<le> 57 then Some (n + 4)
         else if n = 43 then Some 62 else if n = 47 then Some 63 else None)"

fun base64_encode :: "bytes \<Rightarrow> string" where
  "base64_encode [] = []"
| "base64_encode [a] = [sextet_char (unat a div 4), sextet_char (unat a mod 4 * 16), CHR ''='', CHR ''='']"
| "base64_encode [a, b] =
     [sextet_char (unat a div 4), sextet_char (unat a mod 4 * 16 + unat b div 16), sextet_char (unat b mod 16 * 4), CHR ''='']"
| "base64_encode (a # b # c # rest) =
     sextet_char (unat a div 4) # sextet_char (unat a mod 4 * 16 + unat b div 16)
       # sextet_char (unat b mod 16 * 4 + unat c div 64) # sextet_char (unat c mod 64) # base64_encode rest"

record b64_state =
  bs_quad :: nat
  bs_left :: nat
  bs_pads :: nat
  bs_out :: bytes

definition b64_put :: "nat \<Rightarrow> b64_state \<Rightarrow> b64_state" where
  "b64_put v st =
     (if bs_quad st = 0 then st\<lparr>bs_quad := 1, bs_left := v, bs_pads := 0\<rparr>
      else if bs_quad st = 1
      then st\<lparr>bs_quad := 2, bs_left := v mod 16, bs_pads := 0, bs_out := bs_out st @ [of_nat (bs_left st * 4 + v div 16)]\<rparr>
      else if bs_quad st = 2
      then st\<lparr>bs_quad := 3, bs_left := v mod 4, bs_pads := 0, bs_out := bs_out st @ [of_nat (bs_left st * 16 + v div 4)]\<rparr>
      else st\<lparr>bs_quad := 0, bs_left := 0, bs_pads := 0, bs_out := bs_out st @ [of_nat (bs_left st * 64 + v)]\<rparr>)"

fun b64_loop :: "b64_state \<Rightarrow> string \<Rightarrow> bytes option" where
  "b64_loop st [] = (if bs_quad st = 0 then Some (bs_out st) else None)"
| "b64_loop st (c # s) =
     (if c = CHR ''=''
      then (if bs_quad st \<ge> 2
            then (if bs_quad st + Suc (bs_pads st) \<ge> 4 then Some (bs_out st)
                  else b64_loop (st\<lparr>bs_pads := Suc (bs_pads st)\<rparr>) s)
            else b64_loop st s)
      else (case b64_value c of None \<Rightarrow> b64_loop st s | Some v \<Rightarrow> b64_loop (b64_put v st) s))"

definition base64_decode :: "string \<Rightarrow> bytes option" where
  "base64_decode s = b64_loop \<lparr>bs_quad = 0, bs_left = 0, bs_pads = 0, bs_out = []\<rparr> s"

lemma of_char_sextet_char:
  "n < 64 \<Longrightarrow> of_char (sextet_char n) =
     (if n < 26 then 65 + n else if n < 52 then 71 + n else if n < 62 then n - 4 else if n = 62 then 43 else 47 :: nat)"
  by (auto simp: sextet_char_def of_char_of)

lemma b64_value_char [simp]: "n < 64 \<Longrightarrow> b64_value (sextet_char n) = Some n"
  unfolding b64_value_def of_char_sextet_char Let_def by (auto split: if_splits)

lemma b64_value_pad [simp]: "b64_value (CHR ''='') = None"
  by (simp add: b64_value_def)

lemma sextet_char_not_pad [simp]: "n < 64 \<Longrightarrow> sextet_char n \<noteq> CHR ''=''"
  by (metis b64_value_char b64_value_pad option.distinct(1))

lemma sextets [simp]:
  fixes a b :: byte
  shows "unat a div 4 < 64" "unat a mod 4 * 16 < 64" "unat a mod 4 * 16 + unat b div 16 < 64" "unat a mod 16 * 4 < 64"
    "unat a mod 16 * 4 + unat b div 64 < 64"
  using byte_bound [of a] byte_bound [of b] by linarith+

lemma high_nibble: "unat (b :: byte) div 16 < 16"
  using byte_bound [of b] by (simp add: less_mult_imp_div_less)

lemma high_pair: "unat (b :: byte) div 64 < 4"
  using byte_bound [of b] by (simp add: less_mult_imp_div_less)

lemma b64_start:
  "b64_loop \<lparr>bs_quad = 0, bs_left = l, bs_pads = p, bs_out = out\<rparr> (base64_encode bs) = Some (out @ bs)"
proof (induction bs arbitrary: l p out rule: base64_encode.induct)
  case (2 a)
  have "unat a div 4 * 4 + unat a mod 4 * 16 div 16 = unat a" by simp
  then show ?case by (simp add: b64_put_def del: of_nat_add of_nat_mult)
next
  case (3 a b)
  have "unat a div 4 * 4 + (unat a mod 4 * 16 + unat b div 16) div 16 = unat a"
    "(unat a mod 4 * 16 + unat b div 16) mod 16 * 16 + unat b mod 16 * 4 div 4 = unat b"
    using high_nibble [of b] by simp_all
  then show ?case by (simp add: b64_put_def del: of_nat_add of_nat_mult)
next
  case (4 a b c rest)
  have "unat a div 4 * 4 + (unat a mod 4 * 16 + unat b div 16) div 16 = unat a"
    "(unat a mod 4 * 16 + unat b div 16) mod 16 * 16 + (unat b mod 16 * 4 + unat c div 64) div 4 = unat b"
    "(unat b mod 16 * 4 + unat c div 64) mod 4 * 64 + unat c mod 64 = unat c"
    using high_nibble [of b] high_pair [of c] by simp_all
  then show ?case by (simp add: b64_put_def 4 del: of_nat_add of_nat_mult)
qed simp

lemma base64_decode_encode [simp]: "base64_decode (base64_encode bs) = Some bs"
  by (simp add: base64_decode_def b64_start)

text \<open>The text of an encoding holds letters, digits, \<^verbatim>\<open>+\<close>, \<^verbatim>\<open>/\<close> and \<^verbatim>\<open>=\<close> only.\<close>

definition b64_text :: "char \<Rightarrow> bool" where
  "b64_text c \<longleftrightarrow> c = CHR ''='' \<or> b64_value c \<noteq> None"

lemma base64_encode_text: "list_all b64_text (base64_encode bs)"
  by (induction bs rule: base64_encode.induct) (simp_all add: b64_text_def)

lemma b64_text_plain: "b64_text c \<Longrightarrow> \<not> is_space c \<and> c \<noteq> CHR ''-''"
  by (auto simp: b64_text_def b64_value_def is_space_def Let_def split: if_splits)

end
