(* ===== verification/Sshsig.thy ===== *)
theory Sshsig
  imports Base64
begin

unbundle bit_operations_syntax

section \<open>Detached SSH signatures\<close>

text \<open>
  \<^verbatim>\<open>tools/graph/sshsig.py\<close>: Ed25519 verification and signing over Python's integers, the SSH wire strings,
  the armored form, and \<^verbatim>\<open>verify_detached\<close>, which decides whether the gate trusts a bundle.  SHA-512 and
  SHA-256 are fields of the record \<open>hashes\<close>.  Text is ASCII.  The base point is computed when the module is
  loaded; had its \<^verbatim>\<open>_recover_x\<close> failed, loading would raise, which is \<open>None\<close> here.  A wire string of
  \<^verbatim>\<open>2**32\<close> bytes or more makes \<^verbatim>\<open>struct.pack\<close> raise and is outside the model.
\<close>

record hashes =
  hs_sha512 :: "bytes \<Rightarrow> bytes"
  hs_sha256 :: "bytes \<Rightarrow> bytes"

definition MAGIC :: bytes where
  "MAGIC = ascii_bytes ''SSHSIG''"

definition SUPPORTED_KEY_TYPE :: string where
  "SUPPORTED_KEY_TYPE = ''ssh-ed25519''"

definition SUPPORTED_HASHES :: "hashes \<Rightarrow> (string \<times> (bytes \<Rightarrow> bytes)) list" where
  "SUPPORTED_HASHES H = [(''sha512'', hs_sha512 H), (''sha256'', hs_sha256 H)]"

subsection \<open>The field and the curve\<close>

text \<open>\<^verbatim>\<open>pow(a, n, m)\<close>\<close>

definition pow_mod :: "int \<Rightarrow> int \<Rightarrow> int \<Rightarrow> int" where
  "pow_mod a n m = a ^ nat n mod m"

definition ed_P :: int where
  "ed_P = 2 ^ 255 - 19"

definition ed_L :: int where
  "ed_L = 2 ^ 252 + 27742317777372353535851937790883648493"

definition ed_D :: int where
  "ed_D = (-121665 * pow_mod 121666 (ed_P - 2) ed_P) mod ed_P"

definition ed_I :: int where
  "ed_I = pow_mod 2 ((ed_P - 1) div 4) ed_P"

definition recover_x :: "int \<Rightarrow> int \<Rightarrow> int option" where
  "recover_x y sign =
     (let xx = (y * y - 1) * pow_mod (ed_D * y * y + 1) (ed_P - 2) ed_P;
          x = pow_mod xx ((ed_P + 3) div 8) ed_P;
          x = (if (x * x - xx) mod ed_P \<noteq> 0 then x * ed_I mod ed_P else x)
      in if y \<ge> ed_P then None
         else if (x * x - xx) mod ed_P \<noteq> 0 then None
         else Some (if x mod 2 \<noteq> sign then ed_P - x else x))"

type_synonym point = "int \<times> int \<times> int \<times> int"

definition point_add :: "point \<Rightarrow> point \<Rightarrow> point" where
  "point_add p q =
     (case p of (x1, y1, z1, t1) \<Rightarrow> case q of (x2, y2, z2, t2) \<Rightarrow>
        let a = ((y1 - x1) * (y2 - x2)) mod ed_P;
            b = ((y1 + x1) * (y2 + x2)) mod ed_P;
            c = (2 * t1 * t2 * ed_D) mod ed_P;
            d = (2 * z1 * z2) mod ed_P;
            e = b - a; f = d - c; g = d + c; h = b + a
        in ((e * f) mod ed_P, (g * h) mod ed_P, (f * g) mod ed_P, (e * h) mod ed_P))"

fun scalar_loop :: "point \<Rightarrow> point \<Rightarrow> nat \<Rightarrow> point" where
  "scalar_loop q p e =
     (if e = 0 then q else scalar_loop (if odd e then point_add q p else q) (point_add p p) (e div 2))"

declare scalar_loop.simps [simp del]

definition scalar_mul :: "point \<Rightarrow> nat \<Rightarrow> point" where
  "scalar_mul p e = scalar_loop (0, 1, 1, 0) p e"

definition ed_BY :: int where
  "ed_BY = 4 * pow_mod 5 (ed_P - 2) ed_P mod ed_P"

definition ed_B :: "point option" where
  "ed_B = map_option (\<lambda>bx. (bx, ed_BY, 1, bx * ed_BY mod ed_P)) (recover_x ed_BY 0)"

definition decode_point :: "bytes \<Rightarrow> point option" where
  "decode_point b =
     (let y = int (from_little b); sign = drop_bit 255 y AND 1; y = y AND (2 ^ 255 - 1)
      in if length b \<noteq> 32 then None
         else map_option (\<lambda>x. (x, y, 1, x * y mod ed_P)) (recover_x y sign))"

fun point_equal :: "point \<Rightarrow> point \<Rightarrow> bool" where
  "point_equal (x1, y1, z1, _) (x2, y2, z2, _) \<longleftrightarrow>
     (x1 * z2 - x2 * z1) mod ed_P = 0 \<and> (y1 * z2 - y2 * z1) mod ed_P = 0"

definition ed25519_verify :: "hashes \<Rightarrow> bytes \<Rightarrow> bytes \<Rightarrow> bytes \<Rightarrow> bool" where
  "ed25519_verify H public_key message signature =
     (let s = from_little (drop 32 signature);
          h = from_little (hs_sha512 H (take 32 signature @ public_key @ message)) mod nat ed_L
      in if length public_key \<noteq> 32 \<or> length signature \<noteq> 64 then False
         else case (decode_point public_key, decode_point (take 32 signature), ed_B) of
                (Some a, Some r, Some b) \<Rightarrow>
                  int s < ed_L \<and> point_equal (scalar_mul b s) (point_add r (scalar_mul a h))
              | _ \<Rightarrow> False)"

subsection \<open>Wire strings\<close>

definition read_string :: "bytes \<Rightarrow> nat \<Rightarrow> (bytes \<times> nat) option" where
  "read_string buf off =
     (if off + 4 > length buf then None
      else let n = unpack_be32 (take 4 (drop off buf)); off = off + 4
           in if off + n > length buf then None else Some (take n (drop off buf), off + n))"

definition ssh_string :: "bytes \<Rightarrow> bytes" where
  "ssh_string b = pack_be32 (length b) @ b"

subsection \<open>Armor and keys\<close>

fun after_sub :: "string \<Rightarrow> string \<Rightarrow> string" where
  "after_sub p [] = []"
| "after_sub p (c # s) = (if startswith (c # s) p then drop (length p) (c # s) else after_sub p s)"

fun before_sub :: "string \<Rightarrow> string \<Rightarrow> string" where
  "before_sub p [] = []"
| "before_sub p (c # s) = (if startswith (c # s) p then [] else c # before_sub p s)"

declare after_sub.simps [simp del] before_sub.simps [simp del] contains.simps [simp del]

definition armor_begin :: string where
  "armor_begin = ''-----BEGIN SSH SIGNATURE-----''"

definition armor_end :: string where
  "armor_end = ''-----END SSH SIGNATURE-----''"

definition parse_armored :: "string \<Rightarrow> bytes option" where
  "parse_armored txt =
     (if \<not> contains txt armor_begin \<or> \<not> contains txt armor_end then None
      else base64_decode (concat (split_ws (before_sub armor_end (after_sub armor_begin txt)))))"

definition parse_public_key :: "string \<Rightarrow> (string \<times> bytes) option" where
  "parse_public_key line =
     (case split_ws line of
        kind # key # _ \<Rightarrow>
          (case base64_decode key of
             None \<Rightarrow> None
           | Some blob \<Rightarrow>
               (case read_string blob 0 of
                  None \<Rightarrow> None
                | Some (kt, off) \<Rightarrow>
                    if decode_replace kt \<noteq> kind then None
                    else map_option (\<lambda>(a, _). (decode_replace kt, a)) (read_string blob off)))
      | _ \<Rightarrow> None)"

definition fingerprint :: "hashes \<Rightarrow> string \<Rightarrow> bytes \<Rightarrow> string" where
  "fingerprint H key_type a =
     ''SHA256:'' @ rstrip_char (CHR ''='') (base64_encode (hs_sha256 H (ssh_string (ascii_bytes key_type) @ ssh_string a)))"

subsection \<open>Verification of a detached signature\<close>

datatype sig_reason =
    SIGNATURE_VALID
  | SIGNATURE_MALFORMED
  | SIGNATURE_WRONG_NAMESPACE
  | SIGNATURE_UNSUPPORTED_HASH
  | SIGNATURE_KEY_TYPE_REFUSED
  | PUBLIC_KEY_MALFORMED
  | PUBLIC_KEY_TYPE_REFUSED
  | SIGNATURE_KEY_MISMATCH
  | SIGNATURE_INVALID

record sig_details =
  sd_namespace :: "string option"
  sd_key_type :: "string option"
  sd_hash :: "string option"
  sd_sig_fp :: "string option"
  sd_pub_fp :: "string option"

definition no_details :: sig_details where
  "no_details = \<lparr>sd_namespace = None, sd_key_type = None, sd_hash = None, sd_sig_fp = None, sd_pub_fp = None\<rparr>"

text \<open>The fields of the blob after the magic: version, key blob, namespace, reserved, hash algorithm, signature blob.\<close>

fun read_strings :: "nat \<Rightarrow> bytes \<Rightarrow> nat \<Rightarrow> bytes list option" where
  "read_strings 0 buf off = Some []"
| "read_strings (Suc k) buf off =
     (case read_string buf off of
        None \<Rightarrow> None
      | Some (b, off') \<Rightarrow> map_option ((#) b) (read_strings k buf off'))"

record sig_fields =
  sf_version :: nat
  sf_key :: bytes
  sf_namespace :: bytes
  sf_reserved :: bytes
  sf_hash :: bytes
  sf_sig :: bytes

definition read_blob :: "bytes \<Rightarrow> sig_fields option" where
  "read_blob blob =
     (if \<not> (take (length MAGIC) blob = MAGIC \<and> length MAGIC + 4 \<le> length blob) then None
      else case read_strings 5 blob (length MAGIC + 4) of
             Some [pk, ns, res, alg, sig] \<Rightarrow>
               Some \<lparr>sf_version = unpack_be32 (take 4 (drop (length MAGIC) blob)), sf_key = pk, sf_namespace = ns,
                     sf_reserved = res, sf_hash = alg, sf_sig = sig\<rparr>
           | _ \<Rightarrow> None)"

definition signed_bytes :: "bytes \<Rightarrow> bytes \<Rightarrow> bytes \<Rightarrow> bytes \<Rightarrow> bytes" where
  "signed_bytes ns reserved alg h = MAGIC @ ssh_string ns @ ssh_string reserved @ ssh_string alg @ ssh_string h"

text \<open>The second half: the key in the signature against the trusted key, then the signature itself.\<close>

definition check_key ::
  "hashes \<Rightarrow> bytes \<Rightarrow> string \<Rightarrow> sig_fields \<Rightarrow> (bytes \<Rightarrow> bytes) \<Rightarrow> bytes \<Rightarrow> bytes \<Rightarrow> sig_details \<Rightarrow> bool \<times> sig_reason \<times> sig_details" where
  "check_key H message public_key_line f digest a_sig raw_sig d =
     (case parse_public_key public_key_line of
        None \<Rightarrow> (False, PUBLIC_KEY_MALFORMED, d)
      | Some (kt_pub, a_pub) \<Rightarrow>
          if kt_pub \<noteq> SUPPORTED_KEY_TYPE then (False, PUBLIC_KEY_TYPE_REFUSED, d)
          else let d = d\<lparr>sd_pub_fp := Some (fingerprint H kt_pub a_pub)\<rparr>
               in if a_pub \<noteq> a_sig then (False, SIGNATURE_KEY_MISMATCH, d)
                  else if \<not> ed25519_verify H a_pub
                           (signed_bytes (sf_namespace f) (sf_reserved f) (sf_hash f) (digest message)) raw_sig
                  then (False, SIGNATURE_INVALID, d)
                  else (True, SIGNATURE_VALID, d))"

definition check_fields_of_sig ::
  "hashes \<Rightarrow> bytes \<Rightarrow> string \<Rightarrow> string \<Rightarrow> sig_fields \<Rightarrow> bool \<times> sig_reason \<times> sig_details" where
  "check_fields_of_sig H message public_key_line expected_namespace f =
     (let d = no_details\<lparr>sd_namespace := Some (decode_replace (sf_namespace f)), sd_hash := Some (decode_replace (sf_hash f))\<rparr>
      in if decode_replace (sf_namespace f) \<noteq> expected_namespace then (False, SIGNATURE_WRONG_NAMESPACE, d)
         else case map_of (SUPPORTED_HASHES H) (decode_replace (sf_hash f)) of
                None \<Rightarrow> (False, SIGNATURE_UNSUPPORTED_HASH, d)
              | Some digest \<Rightarrow>
                  (case (read_strings 2 (sf_key f) 0, read_strings 2 (sf_sig f) 0) of
                     (Some [kt_sig, a_sig], Some [kt_s, raw_sig]) \<Rightarrow>
                       let d = d\<lparr>sd_key_type := Some (decode_replace kt_sig)\<rparr>
                       in if decode_replace kt_sig \<noteq> SUPPORTED_KEY_TYPE \<or> decode_replace kt_s \<noteq> SUPPORTED_KEY_TYPE
                          then (False, SIGNATURE_KEY_TYPE_REFUSED, d)
                          else check_key H message public_key_line f digest a_sig raw_sig
                                 (d\<lparr>sd_sig_fp := Some (fingerprint H (decode_replace kt_sig) a_sig)\<rparr>)
                   | _ \<Rightarrow> (False, SIGNATURE_MALFORMED, d)))"

definition verify_detached ::
  "hashes \<Rightarrow> bytes \<Rightarrow> string \<Rightarrow> string \<Rightarrow> string \<Rightarrow> bool \<times> sig_reason \<times> sig_details" where
  "verify_detached H message armored_signature public_key_line expected_namespace =
     (case parse_armored armored_signature of
        None \<Rightarrow> (False, SIGNATURE_MALFORMED, no_details)
      | Some blob \<Rightarrow>
          (case read_blob blob of
             None \<Rightarrow> (False, SIGNATURE_MALFORMED, no_details)
           | Some f \<Rightarrow>
               if sf_version f \<noteq> 1 then (False, SIGNATURE_MALFORMED, no_details)
               else check_fields_of_sig H message public_key_line expected_namespace f))"

subsection \<open>Signing\<close>

definition clamp :: "bytes \<Rightarrow> bytes" where
  "clamp h = (let h = h[0 := h ! 0 AND 248]; h = h[31 := h ! 31 AND 127] in h[31 := h ! 31 OR 64])"

text \<open>\<^verbatim>\<open>(y | ((x & 1) << 255)).to_bytes(32, "little")\<close> of a point made affine\<close>

definition encode_point :: "point \<Rightarrow> bytes option" where
  "encode_point p =
     (case p of (x, y, z, _) \<Rightarrow>
        let zi = pow_mod z (ed_P - 2) ed_P; x = x * zi mod ed_P; y = y * zi mod ed_P
        in to_little 32 (nat (y OR push_bit 255 (x AND 1))))"

definition secret_scalar :: "hashes \<Rightarrow> bytes \<Rightarrow> nat" where
  "secret_scalar H seed = from_little (take 32 (clamp (hs_sha512 H seed)))"

text \<open>The public key; \<open>None\<close> is a \<^verbatim>\<open>ValueError\<close> or \<^verbatim>\<open>OverflowError\<close>.\<close>

definition ed25519_keypair :: "hashes \<Rightarrow> bytes \<Rightarrow> (bytes \<times> bytes) option" where
  "ed25519_keypair H seed =
     (if length seed \<noteq> 32 then None
      else case ed_B of
             None \<Rightarrow> None
           | Some b \<Rightarrow> map_option (\<lambda>pub. (seed, pub)) (encode_point (scalar_mul b (secret_scalar H seed))))"

definition ed25519_sign :: "hashes \<Rightarrow> bytes \<Rightarrow> bytes \<Rightarrow> bytes option" where
  "ed25519_sign H seed message =
     (case (ed25519_keypair H seed, ed_B) of
        (Some (_, pub), Some b) \<Rightarrow>
          let h = clamp (hs_sha512 H seed); a = secret_scalar H seed;
              r = from_little (hs_sha512 H (drop 32 h @ message)) mod nat ed_L
          in (case encode_point (scalar_mul b r) of
                None \<Rightarrow> None
              | Some rb \<Rightarrow>
                  let k = from_little (hs_sha512 H (rb @ pub @ message)) mod nat ed_L;
                      s = (r + k * a) mod nat ed_L
                  in map_option (\<lambda>sb. rb @ sb) (to_little 32 s))
      | _ \<Rightarrow> None)"

definition public_key_line :: "bytes \<Rightarrow> string \<Rightarrow> string" where
  "public_key_line pub comment =
     SUPPORTED_KEY_TYPE @ '' '' @ base64_encode (ssh_string (ascii_bytes SUPPORTED_KEY_TYPE) @ ssh_string pub) @ '' '' @ comment @ [newline]"

fun chunks :: "nat \<Rightarrow> 'a list \<Rightarrow> 'a list list" where
  "chunks n xs = (if n = 0 \<or> xs = [] then [] else take n xs # chunks n (drop n xs))"

declare chunks.simps [simp del]

definition sig_blob :: "bytes \<Rightarrow> bytes \<Rightarrow> bytes \<Rightarrow> bytes \<Rightarrow> bytes" where
  "sig_blob pub ns alg raw =
     MAGIC @ pack_be32 1 @ ssh_string (ssh_string (ascii_bytes SUPPORTED_KEY_TYPE) @ ssh_string pub)
     @ ssh_string ns @ ssh_string [] @ ssh_string alg @ ssh_string (ssh_string (ascii_bytes SUPPORTED_KEY_TYPE) @ ssh_string raw)"

definition armor :: "bytes \<Rightarrow> string" where
  "armor blob = armor_begin @ [newline] @ join [newline] (chunks 70 (base64_encode blob)) @ [newline] @ armor_end @ [newline]"

definition make_detached :: "hashes \<Rightarrow> bytes \<Rightarrow> bytes \<Rightarrow> string \<Rightarrow> string \<Rightarrow> string option" where
  "make_detached H seed message namespace hash_algorithm =
     (case (ed25519_keypair H seed, map_of (SUPPORTED_HASHES H) hash_algorithm) of
        (Some (_, pub), Some digest) \<Rightarrow>
          map_option (\<lambda>raw. armor (sig_blob pub (ascii_bytes namespace) (ascii_bytes hash_algorithm) raw))
            (ed25519_sign H seed
              (signed_bytes (ascii_bytes namespace) [] (ascii_bytes hash_algorithm) (digest message)))
      | _ \<Rightarrow> None)"

end
