(* ===== verification/SshsigProps.thy ===== *)
theory SshsigProps
  imports Sshsig
begin

unbundle bit_operations_syntax

section \<open>What a valid signature promises\<close>

text \<open>
  The wire format is unambiguous, a verified signature binds message, namespace, hash algorithm and
  trusted key, what \<^verbatim>\<open>make_detached\<close> writes is read back by \<^verbatim>\<open>verify_detached\<close>, and the integers of the
  signing code fit their encodings.  That the curve's addition is a group law is not shown: the theorems
  treat the equation that \<^verbatim>\<open>ed25519_verify\<close> evaluates as it is.
\<close>

abbreviation short :: "bytes \<Rightarrow> bool" where
  "short b \<equiv> length b < 2 ^ 32"

subsection \<open>Wire strings\<close>

lemma length_ssh_string [simp]: "length (ssh_string b) = 4 + length b"
  by (simp add: ssh_string_def)

lemma read_string_at:
  "short b \<Longrightarrow> read_string (pre @ ssh_string b @ rest) (length pre) = Some (b, length pre + 4 + length b)"
  by (simp add: read_string_def ssh_string_def Let_def)

lemma read_strings_at:
  "list_all short bs \<Longrightarrow> read_strings (length bs) (pre @ concat (map ssh_string bs) @ rest) (length pre) = Some bs"
proof (induction bs arbitrary: pre)
  case (Cons b bs)
  then have "read_strings (length bs) ((pre @ ssh_string b) @ concat (map ssh_string bs) @ rest) (length (pre @ ssh_string b)) = Some bs"
    by (intro Cons.IH) simp
  then show ?case using Cons.prems read_string_at [of b pre "concat (map ssh_string bs) @ rest"] by (simp add: add.assoc)
qed simp

lemma read_strings_2: "short a \<Longrightarrow> short b \<Longrightarrow> read_strings 2 (ssh_string a @ ssh_string b) 0 = Some [a, b]"
  using read_strings_at [of "[a, b]" "[]" "[]"] by (simp add: numeral_2_eq_2)

lemma concat_strings_inj:
  assumes "list_all short bs" "list_all short bs'" "length bs = length bs'"
    "concat (map ssh_string bs) = concat (map ssh_string bs')"
  shows "bs = bs'"
  using read_strings_at [OF assms(1), of "[]" "[]"] read_strings_at [OF assms(2), of "[]" "[]"] assms(3,4) by simp

text \<open>
  C24: the signed bytes are unambiguous: two signatures are over the same bytes only when namespace,
  reserved field, hash algorithm and digest are all the same.
\<close>

theorem signed_bytes_inj:
  assumes "list_all short [ns, res, alg, h]" "list_all short [ns', res', alg', h']"
  shows "signed_bytes ns res alg h = signed_bytes ns' res' alg' h' \<longleftrightarrow> ns = ns' \<and> res = res' \<and> alg = alg' \<and> h = h'"
  using concat_strings_inj [OF assms] by (auto simp: signed_bytes_def)

theorem signed_bytes_inj_witness:
  "list_all short [ascii_bytes ''aup'', [], ascii_bytes ''sha512'', [1, 2]]
   \<and> signed_bytes (ascii_bytes ''aup'') [] (ascii_bytes ''sha512'') [1, 2]
       \<noteq> signed_bytes (ascii_bytes ''git'') [] (ascii_bytes ''sha512'') [1, 2]"
proof -
  have s: "list_all short [ascii_bytes ''aup'', [], ascii_bytes ''sha512'', [1, 2]]"
    "list_all short [ascii_bytes ''git'', [], ascii_bytes ''sha512'', [1, 2]]" by simp_all
  have "ascii_bytes ''aup'' \<noteq> ascii_bytes ''git''" by (simp add: ascii_bytes_def)
  then show ?thesis using s signed_bytes_inj [OF s] by blast
qed

subsection \<open>Armor and keys\<close>

lemma concat_split_ws: "concat (split_ws s) = filter (\<lambda>c. \<not> is_space c) s"
proof -
  have "concat (split_ws_acc acc s) = rev acc @ filter (\<lambda>c. \<not> is_space c) s" for acc
    by (induction s arbitrary: acc) simp_all
  then show ?thesis by (simp add: split_ws_def)
qed

lemma is_space_newline [simp]: "is_space newline"
  by (simp add: is_space_def newline_def)

lemma filter_join_chunks:
  "n > 0 \<Longrightarrow> list_all (\<lambda>c. \<not> is_space c) s \<Longrightarrow> filter (\<lambda>c. \<not> is_space c) (join [newline] (chunks n s)) = s"
proof (induction n s rule: chunks.induct)
  case (1 n s)
  show ?case
  proof (cases "s = []")
    case False
    have t: "list_all (\<lambda>c. \<not> is_space c) (take n s)" "list_all (\<lambda>c. \<not> is_space c) (drop n s)"
      using 1(3) by (auto simp: list_all_iff dest: in_set_takeD in_set_dropD)
    have "filter (\<lambda>c. \<not> is_space c) (join [newline] (take n s # chunks n (drop n s)))
        = take n s @ filter (\<lambda>c. \<not> is_space c) (join [newline] (chunks n (drop n s)))"
      using t(1) by (cases "chunks n (drop n s)") (auto simp: list_all_iff filter_id_conv)
    with 1 False t show ?thesis by (subst chunks.simps) simp
  qed (simp add: chunks.simps)
qed

lemma set_join_chunks: "set (join [newline] (chunks n s)) \<subseteq> insert newline (set s)"
proof (induction n s rule: chunks.induct)
  case (1 n s)
  show ?case
  proof (cases "n = 0 \<or> s = []")
    case False
    have "set (join [newline] (take n s # chunks n (drop n s)))
        \<subseteq> set (take n s) \<union> insert newline (set (join [newline] (chunks n (drop n s))))"
      by (cases "chunks n (drop n s)") auto
    with 1 [OF False] False show ?thesis
      by (subst chunks.simps) (auto dest: in_set_takeD in_set_dropD)
  qed (simp add: chunks.simps)
qed

lemma startswith_refl [simp]: "startswith (p @ s) p"
  by (simp add: startswith_iff)

lemma after_sub_prefix: "p \<noteq> [] \<Longrightarrow> after_sub p (p @ s) = s"
  by (cases p) (simp_all add: after_sub.simps startswith_iff)

lemma before_sub_clean: "c \<notin> set s \<Longrightarrow> before_sub (c # p) (s @ (c # p) @ t) = s"
proof (induction s)
  case Nil
  then show ?case using startswith_refl [of "c # p" t] by (simp add: before_sub.simps)
next
  case (Cons d s)
  then show ?case by (auto simp: before_sub.simps startswith_iff)
qed

lemma contains_prefix: "contains (p @ s) p"
  using startswith_refl [of p s] by (cases "p @ s") (simp_all add: contains.simps)

lemma contains_append: "contains s p \<Longrightarrow> contains (t @ s) p"
  by (induction t) (simp_all add: contains.simps)

lemma armor_end_hd: "armor_end = CHR ''-'' # tl armor_end"
  by (simp add: armor_end_def)

lemma base64_encode_plain: "list_all (\<lambda>c. \<not> is_space c) (base64_encode blob)" "CHR ''-'' \<notin> set (base64_encode blob)"
  using base64_encode_text [of blob] by (auto simp: list_all_iff dest!: b64_text_plain)

lemma parse_armor [simp]: "parse_armored (armor blob) = Some blob"
proof -
  let ?body = "[newline] @ join [newline] (chunks 70 (base64_encode blob)) @ [newline]"
  have shape: "armor blob = armor_begin @ ?body @ armor_end @ [newline]" by (simp add: armor_def)
  have "contains (armor blob) armor_begin" unfolding shape by (rule contains_prefix)
  moreover have "contains (armor blob) armor_end"
    unfolding shape by (intro contains_append contains_prefix)
  moreover have "CHR ''-'' \<notin> set ?body"
    using set_join_chunks [of 70 "base64_encode blob"] base64_encode_plain(2) by (auto simp: newline_def)
  then have "before_sub armor_end (?body @ armor_end @ [newline]) = ?body"
    using before_sub_clean [of "CHR ''-''" ?body "tl armor_end" "[newline]"] armor_end_hd by simp
  moreover have "after_sub armor_begin (armor blob) = ?body @ armor_end @ [newline]"
    unfolding shape by (rule after_sub_prefix) (simp add: armor_begin_def)
  ultimately show ?thesis
    by (simp add: parse_armored_def concat_split_ws filter_join_chunks base64_encode_plain)
qed

lemma parse_public_key_line:
  assumes "short pub"
  shows "parse_public_key (public_key_line pub comment) = Some (SUPPORTED_KEY_TYPE, pub)"
proof -
  let ?blob = "ssh_string (ascii_bytes SUPPORTED_KEY_TYPE) @ ssh_string pub"
  have kt: "list_all (\<lambda>c. \<not> is_space c) SUPPORTED_KEY_TYPE" "SUPPORTED_KEY_TYPE \<noteq> []"
    by (simp_all add: SUPPORTED_KEY_TYPE_def is_space_def)
  have ne: "base64_encode ?blob \<noteq> []"
    using base64_decode_encode [of ?blob] by (auto simp: ssh_string_def pack_be32_def base64_decode_def)
  have "split_ws (public_key_line pub comment)
      = SUPPORTED_KEY_TYPE # base64_encode ?blob # split_ws (comment @ [newline])"
    using split_ws_word [OF kt, of "CHR '' ''"] split_ws_word [OF base64_encode_plain(1) ne, of "CHR '' ''"]
    by (simp add: public_key_line_def is_space_def)
  moreover have "read_string ?blob 0 = Some (ascii_bytes SUPPORTED_KEY_TYPE, 4 + length SUPPORTED_KEY_TYPE)"
    using read_string_at [of "ascii_bytes SUPPORTED_KEY_TYPE" "[]" "ssh_string pub"] by (simp add: SUPPORTED_KEY_TYPE_def)
  moreover have "read_string ?blob (4 + length SUPPORTED_KEY_TYPE) = Some (pub, 8 + length SUPPORTED_KEY_TYPE + length pub)"
    using read_string_at [OF assms, of "ssh_string (ascii_bytes SUPPORTED_KEY_TYPE)" "[]"] by simp
  ultimately show ?thesis by (simp add: parse_public_key_def)
qed

lemma read_strings_5: "read_strings 5 = read_strings (Suc (Suc (Suc (Suc (Suc 0)))))"
  by (simp add: numeral_eq_Suc)

lemma read_sig_blob:
  assumes "short pub" "short ns" "short alg" "short raw"
    "short (ssh_string (ascii_bytes SUPPORTED_KEY_TYPE) @ ssh_string pub)"
    "short (ssh_string (ascii_bytes SUPPORTED_KEY_TYPE) @ ssh_string raw)"
  shows "read_blob (sig_blob pub ns alg raw) =
    Some \<lparr>sf_version = 1, sf_key = ssh_string (ascii_bytes SUPPORTED_KEY_TYPE) @ ssh_string pub, sf_namespace = ns,
          sf_reserved = [], sf_hash = alg, sf_sig = ssh_string (ascii_bytes SUPPORTED_KEY_TYPE) @ ssh_string raw\<rparr>"
proof -
  let ?bs = "[ssh_string (ascii_bytes SUPPORTED_KEY_TYPE) @ ssh_string pub, ns, [], alg,
    ssh_string (ascii_bytes SUPPORTED_KEY_TYPE) @ ssh_string raw]"
  have "sig_blob pub ns alg raw = (MAGIC @ pack_be32 1) @ concat (map ssh_string ?bs) @ []"
    by (simp add: sig_blob_def)
  moreover from this have "read_strings 5 (sig_blob pub ns alg raw) (length MAGIC + 4) = Some ?bs"
    using read_strings_at [of ?bs "MAGIC @ pack_be32 1" "[]"] assms by (simp add: read_strings_5)
  ultimately show ?thesis by (simp add: read_blob_def)
qed

subsection \<open>Bounds\<close>

lemma ed_P_pos: "0 < ed_P" "ed_P < 2 ^ 255"
  by (simp_all add: ed_P_def)

lemma encode_point_Some: "\<exists>b. encode_point p = Some b"
proof -
  obtain x y z w where p: "p = (x, y, z, w)" by (cases p)
  define x' y' where "x' = x * pow_mod z (ed_P - 2) ed_P mod ed_P" and "y' = y * pow_mod z (ed_P - 2) ed_P mod ed_P"
  have y: "0 \<le> y'" "y' < 2 ^ 256"
    using pos_mod_sign [OF ed_P_pos(1)] pos_mod_bound [OF ed_P_pos(1), of "y * pow_mod z (ed_P - 2) ed_P"] ed_P_pos(2)
    unfolding y'_def by simp_all
  have b: "0 \<le> push_bit 255 (x' AND 1)" "push_bit 255 (x' AND 1) < 2 ^ 256"
    by (simp_all add: push_bit_eq_mult and_one_eq)
  have "y' OR push_bit 255 (x' AND 1) < 2 ^ 256" by (rule OR_upper [OF y(1) y(2) b(2)])
  then have "nat (y' OR push_bit 255 (x' AND 1)) < 256 ^ 32" by simp
  then show ?thesis by (simp add: p encode_point_def Let_def x'_def y'_def to_little_def)
qed

lemma encode_point_length: "encode_point p = Some b \<Longrightarrow> length b = 32"
  by (cases p) (auto simp: encode_point_def Let_def dest: to_little_Some)

lemma ed_L_bound: "0 < nat ed_L" "nat ed_L < 256 ^ 32"
  by (simp_all add: ed_L_def)

lemma keypair_Some: "(\<exists>pub. ed25519_keypair H seed = Some (seed, pub) \<and> length pub = 32) \<longleftrightarrow> length seed = 32 \<and> ed_B \<noteq> None"
proof (cases ed_B)
  case (Some b)
  obtain pub where "encode_point (scalar_mul b (secret_scalar H seed)) = Some pub" using encode_point_Some by blast
  then show ?thesis using encode_point_length by (auto simp: ed25519_keypair_def Some)
qed (simp add: ed25519_keypair_def)

lemma sign_Some:
  assumes "length seed = 32" "ed_B \<noteq> None"
  obtains sig where "ed25519_sign H seed m = Some sig" "length sig = 64" "int (from_little (drop 32 sig)) < ed_L"
proof -
  obtain pub where pub: "ed25519_keypair H seed = Some (seed, pub)" using keypair_Some assms by blast
  obtain b where b: "ed_B = Some b" using assms(2) by blast
  define r where "r = from_little (hs_sha512 H (drop 32 (clamp (hs_sha512 H seed)) @ m)) mod nat ed_L"
  obtain rb where rb: "encode_point (scalar_mul b r) = Some rb" using encode_point_Some by blast
  define s where "s = (r + from_little (hs_sha512 H (rb @ pub @ m)) mod nat ed_L * secret_scalar H seed) mod nat ed_L"
  have s: "s < nat ed_L" using ed_L_bound(1) by (simp add: s_def)
  then have "to_little 32 s = Some (little_digits 32 s)" "from_little (little_digits 32 s) = s"
    using ed_L_bound(2) by (simp_all add: to_little_def from_little_digits)
  then have "ed25519_sign H seed m = Some (rb @ little_digits 32 s)"
    by (simp add: ed25519_sign_def pub b Let_def r_def [symmetric] rb s_def [symmetric])
  then show thesis
    using that encode_point_length [OF rb] s \<open>from_little (little_digits 32 s) = s\<close> by simp
qed

text \<open>
  C25: the integers of the signing code fit their encodings.  With a base point, signing fails exactly for
  a seed that is not 32 bytes long (no conversion to bytes overflows), and a signature has 64 bytes whose
  second half is a canonical scalar below the order of the group, as the verifier demands.
\<close>

theorem ed25519_sign_bounds:
  "(ed25519_sign H seed message \<noteq> None) = (length seed = 32 \<and> ed_B \<noteq> None)
   \<and> (case ed25519_sign H seed message of
        None \<Rightarrow> True | Some sig \<Rightarrow> length sig = 64 \<and> int (from_little (drop 32 sig)) < ed_L)"
proof (cases "length seed = 32 \<and> ed_B \<noteq> None")
  case True
  then obtain sig where "ed25519_sign H seed message = Some sig" "length sig = 64" "int (from_little (drop 32 sig)) < ed_L"
    using sign_Some [of seed H message] by blast
  with True show ?thesis by simp
next
  case False
  then have "ed25519_sign H seed message = None"
    by (auto simp: ed25519_sign_def ed25519_keypair_def split: option.splits)
  with False show ?thesis by simp
qed

subsection \<open>A point with two encodings\<close>

lemma from_little_zeros: "from_little (replicate n 0 @ b) = 256 ^ n * from_little b"
  by (induction n) simp_all

text \<open>
  the decoder accepts an encoding that RFC 8032 refuses.  The neutral point has x = 0; with the sign
  bit set its encoding must be rejected (section 5.1.3, step 4), but \<^verbatim>\<open>_recover_x\<close> then answers p itself, so
  the 32 bytes of 1 decode with either sign bit and the two points are equal.
\<close>

lemma decode_point_accepts_signed_zero:
  "\<exists>p q. decode_point (1 # replicate 30 0 @ [0]) = Some p \<and> decode_point (1 # replicate 30 0 @ [128]) = Some q
     \<and> point_equal p q"
proof -
  have "nat ((ed_P + 3) div 8) \<noteq> 0" by (simp add: ed_P_def)
  then have z: "pow_mod 0 ((ed_P + 3) div 8) ed_P = 0" unfolding pow_mod_def by (simp only: power_0_left if_False mod_0)
  have p: "\<not> 1 \<ge> ed_P" by (simp add: ed_P_def)
  have x: "recover_x 1 0 = Some 0" "recover_x 1 1 = Some ed_P"
    unfolding recover_x_def Let_def using p by (simp_all add: z)
  have "from_little (1 # replicate 30 0 @ [0]) = 1" "from_little (1 # replicate 30 0 @ [128]) = 1 + 2 ^ 255"
    by (simp_all add: from_little_zeros)
  then have "decode_point (1 # replicate 30 0 @ [0]) = Some (0, 1, 1, 0)"
    "decode_point (1 # replicate 30 0 @ [128]) = Some (ed_P, 1, 1, 0)"
    using x by (simp_all add: decode_point_def Let_def)
  then show ?thesis by (simp add: ed_P_def)
qed

subsection \<open>Verification\<close>

lemma decode_replace_eq: "decode_replace b = s \<longleftrightarrow> b = ascii_bytes s"
  using ascii_bytes_decode by auto

lemma ascii_eq: "b = ascii_bytes s \<longleftrightarrow> decode_replace b = s"
  by (simp add: decode_replace_eq)

lemma read_strings_length: "read_strings k buf off = Some bs \<Longrightarrow> length bs = k"
  by (induction k buf off arbitrary: bs rule: read_strings.induct) (auto split: option.splits)

lemma read_strings_pair: "read_strings 2 buf off \<noteq> None \<Longrightarrow> \<exists>a b. read_strings 2 buf off = Some [a, b]"
  using read_strings_length [of 2 buf off] by (fastforce simp: numeral_2_eq_2 length_Suc_conv)

lemma check_key_valid:
  "fst (check_key H m line f digest a raw d) \<longleftrightarrow>
     parse_public_key line = Some (SUPPORTED_KEY_TYPE, a)
     \<and> ed25519_verify H a (signed_bytes (sf_namespace f) (sf_reserved f) (sf_hash f) (digest m)) raw"
  by (auto simp: check_key_def Let_def split: option.splits)

lemma check_fields_valid:
  "fst (check_fields_of_sig H m line ns f) \<longleftrightarrow>
     (\<exists>alg digest a raw. sf_namespace f = ascii_bytes ns \<and> sf_hash f = ascii_bytes alg
        \<and> map_of (SUPPORTED_HASHES H) alg = Some digest
        \<and> read_strings 2 (sf_key f) 0 = Some [ascii_bytes SUPPORTED_KEY_TYPE, a]
        \<and> read_strings 2 (sf_sig f) 0 = Some [ascii_bytes SUPPORTED_KEY_TYPE, raw]
        \<and> fst (check_key H m line f digest a raw no_details))"
proof (cases "decode_replace (sf_namespace f) = ns \<and> map_of (SUPPORTED_HASHES H) (decode_replace (sf_hash f)) \<noteq> None
    \<and> read_strings 2 (sf_key f) 0 \<noteq> None \<and> read_strings 2 (sf_sig f) 0 \<noteq> None")
  case True
  then obtain digest kt a kt' raw where *: "map_of (SUPPORTED_HASHES H) (decode_replace (sf_hash f)) = Some digest"
      "read_strings 2 (sf_key f) 0 = Some [kt, a]" "read_strings 2 (sf_sig f) 0 = Some [kt', raw]"
    using read_strings_pair by blast
  then show ?thesis
    using True unfolding check_fields_of_sig_def Let_def
    by (simp add: check_key_valid ascii_eq) blast
next
  case False
  then have "\<not> fst (check_fields_of_sig H m line ns f)"
    unfolding check_fields_of_sig_def Let_def by (auto split: option.split list.split)
  with False show ?thesis by (auto simp: ascii_eq)
qed

text \<open>
  C7: when the gate accepts.  \<^verbatim>\<open>verify_detached\<close> answers true exactly when the armored text holds a version-1
  blob made for the expected namespace with a supported hash, whose key and signature are both of type
  ssh-ed25519, whose key is the trusted key, and whose raw signature verifies under the trusted key over
  the bytes that bind namespace, hash algorithm and the digest of this message.
\<close>

theorem verify_detached_iff:
  "fst (verify_detached H message armored line ns) \<longleftrightarrow>
     (\<exists>blob f alg digest a raw.
        parse_armored armored = Some blob \<and> read_blob blob = Some f \<and> sf_version f = 1
        \<and> sf_namespace f = ascii_bytes ns \<and> sf_hash f = ascii_bytes alg \<and> map_of (SUPPORTED_HASHES H) alg = Some digest
        \<and> read_strings 2 (sf_key f) 0 = Some [ascii_bytes SUPPORTED_KEY_TYPE, a]
        \<and> read_strings 2 (sf_sig f) 0 = Some [ascii_bytes SUPPORTED_KEY_TYPE, raw]
        \<and> parse_public_key line = Some (SUPPORTED_KEY_TYPE, a)
        \<and> ed25519_verify H a (signed_bytes (ascii_bytes ns) (sf_reserved f) (ascii_bytes alg) (digest message)) raw)"
proof (cases "parse_armored armored")
  case (Some blob)
  then show ?thesis
  proof (cases "read_blob blob")
    case (Some f)
    with \<open>parse_armored armored = Some blob\<close> show ?thesis
      by (cases "sf_version f = 1") (fastforce simp: verify_detached_def check_fields_valid check_key_valid)+
  qed (simp add: verify_detached_def)
qed (simp add: verify_detached_def)

subsection \<open>Round trip\<close>

lemma short_32: "length b = 32 \<Longrightarrow> short b" "length b = 64 \<Longrightarrow> short b"
  by simp_all

lemma make_verify:
  assumes "length seed = 32" "ed_B \<noteq> None" "map_of (SUPPORTED_HASHES H) alg = Some digest" "length ns < 2 ^ 32"
  shows "\<exists>pub raw txt.
     ed25519_keypair H seed = Some (seed, pub) \<and> make_detached H seed message ns alg = Some txt
     \<and> ed25519_sign H seed (signed_bytes (ascii_bytes ns) [] (ascii_bytes alg) (digest message)) = Some raw
     \<and> (let result = verify_detached H message txt (public_key_line pub comment) ns;
             holds = ed25519_verify H pub (signed_bytes (ascii_bytes ns) [] (ascii_bytes alg) (digest message)) raw
         in fst result = holds \<and> fst (snd result) = (if holds then SIGNATURE_VALID else SIGNATURE_INVALID))"
proof -
  obtain pub where pub: "ed25519_keypair H seed = Some (seed, pub)" "length pub = 32"
    using keypair_Some assms(1,2) by blast
  let ?signed = "signed_bytes (ascii_bytes ns) [] (ascii_bytes alg) (digest message)"
  obtain raw where raw: "ed25519_sign H seed ?signed = Some raw" "length raw = 64"
    using sign_Some [OF assms(1,2)] by metis
  have alg: "length alg < 2 ^ 32" using assms(3) by (auto simp: SUPPORTED_HASHES_def split: if_splits)
  let ?blob = "sig_blob pub (ascii_bytes ns) (ascii_bytes alg) raw"
  have mk: "make_detached H seed message ns alg = Some (armor ?blob)"
    by (simp add: make_detached_def pub raw assms(3))
  have rd: "read_blob ?blob =
    Some \<lparr>sf_version = 1, sf_key = ssh_string (ascii_bytes SUPPORTED_KEY_TYPE) @ ssh_string pub, sf_namespace = ascii_bytes ns,
          sf_reserved = [], sf_hash = ascii_bytes alg, sf_sig = ssh_string (ascii_bytes SUPPORTED_KEY_TYPE) @ ssh_string raw\<rparr>"
    by (rule read_sig_blob) (use pub raw assms(4) alg in \<open>simp_all add: SUPPORTED_KEY_TYPE_def\<close>)
  have two: "read_strings 2 (ssh_string (ascii_bytes SUPPORTED_KEY_TYPE) @ ssh_string b) 0 = Some [ascii_bytes SUPPORTED_KEY_TYPE, b]"
    if "short b" for b
    by (rule read_strings_2) (use that in \<open>simp_all add: SUPPORTED_KEY_TYPE_def\<close>)
  have key: "parse_public_key (public_key_line pub comment) = Some (SUPPORTED_KEY_TYPE, pub)"
    by (rule parse_public_key_line) (simp add: pub)
  show ?thesis
    by (rule exI [of _ pub], rule exI [of _ raw], rule exI [of _ "armor ?blob"])
      (simp add: mk pub raw verify_detached_def rd check_fields_of_sig_def assms(3) two check_key_def key Let_def)
qed

text \<open>
  C23: what \<^verbatim>\<open>make_detached\<close> writes, \<^verbatim>\<open>verify_detached\<close> reads back.  For a seed that has a key pair and
  a supported hash a signature is written; with the public key line of the seed the verifier recovers every
  field and its answer is that of the Ed25519 equation over the bytes that were signed: valid or invalid,
  never malformed or refused.  Otherwise nothing is written.
\<close>

theorem make_verify_detached:
  "if length ns < 2 ^ 32 then
     (case (ed25519_keypair H seed, map_of (SUPPORTED_HASHES H) alg) of
        (Some (_, pub), Some digest) \<Rightarrow>
          (\<exists>raw txt. make_detached H seed message ns alg = Some txt
             \<and> ed25519_sign H seed (signed_bytes (ascii_bytes ns) [] (ascii_bytes alg) (digest message)) = Some raw
             \<and> (let result = verify_detached H message txt (public_key_line pub comment) ns;
                     holds = ed25519_verify H pub (signed_bytes (ascii_bytes ns) [] (ascii_bytes alg) (digest message)) raw
                 in fst result = holds \<and> fst (snd result) = (if holds then SIGNATURE_VALID else SIGNATURE_INVALID)))
      | _ \<Rightarrow> make_detached H seed message ns alg = None)
   else True"
proof (cases "length ns < 2 ^ 32 \<and> ed25519_keypair H seed \<noteq> None \<and> map_of (SUPPORTED_HASHES H) alg \<noteq> None")
  case True
  then obtain s pub digest where k: "ed25519_keypair H seed = Some (s, pub)" "map_of (SUPPORTED_HASHES H) alg = Some digest"
    by auto
  then have "length seed = 32" "ed_B \<noteq> None" by (auto simp: ed25519_keypair_def split: if_splits option.splits)
  from make_verify [OF this k(2), of ns message comment] True k show ?thesis by auto
next
  case False
  then show ?thesis by (auto simp: make_detached_def split: option.split prod.split)
qed

end
