(* ===== verification/ImpactPair.thy ===== *)
theory ImpactPair
  imports ImpactQueryProps SchemaArms
begin

section \<open>Impact over both revisions of a change\<close>

text \<open>
  \<^verbatim>\<open>tools/graph/impact_pair.py\<close>: the impact query is run on the graph of the base and on the graph of the
  head, and the two results are merged into one document whose rows keep every revision's path.  The rows
  are the typed entries of \<open>ImpactQuery\<close>; \<open>entry_json\<close> gives the shape that the rules of
  \<^verbatim>\<open>schema_check.py\<close> read.

  Arguments of the model: \<open>ls_tree\<close>, what \<^verbatim>\<open>git ls-tree -z\<close> prints (\<^verbatim>\<open>None\<close> for a failing process);
  \<open>opcodes\<close>, the answer of \<^verbatim>\<open>difflib.SequenceMatcher.get_opcodes\<close> (nothing is assumed of it); and
  \<open>obligations\<close>, what \<^verbatim>\<open>selected_dependency.paired_obligations\<close> returns when a node carries selected
  dependencies (\<^verbatim>\<open>None\<close> when none does).
\<close>

subsection \<open>Selection\<close>

definition hop_json :: "hop \<Rightarrow> json" where
  "hop_json h = JObj [(''via'', opt_json (h_via h))]"

definition entry_json :: "impact_entry \<Rightarrow> json" where
  "entry_json e =
     JObj [(''entity'', JStr (en_entity e)), (''node_type'', JStr (en_node_type e)),
           (''path'', JArr (map hop_json (en_path e)))]"

definition query_rows :: "impact_query \<Rightarrow> impact_entry list" where
  "query_rows q = is_entries (q_impact_set q)"

definition triggered :: "impact_query \<Rightarrow> bool" where
  "triggered q \<longleftrightarrow> is_fallback_files (q_impact_set q) \<noteq> None"

definition query_fallback_units :: "impact_query \<Rightarrow> exc + string list" where
  "query_fallback_units q = fallback_units (map entry_json (query_rows q))"

definition selected :: "impact_query \<Rightarrow> exc + string list" where
  "selected q =
     (if triggered q
      then bindE (query_fallback_units q) (\<lambda>us.
             Inr (remdups (q_seeds q @ us @ map str_of (traversal_entities (map entry_json (query_rows q))))))
      else Inr (remdups (q_seeds q @ map en_entity (query_rows q))))"

subsection \<open>Merging the revisions\<close>

datatype part = Core | Tail

type_synonym row = "string \<times> part \<times> impact_entry"

definition section_rows :: "string \<times> impact_query \<Rightarrow> row list" where
  "section_rows v =
     (case v of (role, q) \<Rightarrow>
        map (\<lambda>e. (role, Core, e)) (is_deterministic_core (q_impact_set q))
        @ map (\<lambda>e. (role, Tail, e)) (is_inferred_tail (q_impact_set q)))"

definition row_entity :: "row \<Rightarrow> string" where
  "row_entity r = en_entity (snd (snd r))"

definition version_rows :: "(string \<times> impact_query) list \<Rightarrow> row list" where
  "version_rows versions = concat (map section_rows versions)"

text \<open>\<^verbatim>\<open>entries\<close>: the rows of each entity, in the order of the versions.\<close>

definition entries_of :: "(string \<times> impact_query) list \<Rightarrow> (string \<times> row list) list" where
  "entries_of versions = group_by row_entity (version_rows versions)"

definition row_key :: "row \<Rightarrow> bool \<times> bool" where
  "row_key r = (fst (snd r) = Tail, en_boundary (snd (snd r)) \<in> {''repo'', ''service''})"

text \<open>\<^verbatim>\<open>max(paths, key=\<dots>)\<close>: the first row of the greatest key.\<close>

definition max_row :: "row \<Rightarrow> row list \<Rightarrow> row" where
  "max_row r rs = foldl (\<lambda>best s. if row_key s > row_key best then s else best) r rs"

datatype revision_record = Revisions "string list" | RevisionPaths "row list"

record merged_entry =
  me_entry :: impact_entry
  me_record :: revision_record

definition merge_rows :: "row \<Rightarrow> row list \<Rightarrow> part \<times> merged_entry" where
  "merge_rows p ps =
     (case max_row p ps of (role, s, chosen) \<Rightarrow>
        (s, \<lparr>me_entry = chosen,
             me_record = (if list_all (\<lambda>(_, s', e). s' = s \<and> e = chosen) (p # ps)
                          then Revisions (map fst (p # ps)) else RevisionPaths (p # ps))\<rparr>))"

definition merge_revisions :: "(string \<times> impact_query) list \<Rightarrow> (part \<times> merged_entry) list" where
  "merge_revisions versions =
     concat (map (\<lambda>(_, paths). case paths of [] \<Rightarrow> [] | p # ps \<Rightarrow> [merge_rows p ps])
       (sort_key fst (entries_of versions)))"

definition in_part :: "part \<Rightarrow> (part \<times> merged_entry) list \<Rightarrow> merged_entry list" where
  "in_part s ms = map snd (filter (\<lambda>m. fst m = s) ms)"

subsection \<open>Obligations of selected dependencies\<close>

definition row_part :: "impact_entry \<Rightarrow> part" where
  "row_part e = (if list_ex (\<lambda>h. h_provenance h \<noteq> ''deterministic'') (en_path e) then Tail else Core)"

definition note_reached :: "impact_entry \<Rightarrow> (string \<times> part \<times> impact_entry) list \<Rightarrow> (string \<times> part \<times> impact_entry) list" where
  "note_reached e m =
     (case map_of m (en_entity e) of
        None \<Rightarrow> AList.update (en_entity e) (row_part e, e) m
      | Some (s, _) \<Rightarrow> if row_part e = Tail \<and> s \<noteq> Tail then AList.update (en_entity e) (Tail, e) m else m)"

definition seed_row :: "graph_index \<Rightarrow> string \<Rightarrow> impact_entry" where
  "seed_row idx seed =
     \<lparr>en_entity = seed, en_node_type = (case map_of (idx_nodes idx) seed of Some n \<Rightarrow> n_type n | None \<Rightarrow> []), en_depth = 0,
      en_boundary = ''intra_unit'', en_path = [], en_verifier_hint = ''native-selected-dependency''\<rparr>"

definition note_seed :: "graph_index \<Rightarrow> string \<Rightarrow> (string \<times> part \<times> impact_entry) list \<Rightarrow> (string \<times> part \<times> impact_entry) list" where
  "note_seed idx seed m = (if map_of m seed = None then AList.update seed (Core, seed_row idx seed) m else m)"

definition note_row :: "part \<Rightarrow> impact_entry \<Rightarrow> (string \<times> part \<times> impact_entry) list \<Rightarrow> (string \<times> part \<times> impact_entry) list" where
  "note_row s e m = AList.update (en_entity e) (s, e) m"

definition dependency_entries ::
  "graph_index \<Rightarrow> impact_query \<Rightarrow> string list \<Rightarrow> impact_entry list \<Rightarrow> (string \<times> part \<times> impact_entry) list" where
  "dependency_entries idx q seeds reached =
     fold (note_seed idx) (sort seeds)
       (fold note_reached reached
         (fold (note_row Tail) (is_inferred_tail (q_impact_set q))
           (fold (note_row Core) (is_deterministic_core (q_impact_set q)) [])))"

text \<open>The traversals from each seed alone; \<^verbatim>\<open>None\<close> is fuel that is spent, an exception passes through.\<close>

fun reach_all ::
  "graph_index \<Rightarrow> nat option \<Rightarrow> string list option \<Rightarrow> string list \<Rightarrow> (exc + impact_entry list) option" where
  "reach_all idx max_depth et [] = Some (Inr [])"
| "reach_all idx max_depth et (s # ss) =
     (case traverse idx [s] max_depth et RULES [] of
        None \<Rightarrow> None
      | Some (Inl x) \<Rightarrow> Some (Inl x)
      | Some (Inr es) \<Rightarrow>
          map_option (\<lambda>r. bindE r (\<lambda>es'. Inr (es @ es'))) (reach_all idx max_depth et ss))"

definition with_entries :: "impact_query \<Rightarrow> string list \<Rightarrow> (string \<times> part \<times> impact_entry) list \<Rightarrow> impact_query" where
  "with_entries q seeds m =
     (let rows = map snd (sort_key fst m)
      in q\<lparr>q_impact_set := (q_impact_set q)\<lparr>is_deterministic_core := map snd (filter (\<lambda>r. fst r = Core) rows),
                                           is_inferred_tail := map snd (filter (\<lambda>r. fst r = Tail) rows)\<rparr>,
           q_seeds := sorted_set (q_seeds q @ seeds)\<rparr>)"

definition selected_dependency_impact ::
  "graph_index \<Rightarrow> impact_query \<Rightarrow> string list \<Rightarrow> nat option \<Rightarrow> string list option \<Rightarrow> (gexc + impact_query) option" where
  "selected_dependency_impact idx q seeds max_depth et =
     (if seeds = [] then Some (Inr q)
      else if \<not> set seeds \<subseteq> fst ` set (idx_nodes idx)
      then Some (Inl (Refuse ''SELECTED_SOURCE_NOT_MEASURED''
             [(''entities'', JArr (map JStr (sort (filter (\<lambda>s. s \<notin> fst ` set (idx_nodes idx)) seeds))))]))
      else map_option
             (\<lambda>r. case r of Inl x \<Rightarrow> Inl (Exc x)
                   | Inr reached \<Rightarrow> Inr (with_entries q seeds (dependency_entries idx q seeds reached)))
             (reach_all idx max_depth et (sort seeds)))"

subsection \<open>Empty keys of the root environment example\<close>

definition key_start :: "char \<Rightarrow> bool" where
  "key_start c \<longleftrightarrow> letter c \<or> c = CHR ''_''"

definition key_char :: "char \<Rightarrow> bool" where
  "key_char c \<longleftrightarrow> key_start c \<or> is_digit c"

text \<open>\<^verbatim>\<open>^[A-Za-z_][A-Za-z0-9_]*=\<close>, the key of a matching line.\<close>

definition env_assignment :: "string \<Rightarrow> string option" where
  "env_assignment line =
     (let (k, rest) = (takeWhile key_char line, dropWhile key_char line)
      in if k \<noteq> [] \<and> key_start (hd k) \<and> startswith rest ''='' then Some k else None)"

text \<open>\<^verbatim>\<open>([A-Za-z_][A-Za-z0-9_]*)=\n?\Z\<close> on a whole line: a key with an empty value.\<close>

definition env_key_line :: "string \<Rightarrow> string option" where
  "env_key_line line =
     (case env_assignment line of
        None \<Rightarrow> None
      | Some k \<Rightarrow> if line = k @ ''='' \<or> line = k @ ''='' @ [newline] then Some k else None)"

text \<open>\<^verbatim>\<open>splitlines(keepends=True)\<close> of ASCII text; a text with a carriage return is refused before its lines are used.\<close>

fun split_keepends :: "string \<Rightarrow> string \<Rightarrow> string list" where
  "split_keepends acc [] = (if acc = [] then [] else [rev acc])"
| "split_keepends acc (c # s) =
     (if is_line_end c then rev (c # acc) # split_keepends [] s else split_keepends (c # acc) s)"

definition strip_newline :: "string \<Rightarrow> string" where
  "strip_newline line = (if endswith line [newline] then butlast line else line)"

definition assigned_keys :: "string list \<Rightarrow> string list" where
  "assigned_keys ls = concat (map (\<lambda>l. case env_assignment (strip_newline l) of None \<Rightarrow> [] | Some k \<Rightarrow> [k]) ls)"

record opcode =
  oc_equal :: bool
  oc_i1 :: nat
  oc_i2 :: nat
  oc_j1 :: nat
  oc_j2 :: nat

definition span :: "nat \<Rightarrow> nat \<Rightarrow> 'a list \<Rightarrow> 'a list" where
  "span i j xs = take (j - i) (drop i xs)"

definition changed_lines :: "(opcode \<Rightarrow> nat \<times> nat) \<Rightarrow> opcode list \<Rightarrow> string list \<Rightarrow> string list" where
  "changed_lines rng ops ls =
     concat (map (\<lambda>op. case rng op of (i, j) \<Rightarrow> span i j ls) (filter (\<lambda>op. \<not> oc_equal op) ops))"

definition keys_of_lines :: "string list \<Rightarrow> string list option" where
  "keys_of_lines ls =
     (if list_all (\<lambda>l. env_key_line l \<noteq> None) ls
      then Some (concat (map (\<lambda>l. case env_key_line l of None \<Rightarrow> [] | Some k \<Rightarrow> [k]) ls)) else None)"

text \<open>The decision on the texts of the file at base and head.\<close>

definition env_text_delta ::
  "(string list \<Rightarrow> string list \<Rightarrow> opcode list) \<Rightarrow> string \<Rightarrow> string \<Rightarrow> string list option" where
  "env_text_delta opcodes old new =
     (let ol = split_keepends [] old; nl = split_keepends [] new; ok = assigned_keys ol; nk = assigned_keys nl;
          ops = opcodes ol nl
      in if CHR 0x0D \<in> set old \<or> CHR 0x0D \<in> set new then None
         else if \<not> distinct ok \<or> \<not> distinct nk then None
         else case (keys_of_lines (changed_lines (\<lambda>op. (oc_i1 op, oc_i2 op)) ops ol),
                    keys_of_lines (changed_lines (\<lambda>op. (oc_j1 op, oc_j2 op)) ops nl)) of
                (Some removed, Some added) \<Rightarrow>
                  if removed = [] \<and> added = [] then None
                  else if set removed \<inter> set added \<noteq> {} then None
                  else if set removed \<noteq> set ok - set nk \<or> set added \<noteq> set nk - set ok then None
                  else Some (sorted_set (removed @ added))
              | _ \<Rightarrow> None)"

definition ENV_EXAMPLE :: string where
  "ENV_EXAMPLE = ''.env.example''"

text \<open>The mode in the first record that \<^verbatim>\<open>git ls-tree -z\<close> prints.\<close>

definition regular_at :: "(string \<Rightarrow> string \<Rightarrow> string option) \<Rightarrow> string \<Rightarrow> string \<Rightarrow> bool" where
  "regular_at ls_tree git_path rv =
     (case ls_tree rv git_path of
        None \<Rightarrow> False
      | Some out \<Rightarrow>
          (case filter (\<lambda>r. r \<noteq> []) (split_on nul out) of
             [] \<Rightarrow> False
           | r # _ \<Rightarrow> fst (partition_char (CHR '' '') r) \<in> {''100644'', ''100755''}))"

definition read_text_at :: "repo \<Rightarrow> string \<Rightarrow> string \<Rightarrow> gexc + string option" where
  "read_text_at r rv p =
     bindE (read_at (r_cat_file r) (r_prefix r) rv [p]) (\<lambda>res.
       Inr (case map_of res p of Some b \<Rightarrow> b | None \<Rightarrow> None))"

definition env_example_key_delta ::
  "(string \<Rightarrow> string \<Rightarrow> string option) \<Rightarrow> (string list \<Rightarrow> string list \<Rightarrow> opcode list) \<Rightarrow> repo \<Rightarrow> string \<Rightarrow> string
     \<Rightarrow> changed_file list \<Rightarrow> gexc + string list option" where
  "env_example_key_delta ls_tree opcodes r base head files =
     (case filter (\<lambda>f. f_path f = ENV_EXAMPLE) files of
        [f] \<Rightarrow>
          if f_status f \<noteq> ''M'' then Inr None
          else if \<not> list_all (regular_at ls_tree (r_prefix r @ ENV_EXAMPLE)) [base, head] then Inr None
          else bindE (read_text_at r base ENV_EXAMPLE) (\<lambda>old.
                 bindE (read_text_at r head ENV_EXAMPLE) (\<lambda>new.
                   Inr (case (old, new) of (Some a, Some b) \<Rightarrow> env_text_delta opcodes a b | _ \<Rightarrow> None)))
      | _ \<Rightarrow> Inr None)"

subsection \<open>The paired query\<close>

record pair_args =
  pa_repo :: repo
  pa_base :: string
  pa_head :: string
  pa_tree_commit :: string
  pa_tree_dirty :: bool
  pa_max_depth :: "nat option"
  pa_edge_types :: "string list option"
  pa_graph_path :: "string option"
  pa_head_graph_path :: "string option"

definition args_of :: "pair_args \<Rightarrow> string \<Rightarrow> string option \<Rightarrow> query_args" where
  "args_of a role graph_path =
     \<lparr>qa_mode = ''diff'', qa_base = Some (pa_base a), qa_head = Some (pa_head a), qa_tree_commit = pa_tree_commit a,
      qa_tree_dirty = pa_tree_dirty a, qa_repo = Some (pa_repo a), qa_reader = None, qa_max_depth = pa_max_depth a,
      qa_edge_types = pa_edge_types a, qa_rules = RULES, qa_graph_path = graph_path, qa_graph_role = role\<rparr>"

definition config_keys_known :: "graph_index \<Rightarrow> graph_index \<Rightarrow> string list \<Rightarrow> bool" where
  "config_keys_known base_idx head_idx keys \<longleftrightarrow>
     list_all (\<lambda>k. ''config_key:'' @ k \<in> fst ` set (idx_nodes base_idx) \<union> fst ` set (idx_nodes head_idx)) keys"

definition query_files :: "graph_index \<Rightarrow> graph_index \<Rightarrow> string list option \<Rightarrow> changed_file list \<Rightarrow> changed_file list" where
  "query_files base_idx head_idx env_keys files =
     (case env_keys of
        Some ks \<Rightarrow>
          if config_keys_known base_idx head_idx ks
          then map (\<lambda>f. if f_path f = ENV_EXAMPLE then f\<lparr>f_config_schema_keys := Some (sort ks)\<rparr> else f) files
          else files
      | None \<Rightarrow> files)"

definition head_files_of :: "changed_file list \<Rightarrow> changed_file list" where
  "head_files_of fs = filter (\<lambda>f. f_status f \<notin> {''D'', ''R''}) fs"

fun update_first :: "('a \<Rightarrow> bool) \<Rightarrow> ('a \<Rightarrow> 'a) \<Rightarrow> 'a list \<Rightarrow> 'a list" where
  "update_first P g [] = []"
| "update_first P g (x # xs) = (if P x then g x # xs else x # update_first P g xs)"

text \<open>\<^verbatim>\<open>base_files[f["path"]]\<close> is the last entry of that path.\<close>

definition merge_file :: "change_entry \<Rightarrow> change_entry list \<Rightarrow> change_entry list" where
  "merge_file f files =
     rev (update_first (\<lambda>d. ce_path d = ce_path f)
       (\<lambda>d. let ids = sorted_set (ce_node_ids d @ ce_node_ids f)
             in case ids of
                  [] \<Rightarrow> d
                | i # _ \<Rightarrow> d\<lparr>ce_node_ids := ids,
                             ce_node_id := Some (case filter (\<lambda>i. startswith i ''code_unit:'') ids of [] \<Rightarrow> i | c # _ \<Rightarrow> c),
                             ce_new := False, ce_uncovered := False\<rparr>)
       (rev files))"

definition SOURCE_EXTS :: "string list" where
  "SOURCE_EXTS = CODE_EXTS @ [''.prisma'', ''.py'', ''.rs'', ''.go'', ''.java'', ''.kt'', ''.cs'', ''.c'', ''.cpp'', ''.h'']"

definition unmeasured_head :: "graph_index \<Rightarrow> changed_file list \<Rightarrow> string list" where
  "unmeasured_head head_idx head_files =
     sort (map f_path (filter (\<lambda>f. lower (ext_of (f_path f)) \<in> set SOURCE_EXTS \<and> path_nodes head_idx (f_path f) RULES = []) head_files))"

record revision_metadata =
  rm_source_commit :: json
  rm_graph_digest :: json
  rm_extractors :: json
  rm_language_coverage :: json
  rm_seeds :: "string list"
  rm_internal :: nat
  rm_external :: nat
  rm_files :: "change_entry list"

definition empty_revision_metadata :: "graph_index \<Rightarrow> impact_query \<Rightarrow> revision_metadata" where
  "empty_revision_metadata idx q =
     (let seeds = sorted_set (q_seeds q);
          edges = concat (map (\<lambda>s. filter (\<lambda>e. e_type e \<noteq> ''deploys_to'') (get_list (idx_rev idx) s)) seeds);
          m = idx_manifest idx
      in \<lparr>rm_source_commit = mget m ''source_commit'', rm_graph_digest = mget m ''graph_digest'',
          rm_extractors = mget m ''extractors'', rm_language_coverage = mget m ''language_coverage'', rm_seeds = seeds,
          rm_internal = length (filter (\<lambda>e. e_from e \<in> set seeds) edges),
          rm_external = length (filter (\<lambda>e. e_from e \<notin> set seeds) edges), rm_files = q_files q\<rparr>)"

record pair_result =
  pr_base_query :: impact_query
  pr_files :: "change_entry list"
  pr_seeds :: "string list"
  pr_rows :: "(part \<times> merged_entry) list"
  pr_fallback :: "string list option"
  pr_explanation :: "(explanation \<times> (string \<times> revision_metadata) list) option"
  pr_events :: "(string \<times> string option) list"
  pr_head_graph :: dict
  pr_head_staleness :: staleness
  pr_graph_nodes :: nat
  pr_select_base :: "string list"
  pr_select_head :: "string list"
  pr_unmeasured :: "string list"

definition EMPTY_EVENT :: string where
  "EMPTY_EVENT = ''EMPTY_IMPACT_REQUIRES_EXPLANATION''"

text \<open>The document from the two results: \<open>before\<close> at base, \<open>after\<close> at head when a file remains there.\<close>

definition finish_pair ::
  "graph_index \<Rightarrow> graph_index \<Rightarrow> pair_args \<Rightarrow> changed_file list \<Rightarrow> staleness \<Rightarrow> impact_query \<Rightarrow> impact_query option
     \<Rightarrow> exc + pair_result" where
  "finish_pair base_idx head_idx a head_files head_stale before after =
     (let versions = (''base'', before) # (case after of None \<Rightarrow> [] | Some q \<Rightarrow> [(''head'', q)]);
          rows = merge_revisions versions;
          fallback = (case after of Some q \<Rightarrow> (if triggered q then is_fallback_files (q_impact_set q)
                                              else is_fallback_files (q_impact_set before))
                      | None \<Rightarrow> is_fallback_files (q_impact_set before));
          measured = (rows \<noteq> [] \<or> fallback \<noteq> None);
          keep = (\<lambda>c. \<not> (measured \<and> c = EMPTY_EVENT));
          missing = unmeasured_head head_idx head_files;
          after_events = (case after of None \<Rightarrow> [] | Some q \<Rightarrow> q_events q);
          after_seeds = (case after of None \<Rightarrow> [] | Some q \<Rightarrow> q_seeds q)
      in bindE (selected before) (\<lambda>sel_base.
         bindE (case after of None \<Rightarrow> Inr [] | Some q \<Rightarrow> selected q) (\<lambda>sel_head.
           Inr \<lparr>pr_base_query = before,
                pr_files = fold merge_file (case after of None \<Rightarrow> [] | Some q \<Rightarrow> q_files q) (q_files before),
                pr_seeds = sorted_set (q_seeds before @ after_seeds),
                pr_rows = rows, pr_fallback = fallback,
                pr_explanation =
                  (if measured then None
                   else map_option (\<lambda>x. (x, (''base'', empty_revision_metadata base_idx before)
                          # (case after of None \<Rightarrow> [] | Some q \<Rightarrow> [(''head'', empty_revision_metadata head_idx q)])))
                        (q_explanation before)),
                pr_events = map (\<lambda>c. (c, Some ''base'')) (filter keep (q_events before))
                            @ map (\<lambda>c. (c, Some ''head'')) (filter keep after_events)
                            @ (if missing = [] then [] else [(''HEAD_CODE_NOT_MEASURED'', None)]),
                pr_head_graph = graph_block (idx_manifest head_idx) (pa_head_graph_path a)
                  [''source_commit'', ''graph_digest'', ''builder_version'', ''built_at_utc''],
                pr_head_staleness = head_stale,
                pr_graph_nodes = length (remdups (map fst (idx_nodes base_idx) @ map fst (idx_nodes head_idx))),
                pr_select_base = sort sel_base, pr_select_head = sort sel_head, pr_unmeasured = missing\<rparr>)))"

definition bindO :: "('e + 'a) option \<Rightarrow> ('a \<Rightarrow> ('e + 'b) option) \<Rightarrow> ('e + 'b) option" where
  "bindO m f = (case m of None \<Rightarrow> None | Some (Inl e) \<Rightarrow> Some (Inl e) | Some (Inr x) \<Rightarrow> f x)"

definition add_obligations ::
  "graph_index \<Rightarrow> graph_index \<Rightarrow> pair_args \<Rightarrow> (string list \<times> string list) option \<Rightarrow> impact_query \<Rightarrow> impact_query option
     \<Rightarrow> (gexc + (impact_query \<times> impact_query option)) option" where
  "add_obligations base_idx head_idx a obligations before after =
     (case obligations of
        None \<Rightarrow> Some (Inr (before, after))
      | Some (ob, oh) \<Rightarrow>
          bindO (selected_dependency_impact base_idx before ob (pa_max_depth a) (pa_edge_types a)) (\<lambda>before'.
            case after of
              None \<Rightarrow> if oh \<noteq> [] then Some (Inl (Refuse ''SELECTED_HEAD_NOT_MEASURED'' [])) else Some (Inr (before', None))
            | Some q \<Rightarrow>
                bindO (selected_dependency_impact head_idx q oh (pa_max_depth a) (pa_edge_types a)) (\<lambda>q'.
                  Some (Inr (before', Some q')))))"

definition pair_query ::
  "(string \<Rightarrow> string) \<Rightarrow> string \<Rightarrow> (string \<Rightarrow> string \<Rightarrow> string option) \<Rightarrow> (string list \<Rightarrow> string list \<Rightarrow> opcode list)
     \<Rightarrow> (string list \<times> string list) option \<Rightarrow> graph_index \<Rightarrow> graph_index \<Rightarrow> changed_file list \<Rightarrow> pair_args
     \<Rightarrow> (gexc + pair_result) option" where
  "pair_query sha now ls_tree opcodes obligations base_idx head_idx files a =
     bindO (Some (env_example_key_delta ls_tree opcodes (pa_repo a) (pa_base a) (pa_head a) files)) (\<lambda>env_keys.
       let qf = query_files base_idx head_idx env_keys files; hf = head_files_of qf
       in bindO (query sha now base_idx qf (args_of a ''base'' (pa_graph_path a))) (\<lambda>before.
          bindO (Some (check_staleness sha now head_idx (Some (pa_repo a)) ''diff'' (Some (pa_base a)) (pa_tree_commit a)
                  (pa_tree_dirty a) [] RULES None (Some (pa_head a)) ''head'')) (\<lambda>stale.
          bindO (if hf = [] then Some (Inr None)
                 else map_option (map_sum id Some) (query sha now head_idx hf (args_of a ''head'' (pa_head_graph_path a)))) (\<lambda>after.
          bindO (add_obligations base_idx head_idx a obligations before after) (\<lambda>(before', after').
            Some (map_sum Exc id (finish_pair base_idx head_idx a hf stale before' after')))))))"

definition blocking_query_events :: "bool \<Rightarrow> (string \<times> string option) list \<Rightarrow> (string \<times> string option) list" where
  "blocking_query_events bound events = filter (\<lambda>e. \<not> (bound \<and> fst e = EMPTY_EVENT)) events"

end
