(* ===== verification/ImpactPairProps.thy ===== *)
theory ImpactPairProps
  imports ImpactPair
begin

section \<open>What the merged impact keeps\<close>

text \<open>
  The merge of the two revisions loses nothing: the rows of each entity are recovered from its record.
  The chosen row is the one with the strongest obligation.  The selection of a paired query is the seeds
  and the merged rows.
\<close>

subsection \<open>The chosen row\<close>

lemma max_row_mem: "max_row p ps \<in> set (p # ps)"
  unfolding max_row_def
proof (induction ps arbitrary: p)
  case (Cons q qs)
  from Cons.IH [of "if row_key q > row_key p then q else p"] show ?case by (auto split: if_splits)
qed simp

lemma max_row_ge:
  assumes "r \<in> set (p # ps)" shows "row_key r \<le> row_key (max_row p ps)"
proof -
  have fold_ge: "row_key b \<le> row_key (foldl (\<lambda>best s. if row_key s > row_key best then s else best) b ss)" for b ss
    by (induction ss arbitrary: b) (auto split: if_splits intro: order_trans [OF less_imp_le])
  show ?thesis
    using assms unfolding max_row_def
  proof (induction ps arbitrary: p)
    case (Cons q qs)
    let ?b = "if row_key q > row_key p then q else p"
    have "row_key p \<le> row_key ?b" "row_key q \<le> row_key ?b" by auto
    with Cons.IH [of ?b] Cons.prems fold_ge [of ?b qs] show ?case by (auto intro: order_trans)
  qed simp
qed

subsection \<open>Recovering the rows\<close>

definition rows_of_merged :: "part \<times> merged_entry \<Rightarrow> row list" where
  "rows_of_merged m =
     (case me_record (snd m) of
        Revisions rs \<Rightarrow> map (\<lambda>r. (r, fst m, me_entry (snd m))) rs
      | RevisionPaths ps \<Rightarrow> ps)"

definition merged_entity :: "part \<times> merged_entry \<Rightarrow> string" where
  "merged_entity m = en_entity (me_entry (snd m))"

lemma rows_of_merge_rows: "rows_of_merged (merge_rows p ps) = p # ps"
proof -
  obtain role s chosen where m: "max_row p ps = (role, s, chosen)" by (cases "max_row p ps")
  show ?thesis
  proof (cases "list_all (\<lambda>(_, s', e). s' = s \<and> e = chosen) (p # ps)")
    case True
    then have "map (\<lambda>r. (fst r, s, chosen)) (p # ps) = p # ps"
      by (intro map_idI) (auto simp: list_all_iff)
    with True show ?thesis by (simp add: merge_rows_def m rows_of_merged_def comp_def)
  next
    case False
    then show ?thesis unfolding merge_rows_def m rows_of_merged_def by auto
  qed
qed

lemma merged_entity_merge_rows:
  assumes "\<And>r. r \<in> set (p # ps) \<Longrightarrow> row_entity r = x"
  shows "merged_entity (merge_rows p ps) = x"
  using assms [OF max_row_mem] by (cases "max_row p ps") (simp add: merge_rows_def merged_entity_def row_entity_def)

lemma in_entries:
  assumes "(x, paths) \<in> set (entries_of versions)"
  shows "paths = filter (\<lambda>r. row_entity r = x) (version_rows versions)" "paths \<noteq> []"
    "\<And>r. r \<in> set paths \<Longrightarrow> row_entity r = x"
proof -
  have d: "distinct (map fst (entries_of versions))" by (simp add: entries_of_def)
  have "get_list (entries_of versions) x = paths"
    using assms d by (simp add: get_list_def map_of_is_SomeI)
  then show p: "paths = filter (\<lambda>r. row_entity r = x) (version_rows versions)"
    by (simp add: entries_of_def)
  have "x \<in> fst ` set (entries_of versions)" using assms by force
  then have "x \<in> row_entity ` set (version_rows versions)" by (simp add: entries_of_def keys_group_by)
  then show "paths \<noteq> []" by (auto simp: p filter_empty_conv)
  show "\<And>r. r \<in> set paths \<Longrightarrow> row_entity r = x" by (simp add: p)
qed

lemma sorted_entries:
  "distinct (map fst (sort_key fst (entries_of versions)))"
  "get_list (sort_key fst (entries_of versions)) x = filter (\<lambda>r. row_entity r = x) (version_rows versions)"
proof -
  have d: "distinct (map fst (entries_of versions))" by (simp add: entries_of_def)
  show d': "distinct (map fst (sort_key fst (entries_of versions)))"
    using d by (simp add: distinct_map)
  have "map_of (sort_key fst (entries_of versions)) = map_of (entries_of versions)"
    by (rule map_of_eq_of_set [OF d' d]) simp
  then have "get_list (sort_key fst (entries_of versions)) x = get_list (entries_of versions) x"
    by (simp add: get_list_def)
  then show "get_list (sort_key fst (entries_of versions)) x = filter (\<lambda>r. row_entity r = x) (version_rows versions)"
    by (simp add: entries_of_def)
qed

lemma merged_pairs:
  "map (\<lambda>m. (merged_entity m, rows_of_merged m)) (merge_revisions versions) = sort_key fst (entries_of versions)"
proof -
  have "map (\<lambda>m. (merged_entity m, rows_of_merged m))
          (concat (map (\<lambda>(_, paths). case paths of [] \<Rightarrow> [] | p # ps \<Rightarrow> [merge_rows p ps]) es)) = es"
    if "set es \<subseteq> set (entries_of versions)" for es
    using that
  proof (induction es)
    case (Cons e es)
    obtain x paths where e: "e = (x, paths)" by (cases e)
    from Cons.prems have i: "(x, paths) \<in> set (entries_of versions)" by (simp add: e)
    obtain p ps where p: "paths = p # ps" using in_entries(2) [OF i] by (cases paths) auto
    have "merged_entity (merge_rows p ps) = x"
      by (rule merged_entity_merge_rows) (use in_entries(3) [OF i] p in simp)
    with Cons show ?case by (simp add: e p rows_of_merge_rows)
  qed simp
  from this [of "sort_key fst (entries_of versions)"] show ?thesis by (simp add: merge_revisions_def)
qed

text \<open>
  C26: the merge of the revisions loses nothing.  The rows of every entity, in every revision and section
  and in order, are recovered from its merged row (from the list of revisions when all rows agree, from
  the kept revision paths otherwise), and each entity has one merged row, in the order of the entities.
\<close>

theorem merge_revisions_lossless:
  "concat (map rows_of_merged (filter (\<lambda>m. merged_entity m = x) (merge_revisions versions)))
     = filter (\<lambda>r. row_entity r = x) (version_rows versions)
   \<and> sorted_wrt (<) (map merged_entity (merge_revisions versions))"
proof
  let ?P = "\<lambda>m. (merged_entity m, rows_of_merged m)"
  have "concat (map rows_of_merged (filter (\<lambda>m. merged_entity m = x) (merge_revisions versions)))
      = concat (map snd (filter (\<lambda>p. fst p = x) (map ?P (merge_revisions versions))))"
    by (simp add: filter_map comp_def)
  then show "concat (map rows_of_merged (filter (\<lambda>m. merged_entity m = x) (merge_revisions versions)))
     = filter (\<lambda>r. row_entity r = x) (version_rows versions)"
    unfolding merged_pairs by (simp add: concat_filter_get_list sorted_entries)
  have "map merged_entity (merge_revisions versions) = map fst (map ?P (merge_revisions versions))" by simp
  then show "sorted_wrt (<) (map merged_entity (merge_revisions versions))"
    unfolding merged_pairs
    by (simp only: strict_sorted_iff sorted_sort_key sorted_entries(1) simp_thms)
qed

text \<open>
  no revision's obligation is weakened by the merge.  For every row of either revision the merged row
  of its entity is in the inferred tail when that row was, and among rows of its section it crosses a
  service or repository boundary when that row did, so a canary owed in one revision stays owed.
\<close>

lemma merge_keeps_obligations:
  "list_all (\<lambda>r. list_ex (\<lambda>m. merged_entity m = row_entity r
        \<and> row_key r \<le> (fst m = Tail, en_boundary (me_entry (snd m)) \<in> {''repo'', ''service''}))
      (merge_revisions versions)) (version_rows versions)"
proof -
  have "\<exists>m \<in> set (merge_revisions versions). merged_entity m = row_entity r
        \<and> row_key r \<le> (fst m = Tail, en_boundary (me_entry (snd m)) \<in> {''repo'', ''service''})"
    if r: "r \<in> set (version_rows versions)" for r
  proof -
    let ?x = "row_entity r"
    have "?x \<in> fst ` set (entries_of versions)" using r by (simp add: entries_of_def keys_group_by)
    then obtain paths where i: "(?x, paths) \<in> set (entries_of versions)" by auto
    have rp: "r \<in> set paths" using in_entries(1) [OF i] r by simp
    obtain p ps where p: "paths = p # ps" using in_entries(2) [OF i] by (cases paths) auto
    have m: "merge_rows p ps \<in> set (merge_revisions versions)"
      by (simp add: merge_revisions_def) (rule bexI [OF _ i], cases p, simp add: \<open>paths = p # ps\<close>)
    have "merged_entity (merge_rows p ps) = ?x"
      by (rule merged_entity_merge_rows) (use in_entries(3) [OF i] p in simp)
    moreover obtain role s e where mx: "max_row p ps = (role, s, e)" by (cases "max_row p ps")
    moreover have "row_key r \<le> row_key (role, s, e)" using max_row_ge [of r p ps] rp p mx by simp
    ultimately show ?thesis using m by (intro bexI [OF _ m]) (simp_all add: merge_rows_def row_key_def)
  qed
  then show ?thesis by (simp add: list_all_iff list_ex_iff)
qed

subsection \<open>The selection of a paired query\<close>

lemma bindO_Inr: "bindO m f = Some (Inr y) \<longleftrightarrow> (\<exists>x. m = Some (Inr x) \<and> f x = Some (Inr y))"
  by (auto simp: bindO_def split: option.splits sum.splits)

lemma map_sum_Inr: "map_sum f id x = Inr y \<longleftrightarrow> x = Inr y"
  by (cases x) auto

lemma merged_entities: "merged_entity ` set (merge_revisions versions) = row_entity ` set (version_rows versions)"
proof -
  have "merged_entity ` set (merge_revisions versions)
      = fst ` set (map (\<lambda>m. (merged_entity m, rows_of_merged m)) (merge_revisions versions))"
    by (simp add: image_image)
  also have "\<dots> = row_entity ` set (version_rows versions)"
    unfolding merged_pairs by (simp add: entries_of_def keys_group_by)
  finally show ?thesis .
qed

lemma entities_of_version: "row_entity ` set (section_rows (role, q)) = en_entity ` set (query_rows q)"
  by (simp add: section_rows_def row_entity_def query_rows_def is_entries_def image_Un image_image)

lemma selected_seeds: "selected q = Inr s \<Longrightarrow> set (q_seeds q) \<subseteq> set s"
  by (auto simp: selected_def split: if_splits)

lemma selected_plain: "selected q = Inr s \<Longrightarrow> \<not> triggered q \<Longrightarrow> set s = set (q_seeds q) \<union> en_entity ` set (query_rows q)"
  by (auto simp: selected_def)

lemma finish_pair_selection:
  assumes "finish_pair bi hi a hf stale before after = Inr r"
  shows "set (pr_seeds r) \<subseteq> set (pr_select_base r) \<union> set (pr_select_head r)"
    "pr_fallback r = None \<Longrightarrow>
       set (pr_select_base r) \<union> set (pr_select_head r) = set (pr_seeds r) \<union> merged_entity ` set (pr_rows r)"
proof -
  obtain sb sh where s: "selected before = Inr sb" "(case after of None \<Rightarrow> Inr [] | Some q \<Rightarrow> selected q) = Inr sh"
      "set (pr_select_base r) = set sb" "set (pr_select_head r) = set sh"
    and seeds: "set (pr_seeds r) = set (q_seeds before) \<union> (case after of None \<Rightarrow> {} | Some q \<Rightarrow> set (q_seeds q))"
    and rows: "pr_rows r = merge_revisions ((''base'', before) # (case after of None \<Rightarrow> [] | Some q \<Rightarrow> [(''head'', q)]))"
    and fb: "pr_fallback r = None \<Longrightarrow> \<not> triggered before \<and> (\<forall>q. after = Some q \<longrightarrow> \<not> triggered q)"
    using assms by (cases after) (auto simp: finish_pair_def Let_def triggered_def split: if_splits)
  show "set (pr_seeds r) \<subseteq> set (pr_select_base r) \<union> set (pr_select_head r)"
  proof (cases after)
    case (Some q)
    then show ?thesis using s selected_seeds [OF s(1)] selected_seeds [of q sh] by (auto simp: seeds)
  qed (use s selected_seeds [OF s(1)] in \<open>auto simp: seeds\<close>)
  have ents: "merged_entity ` set (pr_rows r)
      = en_entity ` set (query_rows before) \<union> (case after of None \<Rightarrow> {} | Some q \<Rightarrow> en_entity ` set (query_rows q))"
    unfolding rows merged_entities version_rows_def
    by (cases after) (simp_all add: image_Un entities_of_version)
  show "set (pr_select_base r) \<union> set (pr_select_head r) = set (pr_seeds r) \<union> merged_entity ` set (pr_rows r)"
    if "pr_fallback r = None"
    using fb [OF that] s selected_plain [OF s(1)] selected_plain [of _ sh]
    by (cases after) (auto simp: seeds ents)
qed

lemma staleness_commit:
  assumes "check_staleness sha now idx rp ''diff'' base tc td ps RULES reader head role = Inr st"
  shows "mget (idx_manifest idx) ''source_commit'' = opt_json (if role = ''head'' then head else base) \<and> \<not> td"
proof -
  have "''staleness'' \<in> set RULES" by (simp add: RULES_def)
  then show ?thesis
    using assms by (auto simp: check_staleness_def Let_def split: if_splits)
qed

text \<open>
  a paired query measures both revisions and forgets none of their entities.  When it answers, the two
  graphs are those of the base and of the head and the tree is clean; every seed of either revision is
  selected, and without a global fallback the selection of the two revisions together is exactly the
  seeds and the entities of the merged rows.
\<close>

lemma pair_query_selection:
  "case pair_query sha now ls_tree opcodes obligations base_idx head_idx files a of
     Some (Inr r) \<Rightarrow>
       mget (idx_manifest base_idx) ''source_commit'' = JStr (pa_base a)
       \<and> mget (idx_manifest head_idx) ''source_commit'' = JStr (pa_head a) \<and> \<not> pa_tree_dirty a
       \<and> set (pr_seeds r) \<subseteq> set (pr_select_base r) \<union> set (pr_select_head r)
       \<and> (if pr_fallback r = None
          then set (pr_select_base r) \<union> set (pr_select_head r) = set (pr_seeds r) \<union> merged_entity ` set (pr_rows r)
          else True)
   | _ \<Rightarrow> True"
proof (cases "\<exists>r. pair_query sha now ls_tree opcodes obligations base_idx head_idx files a = Some (Inr r)")
  case True
  then obtain r where r: "pair_query sha now ls_tree opcodes obligations base_idx head_idx files a = Some (Inr r)" ..
  then obtain qf before stale before' after' hf where
      b: "query sha now base_idx qf (args_of a ''base'' (pa_graph_path a)) = Some (Inr before)"
      and h: "check_staleness sha now head_idx (Some (pa_repo a)) ''diff'' (Some (pa_base a)) (pa_tree_commit a)
                  (pa_tree_dirty a) [] RULES None (Some (pa_head a)) ''head'' = Inr stale"
      and f: "finish_pair base_idx head_idx a hf stale before' after' = Inr r"
    unfolding pair_query_def Let_def bindO_Inr by (auto simp: map_sum_Inr)
  from b obtain st where "check_staleness sha now base_idx (Some (pa_repo a)) ''diff'' (Some (pa_base a)) (pa_tree_commit a)
      (pa_tree_dirty a) (map f_path qf) RULES None (Some (pa_head a)) ''base'' = Inr st"
    by (auto simp: query_def args_of_def split: if_splits sum.splits)
  from staleness_commit [OF this] staleness_commit [OF h] finish_pair_selection [OF f] show ?thesis
    by (simp add: r opt_json_def)
next
  case False
  then show ?thesis by (auto split: option.split sum.split)
qed

subsection \<open>Keys of the environment example\<close>

lemma keys_of_lines_Some:
  "keys_of_lines ls = Some ks \<Longrightarrow> k \<in> set ks \<Longrightarrow> \<exists>l \<in> set ls. env_key_line l = Some k"
  by (fastforce simp: keys_of_lines_def split: if_splits option.splits)

lemma span_subset: "set (span i j xs) \<subseteq> set xs"
  by (auto simp: span_def dest: in_set_takeD in_set_dropD)

lemma changed_lines_subset: "set (changed_lines rng ops ls) \<subseteq> set ls"
  unfolding changed_lines_def using span_subset by (fastforce split: prod.splits)

lemma strip_newline_snoc: "strip_newline (s @ [c]) = (if c = newline then s else s @ [c])"
  by (auto simp: strip_newline_def endswith_iff)

lemma env_text_delta_sound:
  assumes "env_text_delta opcodes old new = Some ks"
  defines "ol \<equiv> split_keepends [] old" and "nl \<equiv> split_keepends [] new"
  shows "ks \<noteq> []" "set ks = (set (assigned_keys ol) - set (assigned_keys nl)) \<union> (set (assigned_keys nl) - set (assigned_keys ol))"
    "\<And>k. k \<in> set ks \<Longrightarrow> k @ ''='' \<in> strip_newline ` (set ol \<union> set nl)"
proof -
  let ?ops = "opcodes ol nl"
  obtain removed added where k: "keys_of_lines (changed_lines (\<lambda>op. (oc_i1 op, oc_i2 op)) ?ops ol) = Some removed"
      "keys_of_lines (changed_lines (\<lambda>op. (oc_j1 op, oc_j2 op)) ?ops nl) = Some added"
      "removed \<noteq> [] \<or> added \<noteq> []" "set removed = set (assigned_keys ol) - set (assigned_keys nl)"
      "set added = set (assigned_keys nl) - set (assigned_keys ol)" "ks = sorted_set (removed @ added)"
    using assms(1) unfolding env_text_delta_def Let_def ol_def [symmetric] nl_def [symmetric]
    by (auto split: if_splits option.splits)
  show "set ks = (set (assigned_keys ol) - set (assigned_keys nl)) \<union> (set (assigned_keys nl) - set (assigned_keys ol))"
    by (simp add: k)
  have "set ks \<noteq> {}" using k(3) by (auto simp: k(6))
  then show "ks \<noteq> []" by auto
  have line: "k @ ''='' \<in> strip_newline ` set ls" if "env_key_line l = Some k" "l \<in> set ls" for k l ls
  proof -
    have "l = k @ ''='' \<or> l = (k @ ''='') @ [newline]"
      using that(1) by (auto simp: env_key_line_def split: option.splits if_splits)
    then have "strip_newline l = k @ ''=''"
      using strip_newline_snoc [of k "CHR ''=''"] strip_newline_snoc [of "k @ ''=''" newline] by (auto simp: newline_def)
    with that(2) show ?thesis by (metis image_eqI)
  qed
  show "k @ ''='' \<in> strip_newline ` (set ol \<union> set nl)" if "k \<in> set ks" for k
    using that keys_of_lines_Some [OF k(1)] keys_of_lines_Some [OF k(2)] line
      changed_lines_subset [of _ ?ops ol] changed_lines_subset [of _ ?ops nl]
    unfolding k(6) by (simp add: image_Un) (meson subsetD)
qed

end
