(* ===== verification/SchemaSuite.thy ===== *)
theory SchemaSuite
  imports SchemaArms
begin

section \<open>The detector of absent test suites\<close>

text \<open>
  \<^verbatim>\<open>tracked_test_files\<close>, \<^verbatim>\<open>absent_suite_sources\<close>, \<^verbatim>\<open>absent_suite_tree\<close> and \<^verbatim>\<open>absent_suite_static_text\<close> of
  \<^verbatim>\<open>tools/graph/schema_check.py\<close>.  A repository may declare that it has no tests; the detector reads the tracked
  files and reports whatever contradicts this, and whatever it cannot read or classify.  Paths are those that
  git prints (relative, not empty); the bytes of a file are a string of characters below 256, \<^verbatim>\<open>None\<close> for a file
  that could not be read; \<open>loads\<close> is \<^verbatim>\<open>json.loads\<close> on bytes.

  The theorem states the detector file by file.
\<close>

subsection \<open>Names\<close>

text \<open>\<^verbatim>\<open>PurePosixPath(p).parts\<close> and \<^verbatim>\<open>.name\<close> of a relative path.\<close>

definition pure_parts :: "string \<Rightarrow> string list" where
  "pure_parts p = filter (\<lambda>c. c \<notin> {[], ''.''}) (split_on (CHR ''/'') p)"

definition pure_name :: "string \<Rightarrow> string" where
  "pure_name p = (case rev (pure_parts p) of [] \<Rightarrow> [] | n # _ \<Rightarrow> n)"

definition suite_skipped :: "string \<Rightarrow> bool" where
  "suite_skipped p \<longleftrightarrow> ''node_modules'' \<in> set (pure_parts p)"

definition TEST_DIRS :: "string list" where
  "TEST_DIRS = [''test'', ''tests'', ''__tests__'', ''spec'', ''specs'', ''e2e'']"

subsection \<open>Patterns\<close>

text \<open>\<^verbatim>\<open>[cm]?[jt]sx?\<close>\<close>

definition rx_js_suffix :: rx where
  "rx_js_suffix = rx_seq [rx_opt (rx_of ''cm''), rx_of ''jt'', rx_lit ''s'', rx_opt (rx_lit ''x'')]"

definition rx_anything :: rx where
  "rx_anything = RStar rx_any"

definition TEST_FILE_RX :: rx where
  "TEST_FILE_RX =
     rx_alts
       [rx_seq [RBegin, rx_lit ''test_'', rx_anything, rx_lit ''.py'', REnd],
        rx_seq [rx_lit ''_test.'', rx_words [''py'', ''go'', ''rs''], REnd],
        rx_seq [rx_lit ''.'', rx_words [''test'', ''spec''], rx_lit ''.'', rx_js_suffix, REnd],
        rx_seq [rx_lit ''.bats'', REnd],
        rx_seq [RBegin, rx_lit ''conftest.py'', REnd]]"

definition TEST_CONFIG_RX :: rx where
  "TEST_CONFIG_RX =
     rx_seq [RBegin,
       rx_alts
         [rx_words [''pytest.ini'', ''tox.ini'', ''noxfile.py''],
          RSeq (rx_lit ''.mocharc'') (rx_opt (RSeq (rx_lit ''.'') (rx_plus rx_any))),
          rx_seq [rx_words [''jest'', ''vitest'', ''playwright'', ''cypress'', ''karma'', ''ava''], rx_lit ''.config.'', rx_plus rx_any],
          rx_lit ''.rspec'',
          RSeq (rx_lit ''phpunit.xml'') (rx_opt (rx_lit ''.dist''))],
       REnd]"

definition UNKNOWN_MANIFEST_RX :: rx where
  "UNKNOWN_MANIFEST_RX =
     rx_seq [RBegin,
       rx_alts
         [rx_words [''pom.xml'', ''Gemfile'', ''Rakefile'', ''composer.json'', ''mix.exs'', ''CMakeLists.txt'', ''Package.swift'',
            ''justfile'', ''Justfile'', ''WORKSPACE'', ''build.sbt'', ''stack.yaml'', ''Pipfile'', ''poetry.lock'', ''meson.build'',
            ''SConstruct'', ''Dockerfile.test'', ''BUILD'', ''BUILD.bazel'', ''deno.json'', ''deno.jsonc'', ''Taskfile.yml'',
            ''Taskfile.yaml''],
          rx_seq [rx_words [''build'', ''settings''], rx_lit ''.gradle'', rx_opt (rx_lit ''.kts'')],
          rx_seq [rx_anything, rx_lit ''.'', rx_words [''csproj'', ''fsproj'', ''vbproj'', ''sln'']]],
       REnd]"

definition MAKEFILE_RX :: rx where
  "MAKEFILE_RX = rx_seq [RBegin, rx_alts [rx_lit ''GNU'', rx_of ''Mm''], rx_lit ''akefile'', REnd]"

definition name_rest_ch :: "char \<Rightarrow> bool" where
  "name_rest_ch c \<longleftrightarrow> word_ch c \<or> c = CHR ''.'' \<or> c = CHR ''-''"

definition MAKE_TEST_RX :: rx where
  "MAKE_TEST_RX =
     rx_seq [RLineBegin, RStar rx_space, rx_opt (rx_lit ''.''), rx_words [''test'', ''check'', ''tests'', ''spec''],
             RStar (RCh name_rest_ch), RStar rx_space, rx_lit '':'']"

text \<open>\<^verbatim>\<open>#\s*\[\s*(cfg\s*\(\s*test\s*\)|test|tokio::test|rstest)\b\<close> or \<^verbatim>\<open>#\s*\[\s*cfg\s*\(\s*test\<close>\<close>

definition rx_cfg_test :: rx where
  "rx_cfg_test = rx_seq [rx_lit ''cfg'', RStar rx_space, rx_lit ''('', RStar rx_space, rx_lit ''test'']"

definition rx_attribute :: rx where
  "rx_attribute = rx_seq [rx_lit ''#'', RStar rx_space, rx_lit ''['', RStar rx_space]"

definition RUST_TEST_RX :: rx where
  "RUST_TEST_RX =
     RAlt
       (rx_seq [rx_attribute,
          rx_alts [rx_seq [rx_cfg_test, RStar rx_space, rx_lit '')''], rx_words [''test'', ''tokio::test'', ''rstest'']], RWordB])
       (RSeq rx_attribute rx_cfg_test)"

definition TEST_SCRIPT_RX :: rx where
  "TEST_SCRIPT_RX =
     rx_seq [RBegin, rx_opt (rx_words [''pre'', ''post'']), rx_words [''test'', ''spec'', ''e2e''],
             rx_opt (RSeq (rx_of '':_.-'') rx_anything), REnd]"

definition CARGO_TEST_RX :: rx where
  "CARGO_TEST_RX =
     rx_seq [RLineBegin, RStar rx_space, rx_lit ''[['', rx_words [''test'', ''bench''], rx_lit '']]'']"

text \<open>\<^verbatim>\<open>(?i)\<close>: the words are matched against the lower-case text.\<close>

definition PYTHON_TEST_RX :: rx where
  "PYTHON_TEST_RX = rx_words [''pytest'', ''unittest'', ''tox'', ''nox'', ''[tool:'', ''coverage'']"

definition PKG_TEST_KEYS :: "string list" where
  "PKG_TEST_KEYS = [''jest'', ''vitest'', ''mocha'', ''ava'', ''nyc'', ''c8'', ''playwright'', ''cypress'']"

text \<open>Whether \<^verbatim>\<open>bytes.decode("utf-8")\<close> succeeds: the well-formed sequences of one to four bytes.\<close>

definition byte_in :: "nat \<Rightarrow> nat \<Rightarrow> char \<Rightarrow> bool" where
  "byte_in lo hi c \<longleftrightarrow> lo \<le> of_char c \<and> (of_char c :: nat) \<le> hi"

definition utf8_tail :: "char \<Rightarrow> bool" where
  "utf8_tail = byte_in 128 191"

fun utf8_valid :: "string \<Rightarrow> bool" where
  "utf8_valid [] = True"
| "utf8_valid (a # s) =
     (if byte_in 0 127 a then utf8_valid s
      else case s of
             [] \<Rightarrow> False
           | b # s2 \<Rightarrow>
               if byte_in 194 223 a then utf8_tail b \<and> utf8_valid s2
               else (case s2 of
                       [] \<Rightarrow> False
                     | c # s3 \<Rightarrow>
                         if byte_in 224 239 a
                         then byte_in (if byte_in 224 224 a then 160 else 128) (if byte_in 237 237 a then 159 else 191) b
                              \<and> utf8_tail c \<and> utf8_valid s3
                         else (case s3 of
                                 [] \<Rightarrow> False
                               | d # s4 \<Rightarrow>
                                   byte_in 240 244 a
                                   \<and> byte_in (if byte_in 240 240 a then 144 else 128) (if byte_in 244 244 a then 143 else 191) b
                                   \<and> utf8_tail c \<and> utf8_tail d \<and> utf8_valid s4)))"

subsection \<open>The detector\<close>

definition test_name :: "string \<Rightarrow> bool" where
  "test_name p \<longleftrightarrow>
     re_search TEST_FILE_RX (pure_name p) \<or> re_search TEST_CONFIG_RX (pure_name p)
     \<or> list_ex (\<lambda>d. lower d \<in> set TEST_DIRS) (butlast (pure_parts p))"

definition tracked_test_files :: "string list \<Rightarrow> string list" where
  "tracked_test_files ps = sort (filter (\<lambda>p. \<not> suite_skipped p \<and> test_name p) ps)"

definition is_suite_source :: "string \<Rightarrow> bool" where
  "is_suite_source p \<longleftrightarrow>
     pure_name p \<in> {''package.json'', ''Cargo.toml'', ''pyproject.toml'', ''setup.cfg''} \<or> endswith p ''.rs''
     \<or> re_match MAKEFILE_RX (pure_name p)"

definition absent_suite_sources :: "string list \<Rightarrow> string list" where
  "absent_suite_sources ps = sort (filter (\<lambda>p. \<not> suite_skipped p \<and> is_suite_source p) ps)"

text \<open>One source: tests, test scripts, or unknown.\<close>

datatype source_fact = TestHit string | TestScript string | UnknownSource string

definition package_facts :: "(string \<Rightarrow> json option) \<Rightarrow> string \<Rightarrow> string \<Rightarrow> source_fact list" where
  "package_facts loads p raw =
     (case loads raw of
        Some (JObj pkg) \<Rightarrow>
          (let declared = (if truthy (mget pkg ''scripts'') then mget pkg ''scripts'' else JObj [])
           in if \<not> is_dict declared then [UnknownSource p]
              else map (\<lambda>k. TestScript (p @ '':'' @ k)) (filter (re_match TEST_SCRIPT_RX) (map fst (as_dict declared)))
                   @ map (\<lambda>k. TestScript (p @ '':'' @ k)) (filter (has_key pkg) PKG_TEST_KEYS))
      | _ \<Rightarrow> [UnknownSource p])"

definition text_declares_tests :: "string \<Rightarrow> string \<Rightarrow> bool" where
  "text_declares_tests name text =
     (if name = ''Cargo.toml'' \<and> re_search CARGO_TEST_RX text then True
      else if name \<in> {''pyproject.toml'', ''setup.cfg''} \<and> re_search PYTHON_TEST_RX (lower text) then True
      else re_match MAKEFILE_RX name \<and> re_search MAKE_TEST_RX text)"

definition source_facts :: "(string \<Rightarrow> json option) \<Rightarrow> string \<Rightarrow> string option \<Rightarrow> source_fact list" where
  "source_facts loads p raw =
     (case raw of
        None \<Rightarrow> [UnknownSource p]
      | Some b \<Rightarrow>
          if pure_name p = ''package.json'' then package_facts loads p b
          else if endswith p ''.rs'' then (if re_search RUST_TEST_RX b then [TestHit p] else [])
          else if \<not> utf8_valid b then [UnknownSource p]
          else if text_declares_tests (pure_name p) b then [TestHit p] else [])"

record suite_facts =
  sf_test_files :: "string list"
  sf_scripts_test :: "string option"
  sf_unknown :: "string list"

definition hits_of :: "source_fact list \<Rightarrow> string list" where
  "hits_of fs = concat (map (\<lambda>f. case f of TestHit p \<Rightarrow> [p] | _ \<Rightarrow> []) fs)"

definition scripts_of :: "source_fact list \<Rightarrow> string list" where
  "scripts_of fs = concat (map (\<lambda>f. case f of TestScript s \<Rightarrow> [s] | _ \<Rightarrow> []) fs)"

definition unknowns_of :: "source_fact list \<Rightarrow> string list" where
  "unknowns_of fs = concat (map (\<lambda>f. case f of UnknownSource p \<Rightarrow> [p] | _ \<Rightarrow> []) fs)"

definition suite_sorted :: "string list \<Rightarrow> string list" where
  "suite_sorted xs = sort (remdups xs)"

definition absent_suite_tree :: "(string \<Rightarrow> json option) \<Rightarrow> (string \<times> string option) list \<Rightarrow> suite_facts" where
  "absent_suite_tree loads files =
     (let paths = filter (\<lambda>p. \<not> suite_skipped p) (map fst files);
          facts = concat (map (\<lambda>p. source_facts loads p (case map_of files p of Some r \<Rightarrow> r | None \<Rightarrow> None))
                    (absent_suite_sources paths));
          scripts = scripts_of facts
      in \<lparr>sf_test_files = suite_sorted (tracked_test_files paths @ hits_of facts),
          sf_scripts_test = (if scripts = [] then None else Some (join '', '' (sort scripts))),
          sf_unknown = suite_sorted (unknowns_of facts @ filter (\<lambda>p. re_match UNKNOWN_MANIFEST_RX (pure_name p)) paths)\<rparr>)"

text \<open>\<^verbatim>\<open>" && ".join(shlex.join(a) for a in static)\<close>\<close>

definition shlex_safe :: "char \<Rightarrow> bool" where
  "shlex_safe c \<longleftrightarrow> word_ch c \<or> c \<in> set ''@%+=:,./-''"

definition shlex_quote :: "string \<Rightarrow> string" where
  "shlex_quote s =
     (if s = [] then [CHR 0x27, CHR 0x27]
      else if list_all shlex_safe s then s
      else [CHR 0x27] @ concat (map (\<lambda>c. if c = CHR 0x27 then [CHR 0x27, CHR 0x22, CHR 0x27, CHR 0x22, CHR 0x27] else [c]) s) @ [CHR 0x27])"

definition absent_suite_static_text :: "string list list \<Rightarrow> string" where
  "absent_suite_static_text static = join '' && '' (map (\<lambda>a. join '' '' (map shlex_quote a)) static)"

subsection \<open>File by file\<close>

definition quiet_package :: "dict \<Rightarrow> bool" where
  "quiet_package pkg \<longleftrightarrow>
     (truthy (mget pkg ''scripts'') \<longrightarrow> is_dict (mget pkg ''scripts''))
     \<and> list_all (\<lambda>k. \<not> re_match TEST_SCRIPT_RX k) (map fst (as_dict (mget pkg ''scripts'')))
     \<and> list_all (\<lambda>k. \<not> has_key pkg k) PKG_TEST_KEYS"

definition quiet_source :: "(string \<Rightarrow> json option) \<Rightarrow> string \<Rightarrow> string option \<Rightarrow> bool" where
  "quiet_source loads p raw \<longleftrightarrow>
     (case raw of
        None \<Rightarrow> False
      | Some b \<Rightarrow>
          if pure_name p = ''package.json'' then (case loads b of Some (JObj pkg) \<Rightarrow> quiet_package pkg | _ \<Rightarrow> False)
          else if endswith p ''.rs'' then \<not> re_search RUST_TEST_RX b
          else utf8_valid b \<and> \<not> text_declares_tests (pure_name p) b)"

definition quiet_file :: "(string \<Rightarrow> json option) \<Rightarrow> string \<Rightarrow> string option \<Rightarrow> bool" where
  "quiet_file loads p raw \<longleftrightarrow>
     \<not> test_name p \<and> \<not> re_match UNKNOWN_MANIFEST_RX (pure_name p)
     \<and> (is_suite_source p \<longrightarrow> quiet_source loads p raw)"

lemma package_facts_nil: "package_facts loads p b = [] \<longleftrightarrow> (case loads b of Some (JObj pkg) \<Rightarrow> quiet_package pkg | _ \<Rightarrow> False)"
proof (cases "loads b")
  case (Some j)
  show ?thesis
  proof (cases j)
    case (JObj pkg)
    show ?thesis
      by (cases "mget pkg ''scripts''")
        (auto simp: package_facts_def quiet_package_def Some JObj is_dict_def as_dict_def truthy_def list_all_iff
           filter_empty_conv)
  qed (simp_all add: package_facts_def Some)
qed (simp add: package_facts_def)

lemma source_facts_nil: "source_facts loads p raw = [] \<longleftrightarrow> quiet_source loads p raw"
  by (cases raw) (auto simp: source_facts_def quiet_source_def package_facts_nil)

lemma facts_nil: "hits_of fs = [] \<and> scripts_of fs = [] \<and> unknowns_of fs = [] \<longleftrightarrow> fs = []"
  by (cases fs; cases "hd fs") (auto simp: hits_of_def scripts_of_def unknowns_of_def)

lemma suite_sorted_nil [simp]: "suite_sorted xs = [] \<longleftrightarrow> xs = []"
proof -
  have "set (suite_sorted xs) = set xs" by (simp add: suite_sorted_def)
  then show ?thesis by (metis empty_set set_empty2)
qed

lemma sort_nil: "sort xs = [] \<longleftrightarrow> xs = []"
  by (metis length_0_conv length_sort)

text \<open>
  C27: the detector answers \<^verbatim>\<open>absent\<close> exactly when every tracked file outside \<^verbatim>\<open>node_modules\<close> is quiet: its
  name and directories name no test, it is no manifest that cannot be classified, and, when it is a source of
  test declarations, its content was read and declares none.  No file can hide another.
\<close>

theorem absent_suite_tree_quiet:
  "absent_suite_tree loads files = \<lparr>sf_test_files = [], sf_scripts_test = None, sf_unknown = []\<rparr> \<longleftrightarrow>
   list_all (\<lambda>p. quiet_file loads p (case map_of files p of Some r \<Rightarrow> r | None \<Rightarrow> None))
     (filter (\<lambda>p. \<not> suite_skipped p) (map fst files))"
proof -
  let ?raw = "\<lambda>p. case map_of files p of Some r \<Rightarrow> r | None \<Rightarrow> None"
  let ?paths = "filter (\<lambda>p. \<not> suite_skipped p) (map fst files)"
  let ?facts = "concat (map (\<lambda>p. source_facts loads p (?raw p)) (absent_suite_sources ?paths))"
  have f: "?facts = [] \<longleftrightarrow> (\<forall>p \<in> set ?paths. is_suite_source p \<longrightarrow> quiet_source loads p (?raw p))"
    by (auto simp: absent_suite_sources_def source_facts_nil)
  have t: "tracked_test_files ?paths = [] \<longleftrightarrow> (\<forall>p \<in> set ?paths. \<not> test_name p)"
    by (auto simp: tracked_test_files_def sort_nil filter_empty_conv)
  have "absent_suite_tree loads files = \<lparr>sf_test_files = [], sf_scripts_test = None, sf_unknown = []\<rparr> \<longleftrightarrow>
      tracked_test_files ?paths = [] \<and> (hits_of ?facts = [] \<and> scripts_of ?facts = [] \<and> unknowns_of ?facts = [])
      \<and> filter (\<lambda>p. re_match UNKNOWN_MANIFEST_RX (pure_name p)) ?paths = []"
    unfolding absent_suite_tree_def Let_def by auto
  also have "\<dots> \<longleftrightarrow> list_all (\<lambda>p. quiet_file loads p (?raw p)) ?paths"
    unfolding facts_nil f t filter_empty_conv list_all_iff quiet_file_def by blast
  finally show ?thesis .
qed

end
