(* ===== verification/PairOwed.thy ===== *)
theory PairOwed
  imports ImpactPair SchemaSuite
begin

section \<open>Which files owe a type check\<close>

text \<open>
  The parts of \<^verbatim>\<open>tools/graph/impact_pair.py\<close> that decide whether a file owes a TypeScript check: the declared
  discharge (\<^verbatim>\<open>type_check_not_owed\<close> entries of the committed profile) and the attribution of a path to a
  compiler project.  A tree is its files; \<open>jsonc\<close> is \<^verbatim>\<open>build_graph.load_jsonc\<close> and \<open>loads\<close> is \<^verbatim>\<open>json.loads\<close>
  (\<^verbatim>\<open>None\<close> for an exception).
\<close>

subsection \<open>Declared discharges\<close>

record not_owed =
  no_glob :: string
  no_class :: string
  no_reason :: string
  no_owner :: string
  no_expires :: string
  no_reverse_if :: string

definition NOT_OWED_CLASSES :: "string list" where
  "NOT_OWED_CLASSES = [''data'', ''vendored'']"

definition NOT_OWED_TS_EXTS :: "string list" where
  "NOT_OWED_TS_EXTS = [''.ts'', ''.tsx'', ''.mts'', ''.cts'']"

definition ends_in :: "string \<Rightarrow> string list \<Rightarrow> bool" where
  "ends_in s exts \<longleftrightarrow> list_ex (endswith s) exts"

text \<open>\<^verbatim>\<open>\d{4}-\d{2}-\d{2}T\d{2}:\d{2}:\d{2}Z\<close>, and what \<^verbatim>\<open>strptime\<close> accepts of it.\<close>

definition utc_form :: rx where
  "utc_form =
     rx_seq [rx_times 4 rx_digit, rx_lit ''-'', rx_times 2 rx_digit, rx_lit ''-'', rx_times 2 rx_digit, rx_lit ''T'',
             rx_times 2 rx_digit, rx_lit '':'', rx_times 2 rx_digit, rx_lit '':'', rx_times 2 rx_digit, rx_lit ''Z'']"

definition utc_valid :: "string \<Rightarrow> bool" where
  "utc_valid s \<longleftrightarrow>
     re_fullmatch utc_form s
     \<and> valid_instant (digits_value (slice 0 4 s), digits_value (slice 5 7 s), digits_value (slice 8 10 s),
         digits_value (slice 11 13 s), digits_value (slice 14 16 s), digits_value (slice 17 19 s))"

definition glob_ok :: "string \<Rightarrow> json \<Rightarrow> bool" where
  "glob_ok cls j \<longleftrightarrow>
     (let g = str_of j
      in is_str j \<and> \<not> startswith g ''/'' \<and> ''..'' \<notin> set (split_on (CHR ''/'') g)
         \<and> (if cls = ''data''
            then endswith g ''/**'' \<and> CHR ''*'' \<notin> set (take (length g - 3) g) \<and> length g > 3
            else CHR ''*'' \<notin> set g \<and> CHR ''/'' \<in> set g))"

definition entry_valid :: "string \<Rightarrow> dict \<Rightarrow> bool" where
  "entry_valid now ent \<longleftrightarrow>
     (let txt = (\<lambda>k. str_of (mget ent k))
      in str_in (mget ent ''class'') NOT_OWED_CLASSES \<and> as_list (mget ent ''paths'') \<noteq> []
         \<and> list_all (\<lambda>k. nonblank_str (mget ent k)) [''reason'', ''owner'', ''expires_at_utc'', ''reverse_if'']
         \<and> length (strip (txt ''reason'')) \<ge> 20 \<and> length (strip (txt ''reverse_if'')) \<ge> 20
         \<and> utc_valid (txt ''expires_at_utc'') \<and> now < txt ''expires_at_utc'')"

definition entries_from :: "dict \<Rightarrow> not_owed list" where
  "entries_from ent =
     (let cls = str_of (mget ent ''class''); txt = (\<lambda>k. strip (str_of (mget ent k)))
      in map (\<lambda>g. \<lparr>no_glob = str_of g, no_class = cls, no_reason = txt ''reason'', no_owner = txt ''owner'',
                    no_expires = txt ''expires_at_utc'', no_reverse_if = txt ''reverse_if''\<rparr>)
           (filter (glob_ok cls) (as_list (mget ent ''paths''))))"

definition not_owed_entries :: "json \<Rightarrow> string \<Rightarrow> not_owed list" where
  "not_owed_entries profile now =
     concat (map (\<lambda>e. if is_dict e \<and> entry_valid now (as_dict e) then entries_from (as_dict e) else [])
       (as_list (mget (as_dict profile) ''type_check_not_owed'')))"

definition not_owed_match :: "not_owed \<Rightarrow> string \<Rightarrow> bool" where
  "not_owed_match e p =
     (if no_class e = ''data'' then startswith p (take (length (no_glob e) - 2) (no_glob e)) else p = no_glob e)"

definition not_owed_in_force :: "json \<Rightarrow> json \<Rightarrow> string \<Rightarrow> string list \<Rightarrow> not_owed list" where
  "not_owed_in_force base_profile head_profile now revision_paths =
     filter (\<lambda>e. e \<in> set (not_owed_entries base_profile now)
               \<and> \<not> list_ex (\<lambda>p. ends_in p NOT_OWED_TS_EXTS \<and> not_owed_match e p) revision_paths)
       (not_owed_entries head_profile now)"

definition tsconfig_above :: "string list \<Rightarrow> string \<Rightarrow> bool" where
  "tsconfig_above revision_paths p =
     (let parts = butlast (split_on (CHR ''/'') p)
      in list_ex (\<lambda>i. (if i = 0 then ''tsconfig.json'' else join ''/'' (take i parts) @ ''/tsconfig.json'') \<in> set revision_paths)
           [0..<Suc (length parts)])"

definition inside_deployable :: "string list \<Rightarrow> string \<Rightarrow> bool" where
  "inside_deployable deployables p \<longleftrightarrow>
     list_ex (\<lambda>d. let d = rstrip_char (CHR ''/'') d in d \<in> {[], ''.''} \<or> startswith p (d @ ''/'')) deployables"

definition type_check_not_owed :: "string \<Rightarrow> not_owed list \<Rightarrow> string list \<Rightarrow> string list \<Rightarrow> not_owed option" where
  "type_check_not_owed p entries revision_paths deployables =
     (if ends_in p NOT_OWED_TS_EXTS then None
      else case filter (\<lambda>e. not_owed_match e p) entries of
             [] \<Rightarrow> None
           | e # _ \<Rightarrow> if inside_deployable deployables p \<or> tsconfig_above revision_paths p then None else Some e)"

subsection \<open>Compiler projects\<close>

record gtree =
  gt_files :: "(string \<times> string) list"

definition tree_exists :: "gtree \<Rightarrow> string \<Rightarrow> bool" where
  "tree_exists t p \<longleftrightarrow> map_of (gt_files t) p \<noteq> None"

definition FIXTURE_DIR_NAMES :: "string list" where
  "FIXTURE_DIR_NAMES = [''fixtures'', ''__fixtures__'', ''testdata'']"

definition is_fixture_path :: "string \<Rightarrow> bool" where
  "is_fixture_path p \<longleftrightarrow> list_ex (\<lambda>d. d \<in> set FIXTURE_DIR_NAMES) (butlast (split_on (CHR ''/'') p))"

text \<open>\<^verbatim>\<open>re.escape(pattern)\<close> with \<^verbatim>\<open>**/\<close>, \<^verbatim>\<open>*\<close> and \<^verbatim>\<open>?\<close> replaced by \<^verbatim>\<open>(?:.*/)?\<close>, \<^verbatim>\<open>[^/]*\<close> and \<^verbatim>\<open>[^/]\<close>\<close>

definition rx_not_slash :: rx where
  "rx_not_slash = RCh (\<lambda>c. c \<noteq> CHR ''/'')"

fun glob_rx :: "string \<Rightarrow> rx" where
  "glob_rx [] = REps"
| "glob_rx (c # s) =
     (if c = CHR ''*'' \<and> startswith s ''*/'' then RSeq (rx_opt (RSeq (RStar rx_any) (rx_lit ''/''))) (glob_rx (drop 2 s))
      else if c = CHR ''*'' then RSeq (RStar rx_not_slash) (glob_rx s)
      else if c = CHR ''?'' then RSeq rx_not_slash (glob_rx s)
      else RSeq (RCh (\<lambda>x. x = c)) (glob_rx s))"

declare glob_rx.simps [simp del]

definition norm_pattern :: "json \<Rightarrow> string" where
  "norm_pattern j = (let s = strip (str_of j) in if startswith s ''./'' then drop 2 s else s)"

definition include_matches :: "string \<Rightarrow> string \<Rightarrow> bool" where
  "include_matches rel pattern =
     (if \<not> list_ex (\<lambda>c. c \<in> set ''*?'') pattern
      then rel = pattern \<or> startswith rel (rstrip_char (CHR ''/'') pattern @ ''/'')
      else re_fullmatch (glob_rx pattern) rel)"

definition tsconfig_names :: "(string \<Rightarrow> json option) \<Rightarrow> gtree \<Rightarrow> string \<Rightarrow> string \<Rightarrow> bool" where
  "tsconfig_names jsonc t cfg rel =
     (case map_of (gt_files t) cfg of
        None \<Rightarrow> False
      | Some b \<Rightarrow>
          (case jsonc b of
             Some (JObj d) \<Rightarrow>
               if mget d ''files'' = JNull \<and> mget d ''include'' = JNull then \<not> has_key d ''extends''
               else rel \<in> set (map norm_pattern (as_list (mget d ''files'')))
                    \<or> list_ex (\<lambda>p. include_matches rel (norm_pattern p)) (as_list (mget d ''include''))
           | _ \<Rightarrow> False))"

definition nested_type_project :: "string \<Rightarrow> gtree \<Rightarrow> string option" where
  "nested_type_project p t =
     (if is_fixture_path p \<or> startswith p ''.github/graph-admission/'' \<or> contains p ''node_modules/'' \<or> CHR ''/'' \<notin> set p
      then None
      else let parts = butlast (split_on (CHR ''/'') p);
               dirs = map (\<lambda>i. join ''/'' (take i parts)) (rev [1..<Suc (length parts)])
           in (case filter (\<lambda>d. tree_exists t (d @ ''/tsconfig.json'')) dirs of [] \<Rightarrow> None | d # _ \<Rightarrow> Some d))"

text \<open>\<^verbatim>\<open>nest_bootstrap.deployable_of\<close>\<close>

definition root_length :: "string \<Rightarrow> nat" where
  "root_length d = (if d \<in> {[], ''.''} then 0 else length d)"

definition deployable_of :: "string \<Rightarrow> string list \<Rightarrow> string option" where
  "deployable_of p deployables =
     (case filter (\<lambda>d. d \<in> {[], ''.''} \<or> p = d \<or> startswith p (d @ ''/'')) deployables of
        [] \<Rightarrow> None
      | d # ds \<Rightarrow> Some (foldl (\<lambda>best x. if root_length x > root_length best then x else best) d ds))"

definition type_project_of :: "string \<Rightarrow> string list \<Rightarrow> gtree \<Rightarrow> string option" where
  "type_project_of p deployables t =
     (case deployable_of p deployables of
        Some d \<Rightarrow> Some d
      | None \<Rightarrow>
          (case nested_type_project p t of
             Some d \<Rightarrow> Some d
           | None \<Rightarrow> if tree_exists t ''tsconfig.json'' then Some ''.'' else None))"

text \<open>\<^verbatim>\<open>re.fullmatch(r"tsconfig\.[^.]+\.json", name)\<close>\<close>

definition sibling_config :: rx where
  "sibling_config = rx_seq [rx_lit ''tsconfig.'', rx_plus (RCh (\<lambda>c. c \<noteq> CHR ''.'')), rx_lit ''.json'']"

text \<open>\<^verbatim>\<open>re.search(r"\.(spec|test)\.[cm]?[jt]sx?$", p)\<close>\<close>

definition test_suffix :: rx where
  "test_suffix =
     rx_seq [rx_lit ''.'', rx_words [''spec'', ''test''], rx_lit ''.'', rx_opt (rx_of ''cm''), rx_of ''jt'', rx_lit ''s'',
             rx_opt (rx_lit ''x''), REnd]"

text \<open>\<^verbatim>\<open>os.path.relpath\<close> of paths without \<^verbatim>\<open>..\<close> components\<close>

fun strip_common :: "'a list \<Rightarrow> 'a list \<Rightarrow> 'a list \<times> 'a list" where
  "strip_common (x # xs) (y # ys) = (if x = y then strip_common xs ys else (x # xs, y # ys))"
| "strip_common xs ys = (xs, ys)"

definition relpath :: "string \<Rightarrow> string \<Rightarrow> string" where
  "relpath p start =
     (case strip_common (pure_parts p) (pure_parts start) of (rest, up) \<Rightarrow>
        let parts = replicate (length up) ''..'' @ rest in if parts = [] then ''.'' else join ''/'' parts)"

definition project_profile :: "dict \<Rightarrow> string \<Rightarrow> dict" where
  "project_profile profile dep = as_dict (mget (as_dict (mget profile ''deployables'')) dep)"

definition project_prefix :: "string \<Rightarrow> string" where
  "project_prefix dep = (if dep \<in> {[], ''.''} then [] else dep @ ''/'')"

definition default_configs :: "gtree \<Rightarrow> string \<Rightarrow> string list" where
  "default_configs t prefix =
     (let main = (if tree_exists t (prefix @ ''tsconfig.json'') then [prefix @ ''tsconfig.json''] else []);
          siblings = filter (\<lambda>i. dirname i = rstrip_char (CHR ''/'') prefix \<and> re_fullmatch sibling_config (basename i)
                               \<and> basename i \<noteq> ''tsconfig.base.json'') (sort (map fst (gt_files t)))
      in main @ filter (\<lambda>i. i \<notin> set main) siblings)"

definition test_config_of :: "gtree \<Rightarrow> dict \<Rightarrow> string \<Rightarrow> string option" where
  "test_config_of t prof prefix =
     (if truthy (mget prof ''tsconfig_test'') then Some (str_of (mget prof ''tsconfig_test''))
      else if tree_exists t (prefix @ ''tsconfig.test.json'') then Some (prefix @ ''tsconfig.test.json'') else None)"

definition narrow_configs ::
  "(string \<Rightarrow> json option) \<Rightarrow> gtree \<Rightarrow> dict \<Rightarrow> string \<Rightarrow> string \<Rightarrow> string list \<Rightarrow> string list" where
  "narrow_configs jsonc t prof prefix p configs =
     (let tc = test_config_of t prof prefix;
          rel = (if startswith p prefix then drop (length prefix) p else p);
          is_test = re_search test_suffix rel \<or> list_ex (startswith rel) [''test/'', ''__tests__/'', ''e2e/''];
          covering = filter (\<lambda>c. tsconfig_names jsonc t c (relpath p (dirname c))) configs;
          plain = (if has_key prof ''tsconfig'' then configs
                   else case covering of
                          c # _ \<Rightarrow> [c]
                        | [] \<Rightarrow> if prefix @ ''tsconfig.json'' \<in> set configs then [prefix @ ''tsconfig.json''] else configs)
      in case tc of
           None \<Rightarrow> plain
         | Some c \<Rightarrow>
             if is_test then [c]
             else if configs \<noteq> [] \<and> c \<notin> set configs \<and> \<not> list_ex (\<lambda>x. tsconfig_names jsonc t x rel) configs
                     \<and> tsconfig_names jsonc t c rel
             then [c] else plain)"

definition tsconfigs_for ::
  "(string \<Rightarrow> json option) \<Rightarrow> gtree \<Rightarrow> dict \<Rightarrow> string \<Rightarrow> string option \<Rightarrow> string list" where
  "tsconfigs_for jsonc t profile dep po =
     (let prof = project_profile profile dep; prefix = project_prefix dep;
          configs = (if has_key prof ''tsconfig'' then map str_of (as_list (mget prof ''tsconfig'')) else default_configs t prefix);
          configs = (case po of None \<Rightarrow> configs | Some p \<Rightarrow> narrow_configs jsonc t prof prefix p configs)
      in if mget prof ''synthetic_tsconfig'' \<noteq> JNull \<and> configs = [] then [''synthetic:'' @ dep] else configs)"

definition type_project_covers :: "(string \<Rightarrow> json option) \<Rightarrow> gtree \<Rightarrow> dict \<Rightarrow> string list \<Rightarrow> string \<Rightarrow> bool" where
  "type_project_covers jsonc t profile deployables p =
     (case type_project_of p deployables t of
        None \<Rightarrow> False | Some d \<Rightarrow> tsconfigs_for jsonc t profile d (Some p) \<noteq> [])"

definition deployable_paths :: "graph_index \<Rightarrow> graph_index \<Rightarrow> string list" where
  "deployable_paths before after =
     remdups (concat (map (\<lambda>n. case n_path n of
         Some p \<Rightarrow> (if n_type n = ''deployable_unit'' \<and> p \<noteq> [] then [rstrip_char (CHR ''/'') p] else []) | None \<Rightarrow> [])
       (map snd (idx_nodes before @ idx_nodes after))))"

definition tree_profile :: "(string \<Rightarrow> json option) \<Rightarrow> gtree \<Rightarrow> dict" where
  "tree_profile loads t =
     (case map_of (gt_files t) ''.arcana/verify.json'' of
        None \<Rightarrow> []
      | Some b \<Rightarrow> (case loads b of Some (JObj d) \<Rightarrow> d | _ \<Rightarrow> []))"

definition fixture_type_check_is_owed ::
  "(string \<Rightarrow> json option) \<Rightarrow> (string \<Rightarrow> json option) \<Rightarrow> string \<Rightarrow> graph_index \<Rightarrow> graph_index \<Rightarrow> gtree \<Rightarrow> bool" where
  "fixture_type_check_is_owed loads jsonc p before after t =
     (if \<not> is_fixture_path p then True
      else type_project_covers jsonc t (tree_profile loads t) (deployable_paths before after) p)"

text \<open>\<^verbatim>\<open>_deployable_has_ts\<close>\<close>

definition deployable_has_ts :: "string \<Rightarrow> graph_index \<Rightarrow> graph_index \<Rightarrow> bool" where
  "deployable_has_ts dep before after =
     (let d = rstrip_char (CHR ''/'') dep; prefix = (if d \<in> {[], ''.''} then [] else d @ ''/'')
      in list_ex (\<lambda>n. let p = (case n_path n of Some p \<Rightarrow> p | None \<Rightarrow> []); rel = drop (length prefix) p
           in startswith p prefix
              \<and> \<not> (startswith rel ''.github/graph-admission/'' \<or> contains rel ''node_modules/'' \<or> startswith rel ''vendor/'')
              \<and> ext_of rel \<in> set NOT_OWED_TS_EXTS)
         (map snd (idx_nodes before @ idx_nodes after)))"

end
