(* ===== verification/PairReceipt.thy ===== *)
theory PairReceipt
  imports PairOwed SchemaSections ImpactPairProps
begin

section \<open>The gate's independent check of a receipt\<close>

text \<open>
  \<^verbatim>\<open>mandatory_by_entity\<close>, \<^verbatim>\<open>structural_exclusions_rederived\<close> and the coverage half of \<^verbatim>\<open>receipt_problems\<close> of
  \<^verbatim>\<open>tools/graph/impact_pair.py\<close>.  The verifier matrix is a record of its tables.  What git holds is an
  argument: \<open>blob rev path\<close> is \<^verbatim>\<open>git cat-file blob\<close>.
\<close>

subsection \<open>The matrix minimum\<close>

record node_rule =
  nr_mandatory :: "string list"
  nr_selectable :: "string list"

record verifier_rule =
  vr_kind :: "string option"
  vr_applies :: "string list"

record matrix =
  mx_node_types :: "(string \<times> node_rule) list"
  mx_node_kinds :: "(string \<times> string list) list"
  mx_edge_types :: "(string \<times> string list) list"
  mx_verifiers :: "(string \<times> verifier_rule) list"

definition is_test_path :: "string \<Rightarrow> bool" where
  "is_test_path p \<longleftrightarrow>
     re_search test_suffix p \<or> contains p ''/test/'' \<or> contains p ''/__tests__/''
     \<or> startswith p ''test/'' \<or> startswith p ''__tests__/''"

definition canary_unreachable_test :: "string \<Rightarrow> string \<Rightarrow> bool \<Rightarrow> bool" where
  "canary_unreachable_test ntype p inferred_boundary \<longleftrightarrow> ntype = ''code_unit'' \<and> \<not> inferred_boundary \<and> is_test_path p"

text \<open>\<^verbatim>\<open>e.get("revision_paths", [e])\<close>\<close>

definition paths_of :: "merged_entry \<Rightarrow> impact_entry list" where
  "paths_of m = (case me_record m of Revisions _ \<Rightarrow> [me_entry m] | RevisionPaths rs \<Rightarrow> map (\<lambda>r. snd (snd r)) rs)"

text \<open>The core rows come first; each entity has one merged row.\<close>

definition merged_rows :: "pair_result \<Rightarrow> merged_entry list" where
  "merged_rows r = in_part Core (pr_rows r) @ in_part Tail (pr_rows r)"

definition inferred_boundary :: "pair_result \<Rightarrow> string \<Rightarrow> bool" where
  "inferred_boundary r eid =
     (case filter (\<lambda>m. en_entity (me_entry m) = eid) (merged_rows r) of
        [] \<Rightarrow> False
      | m # _ \<Rightarrow>
          list_ex (\<lambda>h. h_provenance h \<in> {''inferred'', ''observed''}) (concat (map en_path (paths_of m)))
          \<and> en_boundary (me_entry m) \<in> {''service'', ''repo''})"

definition merged_json :: "merged_entry \<Rightarrow> json" where
  "merged_json m =
     JObj ([(''entity'', JStr (en_entity (me_entry m))), (''node_type'', JStr (en_node_type (me_entry m))),
            (''path'', JArr (map hop_json (en_path (me_entry m))))]
           @ (case me_record m of Revisions _ \<Rightarrow> []
              | RevisionPaths rs \<Rightarrow> [(''revision_paths'', JArr (map (\<lambda>r. entry_json (snd (snd r))) rs))]))"

definition pair_fallback_units :: "pair_result \<Rightarrow> exc + string list" where
  "pair_fallback_units r = fallback_units (map merged_json (merged_rows r))"

definition pair_selected :: "pair_result \<Rightarrow> exc + string list" where
  "pair_selected r =
     (if pr_fallback r \<noteq> None
      then bindE (pair_fallback_units r) (\<lambda>us.
             Inr (remdups (pr_seeds r @ us @ map str_of (traversal_entities (map merged_json (merged_rows r))))))
      else Inr (remdups (pr_seeds r @ map (\<lambda>m. en_entity (me_entry m)) (merged_rows r))))"

definition node_in :: "graph_index \<Rightarrow> graph_index \<Rightarrow> string \<Rightarrow> gnode option" where
  "node_in before after eid =
     (case map_of (idx_nodes after) eid of Some n \<Rightarrow> Some n | None \<Rightarrow> map_of (idx_nodes before) eid)"

definition systemd_floor :: "(string \<times> string) list" where
  "systemd_floor = [(''systemd_unit'', ''systemd_unit_semantics''), (''source_file'', ''source_file_integrity'')]"

definition floor_declared :: "matrix \<Rightarrow> string \<Rightarrow> string \<Rightarrow> bool" where
  "floor_declared M t v \<longleftrightarrow>
     (case map_of (mx_node_types M) t of Some r \<Rightarrow> v \<in> set (nr_mandatory r) | None \<Rightarrow> False)
     \<and> (case map_of (mx_verifiers M) v of Some r \<Rightarrow> t \<in> set (vr_applies r) | None \<Rightarrow> False)"

definition validate_systemd_admission_floor :: "matrix \<Rightarrow> string list \<Rightarrow> gexc option" where
  "validate_systemd_admission_floor M present =
     (case filter (\<lambda>(t, v). t \<in> set present \<and> \<not> floor_declared M t v) systemd_floor of
        [] \<Rightarrow> None
      | (t, v) # _ \<Rightarrow> Some (Refuse ''SYSTEMD_MANDATORY_FLOOR_MISSING'' [(''node_type'', JStr t), (''required'', JArr [JStr v])]))"

definition hop_kinds :: "pair_result \<Rightarrow> string \<Rightarrow> string list" where
  "hop_kinds r eid =
     concat (map (\<lambda>m. if en_entity (me_entry m) = eid then concat (map (\<lambda>e. map h_edge_type (en_path e)) (paths_of m)) else [])
       (merged_rows r))"

definition edge_kinds :: "graph_index \<Rightarrow> string list \<Rightarrow> string list \<Rightarrow> string \<Rightarrow> string list" where
  "edge_kinds idx affected changed eid =
     map e_type (filter (\<lambda>e. e_to e \<in> set affected \<or> eid \<in> set changed) (get_list (idx_fwd idx) eid))
     @ map e_type (filter (\<lambda>e. e_from e \<in> set affected) (get_list (idx_rev idx) eid))"

definition or_nil :: "'a list option \<Rightarrow> 'a list" where
  "or_nil x = (case x of Some xs \<Rightarrow> xs | None \<Rightarrow> [])"

definition declared_for :: "matrix \<Rightarrow> gnode \<Rightarrow> string list \<Rightarrow> string list" where
  "declared_for M n kinds =
     or_nil (map_option nr_mandatory (map_of (mx_node_types M) (n_type n)))
     @ (case n_kind n of None \<Rightarrow> [] | Some k \<Rightarrow> or_nil (map_of (mx_node_kinds M) k))
     @ concat (map (\<lambda>k. or_nil (map_of (mx_edge_types M) k)) kinds)"

text \<open>\<^verbatim>\<open>matrix["verifiers"][v]\<close> raises for a verifier the matrix does not declare.\<close>

definition applicable :: "matrix \<Rightarrow> gnode \<Rightarrow> string list \<Rightarrow> exc + string list" where
  "applicable M n vs =
     filterE (\<lambda>v. case map_of (mx_verifiers M) v of
                    None \<Rightarrow> Inl (KeyError v) | Some r \<Rightarrow> Inr (n_type n \<in> set (vr_applies r))) vs"

record owed_context =
  oc_entries :: "not_owed list"
  oc_revision_paths :: "string list"
  oc_deployables :: "string list"

text \<open>What decides that \<^verbatim>\<open>type_check\<close> is not owed by a node.\<close>

definition type_check_discharged ::
  "(string \<Rightarrow> json option) \<Rightarrow> (string \<Rightarrow> json option) \<Rightarrow> graph_index \<Rightarrow> graph_index \<Rightarrow> owed_context option \<Rightarrow> gtree option
     \<Rightarrow> gnode \<Rightarrow> bool" where
  "type_check_discharged loads jsonc before after ctx tree n \<longleftrightarrow>
     (let p = (case n_path n of Some p \<Rightarrow> p | None \<Rightarrow> []); code = n_type n \<in> {''code_unit'', ''route''}
      in code \<and> ext_of p \<notin> set CODE_EXTS
         \<or> n_type n = ''deployable_unit'' \<and> \<not> deployable_has_ts p before after
         \<or> code \<and> (case tree of Some t \<Rightarrow> \<not> fixture_type_check_is_owed loads jsonc p before after t | None \<Rightarrow> False)
         \<or> code \<and> (case ctx of
               Some c \<Rightarrow> type_check_not_owed p (oc_entries c) (oc_revision_paths c) (oc_deployables c) \<noteq> None
             | None \<Rightarrow> False))"

definition mandatory_of ::
  "(string \<Rightarrow> json option) \<Rightarrow> (string \<Rightarrow> json option) \<Rightarrow> matrix \<Rightarrow> graph_index \<Rightarrow> graph_index \<Rightarrow> pair_result
     \<Rightarrow> owed_context option \<Rightarrow> gtree option \<Rightarrow> string list \<Rightarrow> string list \<Rightarrow> string \<Rightarrow> exc + (string \<times> string list)" where
  "mandatory_of loads jsonc M before after r ctx tree affected units eid =
     (case node_in before after eid of
        None \<Rightarrow> Inl (KeyError eid)
      | Some n \<Rightarrow>
          let kinds = hop_kinds r eid @ edge_kinds before affected (pr_seeds r) eid @ edge_kinds after affected (pr_seeds r) eid;
              p = (case n_path n of Some p \<Rightarrow> p | None \<Rightarrow> [])
          in bindE (applicable M n (declared_for M n kinds)) (\<lambda>required.
               Inr (eid, sorted_set
                 (filter (\<lambda>v. \<not> (v = ''type_check'' \<and> type_check_discharged loads jsonc before after ctx tree n)
                            \<and> \<not> (v = ''canary'' \<and> canary_unreachable_test (n_type n) p (inferred_boundary r eid))) required
                  @ (if eid \<in> set units then [''full_fallback_test''] else [])))))"

definition mandatory_by_entity ::
  "(string \<Rightarrow> json option) \<Rightarrow> (string \<Rightarrow> json option) \<Rightarrow> matrix \<Rightarrow> graph_index \<Rightarrow> graph_index \<Rightarrow> pair_result
     \<Rightarrow> owed_context option \<Rightarrow> gtree option \<Rightarrow> gexc + (string \<times> string list) list" where
  "mandatory_by_entity loads jsonc M before after r ctx tree =
     bindE (map_sum Exc id (pair_selected r)) (\<lambda>affected.
       let present = concat (map (\<lambda>eid. case node_in before after eid of Some n \<Rightarrow> [n_type n] | None \<Rightarrow> []) affected)
       in case validate_systemd_admission_floor M present of
            Some x \<Rightarrow> Inl x
          | None \<Rightarrow>
              bindE (if pr_fallback r \<noteq> None then map_sum Exc id (pair_fallback_units r) else Inr []) (\<lambda>units.
                map_sum Exc id (mapE (mandatory_of loads jsonc M before after r ctx tree affected units) affected)))"

subsection \<open>Rows and kinds\<close>

definition row_measured_verified :: "dict \<Rightarrow> string \<Rightarrow> bool" where
  "row_measured_verified v entity \<longleftrightarrow>
     (let per = mget v ''entity_verdicts''
      in if is_dict per \<and> has_key (as_dict per) entity then mget (as_dict per) entity = JStr ''verified''
         else equals_zero (mget v ''exit_code''))"

definition row_kind_of :: "matrix \<Rightarrow> string \<Rightarrow> string" where
  "row_kind_of M v =
     (if v = ''full_fallback_test'' then v
      else case map_of (mx_verifiers M) v of Some r \<Rightarrow> (case vr_kind r of Some k \<Rightarrow> k | None \<Rightarrow> v) | None \<Rightarrow> v)"

definition uncovered_row_kinds :: "matrix \<Rightarrow> string list \<Rightarrow> json list \<Rightarrow> string list" where
  "uncovered_row_kinds M minimum covered = filter (\<lambda>v. JStr (row_kind_of M v) \<notin> set covered) minimum"

definition covering_kind :: "dict \<Rightarrow> json" where
  "covering_kind v = (if is_full_suite v then JStr ''full_fallback_test'' else mget v ''kind'')"

definition covered_kinds :: "string \<Rightarrow> dict list \<Rightarrow> json list" where
  "covered_kinds entity referenced =
     map covering_kind
       (filter (\<lambda>v. JStr entity \<in> set (as_list (mget v ''entities'')) \<and> row_measured_verified v entity
                  \<and> nonblank_str (mget v ''output_ref'')) referenced)"

text \<open>\<^verbatim>\<open>records\<close> and \<^verbatim>\<open>verifiers\<close> are dictionaries of the rows that are objects: the last one of a key.\<close>

definition record_for :: "dict \<Rightarrow> string \<Rightarrow> dict" where
  "record_for doc entity =
     (case last_row ''entity'' (JStr entity) (filter is_dict (rows doc ''verdicts'')) of Some v \<Rightarrow> v | None \<Rightarrow> [])"

definition referenced_by :: "dict \<Rightarrow> dict \<Rightarrow> dict list" where
  "referenced_by doc rec =
     map (\<lambda>i. case last_row ''id'' i (filter is_dict (rows doc ''verifiers'')) of Some v \<Rightarrow> v | None \<Rightarrow> [])
       (as_list (mget rec ''verifier_ids''))"

datatype coverage_problem =
    LacksMandatoryScope string
  | ContradictsRow string json
  | MissingVerdicts "string list"
  | NoMandatoryMapping
  | RequiredOmitsEntities
  | RequiredOmitsMandatory
  | HeadNotMeasured "string list"
  | ExclusionRefused string
  | ExclusionsNotAList

definition entity_problems :: "matrix \<Rightarrow> dict \<Rightarrow> string \<times> string list \<Rightarrow> coverage_problem list" where
  "entity_problems M doc em =
     (case em of (entity, minimum) \<Rightarrow>
        let rec = record_for doc entity; referenced = referenced_by doc rec
        in if mget rec ''verdict'' \<noteq> JStr ''verified'' then []
           else (if uncovered_row_kinds M minimum (covered_kinds entity referenced) \<noteq> [] then [LacksMandatoryScope entity] else [])
                @ map (\<lambda>v. ContradictsRow entity (mget v ''id''))
                    (filter (\<lambda>v. is_dict (mget v ''entity_verdicts'')
                               \<and> str_in (mget (as_dict (mget v ''entity_verdicts'')) entity) [''failed'', ''not_measured'']) referenced))"

subsection \<open>Exclusions\<close>

definition sha_of :: "(string \<Rightarrow> string) \<Rightarrow> string \<Rightarrow> string" where
  "sha_of sha b = ''sha256:'' @ sha b"

definition task_of :: "json \<Rightarrow> json" where
  "task_of wi = (case wi of JStr s \<Rightarrow> JStr s | JObj d \<Rightarrow> mget d ''task_id'' | _ \<Rightarrow> JNull)"

text \<open>One revision of a superseded receipt: \<^verbatim>\<open>None\<close> for a refusal, else whether the path exists there.\<close>

definition superseded_at ::
  "(string \<Rightarrow> json option) \<Rightarrow> (string \<Rightarrow> string) \<Rightarrow> (string \<Rightarrow> string \<Rightarrow> string option) \<Rightarrow> json \<Rightarrow> dict \<Rightarrow> string \<Rightarrow> string \<times> string
     \<Rightarrow> bool option" where
  "superseded_at loads sha blob wi digests p rr =
     (case rr of (rv, role) \<Rightarrow>
        (case blob rv p of
           None \<Rightarrow> if mget digests role = JNull then Some False else None
         | Some b \<Rightarrow>
             if mget digests role \<noteq> JStr (sha_of sha b) then None
             else (case loads b of
                     Some (JObj was) \<Rightarrow>
                       if is_str (mget was ''schema'') \<and> endswith (str_of (mget was ''schema'')) ''Receipt/v1''
                          \<and> task_of (mget was ''work_item'') = wi
                       then Some True else None
                   | _ \<Rightarrow> None)))"

definition superseded_self_rederived ::
  "(string \<Rightarrow> json option) \<Rightarrow> (string \<Rightarrow> string) \<Rightarrow> (string \<Rightarrow> string \<Rightarrow> string option) \<Rightarrow> dict \<Rightarrow> dict \<Rightarrow> json \<Rightarrow> string \<Rightarrow> string \<Rightarrow> bool" where
  "superseded_self_rederived loads sha blob doc claim p base head \<longleftrightarrow>
     (let wi = task_of (mget doc ''work_item''); sup = as_dict (mget claim ''superseded'');
          digests = as_dict (mget claim ''content_hash'');
          seen = map (superseded_at loads sha blob wi digests (str_of p)) [(base, ''base''), (head, ''head'')]
      in is_str p \<and> str_of p \<noteq> [] \<and> p = mget doc ''receipt_path'' \<and> truthy wi
         \<and> mget sup ''work_item'' = wi \<and> mget sup ''receipt_path'' = p
         \<and> None \<notin> set seen \<and> Some True \<in> set seen)"

definition unchanged_rederived ::
  "(string \<Rightarrow> string) \<Rightarrow> (string \<Rightarrow> string \<Rightarrow> string option) \<Rightarrow> dict \<Rightarrow> dict \<Rightarrow> json \<Rightarrow> string \<Rightarrow> string \<Rightarrow> bool" where
  "unchanged_rederived sha blob doc claim p base head \<longleftrightarrow>
     (let changed = map (\<lambda>f. mget (as_dict f) ''path'') (as_list (mget (sub doc ''change_set'') ''files''));
          digests = as_dict (mget claim ''content_hash'')
      in p \<notin> set changed \<and> is_str p
         \<and> (case (blob base (str_of p), blob head (str_of p)) of
              (Some b, Some h) \<Rightarrow>
                b = h \<and> mget digests ''base'' = JStr (sha_of sha b) \<and> mget digests ''head'' = JStr (sha_of sha h)
            | _ \<Rightarrow> False))"

definition unverified_type :: "matrix \<Rightarrow> string \<Rightarrow> bool" where
  "unverified_type M t \<longleftrightarrow>
     (case map_of (mx_node_types M) t of Some r \<Rightarrow> nr_mandatory r = [] \<and> nr_selectable r = [] | None \<Rightarrow> False)"

definition exclusion_rederived ::
  "(string \<Rightarrow> json option) \<Rightarrow> (string \<Rightarrow> string) \<Rightarrow> (string \<Rightarrow> string \<Rightarrow> string option) \<Rightarrow> matrix \<Rightarrow> graph_index \<Rightarrow> graph_index
     \<Rightarrow> dict \<Rightarrow> string \<Rightarrow> string \<Rightarrow> json \<Rightarrow> bool" where
  "exclusion_rederived loads sha blob M before after doc base head j \<longleftrightarrow>
     (let claim = as_dict j; eid = str_of (mget claim ''entity''); node = node_in before after eid;
          ntype = (case node of Some n \<Rightarrow> if n_type n \<noteq> [] then n_type n else before_colon eid | None \<Rightarrow> before_colon eid);
          p = (case node of
                 Some n \<Rightarrow> (case n_path n of Some (c # cs) \<Rightarrow> JStr (c # cs) | _ \<Rightarrow> mget claim ''path'')
               | None \<Rightarrow> mget claim ''path'')
      in is_dict j \<and> is_str (mget claim ''entity'') \<and> unverified_type M ntype
         \<and> (if mget claim ''rule'' = JStr ''DEC-AUP-0035''
            then superseded_self_rederived loads sha blob doc claim p base head
            else unchanged_rederived sha blob doc claim p base head))"

definition structural_exclusions_rederived ::
  "(string \<Rightarrow> json option) \<Rightarrow> (string \<Rightarrow> string) \<Rightarrow> (string \<Rightarrow> string \<Rightarrow> string option) \<Rightarrow> matrix \<Rightarrow> graph_index \<Rightarrow> graph_index
     \<Rightarrow> dict \<Rightarrow> string \<Rightarrow> string \<Rightarrow> string list \<times> coverage_problem list" where
  "structural_exclusions_rederived loads sha blob M before after doc base head =
     (let claims = mget doc ''structural_exclusions''; ok = exclusion_rederived loads sha blob M before after doc base head
      in if claims = JNull \<or> claims = JArr [] then ([], [])
         else if \<not> is_list claims then ([], [ExclusionsNotAList])
         else (map (\<lambda>j. str_of (mget (as_dict j) ''entity'')) (filter ok (as_list claims)),
               map (\<lambda>j. ExclusionRefused (str_of (mget (as_dict j) ''entity''))) (filter (\<lambda>j. \<not> ok j) (as_list claims))))"

subsection \<open>Coverage of the rebuilt selection\<close>

definition expected_entities :: "pair_result \<Rightarrow> string list" where
  "expected_entities r = remdups (pr_select_base r @ pr_select_head r)"

definition missing_verdicts :: "pair_result \<Rightarrow> dict \<Rightarrow> string list \<Rightarrow> string list" where
  "missing_verdicts r doc accepted =
     sort (filter (\<lambda>e. JStr e \<notin> set (map (\<lambda>v. mget (as_dict v) ''entity'') (rows doc ''verdicts'')) \<and> e \<notin> set accepted)
       (expected_entities r))"

definition required_map :: "dict \<Rightarrow> json" where
  "required_map doc = mget (sub doc ''verify'') ''required_by_entity''"

definition required_problems :: "pair_result \<Rightarrow> (string \<times> string list) list \<Rightarrow> json \<Rightarrow> coverage_problem list" where
  "required_problems r mandatory required =
     (if required = JNull then []
      else if \<not> is_dict required \<or> \<not> list_all (has_key (as_dict required)) (expected_entities r) then [RequiredOmitsEntities]
      else if list_ex (\<lambda>(e, vs). \<not> is_list (mget (as_dict required) e)
                          \<or> \<not> set (map JStr vs) \<subseteq> set (as_list (mget (as_dict required) e))) mandatory
      then [RequiredOmitsMandatory] else [])"

text \<open>
  The last part of \<^verbatim>\<open>receipt_problems\<close>, on the paired query of the rebuilt graphs.  \<open>enforce\<close> is
  \<^verbatim>\<open>enforce_mandatory\<close>; the mandatory verifiers are computed only where the code needs them.
\<close>

definition coverage_problems ::
  "(string \<Rightarrow> json option) \<Rightarrow> (string \<Rightarrow> json option) \<Rightarrow> (string \<Rightarrow> string) \<Rightarrow> (string \<Rightarrow> string \<Rightarrow> string option) \<Rightarrow> matrix
     \<Rightarrow> graph_index \<Rightarrow> graph_index \<Rightarrow> pair_result \<Rightarrow> owed_context \<Rightarrow> gtree \<Rightarrow> bool \<Rightarrow> dict \<Rightarrow> string \<Rightarrow> string
     \<Rightarrow> gexc + coverage_problem list" where
  "coverage_problems loads jsonc sha blob M before after r ctx tree enforce doc base head =
     (let (accepted, refused) = structural_exclusions_rederived loads sha blob M before after doc base head;
          missing = missing_verdicts r doc accepted;
          required = required_map doc; admitted = admitting (admission_of doc);
          need = (required \<noteq> JNull \<and> is_dict required \<and> list_all (has_key (as_dict required)) (expected_entities r)
                  \<or> enforce \<and> admitted)
      in bindE (if need then mandatory_by_entity loads jsonc M before after r (Some ctx) (Some tree) else Inr []) (\<lambda>mandatory.
           Inr (refused
                @ (if missing \<noteq> [] then [MissingVerdicts missing] else [])
                @ (if enforce \<and> admitted \<and> required = JNull then [NoMandatoryMapping] else [])
                @ required_problems r mandatory required
                @ (if enforce \<and> admitted then concat (map (entity_problems M doc) mandatory) else [])
                @ (if pr_unmeasured r \<noteq> [] then [HeadNotMeasured (pr_unmeasured r)] else []))))"

end
