(* ===== verification/JsonValues.thy ===== *)
theory JsonValues
  imports Prelude
begin

section \<open>Equality, order and canonical text of JSON values\<close>

text \<open>
  What the tools use of Python's comparison of JSON values: \<^verbatim>\<open>==\<close>, \<^verbatim>\<open>>\<close>, and equality of the text of
  \<^verbatim>\<open>json.dumps(v, sort_keys=True)\<close>.  The text itself is not modelled: \<open>canon v\<close> is the value with the keys of
  every object sorted, and two values have the same text exactly when these are equal.
\<close>

text \<open>\<^verbatim>\<open>==\<close>: keys have no order, and numbers and truth values are compared as numbers.\<close>

fun py_norm :: "json \<Rightarrow> json" where
  "py_norm (JBool b) = JInt (if b then 1 else 0)"
| "py_norm (JFloat r) = (if r = of_int \<lfloor>r\<rfloor> then JInt \<lfloor>r\<rfloor> else JFloat r)"
| "py_norm (JArr xs) = JArr (map py_norm xs)"
| "py_norm (JObj d) = JObj (sort_key fst (map (\<lambda>(k, v). (k, py_norm v)) d))"
| "py_norm j = j"

definition py_eq :: "json \<Rightarrow> json \<Rightarrow> bool" where
  "py_eq a b \<longleftrightarrow> py_norm a = py_norm b"

fun canon :: "json \<Rightarrow> json" where
  "canon (JArr xs) = JArr (map canon xs)"
| "canon (JObj d) = JObj (sort_key fst (map (\<lambda>(k, v). (k, canon v)) d))"
| "canon j = j"

text \<open>The value of a number, and \<^verbatim>\<open>a > b\<close> of two values: a \<^verbatim>\<open>TypeError\<close> between a number and a string.\<close>

definition num_val :: "json \<Rightarrow> rat option" where
  "num_val j =
     (case j of JInt i \<Rightarrow> Some (of_int i) | JFloat r \<Rightarrow> Some r | JBool b \<Rightarrow> Some (if b then 1 else 0) | _ \<Rightarrow> None)"

definition py_greater :: "json \<Rightarrow> json \<Rightarrow> exc + bool" where
  "py_greater a b =
     (case (num_val a, num_val b) of
        (Some x, Some y) \<Rightarrow> Inr (y < x)
      | _ \<Rightarrow> (case (a, b) of (JStr s, JStr t) \<Rightarrow> Inr (t < s) | _ \<Rightarrow> Inl TypeError))"

subsection \<open>Lookups\<close>

lemma map_of_insort_key:
  "map_of (insort_key fst x xs) k = (if fst x = k then Some (snd x) else map_of xs k)"
  by (induction xs) (auto split: if_splits)

lemma map_of_sort_key: "map_of (sort_key fst d) k = map_of d k"
  by (induction d) (simp_all add: map_of_insort_key)

lemma mget_sorted_map:
  assumes "f JNull = JNull"
  shows "mget (sort_key fst (map (\<lambda>(k, v). (k, f v)) d)) k = f (mget d k)"
  using assms by (simp add: mget_def map_of_sort_key map_of_map split: option.split)

lemma has_key_sorted_map [simp]: "has_key (sort_key fst (map (\<lambda>(k, v). (k, f v)) d)) k \<longleftrightarrow> has_key d k"
  by (simp add: has_key_def map_of_sort_key map_of_map)

lemma mget_canon: "mget (as_dict (canon j)) k = canon (mget (as_dict j) k)"
  by (cases j) (simp_all add: as_dict_def mget_sorted_map, simp_all add: mget_def)

lemma has_key_canon [simp]: "has_key (as_dict (canon j)) k \<longleftrightarrow> has_key (as_dict j) k"
  by (cases j) (simp_all add: as_dict_def)

lemma keys_canon [simp]: "fst ` set (as_dict (canon j)) = fst ` set (as_dict j)"
  by (cases j) (force simp: as_dict_def)+

lemma as_list_canon: "as_list (canon j) = map canon (as_list j)"
  by (cases j) (simp_all add: as_list_def)

lemma canon_scalar [simp]:
  "canon j = JStr s \<longleftrightarrow> j = JStr s" "canon j = JNull \<longleftrightarrow> j = JNull"
  by (cases j; simp)+

lemma sort_key_nil [simp]: "sort_key f xs = [] \<longleftrightarrow> xs = []"
  by (metis length_0_conv length_sort)

lemma truthy_canon [simp]: "truthy (canon j) \<longleftrightarrow> truthy j"
  by (cases j) (simp_all add: truthy_def)

lemma num_val_canon [simp]: "num_val (canon j) = num_val j"
  by (cases j) (simp_all add: num_val_def)

lemma has_key_keys: "has_key d k \<longleftrightarrow> k \<in> fst ` set d"
  by (auto simp: has_key_def map_of_eq_None_iff dest: weak_map_of_SomeI)

text \<open>Sorting keys twice is sorting once, so canonical values keep their equality.\<close>

definition on_snd :: "('b \<Rightarrow> 'c) \<Rightarrow> 'a \<times> 'b \<Rightarrow> 'a \<times> 'c" where
  "on_snd f x = (fst x, f (snd x))"

lemma on_snd_case: "(\<lambda>(k, v). (k, f v)) = on_snd f"
  by (auto simp: on_snd_def)

lemma fst_on_snd [simp]: "fst (on_snd f x) = fst x"
  by (simp add: on_snd_def)

lemma map_insort_key: "map (on_snd f) (insort_key fst x xs) = insort_key fst (on_snd f x) (map (on_snd f) xs)"
  by (induction xs) simp_all

lemma map_sort_key: "map (on_snd f) (sort_key fst xs) = sort_key fst (map (on_snd f) xs)"
  by (induction xs) (simp_all add: map_insort_key)

lemma sort_sort_key [simp]: "sort_key fst (sort_key fst xs) = sort_key fst xs"
  by (simp add: sort_key_id_if_sorted)

lemma sort_map_sort:
  "sort_key fst (map (on_snd f) (sort_key fst (map (on_snd g) d))) = sort_key fst (map (on_snd (\<lambda>v. f (g v))) d)"
  by (simp add: map_sort_key comp_def) (simp add: on_snd_def [abs_def])

lemma on_snd_cong: "(\<And>k v. (k, v) \<in> set d \<Longrightarrow> f v = g v) \<Longrightarrow> map (on_snd f) d = map (on_snd g) d"
  by (rule map_cong) (auto simp: on_snd_def)

lemma py_norm_canon [simp]: "py_norm (canon j) = py_norm j"
proof (induction j rule: canon.induct)
  case (2 d)
  then have "map (on_snd (\<lambda>v. py_norm (canon v))) d = map (on_snd py_norm) d" by (intro on_snd_cong) auto
  then show ?case by (simp only: canon.simps py_norm.simps on_snd_case sort_map_sort)
qed simp_all

lemma canon_canon [simp]: "canon (canon j) = canon j"
proof (induction j rule: canon.induct)
  case (2 d)
  then have "map (on_snd (\<lambda>v. canon (canon v))) d = map (on_snd canon) d" by (intro on_snd_cong) auto
  then show ?case by (simp only: canon.simps py_norm.simps on_snd_case sort_map_sort)
qed simp_all

subsection \<open>Sizes\<close>

lemma size_member_list: "x \<in> set xs \<Longrightarrow> size x < size (JArr xs)"
  by (induction xs) auto

lemma size_mget: "size (mget d k) < size (JObj d)"
proof (cases "map_of d k")
  case (Some v)
  then have "(k, v) \<in> set d" by (rule map_of_SomeD)
  then have "size v < size (JObj d)" by (induction d) auto
  then show ?thesis by (simp add: mget_def Some)
qed (simp add: mget_def)

end
