(* ===== verification/PairGate.thy ===== *)
theory PairGate
  imports PairReceipt SchemaGraph JsonValues
begin

section \<open>The gate on a receipt\<close>

text \<open>
  \<^verbatim>\<open>receipt_problems\<close> of \<^verbatim>\<open>tools/graph/impact_pair.py\<close> as a whole, with what it calls: the checks of full-suite
  evidence and of absent suites against git, the binding of an explanation of an empty impact set, the context of
  declared discharges, \<^verbatim>\<open>index_at\<close>.  What git prints, the builder of graphs, the proof of a caller's graph and the
  validator of an origin are the fields of the record \<open>gate_git\<close>.
\<close>

subsection \<open>Documents of a result\<close>

definition strs_doc :: "string list \<Rightarrow> json" where
  "strs_doc ss = JArr (map JStr ss)"

definition opt_field :: "string \<Rightarrow> string option \<Rightarrow> dict" where
  "opt_field k v = (case v of None \<Rightarrow> [] | Some x \<Rightarrow> [(k, JStr x)])"

definition hop_doc :: "hop \<Rightarrow> json" where
  "hop_doc h =
     JObj ([(''from'', JStr (h_from h)), (''to'', JStr (h_to h)), (''edge_type'', JStr (h_edge_type h)),
            (''provenance'', JStr (h_provenance h))]
           @ opt_field ''inferred_by'' (h_inferred_by h) @ opt_field ''observed_at_utc'' (h_observed_at_utc h)
           @ opt_field ''via'' (h_via h) @ opt_field ''boundary'' (h_boundary h))"

definition entry_fields :: "impact_entry \<Rightarrow> dict" where
  "entry_fields e =
     [(''entity'', JStr (en_entity e)), (''node_type'', JStr (en_node_type e)), (''depth'', JInt (int (en_depth e))),
      (''boundary'', JStr (en_boundary e)), (''path'', JArr (map hop_doc (en_path e))),
      (''verifier_hint'', JStr (en_verifier_hint e))]"

definition section_name :: "part \<Rightarrow> string" where
  "section_name s = (case s of Core \<Rightarrow> ''deterministic_core'' | Tail \<Rightarrow> ''inferred_tail'')"

definition merged_doc :: "merged_entry \<Rightarrow> json" where
  "merged_doc m =
     JObj (entry_fields (me_entry m)
           @ (case me_record m of
                Revisions rs \<Rightarrow> [(''revisions'', strs_doc rs)]
              | RevisionPaths rs \<Rightarrow>
                  [(''revision_paths'',
                    JArr (map (\<lambda>(r, s, e). JObj ((''revision'', JStr r) # (''section'', JStr (section_name s)) # entry_fields e)) rs))]))"

definition section_doc :: "pair_result \<Rightarrow> part \<Rightarrow> json" where
  "section_doc r s = JArr (map merged_doc (in_part s (pr_rows r)))"

definition selection_doc :: "pair_result \<Rightarrow> json" where
  "selection_doc r =
     JObj [(''schema'', JStr ''RevisionImpactSelection/v1''), (''base'', strs_doc (pr_select_base r)),
           (''head'', strs_doc (pr_select_head r)), (''unmeasured_head_files'', strs_doc (pr_unmeasured r))]"

text \<open>\<open>files_doc\<close> renders the changed files, whose notes are prose.\<close>

definition metadata_doc :: "(change_entry list \<Rightarrow> json) \<Rightarrow> impact_set \<Rightarrow> revision_metadata \<Rightarrow> json" where
  "metadata_doc files_doc imp m =
     JObj [(''source_commit'', rm_source_commit m), (''graph_digest'', rm_graph_digest m), (''extractors'', rm_extractors m),
           (''language_coverage'', rm_language_coverage m), (''seeds'', strs_doc (rm_seeds m)),
           (''changed_node_known_to_graph'', JBool (rm_seeds m \<noteq> [])),
           (''internal_reverse_edges'', JInt (int (rm_internal m))), (''external_reverse_edges'', JInt (int (rm_external m))),
           (''files'', files_doc (rm_files m)),
           (''max_depth'', case is_max_depth imp of None \<Rightarrow> JNull | Some n \<Rightarrow> JInt (int n)),
           (''edge_types'', case is_edge_types imp of Some (t # ts) \<Rightarrow> strs_doc (sort (t # ts)) | _ \<Rightarrow> JStr ''all'')]"

subsection \<open>An explained empty impact set\<close>

definition EXPLANATION_FIELDS :: "string list" where
  "EXPLANATION_FIELDS =
     [''schema'', ''base'', ''head'', ''base_graph_digest'', ''head_graph_digest'', ''scope'', ''reason'']"

definition substantive :: "json \<Rightarrow> bool" where
  "substantive j \<longleftrightarrow>
     (let s = strip (str_of j)
      in is_str j \<and> length s \<ge> 40
         \<and> \<not> list_ex (startswith (lower s)) [''generated'', ''todo'', ''placeholder'', ''not_measured''])"

definition claim_bound :: "pair_result \<Rightarrow> string \<Rightarrow> string \<Rightarrow> dict \<Rightarrow> bool" where
  "claim_bound r base head c \<longleftrightarrow>
     mget c ''scope'' = JStr ''graph_non_seed_dependents'' \<and> mget c ''base'' = JStr base \<and> mget c ''head'' = JStr head
     \<and> mget c ''base_graph_digest'' = mget (q_graph (pr_base_query r)) ''graph_digest''
     \<and> mget c ''head_graph_digest'' = mget (pr_head_graph r) ''graph_digest''"

definition explained_revisions :: "pair_result \<Rightarrow> (string \<times> revision_metadata) list" where
  "explained_revisions r = (case pr_explanation r of None \<Rightarrow> [] | Some (_, ms) \<Rightarrow> ms)"

definition explainable :: "pair_result \<Rightarrow> bool" where
  "explainable r \<longleftrightarrow>
     pr_rows r = [] \<and> pr_fallback r = None \<and> pr_unmeasured r = []
     \<and> set (map fst (explained_revisions r)) = {''base'', ''head''}
     \<and> list_all (\<lambda>(_, m). rm_external m = 0) (explained_revisions r)
     \<and> list_ex (\<lambda>e. fst e = EMPTY_EVENT) (pr_events r)"

text \<open>\<open>dump_sha\<close> is the SHA-256 of the text that \<^verbatim>\<open>impact.dump\<close> writes for a value.\<close>

definition bind_empty_explanation ::
  "(change_entry list \<Rightarrow> json) \<Rightarrow> (json \<Rightarrow> string) \<Rightarrow> pair_result \<Rightarrow> string \<Rightarrow> string \<Rightarrow> json \<Rightarrow> gexc + json" where
  "bind_empty_explanation files_doc dump_sha r base head claim =
     (let c = as_dict claim; imp = q_impact_set (pr_base_query r)
      in if \<not> is_dict claim \<or> \<not> keys_are c EXPLANATION_FIELDS \<or> mget c ''schema'' \<noteq> JStr ''EmptyImpactExplanation/v1''
         then Inl (Refuse ''EMPTY_IMPACT_EXPLANATION_INVALID'' [])
         else if \<not> substantive (mget c ''reason'') then Inl (Refuse ''EMPTY_IMPACT_EXPLANATION_INVALID'' [])
         else if \<not> claim_bound r base head c then Inl (Refuse ''EMPTY_IMPACT_EXPLANATION_STALE'' [])
         else if \<not> explainable r then Inl (Refuse ''EMPTY_IMPACT_EXPLANATION_INAPPLICABLE'' [])
         else Inr (JObj
           [(''schema'', JStr ''BoundEmptyImpactExplanation/v1''), (''reason'', JStr (strip (str_of (mget c ''reason'')))),
            (''graph_metadata'',
              JObj [(''scope'', JStr ''graph_non_seed_dependents''),
                    (''revisions'', JObj (map (\<lambda>(role, m). (role, metadata_doc files_doc imp m)) (explained_revisions r)))]),
            (''binding'',
              JObj [(''schema'', JStr ''BoundEmptyImpactExplanation/v1''), (''input'', claim),
                    (''input_sha256'', JStr (''sha256:'' @ dump_sha claim))])]))"

subsection \<open>What the gate reads\<close>

text \<open>
  \<^item> \<open>gg_rev\<close>, \<open>gg_ancestor\<close>: \<^verbatim>\<open>git rev-parse\<close> and \<^verbatim>\<open>git merge-base --is-ancestor\<close> (an exception or \<^verbatim>\<open>None\<close>
    for a process that fails);
  \<^item> \<open>gg_ls_row\<close>, \<open>gg_ls_z\<close>, \<open>gg_ls_names\<close>, \<open>gg_ls_all\<close>: \<^verbatim>\<open>git ls-tree\<close> for one path, for one path with \<^verbatim>\<open>-z\<close>, of all
    names of the scope, and of all names with \<^verbatim>\<open>-z\<close>;
  \<^item> \<open>gg_show\<close>, \<open>gg_blob\<close>, \<open>gg_diff\<close>: \<^verbatim>\<open>git show\<close>, \<^verbatim>\<open>git cat-file blob\<close>, \<^verbatim>\<open>git diff --name-status -z\<close>;
  \<^item> \<open>gg_head\<close>, \<open>gg_dirty\<close>: the state of the checkout; \<open>gg_tree\<close>: \<^verbatim>\<open>build_graph.load_tree_git\<close> at the head;
  \<^item> \<open>gg_build\<close>: \<^verbatim>\<open>build_graph.build\<close> or the native selected build at a revision;
  \<^item> \<open>gg_caller_pair\<close>: \<^verbatim>\<open>caller_graph_pair\<close>; \<open>gg_obligations\<close>, \<open>gg_opcodes\<close>: as for \<open>pair_query\<close>;
  \<^item> \<open>gg_sha\<close>, \<open>gg_digest\<close>, \<open>gg_dump_sha\<close>, \<open>gg_loads\<close>, \<open>gg_jsonc\<close>, \<open>gg_files_doc\<close>: hashes, JSON readers and the rendering
    of changed files.
\<close>

record gate_git =
  gg_repo :: repo
  gg_rev :: "string \<Rightarrow> gexc + string"
  gg_ancestor :: "string \<Rightarrow> string \<Rightarrow> bool option"
  gg_ls_row :: "string \<Rightarrow> string \<Rightarrow> string option"
  gg_ls_z :: "string \<Rightarrow> string \<Rightarrow> string option"
  gg_ls_names :: "string \<Rightarrow> string option"
  gg_ls_all :: "string \<Rightarrow> string"
  gg_show :: "string \<Rightarrow> string \<Rightarrow> string option"
  gg_blob :: "string \<Rightarrow> string \<Rightarrow> string option"
  gg_diff :: "string \<Rightarrow> string \<Rightarrow> string"
  gg_head :: string
  gg_dirty :: bool
  gg_tree :: gtree
  gg_build :: "string \<Rightarrow> gexc + dict"
  gg_caller_pair :: "string \<Rightarrow> string \<Rightarrow> json \<Rightarrow> gexc + (graph_index \<times> graph_index \<times> json)"
  gg_obligations :: "graph_index \<Rightarrow> graph_index \<Rightarrow> (string list \<times> string list) option"
  gg_opcodes :: "string list \<Rightarrow> string list \<Rightarrow> opcode list"
  gg_sha :: "string \<Rightarrow> string"
  gg_digest :: "json \<Rightarrow> string"
  gg_dump_sha :: "json \<Rightarrow> string"
  gg_loads :: "string \<Rightarrow> json option"
  gg_jsonc :: "string \<Rightarrow> json option"
  gg_files_doc :: "change_entry list \<Rightarrow> json"

definition gate_read_at :: "gate_git \<Rightarrow> string \<Rightarrow> string list \<Rightarrow> gexc + (string \<times> string option) list" where
  "gate_read_at G rv paths = read_at (r_cat_file (gg_repo G)) (r_prefix (gg_repo G)) rv paths"

definition found_bytes :: "(string \<times> string option) list \<Rightarrow> string \<Rightarrow> string option" where
  "found_bytes res p = (case map_of res p of Some b \<Rightarrow> b | None \<Rightarrow> None)"

definition index_at :: "gate_git \<Rightarrow> graph_schema \<Rightarrow> edge_type_decls \<Rightarrow> string \<Rightarrow> gexc + graph_index" where
  "index_at G S decls rv =
     bindE (gg_build G rv) (\<lambda>doc.
       let errors = check_graph (gg_digest G) S [] doc
       in if errors \<noteq> [] then Inl (Refuse ''GRAPH_INVALID'' [(''violations'', strs_doc errors)])
          else Inr (make_index decls (read_graph doc)))"

subsection \<open>Full-suite evidence\<close>

definition committed_regular_profile :: "gate_git \<Rightarrow> string \<Rightarrow> string option" where
  "committed_regular_profile G rv =
     (case gg_ls_row G rv (r_prefix (gg_repo G) @ ARM_DEFINITION_PATH) of
        None \<Rightarrow> None
      | Some out \<Rightarrow>
          (case split_ws (strip out) of
             mode # kind # _ \<Rightarrow>
               if mode \<notin> {''100644'', ''100755''} \<or> kind \<noteq> ''blob'' then None
               else (case gate_read_at G rv [ARM_DEFINITION_PATH] of
                       Inl _ \<Rightarrow> None
                     | Inr res \<Rightarrow> found_bytes res ARM_DEFINITION_PATH)
           | _ \<Rightarrow> None))"

definition arm_definition_from_git :: "gate_git \<Rightarrow> string \<Rightarrow> string \<Rightarrow> range_def" where
  "arm_definition_from_git G base head =
     arm_definition_for_range (gg_loads G) (gg_sha G) (committed_regular_profile G base) (committed_regular_profile G head)"

definition BASE_UNTRUSTED :: range_def where
  "BASE_UNTRUSTED = Refused ''ARM_DEFINITION_BASE_UNTRUSTED''"

definition base_untrusted :: "gate_git \<Rightarrow> string \<Rightarrow> string \<Rightarrow> string option \<Rightarrow> range_def option" where
  "base_untrusted G base head trusted_base =
     (case trusted_base of
        None \<Rightarrow> Some BASE_UNTRUSTED
      | Some b \<Rightarrow>
          if b = [] then Some BASE_UNTRUSTED
          else (case (gg_rev G b, gg_ancestor G base head) of
                  (Inr trusted, Some ancestor) \<Rightarrow>
                    if trusted \<noteq> base then Some BASE_UNTRUSTED
                    else if base = head \<or> \<not> ancestor then Some BASE_UNTRUSTED else None
                | _ \<Rightarrow> Some BASE_UNTRUSTED))"

definition fallback_arm_problems ::
  "gate_git \<Rightarrow> string \<Rightarrow> string \<Rightarrow> dict \<Rightarrow> string list \<Rightarrow> string option \<Rightarrow> string list" where
  "fallback_arm_problems G base head doc units trusted_base =
     (let armed = list_ex (\<lambda>v. is_dict v \<and> has_key (as_dict v) ''arms'' \<and> is_full_suite (as_dict v))
            (as_list (mget doc ''verifiers''));
          arm_def = (if armed
                     then Some (case base_untrusted G base head trusted_base of
                                  Some d \<Rightarrow> d | None \<Rightarrow> arm_definition_from_git G base head)
                     else None)
      in fallback_evidence_problems doc units arm_def)"

subsection \<open>A declared absent suite\<close>

datatype absent_problem =
    AbsentUnits
  | AbsentDeployable
  | AbsentUnreadable
  | AbsentTests "string list"
  | AbsentScripts string
  | AbsentUnknown "string list"
  | AbsentUndeclared
  | AbsentReason
  | AbsentStatic

definition head_names :: "gate_git \<Rightarrow> string \<Rightarrow> string list option" where
  "head_names G head =
     map_option (\<lambda>out. map (drop (length (r_prefix (gg_repo G))))
         (filter (\<lambda>n. startswith n (r_prefix (gg_repo G))) (filter (\<lambda>n. n \<noteq> []) (split_on newline out))))
       (gg_ls_names G head)"

text \<open>The files of the head with the bytes of every suite source, and the committed profile.\<close>

definition head_suite :: "gate_git \<Rightarrow> string \<Rightarrow> ((string \<times> string option) list \<times> json) option" where
  "head_suite G head =
     (case head_names G head of
        None \<Rightarrow> None
      | Some names \<Rightarrow>
          (case (gate_read_at G head (absent_suite_sources names), gate_read_at G head [ARM_DEFINITION_PATH]) of
             (Inr srcs, Inr prof) \<Rightarrow>
               map_option (\<lambda>p. (map (\<lambda>n. (n, found_bytes srcs n)) names, p))
                 (gg_loads G (case found_bytes prof ARM_DEFINITION_PATH of
                                Some b \<Rightarrow> (if b = [] then ''{}'' else b) | None \<Rightarrow> ''{}''))
           | _ \<Rightarrow> None))"

definition root_profile :: "json \<Rightarrow> dict" where
  "root_profile profile = as_dict (mget (as_dict (mget (as_dict profile) ''deployables'')) ''.'')"

definition static_argv :: "json \<Rightarrow> string list list" where
  "static_argv j = map (\<lambda>a. map str_of (as_list a)) (as_list j)"

definition static_row_matches :: "dict \<Rightarrow> json \<Rightarrow> bool" where
  "static_row_matches row recorded \<longleftrightarrow>
     static_argv (mget row ''static_validation'') \<noteq> []
     \<and> (case recorded of
          JArr [JObj r] \<Rightarrow> mget r ''command'' = JStr (absent_suite_static_text (static_argv (mget row ''static_validation'')))
        | _ \<Rightarrow> False)"

definition absent_profile_problems :: "dict \<Rightarrow> json \<Rightarrow> absent_problem list" where
  "absent_profile_problems ts profile =
     (let row = root_profile profile; decl = as_dict (mget ts ''declaration''); reason = mget row ''full_test_absent_reason''
      in (if dget row ''full_test'' \<noteq> Some JNull \<or> \<not> nonblank reason then [AbsentUndeclared]
          else if mget decl ''full_test_absent_reason'' \<noteq> JStr (strip (str_of reason)) then [AbsentReason] else [])
         @ (if \<not> static_row_matches row (mget ts ''static_validation'') then [AbsentStatic] else []))"

definition absent_suite_repo_problems :: "gate_git \<Rightarrow> string \<Rightarrow> dict \<Rightarrow> string list \<Rightarrow> absent_problem list" where
  "absent_suite_repo_problems G head doc units =
     (let ts = as_dict (mget doc ''test_suite''); decl = as_dict (mget ts ''declaration'')
      in case head_suite G head of
           None \<Rightarrow> [AbsentUnreadable]
         | Some (files, profile) \<Rightarrow>
             let facts = absent_suite_tree (gg_loads G) files
             in (if set units \<noteq> {''deployable_unit:.''} \<or> set (as_list (mget ts ''entities'')) \<noteq> set (map JStr units)
                 then [AbsentUnits] else [])
                @ (if mget decl ''deployable'' \<noteq> JStr ''.'' then [AbsentDeployable] else [])
                @ (if sf_test_files facts \<noteq> [] then [AbsentTests (sf_test_files facts)] else [])
                @ (case sf_scripts_test facts of None \<Rightarrow> [] | Some s \<Rightarrow> [AbsentScripts s])
                @ (if sf_unknown facts \<noteq> [] then [AbsentUnknown (sf_unknown facts)] else [])
                @ absent_profile_problems ts profile)"

subsection \<open>Declared discharges at both revisions\<close>

definition profile_at :: "gate_git \<Rightarrow> string \<Rightarrow> json" where
  "profile_at G rv =
     (case gg_show G rv (r_prefix (gg_repo G) @ ''.arcana/verify.json'') of
        None \<Rightarrow> JObj []
      | Some out \<Rightarrow> (case gg_loads G out of Some j \<Rightarrow> j | None \<Rightarrow> JObj []))"

definition not_owed_context :: "gate_git \<Rightarrow> string \<Rightarrow> string \<Rightarrow> string \<Rightarrow> graph_index \<Rightarrow> graph_index \<Rightarrow> owed_context" where
  "not_owed_context G base head now before after =
     (let paths = concat (map (\<lambda>rv. filter (\<lambda>p. p \<noteq> []) (split_on nul (gg_ls_all G rv))) [base, head])
      in \<lparr>oc_entries = not_owed_in_force (profile_at G base) (profile_at G head) now paths, oc_revision_paths = paths,
          oc_deployables =
            map (\<lambda>n. case n_path n of Some p \<Rightarrow> p | None \<Rightarrow> [])
              (filter (\<lambda>n. n_type n = ''deployable_unit'') (map snd (idx_nodes before @ idx_nodes after)))\<rparr>)"

subsection \<open>The whole check\<close>

datatype gate_problem =
    CompatNotObject
  | CompatRefused
  | CompatDiffers
  | OriginRefused
  | DepthInvalid
  | EdgeTypesInvalid
  | ArmProblem string
  | AbsentProblem absent_problem
  | ExplanationDiffers
  | ExplanationOtherDiagnostics
  | ExplanationUnpaired
  | ExplanationInvalid
  | ExplanationUnbound
  | HeadBindingMissing
  | GraphBindingDiffers string
  | SelectionDiffers
  | PathsDiffer string
  | CoverageProblem coverage_problem

definition resolve_range :: "gate_git \<Rightarrow> dict \<Rightarrow> gexc + (string \<times> string)" where
  "resolve_range G cs =
     (if \<not> has_key cs ''base'' then Inl (Exc (KeyError ''base''))
      else bindE (gg_rev G (str_of (mget cs ''base''))) (\<lambda>base.
             if \<not> has_key cs ''head'' then Inl (Exc (KeyError ''head''))
             else bindE (gg_rev G (str_of (mget cs ''head''))) (\<lambda>head. Inr (base, head))))"

definition receipt_files :: "dict \<Rightarrow> changed_file list \<Rightarrow> changed_file list" where
  "receipt_files cs actual =
     filter (\<lambda>f. JStr (f_path f) \<in> set (map (\<lambda>x. mget (as_dict x) ''path'') (as_list (mget cs ''files'')))) actual"

fun compat_caught :: "gexc \<Rightarrow> bool" where
  "compat_caught (Refuse _ _) = True"
| "compat_caught (Exc e) = (case e of KeyError _ \<Rightarrow> True | _ \<Rightarrow> e = ValueError \<or> e = TypeError \<or> e = OSError)"

definition gate_graphs ::
  "gate_git \<Rightarrow> graph_schema \<Rightarrow> edge_type_decls \<Rightarrow> string \<Rightarrow> string \<Rightarrow> dict \<Rightarrow> gexc + gate_problem + (graph_index \<times> graph_index)" where
  "gate_graphs G S decls base head doc =
     (let compat = mget doc ''caller_graph_compatibility''
      in if compat = JNull
         then bindE (index_at G S decls base) (\<lambda>before. bindE (index_at G S decls head) (\<lambda>after. Inr (Inr (before, after))))
         else if \<not> is_dict compat then Inr (Inl CompatNotObject)
         else case gg_caller_pair G base head (mget (as_dict compat) ''bundle_path'') of
                Inl e \<Rightarrow> if compat_caught e then Inr (Inl CompatRefused) else Inl e
              | Inr (before, after, rebuilt) \<Rightarrow>
                  if \<not> py_eq compat rebuilt then Inr (Inl CompatDiffers) else Inr (Inr (before, after)))"

definition bound_options :: "dict \<Rightarrow> gate_problem + (nat option \<times> string list option)" where
  "bound_options doc =
     (let sc = sub doc ''impact_set'';
          depth = (if has_key sc ''max_depth'' then mget sc ''max_depth'' else JInt 3);
          types = (if has_key sc ''edge_types'' then mget sc ''edge_types'' else JStr ''all'')
      in case (case depth of JNull \<Rightarrow> Some None | JInt n \<Rightarrow> (if n \<ge> 0 then Some (Some (nat n)) else None) | _ \<Rightarrow> None) of
           None \<Rightarrow> Inl DepthInvalid
         | Some d \<Rightarrow>
             if types = JStr ''all'' then Inr (d, None)
             else if \<not> is_list types \<or> \<not> list_all is_str (as_list types) then Inl EdgeTypesInvalid
             else Inr (d, Some (map str_of (as_list types))))"

definition receipt_paired :: "dict \<Rightarrow> bool" where
  "receipt_paired doc \<longleftrightarrow> has_key doc ''revision_selection'' \<or> has_key doc ''head_graph''"

definition selects_workflow :: "graph_index \<Rightarrow> string list \<Rightarrow> bool" where
  "selects_workflow idx sel \<longleftrightarrow>
     list_ex (\<lambda>e. case map_of (idx_nodes idx) e of Some n \<Rightarrow> n_kind n = Some ''workflow_configuration'' | None \<Rightarrow> False) sel"

definition enforces_mandatory :: "graph_index \<Rightarrow> graph_index \<Rightarrow> pair_result \<Rightarrow> dict \<Rightarrow> bool" where
  "enforces_mandatory before after r doc \<longleftrightarrow>
     receipt_paired doc \<or> selects_workflow before (pr_select_base r) \<or> selects_workflow after (pr_select_head r)
     \<or> pr_fallback r \<noteq> None \<or> has_key (sub doc ''empty_impact_explanation'') ''binding''"

definition new_at_head :: "pair_result \<Rightarrow> bool" where
  "new_at_head r \<longleftrightarrow> \<not> set (pr_select_head r) \<subseteq> set (pr_select_base r)"

definition explanation_problems :: "gate_git \<Rightarrow> pair_result \<Rightarrow> string \<Rightarrow> string \<Rightarrow> dict \<Rightarrow> gate_problem list" where
  "explanation_problems G r base head doc =
     (let ex = sub doc ''empty_impact_explanation''; binding = mget ex ''binding''
      in if has_key ex ''binding''
         then (case (if is_dict binding
                     then bind_empty_explanation (gg_files_doc G) (gg_dump_sha G) r base head (mget (as_dict binding) ''input'')
                     else Inl (Exc AttributeError)) of
                 Inl _ \<Rightarrow> [ExplanationInvalid]
               | Inr expected \<Rightarrow>
                   (if \<not> py_eq expected (JObj ex) then [ExplanationDiffers] else [])
                   @ (if list_ex (\<lambda>e. fst e \<noteq> EMPTY_EVENT) (pr_events r) then [ExplanationOtherDiagnostics] else [])
                   @ (if \<not> receipt_paired doc then [ExplanationUnpaired] else []))
         else if mget ex ''schema'' = JStr ''BoundEmptyImpactExplanation/v1'' then [ExplanationUnbound] else [])"

definition graph_bound :: "bool \<Rightarrow> dict \<Rightarrow> string \<Rightarrow> graph_index \<Rightarrow> bool" where
  "graph_bound proved doc field idx \<longleftrightarrow>
     mget (sub doc field) ''source_commit'' = mget (idx_manifest idx) ''source_commit''
     \<and> (mget (sub doc field) ''graph_digest'' = mget (idx_manifest idx) ''graph_digest'' \<or> proved)"

definition pairing_problems :: "bool \<Rightarrow> graph_index \<Rightarrow> graph_index \<Rightarrow> pair_result \<Rightarrow> dict \<Rightarrow> gate_problem list" where
  "pairing_problems proved before after r doc =
     (if \<not> receipt_paired doc
      then (if new_at_head r \<or> pr_unmeasured r \<noteq> [] then [HeadBindingMissing] else [])
      else map (\<lambda>(field, _). GraphBindingDiffers field)
             (filter (\<lambda>(field, idx). \<not> graph_bound proved doc field idx) [(''graph'', before), (''head_graph'', after)])
           @ (if \<not> py_eq (mget doc ''revision_selection'') (selection_doc r) then [SelectionDiffers] else [])
           @ map (\<lambda>s. PathsDiffer (section_name s))
               (filter (\<lambda>s. \<not> py_eq (mget (sub doc ''impact_set'') (section_name s)) (section_doc r s)) [Core, Tail]))"

definition suite_problems ::
  "gate_git \<Rightarrow> pair_result \<Rightarrow> string \<Rightarrow> string \<Rightarrow> dict \<Rightarrow> string option \<Rightarrow> gexc + gate_problem list" where
  "suite_problems G r base head doc trusted_base =
     (if pr_fallback r = None then Inr []
      else bindE (map_sum Exc id (pair_fallback_units r)) (\<lambda>units.
             Inr (map ArmProblem (fallback_arm_problems G base head doc units trusted_base)
                  @ (if is_dict (mget doc ''test_suite'')
                     then map AbsentProblem (absent_suite_repo_problems G head doc units) else []))))"

definition capture_time :: "dict \<Rightarrow> string \<Rightarrow> string" where
  "capture_time doc now = (if truthy (mget doc ''captured_at_utc'') then str_of (mget doc ''captured_at_utc'') else now)"

definition judge_result ::
  "gate_git \<Rightarrow> matrix \<Rightarrow> string \<Rightarrow> dict \<Rightarrow> string option \<Rightarrow> bool \<Rightarrow> string \<Rightarrow> string \<Rightarrow> graph_index \<Rightarrow> graph_index \<Rightarrow> pair_result
     \<Rightarrow> gexc + gate_problem list" where
  "judge_result G M now doc trusted_base proved base head before after r =
     (let enforce = enforces_mandatory before after r doc
      in if \<not> enforce \<and> \<not> new_at_head r \<and> pr_unmeasured r = [] then Inr []
         else bindE (suite_problems G r base head doc trusted_base) (\<lambda>suite.
              bindE (coverage_problems (gg_loads G) (gg_jsonc G) (gg_sha G) (gg_blob G) M before after r
                       (not_owed_context G base head (capture_time doc now) before after) (gg_tree G) enforce doc base head) (\<lambda>cov.
                Inr (suite @ explanation_problems G r base head doc @ pairing_problems proved before after r doc
                     @ map CoverageProblem cov))))"

definition gate_args :: "gate_git \<Rightarrow> string \<Rightarrow> string \<Rightarrow> nat option \<Rightarrow> string list option \<Rightarrow> pair_args" where
  "gate_args G base head depth types =
     \<lparr>pa_repo = gg_repo G, pa_base = base, pa_head = head, pa_tree_commit = gg_head G, pa_tree_dirty = gg_dirty G,
      pa_max_depth = depth, pa_edge_types = types, pa_graph_path = None, pa_head_graph_path = None\<rparr>"

text \<open>
  \<open>origin\<close> is \<^verbatim>\<open>origin_binding\<close>: \<^verbatim>\<open>None\<close>, or whether \<^verbatim>\<open>origin_association.validate\<close> accepts the two graphs.
\<close>

definition receipt_problems ::
  "gate_git \<Rightarrow> graph_schema \<Rightarrow> edge_type_decls \<Rightarrow> matrix \<Rightarrow> string \<Rightarrow> dict \<Rightarrow> string option
     \<Rightarrow> (graph_index \<Rightarrow> graph_index \<Rightarrow> bool) option \<Rightarrow> (gexc + gate_problem list) option" where
  "receipt_problems G S decls M now doc trusted_base origin =
     (let cs = sub doc ''change_set''
      in if mget cs ''mode'' \<noteq> JStr ''diff'' then Some (Inr [])
         else bindO (Some (resolve_range G cs)) (\<lambda>(base, head).
              bindO (Some (map_sum Exc id (diff_files (r_prefix (gg_repo G)) (gg_diff G base head)))) (\<lambda>actual.
                let files = receipt_files cs actual
                in if files = [] then Some (Inr [])
                   else bindO (Some (gate_graphs G S decls base head doc)) (\<lambda>graphs.
                     case graphs of
                       Inl p \<Rightarrow> Some (Inr [p])
                     | Inr (before, after) \<Rightarrow>
                         if (case origin of None \<Rightarrow> False | Some ok \<Rightarrow> \<not> ok before after) then Some (Inr [OriginRefused])
                         else (case bound_options doc of
                                 Inl p \<Rightarrow> Some (Inr [p])
                               | Inr (depth, types) \<Rightarrow>
                                   bindO (pair_query (gg_sha G) now (gg_ls_z G) (gg_opcodes G) (gg_obligations G before after)
                                            before after files (gate_args G base head depth types)) (\<lambda>r.
                                     Some (judge_result G M now doc trusted_base (origin \<noteq> None) base head before after r)))))))"

end
