(* ===== verification/PairReceiptProps.thy ===== *)
theory PairReceiptProps
  imports PairReceipt
begin

section \<open>What the independent check guarantees\<close>

text \<open>
  A receipt in which the gate finds no coverage problem accounts for every entity of the selection that was
  rebuilt from git, and each of its verified entities rests on rows that measured it for every mandatory
  verifier.  Live TypeScript never loses its type check.
\<close>

subsection \<open>Coverage\<close>

lemma uncovered_none:
  "uncovered_row_kinds M vs ks = [] \<Longrightarrow> v \<in> set vs \<Longrightarrow> JStr (row_kind_of M v) \<in> set ks"
  by (auto simp: uncovered_row_kinds_def filter_empty_conv)

definition measured_by :: "dict \<Rightarrow> string \<Rightarrow> json \<Rightarrow> bool" where
  "measured_by doc e kind \<longleftrightarrow>
     list_ex (\<lambda>v. covering_kind v = kind \<and> JStr e \<in> set (as_list (mget v ''entities'')) \<and> row_measured_verified v e
                \<and> nonblank_str (mget v ''output_ref'')) (referenced_by doc (record_for doc e))"

lemma covered_measured: "k \<in> set (covered_kinds e (referenced_by doc (record_for doc e))) \<Longrightarrow> measured_by doc e k"
  by (auto simp: covered_kinds_def measured_by_def list_ex_iff)

lemma entity_problems_none:
  assumes "entity_problems M doc (e, vs) = []" "mget (record_for doc e) ''verdict'' = JStr ''verified''"
  shows "list_all (\<lambda>v. measured_by doc e (JStr (row_kind_of M v))) vs"
    "list_all (\<lambda>v. \<not> (is_dict (mget v ''entity_verdicts'')
        \<and> str_in (mget (as_dict (mget v ''entity_verdicts'')) e) [''failed'', ''not_measured''])) (referenced_by doc (record_for doc e))"
proof -
  have u: "uncovered_row_kinds M vs (covered_kinds e (referenced_by doc (record_for doc e))) = []"
    using assms unfolding entity_problems_def Let_def by (auto split: if_splits)
  show "list_all (\<lambda>v. measured_by doc e (JStr (row_kind_of M v))) vs"
    using uncovered_none [OF u] covered_measured by (simp add: list_all_iff)
  show "list_all (\<lambda>v. \<not> (is_dict (mget v ''entity_verdicts'')
        \<and> str_in (mget (as_dict (mget v ''entity_verdicts'')) e) [''failed'', ''not_measured''])) (referenced_by doc (record_for doc e))"
    using assms unfolding entity_problems_def Let_def by (auto simp: list_all_iff filter_empty_conv split: if_splits)
qed

lemma coverage_none:
  assumes "coverage_problems loads jsonc sha blob M before after r ctx tree enforce doc base head = Inr []"
  shows "missing_verdicts r doc (fst (structural_exclusions_rederived loads sha blob M before after doc base head)) = []"
    "pr_unmeasured r = []"
    "enforce \<Longrightarrow> admitting (admission_of doc) \<Longrightarrow>
       \<exists>ms. mandatory_by_entity loads jsonc M before after r (Some ctx) (Some tree) = Inr ms
          \<and> (\<forall>em \<in> set ms. entity_problems M doc em = [])"
  using assms unfolding coverage_problems_def Let_def
  by (auto simp: split_beta split: if_splits)

lemma missing_none:
  assumes "missing_verdicts r doc acc = []" "e \<in> set (expected_entities r)"
  shows "e \<in> set acc \<or> list_ex (\<lambda>v. mget (as_dict v) ''entity'' = JStr e) (rows doc ''verdicts'')"
proof -
  have "set (missing_verdicts r doc acc) = {}" using assms(1) by simp
  then have "JStr e \<in> (\<lambda>v. mget (as_dict v) ''entity'') ` set (rows doc ''verdicts'') \<or> e \<in> set acc"
    using assms(2) by (auto simp: missing_verdicts_def)
  then show ?thesis by (auto simp: list_ex_iff)
qed

text \<open>
  An admitting receipt without coverage problems accounts for the rebuilt selection.  Every entity that
  the base or the head query selects has a verdict or an exclusion that git confirms; no changed head file
  was left unmeasured; and every mandatory verifier of an entity with the verdict \<^verbatim>\<open>verified\<close> has a row that
  the verdict cites, that names the entity, measured it as verified and kept its output.
\<close>

lemma coverage_problems_complete:
  "case coverage_problems loads jsonc sha blob M before after r ctx tree True doc base head of
     Inr [] \<Rightarrow>
       (if admitting (admission_of doc) then
          list_all (\<lambda>e. e \<in> set (fst (structural_exclusions_rederived loads sha blob M before after doc base head))
                      \<or> list_ex (\<lambda>v. mget (as_dict v) ''entity'' = JStr e) (rows doc ''verdicts'')) (expected_entities r)
          \<and> pr_unmeasured r = []
          \<and> (case mandatory_by_entity loads jsonc M before after r (Some ctx) (Some tree) of
               Inl _ \<Rightarrow> False
             | Inr ms \<Rightarrow> list_all (\<lambda>(e, vs).
                 if mget (record_for doc e) ''verdict'' = JStr ''verified''
                 then list_all (\<lambda>v. measured_by doc e (JStr (row_kind_of M v))) vs else True) ms)
        else True)
   | _ \<Rightarrow> True"
proof (cases "coverage_problems loads jsonc sha blob M before after r ctx tree True doc base head = Inr []
    \<and> admitting (admission_of doc)")
  case True
  then have c: "coverage_problems loads jsonc sha blob M before after r ctx tree True doc base head = Inr []"
    and a: "admitting (admission_of doc)" by auto
  obtain ms where ms: "mandatory_by_entity loads jsonc M before after r (Some ctx) (Some tree) = Inr ms"
      "\<forall>em \<in> set ms. entity_problems M doc em = []"
    using coverage_none(3) [OF c TrueI a] by blast
  have "list_all (\<lambda>(e, vs). if mget (record_for doc e) ''verdict'' = JStr ''verified''
      then list_all (\<lambda>v. measured_by doc e (JStr (row_kind_of M v))) vs else True) ms"
    using ms(2) entity_problems_none(1) by (fastforce simp: list_all_iff)
  moreover have "e \<in> set (fst (structural_exclusions_rederived loads sha blob M before after doc base head))
      \<or> list_ex (\<lambda>v. mget (as_dict v) ''entity'' = JStr e) (rows doc ''verdicts'')" if "e \<in> set (expected_entities r)" for e
    using missing_none [OF coverage_none(1) [OF c] that] by blast
  ultimately show ?thesis using c a ms(1) coverage_none(2) [OF c] by (simp add: list_all_iff)
next
  case False
  then show ?thesis by (auto split: sum.split list.split)
qed

subsection \<open>Live TypeScript keeps its type check\<close>

lemma ext_endswith: "ext_of p \<noteq> [] \<Longrightarrow> endswith p (ext_of p)"
proof -
  assume e: "ext_of p \<noteq> []"
  let ?b = "basename p"
  let ?t = "takeWhile (\<lambda>c. c \<noteq> CHR ''.'') (rev ?b)"
  from e have d: "CHR ''.'' \<in> set ?b" and x: "ext_of p = CHR ''.'' # rev ?t"
    by (auto simp: ext_of_def Let_def split: if_splits)
  obtain ys where ys: "dropWhile (\<lambda>c. c \<noteq> CHR ''.'') (rev ?b) = CHR ''.'' # ys"
  proof (cases "dropWhile (\<lambda>c. c \<noteq> CHR ''.'') (rev ?b)")
    case Nil
    then show ?thesis using d by (auto simp: dropWhile_eq_Nil_conv)
  next
    case (Cons c cs)
    then have "c = CHR ''.''" using hd_dropWhile [of "\<lambda>c. c \<noteq> CHR ''.''" "rev ?b"] by auto
    then show ?thesis using Cons that by blast
  qed
  have "rev ?b = ?t @ CHR ''.'' # ys" by (metis takeWhile_dropWhile_id ys)
  moreover have "rev p = rev ?b @ dropWhile (\<lambda>c. c \<noteq> CHR ''/'') (rev p)" by (simp add: basename_def)
  ultimately have "rev p = rev (ext_of p) @ (ys @ dropWhile (\<lambda>c. c \<noteq> CHR ''/'') (rev p))"
    by (metis append.assoc append_Cons rev.simps(2) rev_rev_ident self_append_conv2 x)
  then show ?thesis by (simp only: endswith_def startswith_iff) blast
qed

definition live_typescript :: "gnode \<Rightarrow> bool" where
  "live_typescript n \<longleftrightarrow>
     n_type n \<in> {''code_unit'', ''route''}
     \<and> (case n_path n of Some p \<Rightarrow> ext_of p \<in> set NOT_OWED_TS_EXTS \<and> \<not> is_fixture_path p | None \<Rightarrow> False)"

definition wants_type_check :: "matrix \<Rightarrow> string \<Rightarrow> bool" where
  "wants_type_check M t \<longleftrightarrow>
     (case map_of (mx_node_types M) t of Some r \<Rightarrow> ''type_check'' \<in> set (nr_mandatory r) | None \<Rightarrow> False)
     \<and> (case map_of (mx_verifiers M) ''type_check'' of Some r \<Rightarrow> t \<in> set (vr_applies r) | None \<Rightarrow> False)"

lemma live_typescript_not_discharged:
  assumes "live_typescript n"
  shows "\<not> type_check_discharged loads jsonc before after ctx tree n"
proof -
  obtain p where p: "n_path n = Some p" "ext_of p \<in> set NOT_OWED_TS_EXTS" "\<not> is_fixture_path p"
    and t: "n_type n \<in> {''code_unit'', ''route''}"
    using assms by (auto simp: live_typescript_def split: option.splits)
  have "ext_of p \<in> set CODE_EXTS" using p(2) by (auto simp: NOT_OWED_TS_EXTS_def CODE_EXTS_def)
  moreover have "ends_in p NOT_OWED_TS_EXTS"
    using p(2) ext_endswith [of p] by (auto simp: ends_in_def list_ex_iff NOT_OWED_TS_EXTS_def)
  then have "type_check_not_owed p es rp ds = None" for es rp ds by (simp add: type_check_not_owed_def)
  ultimately show ?thesis
    using p t by (auto simp: type_check_discharged_def Let_def fixture_type_check_is_owed_def split: option.splits)
qed

lemma filterE_mem:
  "filterE f xs = Inr ys \<Longrightarrow> x \<in> set xs \<Longrightarrow> f x = Inr True \<Longrightarrow> x \<in> set ys"
  by (induction xs arbitrary: ys) (auto split: if_splits)

lemma mandatory_of_type_check:
  assumes m: "mandatory_of loads jsonc M before after r ctx tree affected units eid = Inr (e, vs)"
    and n: "node_in before after eid = Some n" "live_typescript n" "wants_type_check M (n_type n)"
  shows "e = eid" "''type_check'' \<in> set vs"
proof -
  obtain required kinds p where q: "applicable M n (declared_for M n kinds) = Inr required" "e = eid"
    "vs = sorted_set
       (filter (\<lambda>v. \<not> (v = ''type_check'' \<and> type_check_discharged loads jsonc before after ctx tree n)
                  \<and> \<not> (v = ''canary'' \<and> canary_unreachable_test (n_type n) p (inferred_boundary r eid))) required
        @ (if eid \<in> set units then [''full_fallback_test''] else []))"
    using m n(1) unfolding mandatory_of_def Let_def by auto
  have "''type_check'' \<in> set (declared_for M n kinds)"
    using n(3) by (auto simp: wants_type_check_def declared_for_def or_nil_def split: option.splits)
  then have "''type_check'' \<in> set required"
    using filterE_mem [OF q(1) [unfolded applicable_def]] n(3)
    by (auto simp: wants_type_check_def split: option.splits)
  then show "''type_check'' \<in> set vs" using live_typescript_not_discharged [OF n(2)] by (simp add: q(3))
  show "e = eid" by (rule q(2))
qed

text \<open>
  a TypeScript file outside fixture data never loses its type check in the gate's recomputed minimum.
  Whatever the committed profile declares, whatever compiler projects the tree has and whatever the paired
  query found, every affected code unit or route with a TypeScript extension whose type the matrix subjects to
  \<^verbatim>\<open>type_check\<close> has \<^verbatim>\<open>type_check\<close> among its mandatory verifiers.
\<close>

lemma typescript_keeps_type_check:
  "case mandatory_by_entity loads jsonc M before after r ctx tree of
     Inl _ \<Rightarrow> True
   | Inr ms \<Rightarrow>
       list_all (\<lambda>(eid, vs).
         case node_in before after eid of
           None \<Rightarrow> False
         | Some n \<Rightarrow> if live_typescript n \<and> wants_type_check M (n_type n) then ''type_check'' \<in> set vs else True) ms"
proof (cases "mandatory_by_entity loads jsonc M before after r ctx tree")
  case (Inr ms)
  then obtain affected units where a: "mapE (mandatory_of loads jsonc M before after r ctx tree affected units) affected = Inr ms"
    unfolding mandatory_by_entity_def Let_def
    by (auto simp: map_sum_Inr split: option.splits)
  have "case node_in before after e of
          None \<Rightarrow> False
        | Some n \<Rightarrow> if live_typescript n \<and> wants_type_check M (n_type n) then ''type_check'' \<in> set vs else True"
    if x: "mandatory_of loads jsonc M before after r ctx tree affected units eid = Inr (e, vs)" for eid e vs
  proof -
    have "e = eid \<and> node_in before after eid \<noteq> None"
      using x by (auto simp: mandatory_of_def Let_def split: option.splits)
    then show ?thesis using mandatory_of_type_check(2) [OF x] by (auto split: option.split)
  qed
  then have "list_all (\<lambda>(e, vs). case node_in before after e of
          None \<Rightarrow> False
        | Some n \<Rightarrow> if live_typescript n \<and> wants_type_check M (n_type n) then ''type_check'' \<in> set vs else True) ms"
    by (intro mapE_list_all [OF a]) (auto simp only: split_paired_all split_conv)
  then show ?thesis by (simp add: Inr)
qed simp

end
