(* ===== verification/PairGateProps.thy ===== *)
theory PairGateProps
  imports PairGate PairReceiptProps
begin

section \<open>What passing the gate means\<close>

text \<open>
  A paired, admitting receipt without problems agrees with the graphs, the selection and the paths that the gate
  rebuilt from git, and its verified entities rest on measured rows.  The evidence of test arms counts only
  under a base that the caller trusts, and an absent suite only when the tree at the head is quiet.
\<close>

subsection \<open>Arms need a trusted base\<close>

lemma refused_not_measured: "arms_verdict evidence head (Some (Refused code)) = NotMeasured"
  by (simp add: arms_verdict_def)

definition claims_arms :: "dict \<Rightarrow> string list \<Rightarrow> bool" where
  "claims_arms doc units \<longleftrightarrow>
     list_ex (\<lambda>row. list_ex (\<lambda>u. mget (as_dict (mget row ''entity_verdicts'')) u = JStr ''verified'') units) (arm_rows doc)"

lemma arm_rows_armed:
  assumes "row \<in> set (arm_rows doc)"
  shows "list_ex (\<lambda>v. is_dict v \<and> has_key (as_dict v) ''arms'' \<and> is_full_suite (as_dict v)) (as_list (mget doc ''verifiers''))"
proof -
  obtain v where v: "v \<in> set (as_list (mget doc ''verifiers''))" "row = as_dict v" "is_full_suite row" "has_key row ''arms''"
    using assms by (auto simp: arm_rows_def)
  have "is_dict v" using v(2,4) by (cases v) (auto simp: is_dict_def as_dict_def has_key_def)
  then show ?thesis using v by (auto simp: list_ex_iff)
qed


definition no_git :: gate_git where
  "no_git =
     \<lparr>gg_repo = \<lparr>r_cat_file = (\<lambda>_. []), r_prefix = [], r_worktree = (\<lambda>_. None), r_loads = (\<lambda>_. None)\<rparr>,
      gg_rev = Inr, gg_ancestor = (\<lambda>_ _. Some True), gg_ls_row = (\<lambda>_ _. None), gg_ls_z = (\<lambda>_ _. None),
      gg_ls_names = (\<lambda>_. None), gg_ls_all = (\<lambda>_. []), gg_show = (\<lambda>_ _. None), gg_blob = (\<lambda>_ _. None),
      gg_diff = (\<lambda>_ _. []), gg_head = ''h'', gg_dirty = False, gg_tree = \<lparr>gt_files = []\<rparr>, gg_build = (\<lambda>_. Inr []),
      gg_caller_pair = (\<lambda>_ _ _. Inl (Exc OSError)), gg_obligations = (\<lambda>_ _. None), gg_opcodes = (\<lambda>_ _. []),
      gg_sha = id, gg_digest = (\<lambda>_. []), gg_dump_sha = (\<lambda>_. []), gg_loads = (\<lambda>_. None), gg_jsonc = (\<lambda>_. None),
      gg_files_doc = (\<lambda>_. JArr [])\<rparr>"

definition armed_receipt :: dict where
  "armed_receipt =
     [(''verifiers'', JArr [JObj [(''scope'', JStr ''global_fallback_full_suite''), (''arms'', JObj []),
        (''entity_verdicts'', JObj [(''deployable_unit:.'', JStr ''verified'')])]])]"


subsection \<open>A receipt that passes\<close>

definition in_range :: "gate_git \<Rightarrow> dict \<Rightarrow> bool" where
  "in_range G doc \<longleftrightarrow>
     mget (sub doc ''change_set'') ''mode'' = JStr ''diff''
     \<and> (case resolve_range G (sub doc ''change_set'') of
          Inl _ \<Rightarrow> False
        | Inr (base, head) \<Rightarrow>
            (case diff_files (r_prefix (gg_repo G)) (gg_diff G base head) of
               Inl _ \<Rightarrow> False
             | Inr actual \<Rightarrow> receipt_files (sub doc ''change_set'') actual \<noteq> []))"

lemma in_rangeE:
  assumes "in_range G doc"
  obtains base head actual where "mget (sub doc ''change_set'') ''mode'' = JStr ''diff''"
    "resolve_range G (sub doc ''change_set'') = Inr (base, head)"
    "diff_files (r_prefix (gg_repo G)) (gg_diff G base head) = Inr actual"
    "receipt_files (sub doc ''change_set'') actual \<noteq> []"
proof -
  obtain base head where r: "resolve_range G (sub doc ''change_set'') = Inr (base, head)"
    using assms by (cases "resolve_range G (sub doc ''change_set'')") (auto simp: in_range_def)
  then show ?thesis
    using assms that by (cases "diff_files (r_prefix (gg_repo G)) (gg_diff G base head)") (auto simp: in_range_def)
qed

text \<open>Agreement with one rebuilt pair of graphs and its query result.\<close>

definition agrees :: "gate_git \<Rightarrow> matrix \<Rightarrow> string \<Rightarrow> dict \<Rightarrow> bool \<Rightarrow> string \<Rightarrow> string \<Rightarrow> graph_index \<Rightarrow> graph_index \<Rightarrow> pair_result \<Rightarrow> bool" where
  "agrees G M now doc proved base head before after r \<longleftrightarrow>
     graph_bound proved doc ''graph'' before \<and> graph_bound proved doc ''head_graph'' after
     \<and> py_eq (mget doc ''revision_selection'') (selection_doc r)
     \<and> list_all (\<lambda>s. py_eq (mget (sub doc ''impact_set'') (section_name s)) (section_doc r s)) [Core, Tail]
     \<and> pr_unmeasured r = []
     \<and> list_all (\<lambda>e. e \<in> set (fst (structural_exclusions_rederived (gg_loads G) (gg_sha G) (gg_blob G) M before after doc base head))
          \<or> list_ex (\<lambda>v. mget (as_dict v) ''entity'' = JStr e) (rows doc ''verdicts'')) (expected_entities r)
     \<and> (case mandatory_by_entity (gg_loads G) (gg_jsonc G) M before after r
               (Some (not_owed_context G base head (capture_time doc now) before after)) (Some (gg_tree G)) of
          Inl _ \<Rightarrow> False
        | Inr ms \<Rightarrow> list_all (\<lambda>(e, vs).
            if mget (record_for doc e) ''verdict'' = JStr ''verified''
            then list_all (\<lambda>v. measured_by doc e (JStr (row_kind_of M v))) vs else True) ms)"

lemma judged_agrees:
  assumes j: "judge_result G M now doc tb proved base head before after r = Inr []"
    and p: "receipt_paired doc" and a: "admitting (admission_of doc)"
  shows "agrees G M now doc proved base head before after r"
proof -
  have en: "enforces_mandatory before after r doc" using p by (simp add: enforces_mandatory_def)
  obtain cov where cov: "coverage_problems (gg_loads G) (gg_jsonc G) (gg_sha G) (gg_blob G) M before after r
        (not_owed_context G base head (capture_time doc now) before after) (gg_tree G) True doc base head = Inr cov"
      "cov = []" "pairing_problems proved before after r doc = []"
    using j en unfolding judge_result_def Let_def by (auto split: if_splits)
  note c = cov(1) [unfolded cov(2)]
  note complete = coverage_problems_complete
      [where loads = "gg_loads G" and jsonc = "gg_jsonc G" and sha = "gg_sha G" and blob = "gg_blob G" and M = M
         and before = before and after = after and r = r and tree = "gg_tree G" and doc = doc and base = base and head = head
         and ctx = "not_owed_context G base head (capture_time doc now) before after"]
  have pp: "graph_bound proved doc ''graph'' before" "graph_bound proved doc ''head_graph'' after"
      "py_eq (mget doc ''revision_selection'') (selection_doc r)"
      "list_all (\<lambda>s. py_eq (mget (sub doc ''impact_set'') (section_name s)) (section_doc r s)) [Core, Tail]"
    using cov(3) p unfolding pairing_problems_def by (auto split: if_splits)
  show ?thesis unfolding agrees_def using complete pp a by (simp add: c)
qed

lemma bindO_Some: "bindO m f = Some (Inr y) \<longleftrightarrow> (\<exists>x. m = Some (Inr x) \<and> f x = Some (Inr y))"
  by (auto simp: bindO_def split: option.splits sum.splits)


end
