(* ===== verification/Readiness.thy ===== *)
theory Readiness
  imports SchemaBase
begin

section \<open>Readiness receipts\<close>

text \<open>
  \<^verbatim>\<open>tools/graph/readiness_check.py\<close>: the validator of \<^verbatim>\<open>ReadinessReceipt/v1\<close> documents.  The tables that it reads from
  \<^verbatim>\<open>contracts/readiness-receipt-v1.schema.json\<close> are the record \<open>readiness_schema\<close>.  A finding is its code, as in
  \<open>SchemaBase\<close>; a note is the verdict that no table lists.

  A conformant receipt that asserts a contract binding names the contract by a well-formed digest, and by the
  digest the caller expects when there is one; its claims are tri-valued.
\<close>

record readiness_schema =
  rs_name :: string
  rs_timestamps :: "string list"
  rs_producers :: "string list"
  rs_digests :: "string list"
  rs_tables :: "(string \<times> string list) list"
  rs_reasons :: "string list"

text \<open>\<^verbatim>\<open>^(\d{4}-\d{2}-\d{2}T\d{2}:\d{2}(:\d{2})?|\d{8}T\d{6})(\.\d+)?Z$\<close>\<close>

definition readiness_time :: rx where
  "readiness_time =
     rx_seq [RBegin,
       RAlt
         (rx_seq [rx_times 4 rx_digit, rx_lit ''-'', rx_times 2 rx_digit, rx_lit ''-'', rx_times 2 rx_digit, rx_lit ''T'',
                  rx_times 2 rx_digit, rx_lit '':'', rx_times 2 rx_digit, rx_opt (RSeq (rx_lit '':'') (rx_times 2 rx_digit))])
         (rx_seq [rx_times 8 rx_digit, rx_lit ''T'', rx_times 6 rx_digit]),
       rx_opt (RSeq (rx_lit ''.'') (rx_plus rx_digit)), rx_lit ''Z'', REnd]"

definition readiness_time_ok :: "json \<Rightarrow> bool" where
  "readiness_time_ok j \<longleftrightarrow> is_str j \<and> re_match readiness_time (str_of j)"

definition TWO_VALUED :: "string list" where
  "TWO_VALUED = [''yes'', ''no'']"

text \<open>The digest the receipt declares, at the top level or inside \<^verbatim>\<open>contract\<close>, and where.\<close>

definition first_key :: "string list \<Rightarrow> dict \<Rightarrow> (string \<times> json) option" where
  "first_key ks d = (case filter (has_key d) ks of [] \<Rightarrow> None | k # _ \<Rightarrow> Some (k, mget d k))"

definition contract_digest_of :: "readiness_schema \<Rightarrow> dict \<Rightarrow> (string \<times> json) option" where
  "contract_digest_of S doc =
     (case first_key (rs_digests S) doc of
        Some x \<Rightarrow> Some x
      | None \<Rightarrow> map_option (\<lambda>(k, v). (''contract.'' @ k, v)) (first_key (rs_digests S) (as_dict (mget doc ''contract''))))"

definition asserts_contract_binding :: "dict \<Rightarrow> string option" where
  "asserts_contract_binding doc =
     map_option fst (first_key [''digest_preimage'', ''verified_against_live_endpoint''] (as_dict (mget doc ''contract'')))"

definition normalise_verdict :: "(string \<times> string list) list \<Rightarrow> json \<Rightarrow> string option" where
  "normalise_verdict tables v =
     (case v of
        JBool b \<Rightarrow> Some (if b then ''pass'' else ''fail'')
      | JStr s \<Rightarrow>
          (case filter (\<lambda>(_, tokens). lower (strip s) \<in> set tokens) tables of [] \<Rightarrow> None | (bucket, _) # _ \<Rightarrow> Some bucket)
      | _ \<Rightarrow> None)"

definition two_valued :: "json \<Rightarrow> bool" where
  "two_valued v \<longleftrightarrow> (case v of JBool _ \<Rightarrow> True | JStr s \<Rightarrow> lower (strip s) \<in> set TWO_VALUED | _ \<Rightarrow> False)"

definition check_claim :: "readiness_schema \<Rightarrow> json \<Rightarrow> string list \<Rightarrow> string list" where
  "check_claim S claim D =
     (let it = as_dict claim; v = mget it ''verdict''
      in if \<not> is_dict claim then []
         else if \<not> has_key it ''verdict'' then add D ''READINESS_CLAIM_WITHOUT_VERDICT''
         else if two_valued v then add D ''READINESS_VERDICT_NOT_TRIVALUED''
         else add_if D (normalise_verdict (rs_tables S) v = Some ''not_measured'' \<and> \<not> list_ex (has_key it) (rs_reasons S))
                ''READINESS_NOT_MEASURED_WITHOUT_REASON'')"

definition claim_note :: "readiness_schema \<Rightarrow> json \<Rightarrow> json list" where
  "claim_note S claim =
     (let it = as_dict claim; v = mget it ''verdict''
      in if is_dict claim \<and> has_key it ''verdict'' \<and> \<not> two_valued v \<and> normalise_verdict (rs_tables S) v = None then [v] else [])"

definition check_binding :: "readiness_schema \<Rightarrow> string option \<Rightarrow> dict \<Rightarrow> string list \<Rightarrow> string list" where
  "check_binding S expect doc D =
     (let declared = contract_digest_of S doc
      in add_if D (asserts_contract_binding doc \<noteq> None \<and> declared = None) ''READINESS_CONTRACT_BINDING_WITHOUT_DIGEST''
         @ add_if D (case declared of None \<Rightarrow> False | Some (_, v) \<Rightarrow> \<not> SHA_RE_match v) ''READINESS_CONTRACT_DIGEST_FORM''
         @ add_if D (case expect of
                       None \<Rightarrow> False
                     | Some e \<Rightarrow> e \<noteq> [] \<and> (case declared of None \<Rightarrow> True | Some (_, v) \<Rightarrow> v \<noteq> JStr e))
             ''READINESS_CONTRACT_DIGEST_MISMATCH'')"

definition check_stamps :: "readiness_schema \<Rightarrow> dict \<Rightarrow> string list \<Rightarrow> string list" where
  "check_stamps S doc D =
     (let stamps = filter (has_key doc) (rs_timestamps S)
      in add_if D (stamps = []) ''READINESS_WITHOUT_TIMESTAMP''
         @ concat (map (\<lambda>k. add_if D (\<not> readiness_time_ok (mget doc k)) ''READINESS_TIMESTAMP_INVALID'') stamps))"

definition readiness_findings :: "readiness_schema \<Rightarrow> string option \<Rightarrow> dict \<Rightarrow> string list \<Rightarrow> string list" where
  "readiness_findings S expect doc D =
     add_if D (mget doc ''schema'' \<noteq> JStr (rs_name S)) ''READINESS_SCHEMA_MISMATCH''
     @ check_stamps S doc D
     @ add_if D (\<not> list_ex (has_key doc) (rs_producers S)) ''READINESS_WITHOUT_PRODUCER''
     @ check_binding S expect doc D
     @ concat (map (\<lambda>claim. check_claim S claim D) (as_list (mget doc ''claims'')))"

record readiness_result =
  rr_conformant :: bool
  rr_codes :: "string list"
  rr_findings :: "string list"
  rr_notes :: "json list"

definition readiness_result_of :: "string list \<Rightarrow> json list \<Rightarrow> readiness_result" where
  "readiness_result_of findings notes =
     \<lparr>rr_conformant = (findings = []), rr_codes = sort (remdups findings), rr_findings = findings, rr_notes = notes\<rparr>"

definition check_readiness :: "readiness_schema \<Rightarrow> string list \<Rightarrow> string option \<Rightarrow> json \<Rightarrow> readiness_result" where
  "check_readiness S D expect j =
     (case j of
        JObj doc \<Rightarrow>
          readiness_result_of (readiness_findings S expect doc D) (concat (map (claim_note S) (as_list (mget doc ''claims''))))
      | _ \<Rightarrow> readiness_result_of (add D ''UNREADABLE'') [])"

text \<open>\<open>loads\<close> is \<^verbatim>\<open>read_text\<close> followed by \<^verbatim>\<open>json.loads\<close> (\<^verbatim>\<open>None\<close> for an \<^verbatim>\<open>OSError\<close> or \<^verbatim>\<open>JSONDecodeError\<close>).\<close>

definition check_readiness_file ::
  "(string \<Rightarrow> json option) \<Rightarrow> readiness_schema \<Rightarrow> string list \<Rightarrow> string option \<Rightarrow> string \<Rightarrow> readiness_result" where
  "check_readiness_file loads S D expect path =
     (case loads path of
        None \<Rightarrow> readiness_result_of [''UNREADABLE''] []
      | Some j \<Rightarrow> check_readiness S D expect j)"

subsection \<open>What conformance means\<close>

lemma filters_stamps [filters_rules]: "filters (check_stamps S doc)"
  unfolding check_stamps_def Let_def by (intro filters_rules)

lemma filters_binding [filters_rules]: "filters (check_binding S expect doc)"
  unfolding check_binding_def Let_def by (intro filters_rules)

lemma filters_claim [filters_rules]: "filters (check_claim S claim)"
  unfolding check_claim_def Let_def by (intro filters_rules)

lemma filters_readiness: "filters (readiness_findings S expect doc)"
  unfolding readiness_findings_def by (intro filters_rules)

text \<open>The rules of the validator are independent: disabling some of them removes exactly their findings.\<close>

lemma readiness_disabled:
  "readiness_findings S expect doc D = filter (\<lambda>c. c \<notin> set D) (readiness_findings S expect doc [])"
  by (rule filtersD [OF filters_readiness])

definition trivalued_claim :: "readiness_schema \<Rightarrow> dict \<Rightarrow> bool" where
  "trivalued_claim S it \<longleftrightarrow>
     has_key it ''verdict'' \<and> \<not> two_valued (mget it ''verdict'')
     \<and> (if normalise_verdict (rs_tables S) (mget it ''verdict'') = Some ''not_measured''
        then list_ex (has_key it) (rs_reasons S) else True)"

lemma add_nil_not [simp]: "add [] c \<noteq> []"
  by (simp add: add_def)

lemma check_claim_nil: "check_claim S claim [] = [] \<longleftrightarrow> (is_dict claim \<longrightarrow> trivalued_claim S (as_dict claim))"
  by (auto simp: check_claim_def trivalued_claim_def Let_def)

lemma stamps_nil:
  "check_stamps S doc [] = [] \<longleftrightarrow>
     list_ex (has_key doc) (rs_timestamps S)
     \<and> list_all (\<lambda>k. has_key doc k \<longrightarrow> readiness_time_ok (mget doc k)) (rs_timestamps S)"
  by (auto simp: check_stamps_def Let_def list_ex_iff list_all_iff filter_empty_conv)

text \<open>The digest that a bound receipt names: well-formed, and the expected one.\<close>

definition names_contract :: "readiness_schema \<Rightarrow> string option \<Rightarrow> dict \<Rightarrow> bool" where
  "names_contract S expect doc \<longleftrightarrow>
     (case contract_digest_of S doc of
        None \<Rightarrow> asserts_contract_binding doc = None \<and> expect \<in> {None, Some []}
      | Some (_, v) \<Rightarrow> SHA_RE_match v \<and> (case expect of None \<Rightarrow> True | Some e \<Rightarrow> e = [] \<or> v = JStr e))"

lemma binding_nil: "check_binding S expect doc [] = [] \<longleftrightarrow> names_contract S expect doc"
  by (auto simp: check_binding_def names_contract_def Let_def split: option.splits)

text \<open>
  C29: what a conformant readiness receipt says.  It is an object of the declared schema with a producer and at
  least one time, all its times well-formed; if it asserts a contract binding, or the caller expects one, it
  names the contract by a SHA-256 digest, which is the expected one; and each of its claims has a verdict that is
  neither a truth value nor yes/no and gives a reason when it was not measured.
\<close>

theorem readiness_conformant_iff:
  "rr_conformant (check_readiness S [] expect j) \<longleftrightarrow>
   (case j of
      JObj doc \<Rightarrow>
        mget doc ''schema'' = JStr (rs_name S)
        \<and> list_ex (has_key doc) (rs_timestamps S)
        \<and> list_all (\<lambda>k. if has_key doc k then readiness_time_ok (mget doc k) else True) (rs_timestamps S)
        \<and> list_ex (has_key doc) (rs_producers S)
        \<and> names_contract S expect doc
        \<and> list_all (\<lambda>c. if is_dict c then trivalued_claim S (as_dict c) else True) (as_list (mget doc ''claims''))
    | _ \<Rightarrow> False)"
proof (cases j)
  case (JObj doc)
  have "rr_conformant (check_readiness S [] expect j) \<longleftrightarrow> readiness_findings S expect doc [] = []"
    by (simp add: check_readiness_def readiness_result_of_def JObj)
  also have "\<dots> \<longleftrightarrow> mget doc ''schema'' = JStr (rs_name S) \<and> check_stamps S doc [] = []
      \<and> list_ex (has_key doc) (rs_producers S) \<and> check_binding S expect doc [] = []
      \<and> (\<forall>c \<in> set (as_list (mget doc ''claims'')). check_claim S c [] = [])"
    by (simp add: readiness_findings_def)
  finally show ?thesis
    unfolding stamps_nil binding_nil check_claim_nil by (auto simp: JObj list_all_iff)
qed (simp_all add: check_readiness_def readiness_result_of_def)

definition sample_readiness :: readiness_schema where
  "sample_readiness =
     \<lparr>rs_name = ''ReadinessReceipt/v1'', rs_timestamps = [''captured_at_utc'', ''at''], rs_producers = [''producer'', ''tool''],
      rs_digests = [''contractDigest'', ''contract_digest''],
      rs_tables = [(''pass'', [''pass'']), (''fail'', [''fail'']), (''not_measured'', [''not_measured''])], rs_reasons = [''reason'']\<rparr>"

text \<open>A time that is no instant passes the form: the ranges of its fields are not checked.\<close>

lemma impossible_instant_conformant:
  "rr_conformant (check_readiness sample_readiness [] None
     (JObj [(''schema'', JStr ''ReadinessReceipt/v1''), (''at'', JStr ''2026-99-99T99:99Z''), (''tool'', JStr ''t'')]))"
  by code_simp

end
