(* ===== verification/ContractDiff.thy ===== *)
theory ContractDiff
  imports JsonValues
begin

section \<open>The contract differ\<close>

text \<open>
  \<^verbatim>\<open>strip_flags\<close> and class \<^verbatim>\<open>Differ\<close> of \<^verbatim>\<open>tools/graph/contract_diff.py\<close>: the comparison of two \<^verbatim>\<open>schema-lite\<close> trees, the
  canonical form of a contract that the extractors take from code.  A schema is the JSON object that the code handles.
  The list \<^verbatim>\<open>out\<close> that the methods append to is the result.  The sentence \<^verbatim>\<open>detail\<close> of a change is left out.
  Comparing a numeric bound with a textual one raises, so the result is a sum.
\<close>

datatype severity = Breaking | Compatible | Info

record change =
  cg_code :: string
  cg_severity :: severity
  cg_path :: string
  cg_aspect :: "string option"
  cg_values :: "json list"
  cg_new_name :: "string option"
  cg_enum_code :: "string option"

record diff_ctx =
  dc_disabled :: "string list"
  dc_direction :: string
  dc_error_code :: bool

definition BREAKING_ALWAYS :: "string list" where
  "BREAKING_ALWAYS =
     [''CONTRACT_REMOVED'', ''FIELD_REMOVED'', ''FIELD_RENAMED'', ''NEW_REQUIRED_FIELD'', ''FIELD_MADE_REQUIRED'',
      ''TYPE_CHANGED'', ''TYPE_NARROWED'', ''ENUM_VALUE_REMOVED'', ''ERROR_CODE_CHANGED'']"

definition BREAKING_UNLESS_INPUT :: "string list" where
  "BREAKING_UNLESS_INPUT = [''REQUIRED_TO_OPTIONAL'', ''TYPE_WIDENED'', ''ENUM_VALUE_ADDED'']"

definition COMPATIBLE_CODES :: "string list" where
  "COMPATIBLE_CODES = [''CONTRACT_ADDED'', ''FIELD_ADDED_OPTIONAL'']"

definition severity_of :: "string \<Rightarrow> string \<Rightarrow> severity" where
  "severity_of code direction =
     (if code \<in> set BREAKING_ALWAYS then Breaking
      else if code \<in> set BREAKING_UNLESS_INPUT then (if direction = ''input'' then Compatible else Breaking)
      else if code \<in> set COMPATIBLE_CODES then Compatible else Info)"

definition on :: "diff_ctx \<Rightarrow> string \<Rightarrow> bool" where
  "on c rule \<longleftrightarrow> rule \<notin> set (dc_disabled c)"

definition ch :: "diff_ctx \<Rightarrow> string \<Rightarrow> string \<Rightarrow> change" where
  "ch c code path =
     (let enum_error = dc_error_code c \<and> startswith code ''ENUM_VALUE_'' \<and> on c ''error_code'';
          code' = (if enum_error then ''ERROR_CODE_CHANGED'' else code)
      in \<lparr>cg_code = code', cg_severity = severity_of code' (dc_direction c), cg_path = path, cg_aspect = None, cg_values = [],
          cg_new_name = None, cg_enum_code = (if enum_error then Some code else None)\<rparr>)"

text \<open>\<^verbatim>\<open>if cond and self.on(rule): out.append(\<dots>)\<close>\<close>

definition emit :: "bool \<Rightarrow> change \<Rightarrow> change list" where
  "emit b x = (if b then [x] else [])"

definition on_aspect :: "string \<Rightarrow> change \<Rightarrow> change" where
  "on_aspect a x = x\<lparr>cg_aspect := Some a\<rparr>"

subsection \<open>Reading a schema\<close>

definition field :: "json \<Rightarrow> string \<Rightarrow> json" where
  "field s k = mget (as_dict s) k"

definition kind_of :: "json \<Rightarrow> json" where
  "kind_of s = field s ''kind''"

definition flag :: "json \<Rightarrow> string \<Rightarrow> bool" where
  "flag s k \<longleftrightarrow> truthy (field s k)"

definition props_of :: "json \<Rightarrow> dict" where
  "props_of s = as_dict (field s ''properties'')"

definition items_of :: "json \<Rightarrow> json list" where
  "items_of s = as_list (field s ''items'')"

definition values_of :: "json \<Rightarrow> json list" where
  "values_of s = as_list (field s ''values'')"

definition variants_of :: "json \<Rightarrow> json list" where
  "variants_of s = as_list (field s ''variants'')"

definition constraints_of :: "json \<Rightarrow> dict" where
  "constraints_of s = as_dict (field s ''constraints'')"

definition strip_flags :: "json \<Rightarrow> json" where
  "strip_flags s = JObj (filter (\<lambda>(k, _). k \<noteq> ''optional'') (as_dict s))"

definition same_shape :: "json \<Rightarrow> json \<Rightarrow> bool" where
  "same_shape a b \<longleftrightarrow> canon (strip_flags a) = canon (strip_flags b)"

definition diff_key :: "string \<Rightarrow> string \<Rightarrow> string" where
  "diff_key path k = (if path = [] then k else path @ ''.'' @ k)"

text \<open>\<^verbatim>\<open>sorted(set(xs) - set(ys))\<close> of canonical texts, in the order of the source; only emptiness and membership are read.\<close>

definition canon_diff :: "json list \<Rightarrow> json list \<Rightarrow> json list" where
  "canon_diff xs ys = filter (\<lambda>v. v \<notin> set (map canon ys)) (remdups (map canon xs))"

subsection \<open>The changes of one node\<close>

definition nullable_changes :: "diff_ctx \<Rightarrow> json \<Rightarrow> json \<Rightarrow> string \<Rightarrow> change list" where
  "nullable_changes c a b path =
     (if on c ''nullable'' \<and> flag a ''nullable'' \<noteq> flag b ''nullable''
      then [on_aspect ''nullable'' (ch c (if flag a ''nullable'' then ''TYPE_NARROWED'' else ''TYPE_WIDENED'') path)] else [])"

definition WIDENING_KINDS :: "(string \<times> string) list" where
  "WIDENING_KINDS =
     [(''integer'', ''number''), (''enum'', ''string''), (''enum'', ''number''), (''enum'', ''integer''), (''enum'', ''boolean''),
      (''literal'', ''string''), (''date'', ''string''), (''null'', ''any''), (''undefined'', ''any'')]"

definition widens :: "json \<Rightarrow> json \<Rightarrow> bool" where
  "widens ka kb \<longleftrightarrow> (ka, kb) \<in> set (map (\<lambda>(x, y). (JStr x, JStr y)) WIDENING_KINDS)"

definition has_variant :: "json \<Rightarrow> json \<Rightarrow> bool" where
  "has_variant u s \<longleftrightarrow> kind_of u = JStr ''union'' \<and> list_ex (\<lambda>v. same_shape v s) (variants_of u)"

definition kind_changes :: "diff_ctx \<Rightarrow> json \<Rightarrow> json \<Rightarrow> string \<Rightarrow> change list" where
  "kind_changes c a b path =
     (let ka = kind_of a; kb = kind_of b
      in if kb = JStr ''any'' \<or> has_variant b a then emit (on c ''type_widened'') (ch c ''TYPE_WIDENED'' path)
         else if ka = JStr ''any'' \<or> has_variant a b then emit (on c ''type_narrowed'') (ch c ''TYPE_NARROWED'' path)
         else if widens ka kb then emit (on c ''type_widened'') (ch c ''TYPE_WIDENED'' path)
         else if widens kb ka then emit (on c ''type_narrowed'') (ch c ''TYPE_NARROWED'' path)
         else emit (on c ''type_changed'') (ch c ''TYPE_CHANGED'' path))"

text \<open>One bound: whether the change narrows and whether it widens.\<close>

definition UPPER_BOUNDS :: "string list" where
  "UPPER_BOUNDS = [''maxLength'', ''max'', ''maxItems'', ''exclusiveMax'']"

definition LOWER_BOUNDS :: "string list" where
  "LOWER_BOUNDS = [''minLength'', ''min'', ''minItems'', ''exclusiveMin'']"

definition FORM_BOUNDS :: "string list" where
  "FORM_BOUNDS = [''format'', ''pattern'', ''multipleOf'']"

definition relaxed :: "json \<Rightarrow> json \<Rightarrow> (json \<Rightarrow> json \<Rightarrow> exc + bool) \<Rightarrow> exc + (bool \<times> bool)" where
  "relaxed va vb looser =
     (if vb = JNull then Inr (False, True)
      else if va = JNull then Inr (True, False)
      else bindE (looser va vb) (\<lambda>l. Inr (\<not> l, l)))"

definition bound_change :: "dict \<Rightarrow> dict \<Rightarrow> string \<Rightarrow> exc + (bool \<times> bool)" where
  "bound_change ca cb k =
     (let va = mget ca k; vb = mget cb k
      in if py_eq va vb then Inr (False, False)
         else if k \<in> set UPPER_BOUNDS then relaxed va vb (\<lambda>x y. py_greater y x)
         else if k \<in> set LOWER_BOUNDS then relaxed va vb (\<lambda>x y. py_greater x y)
         else if k \<in> set FORM_BOUNDS
         then (if vb = JNull then Inr (False, True) else if va = JNull then Inr (True, False) else Inr (True, True))
         else Inr (True, False))"

definition constraint_changes :: "diff_ctx \<Rightarrow> json \<Rightarrow> json \<Rightarrow> string \<Rightarrow> exc + change list" where
  "constraint_changes c a b path =
     (let ca = constraints_of a; cb = constraints_of b
      in if \<not> on c ''constraints'' then Inr []
         else bindE (mapE (bound_change ca cb) (sort (remdups (map fst ca @ map fst cb)))) (\<lambda>bs.
                Inr (emit (list_ex fst bs \<and> on c ''type_narrowed'') (on_aspect ''constraints'' (ch c ''TYPE_NARROWED'' path))
                     @ emit (list_ex snd bs \<and> on c ''type_widened'') (on_aspect ''constraints'' (ch c ''TYPE_WIDENED'' path)))))"

definition enum_changes :: "diff_ctx \<Rightarrow> json \<Rightarrow> json \<Rightarrow> string \<Rightarrow> change list" where
  "enum_changes c a b path =
     (let removed = canon_diff (values_of a) (values_of b); added = canon_diff (values_of b) (values_of a)
      in emit (removed \<noteq> [] \<and> on c ''enum_removed'') ((ch c ''ENUM_VALUE_REMOVED'' path)\<lparr>cg_values := removed\<rparr>)
         @ emit (added \<noteq> [] \<and> on c ''enum_added'') ((ch c ''ENUM_VALUE_ADDED'' path)\<lparr>cg_values := added\<rparr>))"

definition union_changes :: "diff_ctx \<Rightarrow> json \<Rightarrow> json \<Rightarrow> string \<Rightarrow> change list" where
  "union_changes c a b path =
     emit (canon_diff (variants_of a) (variants_of b) \<noteq> [] \<and> on c ''type_narrowed'')
       (on_aspect ''union'' (ch c ''TYPE_NARROWED'' path))
     @ emit (canon_diff (variants_of b) (variants_of a) \<noteq> [] \<and> on c ''type_widened'')
         (on_aspect ''union'' (ch c ''TYPE_WIDENED'' path))"

definition ref_changes :: "diff_ctx \<Rightarrow> json \<Rightarrow> json \<Rightarrow> string \<Rightarrow> change list" where
  "ref_changes c a b path = emit (\<not> py_eq (field a ''name'') (field b ''name'')) (ch c ''TYPE_CHANGED'' path)"

subsection \<open>Fields of an object\<close>

definition removed_keys :: "dict \<Rightarrow> dict \<Rightarrow> string list" where
  "removed_keys pa pb = filter (\<lambda>k. \<not> has_key pb k) (map fst pa)"

definition rename_match :: "dict \<Rightarrow> dict \<Rightarrow> string list \<Rightarrow> (string \<times> string) list \<Rightarrow> string \<Rightarrow> string list" where
  "rename_match pa pb added ren r =
     filter (\<lambda>x. x \<notin> set (map snd ren) \<and> same_shape (mget pb x) (mget pa r)
                \<and> flag (mget pa r) ''optional'' = flag (mget pb x) ''optional'') added"

definition renamed_fields :: "diff_ctx \<Rightarrow> dict \<Rightarrow> dict \<Rightarrow> (string \<times> string) list" where
  "renamed_fields c pa pb =
     (if \<not> on c ''field_renamed'' then []
      else fold (\<lambda>r ren. case rename_match pa pb (removed_keys pb pa) ren r of [x] \<Rightarrow> ren @ [(r, x)] | _ \<Rightarrow> ren)
             (removed_keys pa pb) [])"

definition removal :: "diff_ctx \<Rightarrow> (string \<times> string) list \<Rightarrow> string \<Rightarrow> string \<Rightarrow> change list" where
  "removal c ren path r =
     (case map_of ren r of
        Some x \<Rightarrow> [(ch c ''FIELD_RENAMED'' (diff_key path r))\<lparr>cg_new_name := Some x\<rparr>]
      | None \<Rightarrow> emit (on c ''field_removed'') (ch c ''FIELD_REMOVED'' (diff_key path r)))"

definition addition :: "diff_ctx \<Rightarrow> (string \<times> string) list \<Rightarrow> dict \<Rightarrow> string \<Rightarrow> string \<Rightarrow> change list" where
  "addition c ren pb path x =
     (if x \<in> set (map snd ren) then []
      else if flag (mget pb x) ''optional'' then [ch c ''FIELD_ADDED_OPTIONAL'' (diff_key path x)]
      else emit (on c ''new_required'') (ch c ''NEW_REQUIRED_FIELD'' (diff_key path x)))"

definition field_changes :: "diff_ctx \<Rightarrow> dict \<Rightarrow> dict \<Rightarrow> string \<Rightarrow> change list" where
  "field_changes c pa pb path =
     (let ren = renamed_fields c pa pb
      in concat (map (removal c ren path) (removed_keys pa pb)) @ concat (map (addition c ren pb path) (removed_keys pb pa)))"

definition optionality_changes :: "diff_ctx \<Rightarrow> json \<Rightarrow> json \<Rightarrow> string \<Rightarrow> change list" where
  "optionality_changes c a b path =
     (let oa = flag a ''optional''; ob = flag b ''optional''
      in if oa \<and> \<not> ob \<and> on c ''made_required'' then [ch c ''FIELD_MADE_REQUIRED'' path]
         else emit (ob \<and> \<not> oa \<and> on c ''required_to_optional'') (ch c ''REQUIRED_TO_OPTIONAL'' path))"

definition common_keys :: "dict \<Rightarrow> dict \<Rightarrow> string list" where
  "common_keys pa pb = sort (remdups (filter (has_key pb) (map fst pa)))"

subsection \<open>The recursion over two schemas\<close>

definition concatE :: "(exc + 'a list) list \<Rightarrow> exc + 'a list" where
  "concatE ms = bindE (mapE id ms) (\<lambda>xs. Inr (concat xs))"

definition diff_index :: "string \<Rightarrow> nat \<Rightarrow> string" where
  "diff_index path i = path @ ''['' @ show_nat i @ '']''"

lemma mapE_cong [fundef_cong]:
  assumes "xs = ys" "\<And>x. x \<in> set ys \<Longrightarrow> f x = g x"
  shows "mapE f xs = mapE g ys"
proof -
  have "mapE f ys = mapE g ys" using assms(2) by (induction ys) auto
  then show ?thesis by (simp add: assms(1))
qed

lemma size_field: "kind_of a = JStr k \<Longrightarrow> size (field a x) < size a"
  using size_mget by (cases a) (simp_all add: kind_of_def field_def as_dict_def mget_def)

lemma size_prop: "kind_of a = JStr k \<Longrightarrow> size (mget (props_of a) x) < size a"
proof -
  assume "kind_of a = JStr k"
  then have "size (field a ''properties'') < size a" by (rule size_field)
  moreover have "size (mget (as_dict j) x) \<le> size j" for j
    using size_mget by (cases j) (simp_all add: as_dict_def mget_def less_imp_le)
  then have "size (mget (props_of a) x) \<le> size (field a ''properties'')" by (simp add: props_of_def)
  ultimately show ?thesis by simp
qed

lemma size_items: "kind_of a = JStr k \<Longrightarrow> i < length (items_of a) \<Longrightarrow> size (items_of a ! i) < size a"
proof -
  assume k: "kind_of a = JStr k" and i: "i < length (items_of a)"
  have "size (items_of a ! i) < size (field a ''items'')"
    using i size_member_list [OF nth_mem] by (cases "field a ''items''") (simp_all add: items_of_def as_list_def)
  then show ?thesis using size_field [OF k, of "''items''"] by simp
qed

function diff_schema :: "diff_ctx \<Rightarrow> json \<Rightarrow> json \<Rightarrow> string \<Rightarrow> exc + change list" where
  "diff_schema c a b path =
     concatE [Inr (nullable_changes c a b path),
       (if kind_of a \<noteq> kind_of b then Inr (kind_changes c a b path)
        else if kind_of a = JStr ''object'' then
          concatE (Inr (field_changes c (props_of a) (props_of b) path)
            # map (\<lambda>k. let p = diff_key path k in
                concatE [Inr (optionality_changes c (mget (props_of a) k) (mget (props_of b) k) p),
                  if on c ''nested_diff'' \<or> path = [] then diff_schema c (mget (props_of a) k) (mget (props_of b) k) p else Inr []])
              (common_keys (props_of a) (props_of b)))
        else if kind_of a = JStr ''enum'' then Inr (enum_changes c a b path)
        else if kind_of a = JStr ''array'' then
          concatE [if on c ''nested_diff'' then diff_schema c (field a ''items'') (field b ''items'') (path @ ''[]'') else Inr [],
                   constraint_changes c a b path]
        else if kind_of a = JStr ''record'' then
          (if on c ''nested_diff'' then diff_schema c (field a ''values'') (field b ''values'') (path @ ''[*]'') else Inr [])
        else if kind_of a = JStr ''tuple'' then
          (if length (items_of a) \<noteq> length (items_of b) then Inr [ch c ''TYPE_CHANGED'' path]
           else if on c ''nested_diff''
           then concatE (map (\<lambda>i. diff_schema c (items_of a ! i) (items_of b ! i) (diff_index path i)) [0..<length (items_of a)])
           else Inr [])
        else if kind_of a = JStr ''union'' then Inr (union_changes c a b path)
        else if kind_of a = JStr ''ref'' then Inr (ref_changes c a b path)
        else constraint_changes c a b path)]"
  by pat_completeness auto
termination
proof (relation "measure (\<lambda>(c, a, b, path). size a)", goal_cases)
  case (2 c a b path k p)
  then have "kind_of a = JStr ''object''" by blast
  from size_prop [OF this] 2 show ?case by simp
next
  case (3 c a b path)
  then have "kind_of a = JStr ''array''" by blast
  from size_field [OF this] 3 show ?case by simp
next
  case (4 c a b path)
  then have "kind_of a = JStr ''record''" by blast
  from size_field [OF this] 4 show ?case by simp
next
  case (5 c a b path i)
  then have "kind_of a = JStr ''tuple''" by blast
  from size_items [OF this] 5 show ?case by simp
qed simp

declare diff_schema.simps [simp del]

subsection \<open>One contract\<close>

record contract =
  ct_kind :: string
  ct_path :: string
  ct_symbol :: string
  ct_direction :: string
  ct_schema :: json
  ct_decl_hash :: string
  ct_error_code :: bool

record contract_diff =
  cd_status :: string
  cd_direction :: string
  cd_changes :: "change list"

definition direction_of :: "string list \<Rightarrow> contract \<Rightarrow> string option \<Rightarrow> string" where
  "direction_of disabled ct override =
     (if ''direction'' \<in> set disabled then ''input''
      else case override of Some (x # xs) \<Rightarrow> x # xs | _ \<Rightarrow> ct_direction ct)"

definition diff_contract ::
    "string list \<Rightarrow> contract option \<Rightarrow> contract option \<Rightarrow> string option \<Rightarrow> exc + contract_diff" where
  "diff_contract disabled old new override =
     (case (old, new) of
        (None, None) \<Rightarrow> Inl TypeError
      | (None, Some n) \<Rightarrow>
          let c = \<lparr>dc_disabled = disabled, dc_direction = direction_of disabled n override, dc_error_code = ct_error_code n\<rparr>
          in Inr \<lparr>cd_status = ''added'', cd_direction = dc_direction c, cd_changes = [ch c ''CONTRACT_ADDED'' []]\<rparr>
      | (Some a, None) \<Rightarrow>
          let c = \<lparr>dc_disabled = disabled, dc_direction = direction_of disabled a override, dc_error_code = ct_error_code a\<rparr>
          in Inr \<lparr>cd_status = ''removed'', cd_direction = dc_direction c,
                   cd_changes = emit (on c ''contract_removed'') (ch c ''CONTRACT_REMOVED'' [])\<rparr>
      | (Some a, Some b) \<Rightarrow>
          let c = \<lparr>dc_disabled = disabled, dc_direction = direction_of disabled a override,
                   dc_error_code = ct_error_code a \<or> ct_error_code b\<rparr>;
              text_only = \<lparr>cd_status = ''text_only'', cd_direction = dc_direction c, cd_changes = [ch c ''NON_SEMANTIC_TEXT'' []]\<rparr>
          in if canon (ct_schema a) = canon (ct_schema b)
             then Inr (if ct_decl_hash a \<noteq> ct_decl_hash b then text_only
                       else \<lparr>cd_status = ''unchanged'', cd_direction = dc_direction c, cd_changes = []\<rparr>)
             else bindE (diff_schema c (ct_schema a) (ct_schema b) []) (\<lambda>cs.
                    Inr (if cs = [] then text_only
                         else \<lparr>cd_status = ''changed'', cd_direction = dc_direction c, cd_changes = cs\<rparr>)))"

end
