(* ===== verification/ContractAccepts.thy ===== *)
theory ContractAccepts
  imports ContractDiff
begin

section \<open>What a contract accepts\<close>

text \<open>
  An abstract meaning of \<^verbatim>\<open>schema-lite\<close> trees, against which the differ is judged: which JSON values a contract
  accepts.  Only values whose objects use declared fields are considered.  The meaning of primitive kinds, of
  references and of the bounds that are not numeric is a parameter.

  The soundness theorem says that a diff without breaking change, and without a change of kind, keeps every accepted
  value accepted.
\<close>

record meaning =
  mn_prim :: "json \<Rightarrow> json \<Rightarrow> bool"
  mn_named :: "json \<Rightarrow> json \<Rightarrow> bool"
  mn_form :: "string \<Rightarrow> json \<Rightarrow> json \<Rightarrow> bool"

definition text_length :: "json \<Rightarrow> rat option" where
  "text_length v = (case v of JStr s \<Rightarrow> Some (of_nat (length s)) | _ \<Rightarrow> None)"

definition list_length :: "json \<Rightarrow> rat option" where
  "list_length v = (case v of JArr xs \<Rightarrow> Some (of_nat (length xs)) | _ \<Rightarrow> None)"

text \<open>The quantity that a numeric bound limits.\<close>

definition measured :: "string \<Rightarrow> json \<Rightarrow> rat option" where
  "measured k v =
     (if k \<in> {''maxLength'', ''minLength''} then text_length v
      else if k \<in> {''maxItems'', ''minItems''} then list_length v else num_val v)"

definition satisfies :: "meaning \<Rightarrow> string \<Rightarrow> json \<Rightarrow> json \<Rightarrow> bool" where
  "satisfies E k bound v \<longleftrightarrow>
     (if bound = JNull then True
      else case num_val bound of
        None \<Rightarrow> mn_form E k (py_norm bound) v
      | Some q \<Rightarrow>
          if k \<in> set UPPER_BOUNDS \<union> set LOWER_BOUNDS
          then (case measured k v of
                  None \<Rightarrow> True
                | Some x \<Rightarrow>
                    (if k = ''exclusiveMax'' then x < q else if k = ''exclusiveMin'' then q < x
                     else if k \<in> set UPPER_BOUNDS then x \<le> q else q \<le> x))
          else mn_form E k (py_norm bound) v)"

definition constraints_ok :: "meaning \<Rightarrow> dict \<Rightarrow> json \<Rightarrow> bool" where
  "constraints_ok E c v \<longleftrightarrow> list_all (\<lambda>k. satisfies E k (mget c k) v) (map fst c)"

lemma size_field_member: "kind_of s = JStr k \<Longrightarrow> x \<in> set (as_list (field s f)) \<Longrightarrow> size x < size s"
proof -
  assume k: "kind_of s = JStr k" and x: "x \<in> set (as_list (field s f))"
  have "size x < size (field s f)"
    using x size_member_list by (cases "field s f") (simp_all add: as_list_def)
  then show ?thesis using size_field [OF k, of f] by simp
qed

function accepts :: "meaning \<Rightarrow> json \<Rightarrow> json \<Rightarrow> bool" where
  "accepts E s v \<longleftrightarrow>
     (if flag s ''nullable'' \<and> v = JNull then True
      else if kind_of s = JStr ''object'' then
        is_dict v \<and> list_all (has_key (props_of s)) (map fst (as_dict v))
        \<and> list_all (\<lambda>k. if has_key (as_dict v) k then accepts E (mget (props_of s) k) (mget (as_dict v) k)
                        else flag (mget (props_of s) k) ''optional'') (map fst (props_of s))
      else if kind_of s = JStr ''enum'' then canon v \<in> set (map canon (values_of s))
      else if kind_of s = JStr ''array'' then
        is_list v \<and> list_all (accepts E (field s ''items'')) (as_list v) \<and> constraints_ok E (constraints_of s) v
      else if kind_of s = JStr ''record'' then
        is_dict v \<and> list_all (\<lambda>k. accepts E (field s ''values'') (mget (as_dict v) k)) (map fst (as_dict v))
      else if kind_of s = JStr ''tuple'' then
        is_list v \<and> length (as_list v) = length (items_of s)
        \<and> list_all (\<lambda>i. accepts E (items_of s ! i) (as_list v ! i)) [0..<length (items_of s)]
      else if kind_of s = JStr ''union'' then list_ex (\<lambda>x. accepts E x v) (variants_of s)
      else if kind_of s = JStr ''intersection'' then list_all (\<lambda>x. accepts E x v) (as_list (field s ''of''))
      else if kind_of s = JStr ''ref'' then mn_named E (py_norm (field s ''name'')) v
      else if kind_of s = JStr ''any'' then True
      else mn_prim E (canon (kind_of s)) v \<and> constraints_ok E (constraints_of s) v)"
  by pat_completeness auto
termination
proof (relation "measure (\<lambda>(E, s, v). size s)", goal_cases)
  case (2 E s v k)
  then have "kind_of s = JStr ''object''" by blast
  from size_prop [OF this] show ?case by simp
next
  case (3 E s v x)
  then have "kind_of s = JStr ''array''" by blast
  from size_field [OF this] show ?case by simp
next
  case (4 E s v k)
  then have "kind_of s = JStr ''record''" by blast
  from size_field [OF this] show ?case by simp
next
  case (5 E s v i)
  then have "kind_of s = JStr ''tuple''" by blast
  from size_items [OF this] 5 show ?case by simp
next
  case (6 E s v x)
  then have "kind_of s = JStr ''union''" by blast
  from size_field_member [OF this] 6 show ?case by (simp add: variants_of_def)
next
  case (7 E s v x)
  then have "kind_of s = JStr ''intersection''" by blast
  from size_field_member [OF this] 7 show ?case by simp
qed simp

declare accepts.simps [simp del]

text \<open>Schemas the differ can judge: numeric bounds, and nowhere an intersection.\<close>

definition numeric_bounds :: "dict \<Rightarrow> bool" where
  "numeric_bounds c \<longleftrightarrow> list_all (\<lambda>k. mget c k = JNull \<or> num_val (mget c k) \<noteq> None) (UPPER_BOUNDS @ LOWER_BOUNDS)"

function ordinary :: "json \<Rightarrow> bool" where
  "ordinary s \<longleftrightarrow>
     numeric_bounds (constraints_of s) \<and> kind_of s \<noteq> JStr ''intersection''
     \<and> (if kind_of s = JStr ''object'' then list_all (\<lambda>k. ordinary (mget (props_of s) k)) (map fst (props_of s))
        else if kind_of s = JStr ''array'' then ordinary (field s ''items'')
        else if kind_of s = JStr ''record'' then ordinary (field s ''values'')
        else if kind_of s = JStr ''tuple'' then list_all (\<lambda>i. ordinary (items_of s ! i)) [0..<length (items_of s)]
        else True)"
  by pat_completeness auto
termination
proof (relation "measure size", goal_cases)
  case (2 s k)
  then have "kind_of s = JStr ''object''" by blast
  from size_prop [OF this] show ?case by simp
next
  case (3 s)
  then have "kind_of s = JStr ''array''" by blast
  from size_field [OF this] show ?case by simp
next
  case (4 s)
  then have "kind_of s = JStr ''record''" by blast
  from size_field [OF this] show ?case by simp
next
  case (5 s i)
  then have "kind_of s = JStr ''tuple''" by blast
  from size_items [OF this] 5 show ?case by simp
qed simp

declare ordinary.simps [simp del]

subsection \<open>Reading a canonical schema\<close>

lemma field_canon: "field (canon s) k = canon (field s k)"
  by (simp add: field_def mget_canon)

lemma kind_of_canon [simp]: "kind_of (canon s) = JStr k \<longleftrightarrow> kind_of s = JStr k"
  by (simp add: kind_of_def field_canon)

lemma canon_kind_of [simp]: "canon (kind_of (canon s)) = canon (kind_of s)"
  by (simp add: kind_of_def field_canon)

lemma flag_canon [simp]: "flag (canon s) k \<longleftrightarrow> flag s k"
  by (simp add: flag_def field_canon)

lemma props_of_canon: "mget (props_of (canon s)) k = canon (mget (props_of s) k)"
  by (simp add: props_of_def field_canon mget_canon)

lemma props_keys_canon [simp]: "fst ` set (props_of (canon s)) = fst ` set (props_of s)"
  by (simp add: props_of_def field_canon)

lemma has_prop_canon [simp]: "has_key (props_of (canon s)) = has_key (props_of s)"
  by (simp add: fun_eq_iff props_of_def field_canon)

lemma satisfies_canon [simp]: "satisfies E k (canon q) v = satisfies E k q v"
  by (simp add: satisfies_def split: option.split)

lemma constraints_ok_canon [simp]: "constraints_ok E (constraints_of (canon s)) v = constraints_ok E (constraints_of s) v"
  by (simp add: constraints_ok_def list_all_iff constraints_of_def field_canon mget_canon)

lemma list_all_keys: "list_all P (map fst d) \<longleftrightarrow> (\<forall>k \<in> fst ` set d. P k)"
  by (auto simp: list_all_iff)

lemma accepts_canon: "accepts E (canon s) v = accepts E s v"
proof (induction "size s" arbitrary: s v rule: less_induct)
  case less
  note [simp] = field_canon as_list_canon props_of_canon list_all_keys
  show ?case
  proof (cases "\<exists>k. kind_of s = JStr k")
    case True
    then obtain k where k: "kind_of s = JStr k" ..
    have of_field: "accepts E (canon (field s f)) w = accepts E (field s f) w" for f w
      by (rule less) (rule size_field [OF k])
    have of_prop: "accepts E (canon (mget (props_of s) f)) w = accepts E (mget (props_of s) f) w" for f w
      by (rule less) (rule size_prop [OF k])
    have of_item: "i < length (items_of s) \<Longrightarrow> accepts E (canon (items_of s ! i)) w = accepts E (items_of s ! i) w" for i w
      by (rule less) (rule size_items [OF k])
    have of_member: "x \<in> set (as_list (field s f)) \<Longrightarrow> accepts E (canon x) w = accepts E x w" for x f w
      by (rule less) (rule size_field_member [OF k])
    have of_items: "(\<forall>i \<in> {0..<length (items_of s)}. accepts E (canon (items_of s ! i)) (f i))
        \<longleftrightarrow> (\<forall>i \<in> {0..<length (items_of s)}. accepts E (items_of s ! i) (f i))" for f
      by (simp add: of_item)
    show ?thesis
      by (simp add: accepts.simps [of E s v] accepts.simps [of E "canon s" v] of_field of_prop of_items [unfolded items_of_def] of_member
            k list_all_iff list_ex_iff values_of_def variants_of_def items_of_def comp_def image_image
            cong: bex_cong)
  next
    case False
    then show ?thesis by (simp add: accepts.simps [of E s v] accepts.simps [of E "canon s" v])
  qed
qed

end
