(* ===== verification/ContractProps.thy ===== *)
theory ContractProps
  imports ContractAccepts
begin

section \<open>A quiet diff keeps every accepted input\<close>

text \<open>
  The differ against the meaning of contracts.  A result is quiet when no change is breaking and no kind was replaced by
  another.  The lemmas take the comparisons of one node one by one; the theorem puts them together by induction on the
  old contract.
\<close>

definition quiet_change :: "change \<Rightarrow> bool" where
  "quiet_change x \<longleftrightarrow> cg_severity x \<noteq> Breaking \<and> (cg_code x = ''TYPE_WIDENED'' \<longrightarrow> cg_aspect x \<noteq> None)"

definition quiet :: "exc + change list \<Rightarrow> bool" where
  "quiet m \<longleftrightarrow> (case m of Inl _ \<Rightarrow> False | Inr xs \<Rightarrow> list_all quiet_change xs)"

definition input_ctx :: "bool \<Rightarrow> diff_ctx" where
  "input_ctx e = \<lparr>dc_disabled = [], dc_direction = ''input'', dc_error_code = e\<rparr>"

subsection \<open>Quiet results\<close>

lemma quiet_simps [simp]:
  "quiet (Inl e) \<longleftrightarrow> False" "quiet (Inr xs) \<longleftrightarrow> list_all quiet_change xs"
  by (simp_all add: quiet_def)

lemma quiet_concatE [simp]: "quiet (concatE ms) \<longleftrightarrow> list_all quiet ms"
proof (induction ms)
  case (Cons m ms)
  then show ?case by (cases m; cases "mapE id ms") (auto simp: concatE_def)
qed (simp add: concatE_def)

lemma quiet_emit [simp]: "list_all quiet_change (emit b x) \<longleftrightarrow> (if b then quiet_change x else True)"
  by (simp add: emit_def)

lemma on_input [simp]: "on (input_ctx e) r"
  by (simp add: on_def input_ctx_def)

lemma ch_input [simp]:
  "cg_severity (ch (input_ctx e) code p) = severity_of (cg_code (ch (input_ctx e) code p)) ''input''"
  "cg_code (ch (input_ctx e) code p) = (if e \<and> startswith code ''ENUM_VALUE_'' then ''ERROR_CODE_CHANGED'' else code)"
  "cg_aspect (ch (input_ctx e) code p) = None"
  by (simp_all add: ch_def input_ctx_def Let_def on_def)

lemma on_aspect_simps [simp]:
  "cg_severity (on_aspect a x) = cg_severity x" "cg_code (on_aspect a x) = cg_code x" "cg_aspect (on_aspect a x) = Some a"
  by (simp_all add: on_aspect_def)

lemmas quiet_code = quiet_change_def severity_of_def BREAKING_ALWAYS_def BREAKING_UNLESS_INPUT_def

subsection \<open>One node\<close>

lemma quiet_nullable: "list_all quiet_change (nullable_changes (input_ctx e) a b p) \<Longrightarrow> flag a ''nullable'' \<Longrightarrow> flag b ''nullable''"
  by (auto simp: nullable_changes_def quiet_code split: if_splits)

lemma loud_kind: "\<not> list_all quiet_change (kind_changes (input_ctx e) a b p)"
  by (simp add: kind_changes_def quiet_code Let_def)

lemma num_val_py_norm: "num_val (py_norm j) = num_val j"
  by (cases j) (auto simp: num_val_def)

lemma py_norm_null [simp]: "py_norm j = JNull \<longleftrightarrow> j = JNull"
  by (cases j) auto

lemma satisfies_py_eq:
  assumes "py_eq x y"
  shows "satisfies E k x v = satisfies E k y v"
proof -
  have "num_val x = num_val y" "(x = JNull) = (y = JNull)" "py_norm x = py_norm y"
    using assms num_val_py_norm [of x] num_val_py_norm [of y] py_norm_null [of x] py_norm_null [of y] by (simp_all add: py_eq_def)
  then show ?thesis by (simp add: satisfies_def split: option.split)
qed

lemma satisfies_null [simp]: "satisfies E k JNull v"
  by (simp add: satisfies_def)

lemma num_val_Some_not_str: "num_val x = Some q \<Longrightarrow> x \<noteq> JStr s"
  by (auto simp: num_val_def)

lemma py_greater_numbers:
  assumes "num_val x = Some q \<or> num_val y = Some q" "py_greater x y = Inr g"
  obtains r s where "num_val x = Some r" "num_val y = Some s" "g = (s < r)"
proof (cases "num_val x = None \<or> num_val y = None")
  case True
  then have "py_greater x y = Inl TypeError"
    using assms(1) by (cases x; cases y) (simp_all add: py_greater_def num_val_def)
  then show ?thesis using assms(2) by simp
next
  case False
  then show ?thesis using that assms(2) by (auto simp: py_greater_def)
qed

lemma list_all_has_key: "list_all P (map fst d) \<longleftrightarrow> (\<forall>k. has_key d k \<longrightarrow> P k)"
  by (auto simp: list_all_keys has_key_keys)

lemma bound_not_narrowed:
  assumes ok: "bound_change ca cb k = Inr (False, w)"
    and num: "k \<in> set (UPPER_BOUNDS @ LOWER_BOUNDS) \<Longrightarrow> mget ca k = JNull \<or> num_val (mget ca k) \<noteq> None"
    and sat: "satisfies E k (mget ca k) v"
  shows "satisfies E k (mget cb k) v"
proof (cases "py_eq (mget ca k) (mget cb k) \<or> mget cb k = JNull")
  case True
  then show ?thesis using sat satisfies_py_eq by auto
next
  case False
  then have nn: "mget ca k \<noteq> JNull" and k: "k \<in> set UPPER_BOUNDS \<union> set LOWER_BOUNDS"
    using ok by (auto simp: bound_change_def relaxed_def Let_def split: if_splits)
  then obtain q where q: "num_val (mget ca k) = Some q" using num by auto
  have disj: "k \<in> set UPPER_BOUNDS \<Longrightarrow> k \<notin> set LOWER_BOUNDS" by (auto simp: UPPER_BOUNDS_def LOWER_BOUNDS_def)
  from k show ?thesis
  proof
    assume u: "k \<in> set UPPER_BOUNDS"
    then have "py_greater (mget cb k) (mget ca k) = Inr True"
      using ok False nn by (auto simp: bound_change_def relaxed_def Let_def split: sum.splits prod.splits)
    then obtain r where "num_val (mget cb k) = Some r" "q < r"
      using py_greater_numbers [of "mget cb k" q "mget ca k" True] q by auto
    moreover have "k \<noteq> ''exclusiveMin''" using u by (auto simp: UPPER_BOUNDS_def)
    ultimately show ?thesis
      using sat q u nn False by (auto simp: satisfies_def split: option.splits if_splits)
  next
    assume l: "k \<in> set LOWER_BOUNDS"
    then have u: "k \<notin> set UPPER_BOUNDS" using disj by blast
    then have "py_greater (mget ca k) (mget cb k) = Inr True"
      using ok False nn l by (auto simp: bound_change_def relaxed_def Let_def split: sum.splits prod.splits)
    then obtain r where "num_val (mget cb k) = Some r" "r < q"
      using py_greater_numbers [of "mget ca k" q "mget cb k" True] q by auto
    moreover have "k \<noteq> ''exclusiveMax''" using l by (auto simp: LOWER_BOUNDS_def)
    ultimately show ?thesis
      using sat q l u nn False by (auto simp: satisfies_def split: option.splits if_splits)
  qed
qed

lemma quiet_constraints:
  assumes q: "quiet (constraint_changes (input_ctx e) a b p)"
    and num: "numeric_bounds (constraints_of a)"
    and ok: "constraints_ok E (constraints_of a) v"
  shows "constraints_ok E (constraints_of b) v"
proof -
  let ?ca = "constraints_of a" and ?cb = "constraints_of b"
  let ?keys = "sort (remdups (map fst ?ca @ map fst ?cb))"
  obtain bs where bs: "list_all2 (\<lambda>k x. bound_change ?ca ?cb k = Inr x) ?keys bs" and narrow: "\<not> list_ex fst bs"
    using q by (cases "mapE (bound_change ?ca ?cb) ?keys") (auto simp: constraint_changes_def Let_def mapE_Inr quiet_code split: if_splits)
  have "satisfies E k (mget ?cb k) v" if k: "k \<in> fst ` set ?cb" for k
  proof -
    have "k \<in> set ?keys" using k by auto
    then obtain x where x: "x \<in> set bs" "bound_change ?ca ?cb k = Inr x"
      using list_all2_partner [OF bs] by blast
    have "\<not> fst x" using x(1) narrow by (auto simp: list_ex_iff)
    then obtain w where w: "x = (False, w)" by (metis surj_pair fst_conv)
    have "satisfies E k (mget ?ca k) v"
    proof (cases "has_key ?ca k")
      case True
      then show ?thesis using ok by (simp add: constraints_ok_def list_all_has_key)
    qed (simp add: has_key_def mget_def)
    moreover have "mget ?ca k = JNull \<or> num_val (mget ?ca k) \<noteq> None" if "k \<in> set (UPPER_BOUNDS @ LOWER_BOUNDS)"
      using num that unfolding numeric_bounds_def list_all_iff by blast
    ultimately show ?thesis using bound_not_narrowed [OF x(2) [unfolded w]] by blast
  qed
  then show ?thesis by (simp add: constraints_ok_def list_all_keys)
qed

lemma canon_diff_nil: "canon_diff xs ys = [] \<longleftrightarrow> canon ` set xs \<subseteq> canon ` set ys"
  by (auto simp: canon_diff_def filter_empty_conv)

lemma quiet_enum: "list_all quiet_change (enum_changes (input_ctx e) a b p) \<Longrightarrow> canon ` set (values_of a) \<subseteq> canon ` set (values_of b)"
  by (auto simp: enum_changes_def Let_def quiet_code canon_diff_nil split: if_splits)

lemma quiet_union: "list_all quiet_change (union_changes (input_ctx e) a b p) \<Longrightarrow> canon ` set (variants_of a) \<subseteq> canon ` set (variants_of b)"
  by (auto simp: union_changes_def Let_def quiet_code canon_diff_nil split: if_splits)

lemma quiet_ref: "list_all quiet_change (ref_changes (input_ctx e) a b p) \<Longrightarrow> py_eq (field a ''name'') (field b ''name'')"
  by (auto simp: ref_changes_def quiet_code split: if_splits)

lemma quiet_fields:
  assumes "list_all quiet_change (field_changes (input_ctx e) pa pb p)"
  shows "has_key pa k \<Longrightarrow> has_key pb k"
    and "has_key pb k \<Longrightarrow> \<not> has_key pa k \<Longrightarrow> flag (mget pb k) ''optional''"
proof -
  let ?ren = "renamed_fields (input_ctx e) pa pb"
  have loud: "\<not> list_all quiet_change (removal (input_ctx e) ?ren p r)" for r
    by (simp add: removal_def quiet_code split: option.split)
  then have none: "removed_keys pa pb = []"
    using assms by (cases "removed_keys pa pb") (auto simp: field_changes_def Let_def)
  then show "has_key pa k \<Longrightarrow> has_key pb k"
    by (auto simp: removed_keys_def filter_empty_conv has_key_keys)
  have ren: "?ren = []" using none by (simp add: renamed_fields_def)
  assume "has_key pb k" "\<not> has_key pa k"
  then have "k \<in> set (removed_keys pb pa)" by (auto simp: removed_keys_def has_key_keys)
  then have "list_all quiet_change (addition (input_ctx e) [] pb p k)"
    using assms by (auto simp: field_changes_def Let_def ren none list_all_iff)
  then show "flag (mget pb k) ''optional''"
    by (auto simp: addition_def quiet_code split: if_splits)
qed

lemma quiet_optionality:
  "list_all quiet_change (optionality_changes (input_ctx e) a b p) \<Longrightarrow> flag a ''optional'' \<Longrightarrow> flag b ''optional''"
  by (auto simp: optionality_changes_def Let_def quiet_code split: if_splits)

lemma common_key: "has_key pa k \<Longrightarrow> has_key pb k \<Longrightarrow> k \<in> set (common_keys pa pb)"
  by (auto simp: common_keys_def has_key_keys)

subsection \<open>The whole contract\<close>

lemma quiet_diff_sound:
  "quiet (diff_schema (input_ctx e) a b p) \<Longrightarrow> ordinary a \<Longrightarrow> accepts E a v \<Longrightarrow> accepts E b v"
proof (induction "size a" arbitrary: a b p v rule: less_induct)
  case less
  note q = less.prems(1) [unfolded diff_schema.simps [of _ a]]
    and ord = less.prems(2) [unfolded ordinary.simps [of a]]
    and acc = less.prems(3) [unfolded accepts.simps [of E a]]
  have kind: "kind_of b = kind_of a" and null: "flag a ''nullable'' \<Longrightarrow> flag b ''nullable''"
    using q loud_kind quiet_nullable by (auto split: if_splits)
  show ?case
  proof (cases "flag a ''nullable'' \<and> v = JNull")
    case True
    then show ?thesis using null by (simp add: accepts.simps [of E b])
  next
    case notnull: False
    have IH: "size a' < size a \<Longrightarrow> quiet (diff_schema (input_ctx e) a' b' p') \<Longrightarrow> ordinary a' \<Longrightarrow> accepts E a' w \<Longrightarrow> accepts E b' w" for a' b' p' w
      using less.hyps by blast
    note size = size_prop size_field size_items
    consider "kind_of a = JStr ''object''" | "kind_of a = JStr ''enum''" | "kind_of a = JStr ''array''" | "kind_of a = JStr ''record''"
      | "kind_of a = JStr ''tuple''" | "kind_of a = JStr ''union''" | "kind_of a = JStr ''ref''" | "kind_of a = JStr ''any''"
      | "\<forall>k \<in> {''object'', ''enum'', ''array'', ''record'', ''tuple'', ''union'', ''ref'', ''any''}. kind_of a \<noteq> JStr k"
      by blast
    then show ?thesis
    proof cases
      case 1
      let ?pa = "props_of a" and ?pb = "props_of b" and ?v = "as_dict v"
      have fields: "list_all quiet_change (field_changes (input_ctx e) ?pa ?pb p)" using q 1 kind by simp
      have common: "list_all quiet_change (optionality_changes (input_ctx e) (mget ?pa k) (mget ?pb k) (diff_key p k))"
          "quiet (diff_schema (input_ctx e) (mget ?pa k) (mget ?pb k) (diff_key p k))" if "has_key ?pa k" for k
        using q 1 kind common_key [OF that quiet_fields(1) [OF fields that]] by (auto simp: list_all_iff Let_def)
      have v: "is_dict v" "\<And>k. has_key ?v k \<Longrightarrow> has_key ?pa k"
        using acc notnull 1 by (auto simp: list_all_has_key)
      have old: "if has_key ?v k then accepts E (mget ?pa k) (mget ?v k) else flag (mget ?pa k) ''optional''" if "has_key ?pa k" for k
        using acc notnull 1 that by (auto simp: list_all_has_key)
      have sub_ord: "ordinary (mget ?pa k)" if "has_key ?pa k" for k
        using ord 1 that by (auto simp: list_all_has_key)
      have new: "if has_key ?v k then accepts E (mget ?pb k) (mget ?v k) else flag (mget ?pb k) ''optional''" if b: "has_key ?pb k" for k
      proof (cases "has_key ?pa k")
        case True
        then show ?thesis
          using old [OF True] common [OF True] IH [OF size_prop [OF 1] _ sub_ord [OF True]] quiet_optionality by auto
      next
        case False
        then show ?thesis using quiet_fields(2) [OF fields b] v(2) by auto
      qed
      have "accepts E b v \<longleftrightarrow> (\<forall>k. has_key ?v k \<longrightarrow> has_key ?pb k)
          \<and> (\<forall>k. has_key ?pb k \<longrightarrow> (if has_key ?v k then accepts E (mget ?pb k) (mget ?v k) else flag (mget ?pb k) ''optional''))"
        using v(1) 1 kind by (cases v) (simp_all add: accepts.simps [of E b] list_all_has_key is_dict_def)
      then show ?thesis using v(2) new quiet_fields(1) [OF fields] by blast
    next
      case 2
      then have "list_all quiet_change (enum_changes (input_ctx e) a b p)" using q kind by simp
      from quiet_enum [OF this] show ?thesis
        using acc notnull 2 kind by (auto simp: accepts.simps [of E b])
    next
      case 3
      then have "quiet (diff_schema (input_ctx e) (field a ''items'') (field b ''items'') (p @ ''[]''))"
          "quiet (constraint_changes (input_ctx e) a b p)" using q kind by auto
      then show ?thesis
        using acc notnull ord 3 kind IH [OF size_field [OF 3]] quiet_constraints
        by (auto simp: accepts.simps [of E b] list_all_iff)
    next
      case 4
      then have "quiet (diff_schema (input_ctx e) (field a ''values'') (field b ''values'') (p @ ''[*]''))" using q kind by simp
      then show ?thesis
        using acc notnull ord 4 kind IH [OF size_field [OF 4]] by (auto simp: accepts.simps [of E b] list_all_iff)
    next
      case 5
      then have len: "length (items_of a) = length (items_of b)"
        using q kind by (auto simp: quiet_code split: if_splits)
      have "accepts E (items_of b ! i) w" if i: "i < length (items_of a)" and w: "accepts E (items_of a ! i) w" for i w
      proof -
        have "quiet (diff_schema (input_ctx e) (items_of a ! i) (items_of b ! i) (diff_index p i))" "ordinary (items_of a ! i)"
          using q ord 5 kind len i by (auto simp: list_all_iff)
        then show ?thesis using IH [OF size_items [OF 5 i]] w by blast
      qed
      then show ?thesis
        using acc notnull 5 kind len by (auto simp: accepts.simps [of E b] list_all_iff)
    next
      case 6
      then have "list_all quiet_change (union_changes (input_ctx e) a b p)" using q kind by simp
      note kept = quiet_union [OF this]
      obtain x where x: "x \<in> set (variants_of a)" "accepts E x v" using acc notnull 6 by (auto simp: list_ex_iff)
      with kept obtain y where y: "y \<in> set (variants_of b)" "canon x = canon y" by auto
      then have "accepts E y v" using x(2) accepts_canon [of E x] accepts_canon [of E y] by simp
      then show ?thesis using y(1) 6 kind by (auto simp: accepts.simps [of E b] list_ex_iff)
    next
      case 7
      then have "list_all quiet_change (ref_changes (input_ctx e) a b p)" using q kind by simp
      from quiet_ref [OF this] show ?thesis
        using acc notnull 7 kind by (simp add: accepts.simps [of E b] py_eq_def)
    next
      case 8
      then show ?thesis using kind by (simp add: accepts.simps [of E b])
    next
      case 9
      then have "quiet (constraint_changes (input_ctx e) a b p)" using q kind by simp
      from quiet_constraints [OF this] show ?thesis
        using acc notnull ord 9 kind by (auto simp: accepts.simps [of E b])
    qed
  qed
qed

lemma diff_schema_equal: "diff_schema c a a p = Inr []"
proof (induction "size a" arbitrary: a p rule: less_induct)
  case less
  have eq: "Inr [] = (Inr [] :: exc + change list)" ..
  have bounds: "bound_change d d k = Inr (False, False)" for d k by (simp add: bound_change_def py_eq_def)
  have concat_nil: "concatE ms = (Inr [] :: exc + change list)" if "\<forall>m \<in> set ms. m = Inr []" for ms
    using that by (induction ms) (auto simp: concatE_def)
  have constraints: "constraint_changes c a a p = Inr []"
    using mapE_total [of "sort (remdups (map fst (constraints_of a) @ map fst (constraints_of a)))"
        "bound_change (constraints_of a) (constraints_of a)" "\<lambda>_. (False, False)"] bounds
    by (simp add: constraint_changes_def Let_def emit_def list_ex_iff)
  have removed: "removed_keys d d = []" for d by (auto simp: removed_keys_def filter_empty_conv has_key_keys)
  have fields: "field_changes c d d p = []" for d by (simp add: field_changes_def Let_def removed)
  have diff: "canon_diff xs xs = []" for xs by (simp add: canon_diff_nil)
  show ?case
    using less size_prop size_field size_items
    by (subst diff_schema.simps)
       (auto intro!: concat_nil simp: nullable_changes_def constraints fields enum_changes_def union_changes_def ref_changes_def diff emit_def
          Let_def py_eq_def optionality_changes_def)
qed

end
