(* ===== verification/ContractEdges.thy ===== *)
theory ContractEdges
  imports ContractDiff
begin

section \<open>Consumers of a contract and the verdict of a diff\<close>

text \<open>
  \<^verbatim>\<open>edge_verdict\<close>, \<^verbatim>\<open>edges_from_graph\<close>, the comparison of two revisions in \<^verbatim>\<open>run_diff\<close> and \<^verbatim>\<open>exit_code_for\<close> of
  \<^verbatim>\<open>tools/graph/contract_diff.py\<close>.  What a consumer file uses of a contract (\<open>projection\<close>) and the two sets of contracts
  come from the extractors and are arguments here (an edge keeps its ends, type and provenance); so is the native proof about metadata, which is left out: the run is
  one with \<^verbatim>\<open>metadata_root=None\<close>.  The sentences of the reasons are constructors.
\<close>

record projection =
  pj_keys_read :: "string list"
  pj_keys_sent :: "string list"
  pj_literals_sent :: nat
  pj_values_used :: "json list"
  pj_complete :: bool
  pj_union_reads :: "(string \<times> nat list) list"
  pj_lexical_unresolved :: bool
  pj_safeparse_unresolved :: bool
  pj_enum_unresolved :: bool

datatype verdict = Failed | NotMeasured | Verified

datatype edge_reason =
    NotDeclaredAtHead
  | ReadsUndeclared string
  | SendsUndeclared string
  | OmitsRequired string
  | UsesChanged string string
  | ReadsAbsentFromVariants string
  | UsesRemovedValue json
  | ContractRemoved
  | Unresolved string
  | UnionChanged
  | InferredNotNarrowable
  | BreakingNotNarrowable
  | Unattributable string
  | NothingBroken
  | Untouched "string list"
  | NoSchema
  | ExternalNotExtracted
  | ProviderSide string nat

definition breaking_of :: "change list \<Rightarrow> change list" where
  "breaking_of cs = filter (\<lambda>c. cg_severity c = Breaking) cs"

text \<open>\<^verbatim>\<open>c["path"].split(".")[0].split("[")[0]\<close>: the top-level key a change lies under.\<close>

definition top_key :: "change \<Rightarrow> string" where
  "top_key c = takeWhile (\<lambda>x. x \<noteq> CHR ''['') (takeWhile (\<lambda>x. x \<noteq> CHR ''.'') (cg_path c))"

definition emit_reason :: "bool \<Rightarrow> edge_reason \<Rightarrow> edge_reason list" where
  "emit_reason b r = (if b then [r] else [])"

definition object_reasons :: "string list \<Rightarrow> projection \<Rightarrow> json \<Rightarrow> change list \<Rightarrow> edge_reason list" where
  "object_reasons d pj s breaking =
     (let props = props_of s; used = pj_keys_read pj @ pj_keys_sent pj
      in concat (map (\<lambda>k. emit_reason (\<not> has_key props k \<and> ''consumer_keys'' \<notin> set d) (ReadsUndeclared k)) (pj_keys_read pj))
         @ concat (map (\<lambda>k. emit_reason (\<not> has_key props k \<and> \<not> flag s ''open'' \<and> ''consumer_keys'' \<notin> set d) (SendsUndeclared k))
                     (pj_keys_sent pj))
         @ (if pj_literals_sent pj > 0 \<and> pj_complete pj \<and> ''consumer_required'' \<notin> set d
            then concat (map (\<lambda>r. emit_reason (r \<notin> JStr ` set (pj_keys_sent pj)) (OmitsRequired (str_of r)))
                           (as_list (field s ''required'')))
            else [])
         @ concat (map (\<lambda>c. emit_reason (top_key c \<noteq> [] \<and> top_key c \<in> set used) (UsesChanged (cg_code c) (cg_path c))) breaking))"

definition absent_from_all :: "json list \<Rightarrow> string \<Rightarrow> nat list \<Rightarrow> exc + bool" where
  "absent_from_all variants k is =
     foldE (\<lambda>i b. if \<not> b then Inr False
                  else if i < length variants then Inr (\<not> has_key (props_of (variants ! i)) k) else Inl IndexError) is True"

definition union_reasons :: "projection \<Rightarrow> json \<Rightarrow> exc + edge_reason list" where
  "union_reasons pj s =
     bindE (mapE (\<lambda>(k, is). if is = [] then Inr []
                            else bindE (absent_from_all (variants_of s) k is) (\<lambda>b. Inr (emit_reason b (ReadsAbsentFromVariants k))))
              (pj_union_reads pj)) (\<lambda>rs. Inr (concat rs))"

definition enum_reasons :: "string list \<Rightarrow> projection \<Rightarrow> json \<Rightarrow> edge_reason list" where
  "enum_reasons d pj s =
     concat (map (\<lambda>v. emit_reason (canon v \<notin> canon ` set (values_of s) \<and> v \<notin> JStr ` fst ` set (as_dict (field s ''members''))
                                    \<and> ''consumer_values'' \<notin> set d) (UsesRemovedValue v)) (pj_values_used pj))"

definition UNATTRIBUTABLE :: "string list" where
  "UNATTRIBUTABLE = [''ENUM_VALUE_ADDED'', ''ERROR_CODE_CHANGED'', ''TYPE_WIDENED'', ''REQUIRED_TO_OPTIONAL'']"

definition failing_reasons :: "string list \<Rightarrow> projection \<Rightarrow> json \<Rightarrow> change list \<Rightarrow> exc + edge_reason list" where
  "failing_reasons d pj s breaking =
     bindE (if kind_of s = JStr ''object'' then Inr (object_reasons d pj s breaking)
            else if kind_of s = JStr ''union'' then union_reasons pj s
            else if kind_of s = JStr ''enum'' then Inr (enum_reasons d pj s) else Inr []) (\<lambda>rs.
       Inr (rs @ concat (map (\<lambda>c. emit_reason (cg_code c = ''CONTRACT_REMOVED'') ContractRemoved) breaking)))"

text \<open>The verdict when no reason to fail was found.\<close>

definition open_verdict :: "projection \<Rightarrow> json \<Rightarrow> change list \<Rightarrow> string \<Rightarrow> verdict \<times> edge_reason list" where
  "open_verdict pj s breaking provenance =
     (if pj_lexical_unresolved pj then (NotMeasured, [Unresolved ''executable consumer projection''])
      else if pj_safeparse_unresolved pj then (NotMeasured, [Unresolved ''safeParse''])
      else if pj_enum_unresolved pj then (NotMeasured, [Unresolved ''enum runtime parsing''])
      else if kind_of s = JStr ''union'' \<and> breaking \<noteq> [] then (NotMeasured, [UnionChanged])
      else if breaking = [] then
        (if provenance \<noteq> ''deterministic'' \<and> \<not> pj_complete pj then (NotMeasured, [InferredNotNarrowable])
         else (Verified, [NothingBroken]))
      else if \<not> pj_complete pj then (NotMeasured, [BreakingNotNarrowable])
      else let un = filter (\<lambda>c. cg_code c \<in> set UNATTRIBUTABLE \<and> (kind_of s = JStr ''enum'' \<or> cg_path c = [])) breaking
           in if un \<noteq> [] then (NotMeasured, map (\<lambda>c. Unattributable (cg_code c)) un)
              else (Verified, [Untouched (sort (remdups (map cg_code breaking)))]))"

definition edge_verdict ::
    "projection \<Rightarrow> contract option \<Rightarrow> change list \<Rightarrow> string \<Rightarrow> string list \<Rightarrow> exc + verdict \<times> edge_reason list" where
  "edge_verdict pj head changes provenance d =
     (case head of
        None \<Rightarrow> Inr (Failed, [NotDeclaredAtHead])
      | Some h \<Rightarrow>
          bindE (failing_reasons d pj (ct_schema h) (breaking_of changes)) (\<lambda>rs.
            Inr (if rs \<noteq> [] then (Failed, rs) else open_verdict pj (ct_schema h) (breaking_of changes) provenance)))"

subsection \<open>The run\<close>

record cedge =
  ce_from :: string
  ce_type :: string
  ce_to :: string
  ce_provenance :: "string option"

record edge_result =
  er_edge :: cedge
  er_verdict :: verdict
  er_reasons :: "edge_reason list"
  er_requires_canary :: bool

record diff_result =
  dr_contracts :: "(string \<times> contract_diff) list"
  dr_breaking :: "(string \<times> change) list"
  dr_edges :: "edge_result list"
  dr_out_of_scope :: nat

definition edges_from_graph :: "cedge list \<Rightarrow> cedge list" where
  "edges_from_graph es =
     filter (\<lambda>e. ce_type e \<in> {''implements_contract'', ''consumes_contract''} \<and> startswith (ce_to e) ''contract:'') es"

text \<open>
  What the extractors give for the two revisions: their contracts, the declaration of a symbol that is a contract in the
  other revision only, for a file of the head revision what it uses of a contract, the files of the head revision, the
  names that each file imports, and the declaration (path and symbol) that a name resolves to.
\<close>

record extraction =
  xt_base :: "(string \<times> contract) list"
  xt_head :: "(string \<times> contract) list"
  xt_base_decl :: "contract \<Rightarrow> contract option"
  xt_head_decl :: "contract \<Rightarrow> contract option"
  xt_uses :: "string \<Rightarrow> string \<Rightarrow> projection option"
  xt_files :: "string list"
  xt_base_imports :: "(string \<times> string list) list"
  xt_head_imports :: "(string \<times> string list) list"
  xt_base_resolve :: "string \<Rightarrow> string \<Rightarrow> (string \<times> string) option"
  xt_head_resolve :: "string \<Rightarrow> string \<Rightarrow> (string \<times> string) option"

record diff_options =
  do_disabled :: "string list"
  do_only :: "string list"
  do_directions :: "string \<Rightarrow> string option"
  do_consumers :: "(string \<times> string \<times> string list) list"

definition narrowed :: "string list \<Rightarrow> (string \<times> contract) list \<Rightarrow> (string \<times> contract) list" where
  "narrowed only cs = (if only = [] then cs else filter (\<lambda>(cid, c). cid \<in> set only \<or> ct_symbol c \<in> set only) cs)"

text \<open>A contract of one revision whose symbol is declared, but no contract, in the other.\<close>

definition completed ::
    "(contract \<Rightarrow> contract option) \<Rightarrow> (string \<times> contract) list \<Rightarrow> (string \<times> contract) list \<Rightarrow> (string \<times> contract) list" where
  "completed decl src dst =
     dst @ concat (map (\<lambda>(cid, c). if map_of dst cid \<noteq> None then [] else case decl c of None \<Rightarrow> [] | Some d \<Rightarrow> [(cid, d)]) src)"

definition direction_override :: "diff_options \<Rightarrow> string \<Rightarrow> string \<Rightarrow> string option" where
  "direction_override opt cid symbol =
     (case do_directions opt cid of Some (x # xs) \<Rightarrow> Some (x # xs) | _ \<Rightarrow> do_directions opt symbol)"

definition contract_diffs ::
    "diff_options \<Rightarrow> (string \<times> contract) list \<Rightarrow> (string \<times> contract) list \<Rightarrow> exc + (string \<times> contract_diff) list" where
  "contract_diffs opt cb cs =
     mapE (\<lambda>cid.
         let old = map_of cb cid; new = map_of cs cid;
             symbol = (case old of Some c \<Rightarrow> ct_symbol c | None \<Rightarrow> (case new of Some c \<Rightarrow> ct_symbol c | None \<Rightarrow> []))
         in bindE (diff_contract (do_disabled opt) old new (direction_override opt cid symbol)) (\<lambda>r. Inr (cid, r)))
       (sort (remdups (map fst cb @ map fst cs)))"

text \<open>\<^verbatim>\<open>frm.split(":", 1)[1]\<close>\<close>

definition unit_path :: "string \<Rightarrow> exc + string" where
  "unit_path f = (if CHR '':'' \<in> set f then Inr (tl (dropWhile (\<lambda>c. c \<noteq> CHR '':'') f)) else Inl IndexError)"

definition absent_file :: projection where
  "absent_file =
     \<lparr>pj_keys_read = [], pj_keys_sent = [], pj_literals_sent = 0, pj_values_used = [], pj_complete = False, pj_union_reads = [],
      pj_lexical_unresolved = False, pj_safeparse_unresolved = False, pj_enum_unresolved = False\<rparr>"

definition external_use :: "string list \<Rightarrow> projection" where
  "external_use keys = absent_file\<lparr>pj_keys_sent := sort keys, pj_literals_sent := 1, pj_complete := True\<rparr>"

definition edge_result_of ::
    "diff_options \<Rightarrow> extraction \<Rightarrow> (string \<times> contract) list \<Rightarrow> (string \<times> contract_diff) list \<Rightarrow> cedge \<Rightarrow> exc + edge_result" where
  "edge_result_of opt x heads cds e =
     (case map_of cds (ce_to e) of
        None \<Rightarrow> Inr \<lparr>er_edge = e, er_verdict = NotMeasured, er_reasons = [NoSchema], er_requires_canary = False\<rparr>
      | Some cd \<Rightarrow>
          if ce_type e = ''implements_contract''
          then let n = length (breaking_of (cd_changes cd))
               in Inr \<lparr>er_edge = e, er_verdict = (if n > 0 then Failed else Verified), er_reasons = [ProviderSide (cd_status cd) n],
                       er_requires_canary = False\<rparr>
          else bindE (unit_path (ce_from e)) (\<lambda>path.
               let pj = (case xt_uses x path (ce_to e) of Some pj \<Rightarrow> pj | None \<Rightarrow> absent_file);
                   prov = (case ce_provenance e of Some q \<Rightarrow> q | None \<Rightarrow> ''deterministic'')
               in bindE (edge_verdict pj (map_of heads (ce_to e)) (cd_changes cd) prov (do_disabled opt)) (\<lambda>(v, rs).
                    Inr \<lparr>er_edge = e, er_verdict = v, er_reasons = rs,
                         er_requires_canary = (ce_provenance e \<noteq> Some ''deterministic'')\<rparr>)))"

definition external_result ::
    "diff_options \<Rightarrow> (string \<times> contract) list \<Rightarrow> (string \<times> contract_diff) list \<Rightarrow> string \<times> string \<times> string list
       \<Rightarrow> exc + edge_result list" where
  "external_result opt heads cds k =
     (case k of (cid, frm, keys) \<Rightarrow>
        let e = \<lparr>ce_from = frm, ce_type = ''consumes_contract'', ce_to = cid, ce_provenance = Some ''observed''\<rparr>
        in case map_of cds cid of
             None \<Rightarrow> Inr (if do_only opt \<noteq> [] then []
                          else [\<lparr>er_edge = e, er_verdict = NotMeasured, er_reasons = [ExternalNotExtracted], er_requires_canary = False\<rparr>])
           | Some cd \<Rightarrow>
               bindE (edge_verdict (external_use keys) (map_of heads cid) (cd_changes cd) ''observed'' (do_disabled opt)) (\<lambda>(v, rs).
                 Inr [\<lparr>er_edge = e, er_verdict = v, er_reasons = rs, er_requires_canary = False\<rparr>]))"

text \<open>Without a graph: providers are the declaring files, consumers the files that import the symbol.
  The code collects them under the key (path, type, contract), which determines an edge.\<close>

definition provider_edges :: "(string \<times> contract) list \<Rightarrow> (string \<times> contract) list \<Rightarrow> cedge list" where
  "provider_edges cb cs =
     map (\<lambda>(cid, c). \<lparr>ce_from = ''code_unit:'' @ ct_path c, ce_type = ''implements_contract'', ce_to = cid,
                      ce_provenance = Some ''deterministic''\<rparr>)
       (map (\<lambda>(cid, c). (cid, case map_of cs cid of Some d \<Rightarrow> d | None \<Rightarrow> c)) cb @ filter (\<lambda>(cid, _). map_of cb cid = None) cs)"

definition declared_as :: "(string \<times> contract) list \<Rightarrow> string \<times> string \<Rightarrow> string option" where
  "declared_as cs d = map_of (rev (map (\<lambda>(cid, c). ((ct_path c, ct_symbol c), cid)) cs)) d"

definition consumer_edges ::
    "(string \<times> contract) list \<Rightarrow> (string \<Rightarrow> string \<Rightarrow> (string \<times> string) option) \<Rightarrow> (string \<times> string list) list \<Rightarrow> cedge list" where
  "consumer_edges cs resolve imports =
     concat (map (\<lambda>(path, locals). concat (map (\<lambda>name.
         case resolve path name of
           None \<Rightarrow> []
         | Some d \<Rightarrow>
             (case declared_as cs d of
                None \<Rightarrow> []
              | Some cid \<Rightarrow> if fst d = path then []
                  else [\<lparr>ce_from = ''code_unit:'' @ path, ce_type = ''consumes_contract'', ce_to = cid,
                         ce_provenance = Some ''deterministic''\<rparr>])) locals)) imports)"

definition discover_edges :: "extraction \<Rightarrow> (string \<times> contract) list \<Rightarrow> (string \<times> contract) list \<Rightarrow> cedge list" where
  "discover_edges x cb cs =
     remdups (provider_edges cb cs
       @ consumer_edges cs (xt_head_resolve x) (xt_head_imports x)
       @ consumer_edges cb (xt_base_resolve x) (filter (\<lambda>(path, _). path \<in> set (xt_files x)) (xt_base_imports x)))"

definition run_diff :: "diff_options \<Rightarrow> extraction \<Rightarrow> cedge list option \<Rightarrow> exc + diff_result" where
  "run_diff opt x graph =
     (let cb0 = narrowed (do_only opt) (xt_base x); ch0 = narrowed (do_only opt) (xt_head x);
          heads = completed (xt_head_decl x) cb0 ch0; bases = completed (xt_base_decl x) heads cb0
      in if bases = [] \<and> heads = [] then Inl (Refusal ''NO_CONTRACTS'')
         else bindE (contract_diffs opt bases heads) (\<lambda>cds.
           let edges = (case graph of Some es \<Rightarrow> edges_from_graph es | None \<Rightarrow> discover_edges x bases heads);
               known = (\<lambda>cid. map_of cds cid \<noteq> None);
               scope = (if do_only opt = [] then edges else filter (\<lambda>e. known (ce_to e)) edges);
               lost = (if do_only opt = [] then [] else filter (\<lambda>k. \<not> known (fst k)) (do_consumers opt))
           in bindE (mapE (edge_result_of opt x heads cds) (sort_key (\<lambda>e. (ce_to e, ce_type e, ce_from e)) scope)) (\<lambda>es.
              bindE (mapE (external_result opt heads cds) (do_consumers opt)) (\<lambda>xs.
                Inr \<lparr>dr_contracts = cds,
                     dr_breaking = concat (map (\<lambda>(cid, d). map (Pair cid) (breaking_of (cd_changes d))) cds),
                     dr_edges = es @ concat xs,
                     dr_out_of_scope = length edges - length scope + length lost\<rparr>))))"

definition exit_code_for :: "diff_result \<Rightarrow> int" where
  "exit_code_for r =
     (if dr_breaking r \<noteq> [] \<or> list_ex (\<lambda>e. er_verdict e = Failed) (dr_edges r) \<or> list_ex (\<lambda>e. er_verdict e = NotMeasured) (dr_edges r)
      then 1 else 0)"

end
