(* ===== verification/ContractVerdict.thy ===== *)
theory ContractVerdict
  imports ContractProps ContractEdges
begin

section \<open>What a clean verdict of the contract diff means\<close>

text \<open>
  The run of the contract differ from the outside: exit status 0, the verdict of a consumer edge, and the two together
  with the meaning of contracts.  The last part shows on small inputs what the differ does not see.
\<close>

text \<open>
  The contract diff ends with status 0 exactly when no change of any contract is breaking and every edge, also of
  the declared external consumers, is verified: an edge that was not measured keeps the status at 1.
\<close>

lemma exit_zero_iff:
  "exit_code_for r = 0 \<longleftrightarrow> dr_breaking r = [] \<and> list_all (\<lambda>e. er_verdict e = Verified) (dr_edges r)"
proof -
  have "er_verdict e = Verified \<longleftrightarrow> er_verdict e \<noteq> Failed \<and> er_verdict e \<noteq> NotMeasured" for e
    by (cases "er_verdict e") auto
  then show ?thesis by (auto simp: exit_code_for_def list_all_iff list_ex_iff)
qed

subsection \<open>A verified consumer\<close>

lemma concat_emit_nil: "concat (map (\<lambda>k. emit_reason (P k) (R k)) ks) = [] \<longleftrightarrow> (\<forall>k \<in> set ks. \<not> P k)"
  by (auto simp: emit_reason_def)

lemma verified_no_reason:
  assumes "edge_verdict pj head cs prov d = Inr (Verified, rs)"
  obtains h where "head = Some h" "failing_reasons d pj (ct_schema h) (breaking_of cs) = Inr []"
    "fst (open_verdict pj (ct_schema h) (breaking_of cs) prov) = Verified"
  using assms by (cases head) (auto simp: edge_verdict_def split: if_splits)

lemma verified_complete: "fst (open_verdict pj s br prov) = Verified \<Longrightarrow> br = [] \<or> pj_complete pj"
  by (auto simp: open_verdict_def split: if_splits)


subsection \<open>The run\<close>

definition kinds_kept :: "contract_diff \<Rightarrow> bool" where
  "kinds_kept d \<longleftrightarrow> list_all (\<lambda>c. cg_code c \<noteq> ''TYPE_WIDENED'' \<or> cg_aspect c \<noteq> None) (cd_changes d)"

lemma map_of_completed:
  assumes "distinct (map fst src)"
  shows "map_of (completed decl src dst) cid = (case map_of dst cid of Some c \<Rightarrow> Some c | None \<Rightarrow> Option.bind (map_of src cid) decl)"
proof -
  let ?f = "\<lambda>(k, c). if map_of dst k \<noteq> None then [] else case decl c of None \<Rightarrow> [] | Some d \<Rightarrow> [(k, d)]"
  have fresh: "map_of (concat (map ?f ys)) cid = None" if "cid \<notin> fst ` set ys" for ys
    using that by (induction ys) (auto simp: map_add_def split: option.split)
  have "map_of (concat (map ?f src)) cid = (if map_of dst cid \<noteq> None then None else Option.bind (map_of src cid) decl)"
    using assms
  proof (induction src)
    case (Cons y ys)
    have "map_of ys cid = None" if "cid \<notin> fst ` set ys" using that by (simp add: map_of_eq_None_iff)
    then show ?case using Cons by (cases y) (auto simp: fresh map_add_def split: option.split)
  qed simp
  then show ?thesis by (auto simp: completed_def map_add_def split: option.split)
qed

lemma quiet_iff: "quiet (Inr cs) \<longleftrightarrow> breaking_of cs = [] \<and> list_all (\<lambda>c. cg_code c \<noteq> ''TYPE_WIDENED'' \<or> cg_aspect c \<noteq> None) cs"
  by (auto simp: quiet_change_def breaking_of_def filter_empty_conv list_all_iff)

lemma no_break_kept:
  assumes "diff_contract [] (Some a) new None = Inr d" "breaking_of (cd_changes d) = []" "ct_direction a = ''input''"
  obtains b where "new = Some b"
proof (cases new)
  case None
  then show ?thesis
    using assms
    by (auto simp: diff_contract_def Let_def emit_def on_def breaking_of_def ch_def severity_of_def BREAKING_ALWAYS_def)
qed

lemma clean_contract_sound:
  assumes d: "diff_contract [] (Some a) (Some b) None = Inr d" and clean: "breaking_of (cd_changes d) = []" "kinds_kept d"
    and input: "ct_direction a = ''input''" and ord: "ordinary (ct_schema a)" and acc: "accepts E (ct_schema a) v"
  shows "accepts E (ct_schema b) v"
proof (cases "canon (ct_schema a) = canon (ct_schema b)")
  case True
  then show ?thesis using acc accepts_canon [of E "ct_schema a"] accepts_canon [of E "ct_schema b"] by simp
next
  case False
  let ?c = "input_ctx (ct_error_code a \<or> ct_error_code b)"
  have ctx: "\<lparr>dc_disabled = [], dc_direction = direction_of [] a None, dc_error_code = ct_error_code a \<or> ct_error_code b\<rparr> = ?c"
    by (simp add: input_ctx_def direction_of_def input)
  obtain cs where cs: "diff_schema ?c (ct_schema a) (ct_schema b) [] = Inr cs" and "cs = [] \<or> cd_changes d = cs"
    using d False by (auto simp: diff_contract_def Let_def ctx split: if_splits)
  then have "quiet (Inr cs)" using clean unfolding quiet_iff kinds_kept_def by (auto simp: breaking_of_def)
  then show ?thesis using quiet_diff_sound [OF _ ord acc] cs by metis
qed


subsection \<open>A run on two small revisions\<close>

definition sample_object :: "(string \<times> json) list \<Rightarrow> json" where
  "sample_object ps = JObj [(''kind'', JStr ''object''), (''properties'', JObj ps)]"

definition sample_text :: json where
  "sample_text = JObj [(''kind'', JStr ''string'')]"

definition sample_note :: json where
  "sample_note = JObj [(''kind'', JStr ''string''), (''optional'', JBool True)]"

definition sample_contract :: "json \<Rightarrow> contract" where
  "sample_contract s = \<lparr>ct_kind = ''zod'', ct_path = ''a.ts'', ct_symbol = ''A'', ct_direction = ''input'', ct_schema = s,
     ct_decl_hash = ''h'', ct_error_code = False\<rparr>"

definition sample_run :: "json \<Rightarrow> json \<Rightarrow> extraction" where
  "sample_run s t = \<lparr>xt_base = [(''c'', sample_contract s)], xt_head = [(''c'', sample_contract t)], xt_base_decl = (\<lambda>_. None),
     xt_head_decl = (\<lambda>_. None), xt_uses = (\<lambda>_ _. None), xt_files = [], xt_base_imports = [], xt_head_imports = [],
     xt_base_resolve = (\<lambda>_ _. None), xt_head_resolve = (\<lambda>_ _. None)\<rparr>"

definition text_meaning :: meaning where
  "text_meaning = \<lparr>mn_prim = (\<lambda>k v. k = JStr ''string'' \<and> is_str v), mn_named = (\<lambda>_ _. False), mn_form = (\<lambda>_ _ _. True)\<rparr>"

definition sample_old :: json where
  "sample_old = sample_object [(''x'', sample_text)]"

definition sample_new :: json where
  "sample_new = sample_object [(''x'', sample_text), (''n'', sample_note)]"

definition sample_result :: diff_result where
  "sample_result = \<lparr>dr_contracts = [(''c'', \<lparr>cd_status = ''changed'', cd_direction = ''input'',
       cd_changes = [ch (input_ctx False) ''FIELD_ADDED_OPTIONAL'' ''n'']\<rparr>)], dr_breaking = [], dr_edges = [], dr_out_of_scope = 0\<rparr>"

lemmas sample_defs = sample_object_def sample_text_def sample_note_def sample_old_def sample_new_def

lemmas schema_reading = field_def kind_of_def props_of_def flag_def as_dict_def as_list_def mget_def truthy_def has_key_def

lemma sample_diff: "diff_schema (input_ctx False) sample_old sample_new [] = Inr [ch (input_ctx False) ''FIELD_ADDED_OPTIONAL'' ''n'']"
proof -
  have x: "diff_schema (input_ctx False) sample_text sample_text p = Inr []" for p by (rule diff_schema_equal)
  have f: "field_changes (input_ctx False) (props_of sample_old) (props_of sample_new) [] = [ch (input_ctx False) ''FIELD_ADDED_OPTIONAL'' ''n'']"
    by (simp add: field_changes_def renamed_fields_def removed_keys_def addition_def diff_key_def sample_defs schema_reading Let_def)
  have c: "common_keys (props_of sample_old) (props_of sample_new) = [''x'']"
    by (simp add: common_keys_def sample_defs schema_reading)
  have ps: "mget (props_of sample_old) ''x'' = sample_text" "mget (props_of sample_new) ''x'' = sample_text"
    by (simp_all add: sample_old_def sample_new_def sample_object_def schema_reading)
  have k: "kind_of sample_old = JStr ''object''" "kind_of sample_new = JStr ''object''"
    by (simp_all add: sample_defs schema_reading)
  have n: "nullable_changes (input_ctx False) sample_old sample_new [] = []"
    by (simp add: nullable_changes_def sample_defs schema_reading)
  have o: "optionality_changes (input_ctx False) sample_text sample_text p = []" for p
    by (simp add: optionality_changes_def emit_def Let_def)
  show ?thesis by (subst diff_schema.simps) (simp add: f c ps k n o x concatE_def Let_def)
qed

lemma sample_runs:
  "run_diff \<lparr>do_disabled = [], do_only = [], do_directions = (\<lambda>_. None), do_consumers = []\<rparr> (sample_run sample_old sample_new) (Some [])
     = Inr sample_result"
proof -
  have "canon sample_old \<noteq> canon sample_new" by (simp add: sample_defs)
  moreover have "diff_contract [] (Some (sample_contract sample_old)) (Some (sample_contract sample_new)) None
      = Inr (snd (hd (dr_contracts sample_result)))" if "canon sample_old \<noteq> canon sample_new"
    using that sample_diff
    by (simp add: diff_contract_def sample_contract_def direction_of_def input_ctx_def Let_def sample_result_def)
  ultimately show ?thesis
    by (simp add: run_diff_def edges_from_graph_def sample_run_def narrowed_def completed_def contract_diffs_def direction_override_def
        sample_result_def Let_def breaking_of_def severity_of_def BREAKING_ALWAYS_def BREAKING_UNLESS_INPUT_def COMPATIBLE_CODES_def)
qed

lemma sample_accepts: "accepts text_meaning sample_old (JObj [(''x'', JStr ''hi'')])"
  by (subst accepts.simps, simp add: sample_defs schema_reading is_dict_def)
    (subst accepts.simps, simp add: schema_reading text_meaning_def is_str_def constraints_ok_def constraints_of_def)

lemma sample_ordinary: "ordinary sample_old"
  by (subst ordinary.simps, simp add: sample_defs schema_reading numeric_bounds_def constraints_of_def list_all_iff)
    (subst ordinary.simps, simp add: schema_reading numeric_bounds_def constraints_of_def list_all_iff)


definition reader :: "string list \<Rightarrow> projection" where
  "reader ks = absent_file\<lparr>pj_keys_read := ks, pj_complete := True\<rparr>"

lemmas verdict_defs = edge_verdict_def failing_reasons_def open_verdict_def object_reasons_def emit_reason_def breaking_of_def
  reader_def absent_file_def sample_contract_def


subsection \<open>What the differ does not see\<close>

text \<open>Replacing an enumeration by another primitive kind counts as a widening, although the old values are refused.\<close>

definition only_enum :: json where
  "only_enum = JObj [(''kind'', JStr ''enum''), (''values'', JArr [JStr ''a''])]"

definition plain_kind :: "string \<Rightarrow> json" where
  "plain_kind k = JObj [(''kind'', JStr k)]"

definition kind_meaning :: meaning where
  "kind_meaning = \<lparr>mn_prim = (\<lambda>k v. k = JStr ''string'' \<and> is_str v \<or> k = JStr ''number'' \<and> num_val v \<noteq> None),
     mn_named = (\<lambda>_ _. False), mn_form = (\<lambda>_ _ _. True)\<rparr>"

lemma enum_to_number_is_compatible:
  "diff_schema (input_ctx False) only_enum (plain_kind ''number'') [] = Inr [ch (input_ctx False) ''TYPE_WIDENED'' []]"
  "cg_severity (ch (input_ctx False) ''TYPE_WIDENED'' []) = Compatible"
  "accepts kind_meaning only_enum (JStr ''a'')" "\<not> accepts kind_meaning (plain_kind ''number'') (JStr ''a'')"
proof -
  show "diff_schema (input_ctx False) only_enum (plain_kind ''number'') [] = Inr [ch (input_ctx False) ''TYPE_WIDENED'' []]"
    by (subst diff_schema.simps)
      (simp add: only_enum_def plain_kind_def schema_reading nullable_changes_def kind_changes_def has_variant_def widens_def
        WIDENING_KINDS_def emit_def concatE_def Let_def)
  show "accepts kind_meaning only_enum (JStr ''a'')"
    by (subst accepts.simps) (simp add: only_enum_def schema_reading values_of_def)
  show "\<not> accepts kind_meaning (plain_kind ''number'') (JStr ''a'')"
    by (subst accepts.simps) (simp add: plain_kind_def schema_reading kind_meaning_def num_val_def)
qed (simp add: severity_of_def BREAKING_ALWAYS_def BREAKING_UNLESS_INPUT_def)

text \<open>The members of an intersection are not compared.\<close>

lemma intersection_not_compared:
  "diff_schema c (JObj [(''kind'', JStr ''intersection''), (''of'', a)]) (JObj [(''kind'', JStr ''intersection''), (''of'', b)]) p = Inr []"
  by (subst diff_schema.simps)
    (simp add: schema_reading nullable_changes_def constraint_changes_def constraints_of_def emit_def concatE_def Let_def)

text \<open>
  When the whole contract changes from an object to a string, the breaking change sits at no key: a consumer whose
  use was read off completely, reading any keys of the former object, is verified.
\<close>

lemma verified_despite_type_change:
  "diff_schema (input_ctx False) sample_old (plain_kind ''string'') [] = Inr [ch (input_ctx False) ''TYPE_CHANGED'' []]
   \<and> edge_verdict (reader ks) (Some (sample_contract (plain_kind ''string''))) [ch (input_ctx False) ''TYPE_CHANGED'' []] prov []
       = Inr (Verified, [Untouched [''TYPE_CHANGED'']])"
proof
  show "diff_schema (input_ctx False) sample_old (plain_kind ''string'') [] = Inr [ch (input_ctx False) ''TYPE_CHANGED'' []]"
    by (subst diff_schema.simps)
      (simp add: sample_defs plain_kind_def schema_reading nullable_changes_def kind_changes_def has_variant_def widens_def
        WIDENING_KINDS_def emit_def concatE_def Let_def)
  show "edge_verdict (reader ks) (Some (sample_contract (plain_kind ''string''))) [ch (input_ctx False) ''TYPE_CHANGED'' []] prov []
      = Inr (Verified, [Untouched [''TYPE_CHANGED'']])"
    by (simp add: verdict_defs plain_kind_def schema_reading severity_of_def BREAKING_ALWAYS_def UNATTRIBUTABLE_def Let_def)
qed

end
