(* ===== verification/ContractShapes.thy ===== *)
theory ContractShapes
  imports ContractDiff
begin

section \<open>Building object contracts\<close>

text \<open>
  \<^verbatim>\<open>finish_object\<close>, \<^verbatim>\<open>merge_objects\<close> and \<^verbatim>\<open>deep_partial\<close> of \<^verbatim>\<open>tools/graph/contract_diff.py\<close>: how the extractors put the
  properties of an object together for \<^verbatim>\<open>.partial()\<close>, \<^verbatim>\<open>.deepPartial()\<close>, \<^verbatim>\<open>.merge()\<close> and the like.
\<close>

definition finish_object :: "dict \<Rightarrow> json" where
  "finish_object props =
     (let ps = sort_key fst props
      in JObj [(''kind'', JStr ''object''), (''properties'', JObj ps),
               (''required'', JArr (map (\<lambda>(k, v). JStr k) (filter (\<lambda>(k, v). \<not> flag v ''optional'') ps)))])"

definition carry :: "json \<Rightarrow> json \<Rightarrow> string \<Rightarrow> dict \<Rightarrow> dict" where
  "carry a b k out =
     (if flag a k then dset k (field a k) out else if flag b k then dset k (field b k) out else out)"

definition merge_objects :: "json \<Rightarrow> json \<Rightarrow> json" where
  "merge_objects a b =
     (if kind_of a \<noteq> JStr ''object'' then b
      else if kind_of b \<noteq> JStr ''object'' then a
      else JObj (carry a b ''unresolved_base'' (carry a b ''open''
             (as_dict (finish_object (fold (\<lambda>(k, v). dset k v) (props_of b) (props_of a)))))))"

definition made_optional :: "json \<Rightarrow> json" where
  "made_optional v = JObj (dset ''optional'' (JBool True) (as_dict v))"

lemma field_made_optional: "field (made_optional v) k = (if k = ''optional'' then JBool True else field v k)"
  by (simp add: made_optional_def field_def as_dict_def mget_def)

lemma size_pair: "(k, v) \<in> set d \<Longrightarrow> size v < size (JObj d)"
  by (induction d) auto

lemma size_props: "(k, v) \<in> set (props_of s) \<Longrightarrow> size (field (made_optional v) ''properties'') < size (field s ''properties'')"
proof -
  assume "(k, v) \<in> set (props_of s)"
  then have "size v < size (field s ''properties'')"
    using size_pair by (cases "field s ''properties''") (auto simp: props_of_def as_dict_def)
  moreover have "size (field v ''properties'') \<le> size v"
    using size_mget by (cases v) (auto simp: field_def as_dict_def mget_def less_imp_le)
  ultimately show ?thesis by (simp add: field_made_optional)
qed

function deep_partial :: "bool \<Rightarrow> json \<Rightarrow> exc + json" where
  "deep_partial shallow s =
     (if kind_of s \<noteq> JStr ''object'' then Inr s
      else if \<not> has_key (as_dict s) ''properties'' then Inl (KeyError ''properties'')
      else bindE (mapE (\<lambda>(k, v). if shallow then Inr (k, made_optional v)
                                else bindE (deep_partial False (made_optional v)) (\<lambda>w. Inr (k, w))) (props_of s)) (\<lambda>ps.
             Inr (finish_object ps)))"
  by pat_completeness auto
termination
proof (relation "measure (\<lambda>(shallow, s). size (field s ''properties''))", goal_cases)
  case (2 shallow s x k v)
  then show ?case using size_props by auto
qed simp

declare deep_partial.simps [simp del]

subsection \<open>What they build\<close>

lemma kind_of_made_optional [simp]: "kind_of (made_optional v) = kind_of v"
  by (simp add: kind_of_def field_made_optional)

lemma flag_made_optional [simp]: "flag (made_optional v) ''optional''"
  by (simp add: flag_def field_made_optional truthy_def)

lemma flag_finish_object [simp]: "\<not> flag (finish_object ps) ''optional''"
  by (simp add: flag_def field_def finish_object_def as_dict_def mget_def truthy_def Let_def)

lemma map_fst_insort: "map fst (insort_key fst x xs) = insort (fst x) (map fst xs)"
  by (induction xs) simp_all

lemma map_fst_sort: "map fst (sort_key fst xs) = sort (map fst xs)"
  by (induction xs) (simp_all add: map_fst_insort)

lemma required_finish_object:
  "field (finish_object ps) ''required'' = JArr (map JStr (sort (map fst (filter (\<lambda>(k, v). \<not> flag v ''optional'') ps))))"
proof -
  have "map (\<lambda>(k, v). JStr k) xs = map JStr (map fst xs)" for xs :: dict by (simp add: split_beta comp_def)
  then show ?thesis
    by (simp only: finish_object_def Let_def field_def as_dict_def json.case filter_sort map_fst_sort)
      (simp add: mget_def filter_sort map_fst_sort)
qed

lemma deep_partial_kind: "deep_partial b s = Inr t \<Longrightarrow> flag s ''optional'' \<Longrightarrow> flag t ''optional'' \<longleftrightarrow> kind_of s \<noteq> JStr ''object''"
  by (subst (asm) deep_partial.simps) (auto split: if_splits)

text \<open>
  After \<^verbatim>\<open>.partial()\<close> no property of an object is required, but after \<^verbatim>\<open>.deepPartial()\<close> the required ones are exactly
  those whose value is itself an object: the recursion rebuilds them and so drops the mark it has just set.
\<close>

lemma deep_partial_required:
  assumes "deep_partial shallow s = Inr t" and "kind_of s = JStr ''object''"
  shows "field t ''required'' =
           JArr (map JStr (if shallow then [] else sort (map fst (filter (\<lambda>(k, v). kind_of v = JStr ''object'') (props_of s)))))"
proof -
  let ?f = "\<lambda>(k, v). if shallow then Inr (k, made_optional v)
                     else bindE (deep_partial False (made_optional v)) (\<lambda>w. Inr (k, w))"
  obtain ps where ps: "list_all2 (\<lambda>x y. ?f x = Inr y) (props_of s) ps" and t: "t = finish_object ps"
    using assms by (subst (asm) deep_partial.simps) (auto simp: mapE_Inr split: if_splits)
  have "map fst (filter (\<lambda>(k, v). \<not> flag v ''optional'') ps)
      = (if shallow then [] else map fst (filter (\<lambda>(k, v). kind_of v = JStr ''object'') (props_of s)))"
    using ps
  proof (induction rule: list_all2_induct)
    case (Cons x xs y ys)
    then show ?case by (cases x) (auto dest: deep_partial_kind split: if_splits)
  qed simp
  then show ?thesis by (simp add: t required_finish_object)
qed

definition nested_object :: json where
  "nested_object = JObj [(''kind'', JStr ''object''), (''properties'', JObj [(''a'', finish_object []), (''b'', JObj [(''kind'', JStr ''string'')])])]"

lemma deep_partial_nested: "\<exists>t. deep_partial False nested_object = Inr t"
proof -
  have "deep_partial False (made_optional (finish_object [])) = Inr (finish_object [])"
    by (subst deep_partial.simps) (simp add: finish_object_def made_optional_def dset_def kind_of_def props_of_def field_def
        as_dict_def mget_def has_key_def Let_def)
  moreover have "deep_partial False (made_optional (JObj [(''kind'', JStr ''string'')])) = Inr (made_optional (JObj [(''kind'', JStr ''string'')]))"
    by (subst deep_partial.simps) (simp add: made_optional_def dset_def kind_of_def field_def as_dict_def mget_def)
  ultimately show ?thesis
    by (subst deep_partial.simps) (simp add: nested_object_def kind_of_def props_of_def field_def as_dict_def mget_def has_key_def)
qed

lemma deep_partial_required_witness:
  "\<exists>t. deep_partial False nested_object = Inr t \<and> field t ''required'' = JArr [JStr ''a'']"
proof -
  obtain t where t: "deep_partial False nested_object = Inr t" using deep_partial_nested by blast
  have "kind_of nested_object = JStr ''object''"
    by (simp add: nested_object_def kind_of_def field_def as_dict_def mget_def)
  from deep_partial_required [OF t this] t show ?thesis
    by (simp add: nested_object_def finish_object_def props_of_def kind_of_def field_def as_dict_def mget_def Let_def)
qed

end
