(* ===== verification/Fnmatch.thy ===== *)
theory Fnmatch
  imports Prelude
begin

section \<open>Shell patterns of Python's \<^verbatim>\<open>fnmatch\<close>\<close>

text \<open>
  What the tools use of \<^verbatim>\<open>fnmatch.fnmatch\<close> on POSIX: \<^verbatim>\<open>*\<close> matches any text, also across \<^verbatim>\<open>/\<close>, \<^verbatim>\<open>?\<close> one character, and
  \<^verbatim>\<open>[...]\<close> one character of a set with ranges, negated after \<^verbatim>\<open>!\<close>; an unclosed bracket stands for itself.
\<close>

datatype gtok = GStar | GOne "char \<Rightarrow> bool"

fun class_items :: "string \<Rightarrow> char \<Rightarrow> bool" where
  "class_items [] c = False"
| "class_items [a] c = (a = c)"
| "class_items [a, b] c = (a = c \<or> b = c)"
| "class_items (a # b # d # r) c =
     (if b = CHR ''-'' then (a \<le> c \<and> c \<le> d) \<or> class_items r c else a = c \<or> class_items (b # d # r) c)"

definition class_test :: "string \<Rightarrow> char \<Rightarrow> bool" where
  "class_test body c = (case body of x # r \<Rightarrow> if x = CHR ''!'' then \<not> class_items r c else class_items body c | [] \<Rightarrow> False)"

text \<open>The body of a bracket and what follows it.\<close>

definition class_split :: "string \<Rightarrow> (string \<times> string) option" where
  "class_split s =
     (let k0 = (if startswith s ''!'' then 1 else 0);
          k = (if startswith (drop k0 s) '']'' then k0 + 1 else k0);
          r = drop k s
      in if CHR '']'' \<in> set r
         then Some (take k s @ takeWhile (\<lambda>c. c \<noteq> CHR '']'') r, tl (dropWhile (\<lambda>c. c \<noteq> CHR '']'') r)) else None)"

lemma class_split_length: "class_split s = Some (b, r) \<Longrightarrow> length r \<le> length s"
  by (auto simp: class_split_def Let_def split: if_splits) (metis diff_le_self length_drop length_dropWhile_le le_trans)+

function glob_tokens :: "string \<Rightarrow> gtok list" where
  "glob_tokens [] = []"
| "glob_tokens (c # s) =
     (if c = CHR ''*'' then GStar # glob_tokens s
      else if c = CHR ''?'' then GOne (\<lambda>_. True) # glob_tokens s
      else if c = CHR ''['' then
        (case class_split s of
           None \<Rightarrow> GOne (\<lambda>x. x = c) # glob_tokens s
         | Some (body, r) \<Rightarrow> GOne (class_test body) # glob_tokens r)
      else GOne (\<lambda>x. x = c) # glob_tokens s)"
  by pat_completeness auto
termination
  by (relation "measure length") (auto dest: class_split_length)

fun glob_match :: "gtok list \<Rightarrow> string \<Rightarrow> bool" where
  "glob_match [] s = (s = [])"
| "glob_match (GOne p # ts) s = (case s of [] \<Rightarrow> False | c # r \<Rightarrow> p c \<and> glob_match ts r)"
| "glob_match (GStar # ts) [] = glob_match ts []"
| "glob_match (GStar # ts) (c # s) = (glob_match ts (c # s) \<or> glob_match (GStar # ts) s)"

definition fnmatch :: "string \<Rightarrow> string \<Rightarrow> bool" where
  "fnmatch s pattern = glob_match (glob_tokens pattern) s"

definition GLOB_CHARS :: string where
  "GLOB_CHARS = ''*?[''"

definition literal :: "string \<Rightarrow> bool" where
  "literal s \<longleftrightarrow> list_all (\<lambda>c. c \<notin> set GLOB_CHARS) s"

subsection \<open>Literal text and stars\<close>

lemma literal_simps [simp]:
  "literal []" "literal (c # s) \<longleftrightarrow> c \<notin> set GLOB_CHARS \<and> literal s" "literal (s @ t) \<longleftrightarrow> literal s \<and> literal t"
  by (simp_all add: literal_def)

lemma tokens_literal: "literal s \<Longrightarrow> glob_tokens (s @ p) = map (\<lambda>c. GOne (\<lambda>x. x = c)) s @ glob_tokens p"
  by (induction s) (simp_all add: GLOB_CHARS_def)

lemma match_literal: "glob_match (map (\<lambda>c. GOne (\<lambda>x. x = c)) s @ ts) t \<longleftrightarrow> (\<exists>r. t = s @ r \<and> glob_match ts r)"
  by (induction s arbitrary: t) (auto split: list.split)

lemma match_star: "glob_match (GStar # ts) s \<longleftrightarrow> (\<exists>a b. s = a @ b \<and> glob_match ts b)"
proof (induction s)
  case (Cons c s)
  then show ?case by (auto simp: Cons_eq_append_conv)
qed simp

text \<open>A pattern whose only wildcards are stars in one place.\<close>

lemma fnmatch_star:
  assumes "literal p" "literal q"
  shows "fnmatch s (p @ ''*'' @ q) \<longleftrightarrow> (\<exists>a. s = p @ a @ q)"
proof -
  have "glob_tokens q = map (\<lambda>c. GOne (\<lambda>x. x = c)) q" using tokens_literal [OF assms(2), of "[]"] by simp
  then show ?thesis
    using match_literal [of q "[]"] by (auto simp: fnmatch_def tokens_literal [OF assms(1)] match_literal match_star)
qed

lemma fnmatch_two_stars:
  assumes "literal p" "literal q"
  shows "fnmatch s (p @ ''**'' @ q) \<longleftrightarrow> (\<exists>a. s = p @ a @ q)"
proof -
  have "glob_tokens q = map (\<lambda>c. GOne (\<lambda>x. x = c)) q" using tokens_literal [OF assms(2), of "[]"] by simp
  then have "glob_match (GStar # glob_tokens q) t \<longleftrightarrow> (\<exists>a. t = a @ q)" for t
    using match_literal [of q "[]"] by (simp add: match_star)
  then have "glob_match (GStar # GStar # glob_tokens q) t \<longleftrightarrow> (\<exists>a. t = a @ q)" for t
    by (subst match_star) (metis append.assoc append_Nil)
  then show ?thesis by (auto simp: fnmatch_def tokens_literal [OF assms(1)] match_literal)
qed

end
