(* ===== verification/AdmitGlob.thy ===== *)
theory AdmitGlob
  imports Fnmatch JsonValues
begin

section \<open>Amending the declaration of derived artefacts\<close>

text \<open>
  The closed grammar of \<^verbatim>\<open>tools/graph/admit_change.py\<close> for an edit of \<^verbatim>\<open>.arcana/derived-artefacts.v1.json\<close> itself
  (arm B7): one entry added, one removed, or one pattern narrowed.  A narrowing must be one by construction: the
  old pattern has a single wildcard and the new one surrounds the same wildcard with literal text.  The sentences
  that explain a refusal are left out.
\<close>

text \<open>\<^verbatim>\<open>_b7_glob_runs\<close>: the maximal runs of wildcard characters, as positions.\<close>

function glob_runs :: "nat \<Rightarrow> string \<Rightarrow> (nat \<times> nat) list" where
  "glob_runs i [] = []"
| "glob_runs i (c # s) =
     (if c \<in> set GLOB_CHARS
      then let j = i + 1 + length (takeWhile (\<lambda>x. x \<in> set GLOB_CHARS) s)
           in (i, j) # glob_runs j (dropWhile (\<lambda>x. x \<in> set GLOB_CHARS) s)
      else glob_runs (i + 1) s)"
  by pat_completeness auto
termination
  by (relation "measure (\<lambda>(i, s). length s)") (auto simp: less_Suc_eq_le length_dropWhile_le)

definition WILDCARDS :: "string list" where
  "WILDCARDS = [''*'', ''**'', ''?'']"

text \<open>\<^verbatim>\<open>s.replace(t, "", 1)\<close> for a non-empty \<^verbatim>\<open>t\<close>.\<close>

fun remove_first :: "string \<Rightarrow> string \<Rightarrow> string" where
  "remove_first t [] = []"
| "remove_first t (c # s) = (if startswith (c # s) t then drop (length t) (c # s) else c # remove_first t s)"

definition b7_glob_narrows :: "string \<Rightarrow> string \<Rightarrow> bool" where
  "b7_glob_narrows old new =
     (if old = [] \<or> new = [] \<or> old = new then False
      else case glob_runs 0 old of
        [(s, e)] \<Rightarrow>
          let old_mid = take (e - s) (drop s old); prefix = take s old; suffix = drop e old;
              new_mid = take (length new - length prefix - length suffix) (drop (length prefix) new);
              added = remove_first old_mid new_mid
          in if old_mid \<notin> set WILDCARDS then False
             else if \<not> startswith new prefix \<or> \<not> endswith new suffix \<or> length new < length prefix + length suffix then False
             else if new_mid = [] \<or> \<not> contains new_mid old_mid then False
             else literal added \<and> added \<noteq> []
      | _ \<Rightarrow> False)"

datatype grammar = GAdd string json | GRemove string json | GNarrow string string json | GInvalid

text \<open>The entries by path, later ones replacing earlier ones.\<close>

definition by_path :: "json \<Rightarrow> dict" where
  "by_path lst =
     fold (\<lambda>a m. case mget (as_dict a) ''path'' of JStr (c # p) \<Rightarrow> dset (c # p) a m | _ \<Rightarrow> m) (as_list lst) []"

definition verify_argv :: "json \<Rightarrow> json list" where
  "verify_argv entry = as_list (mget (as_dict (mget (as_dict entry) ''verify'')) ''argv'')"

definition without_path :: "json \<Rightarrow> json" where
  "without_path entry = canon (JObj (filter (\<lambda>(k, _). k \<noteq> ''path'') (as_dict entry)))"

definition b7_classify_grammar :: "json \<Rightarrow> json \<Rightarrow> grammar" where
  "b7_classify_grammar old_artefacts new_artefacts =
     (let old_m = by_path old_artefacts; new_m = by_path new_artefacts;
          added = filter (\<lambda>p. \<not> has_key old_m p) (map fst new_m);
          removed = filter (\<lambda>p. \<not> has_key new_m p) (map fst old_m);
          altered = filter (\<lambda>p. has_key new_m p \<and> canon (mget old_m p) \<noteq> canon (mget new_m p)) (map fst old_m)
      in if altered \<noteq> [] then GInvalid
         else case (added, removed) of
           ([p], []) \<Rightarrow> if verify_argv (mget new_m p) = [] then GInvalid else GAdd p (mget new_m p)
         | ([], [p]) \<Rightarrow> GRemove p (mget old_m p)
         | ([np], [op]) \<Rightarrow>
             if without_path (mget old_m op) \<noteq> without_path (mget new_m np) then GInvalid
             else if b7_glob_narrows op np then GNarrow np op (mget new_m np) else GInvalid
         | _ \<Rightarrow> GInvalid)"

text \<open>The changed paths that a pattern licenses; without a wildcard it is a path.\<close>

definition b7_match_candidate :: "string \<Rightarrow> string list \<Rightarrow> string list" where
  "b7_match_candidate pattern changed =
     (if \<not> literal pattern then sort (filter (\<lambda>p. fnmatch p pattern) changed)
      else if pattern \<in> set changed then [pattern] else [])"

subsection \<open>Source roots\<close>

definition SOURCE_EXTENSIONS :: "string list" where
  "SOURCE_EXTENSIONS =
     [''.ts'', ''.tsx'', ''.js'', ''.jsx'', ''.py'', ''.go'', ''.rs'', ''.java'', ''.rb'', ''.mjs'', ''.cjs'']"

text \<open>\<open>listing\<close> is what \<^verbatim>\<open>git ls-tree -r --name-only\<close> prints.\<close>

definition after_last_dot :: "string \<Rightarrow> string" where
  "after_last_dot s = rev (takeWhile (\<lambda>c. c \<noteq> CHR ''.'') (rev s))"

definition b7_source_roots :: "string \<Rightarrow> string list" where
  "b7_source_roots listing =
     remdups (map (takeWhile (\<lambda>c. c \<noteq> CHR ''/''))
       (filter (\<lambda>l. CHR ''.'' \<in> set (basename l) \<and> CHR ''.'' # after_last_dot l \<in> set SOURCE_EXTENSIONS) (splitlines listing)))"

definition fixed_prefix :: "string \<Rightarrow> string" where
  "fixed_prefix pattern = rstrip_char CHR ''/'' (takeWhile (\<lambda>c. c \<notin> set GLOB_CHARS) pattern)"

definition bare_wildcard :: "string \<Rightarrow> bool" where
  "bare_wildcard pattern \<longleftrightarrow> list_all (list_all (\<lambda>c. c \<in> set GLOB_CHARS)) (split_on CHR ''/'' pattern)"

definition b7_covers_source_root :: "string list \<Rightarrow> string \<Rightarrow> bool" where
  "b7_covers_source_root roots pattern \<longleftrightarrow>
     bare_wildcard pattern
     \<or> list_ex (\<lambda>root. fnmatch (root @ ''/__b7_probe__/__b7_probe__.ts'') pattern \<or> fnmatch (root @ ''/x'') pattern
                      \<or> fixed_prefix pattern \<in> {root, []}) (sort roots)"

subsection \<open>What narrowing means\<close>

lemma remove_first_split: "contains s t \<Longrightarrow> \<exists>a b. s = a @ t @ b \<and> remove_first t s = a @ b"
proof (induction s)
  case (Cons c s)
  show ?case
  proof (cases "startswith (c # s) t")
    case True
    then obtain r where r: "c # s = t @ r" by (auto simp: startswith_iff)
    have "remove_first t (c # s) = drop (length t) (t @ r)" unfolding r [symmetric] using True by simp
    then show ?thesis using r by (intro exI [of _ "[]"] exI [of _ r]) simp
  next
    case False
    then obtain a b where "s = a @ t @ b" "remove_first t s = a @ b" using Cons by auto
    then show ?thesis using False by (intro exI [of _ "c # a"] exI [of _ b]) simp
  qed
qed auto

lemma runs_literal: "literal s \<Longrightarrow> glob_runs i (s @ t) = glob_runs (i + length s) t"
  by (induction s arbitrary: i) simp_all

lemma runs_nil: "glob_runs i s = [] \<longleftrightarrow> literal s"
  by (induction i s rule: glob_runs.induct) (simp_all add: Let_def)

lemma single_run:
  assumes "glob_runs 0 s = [(a, b)]"
  shows "literal (take a s)" "literal (drop b s)" "a \<le> b" "b \<le> length s"
proof -
  have gen: "glob_runs i s = [(a, b)] \<Longrightarrow> i \<le> a \<and> a \<le> b \<and> b \<le> i + length s \<and> literal (take (a - i) s) \<and> literal (drop (b - i) s)" for i
  proof (induction i s rule: glob_runs.induct)
    case (2 i c s)
    show ?case
    proof (cases "c \<in> set GLOB_CHARS")
      case True
      let ?w = "takeWhile (\<lambda>x. x \<in> set GLOB_CHARS) s"
      have ab: "a = i" "b = i + 1 + length ?w" and rest: "literal (dropWhile (\<lambda>x. x \<in> set GLOB_CHARS) s)"
        using 2 True by (auto simp: Let_def runs_nil)
      have "drop (length ?w) s = dropWhile (\<lambda>x. x \<in> set GLOB_CHARS) s" by (simp add: dropWhile_eq_drop)
      then show ?thesis using ab rest length_takeWhile_le [of _ s] by simp
    next
      case False
      then have IH: "i + 1 \<le> a \<and> a \<le> b \<and> b \<le> i + 1 + length s \<and> literal (take (a - (i + 1)) s) \<and> literal (drop (b - (i + 1)) s)"
        using 2 by simp
      then have "i < a" "i < b" by simp_all
      then have "a - i = Suc (a - (i + 1))" "b - i = Suc (b - (i + 1))" by arith+
      then show ?thesis using False IH by simp
    qed
  qed simp
  show "literal (take a s)" "literal (drop b s)" "a \<le> b" "b \<le> length s" using gen [OF assms] by simp_all
qed

lemma narrows_shape:
  assumes "b7_glob_narrows old new"
  obtains p q w l r where "old = p @ w @ q" "new = p @ l @ w @ r @ q" "literal (p @ q @ l @ r)" "w \<in> set WILDCARDS" "l @ r \<noteq> []"
proof -
  obtain s e where run: "glob_runs 0 old = [(s, e)]"
  proof (cases "glob_runs 0 old")
    case (Cons x xs)
    then show thesis using that assms by (cases x; cases xs) (auto simp: b7_glob_narrows_def split: if_splits)
  qed (use assms in \<open>simp add: b7_glob_narrows_def split: if_splits\<close>)
  note lit = single_run [OF run]
  define p where "p = take s old"
  define q where "q = drop e old"
  define w where "w = take (e - s) (drop s old)"
  define m where "m = take (length new - length p - length q) (drop (length p) new)"
  have nar: "w \<in> set WILDCARDS" "startswith new p" "endswith new q" "length p + length q \<le> length new" "contains m w"
      "literal (remove_first w m)" "remove_first w m \<noteq> []"
    using assms unfolding p_def q_def w_def m_def
    by (simp_all add: b7_glob_narrows_def run Let_def split: if_splits)
  have old: "old = p @ w @ q"
    using lit(3) by (simp add: p_def q_def w_def) (metis append_take_drop_id drop_drop le_add_diff_inverse2)
  obtain l r where lr: "m = l @ w @ r" "remove_first w m = l @ r" using remove_first_split [OF nar(5)] by blast
  obtain t where t: "new = p @ t" using nar(2) by (auto simp: startswith_iff)
  obtain u where u: "new = u @ q" using nar(3) by (auto simp: endswith_iff)
  have "t = m @ q"
  proof -
    have "length u \<ge> length p" using nar(4) u by simp
    then have "u = p @ drop (length p) u" using t u by (metis append_eq_append_conv_if append_take_drop_id)
    then obtain m' where m': "u = p @ m'" by blast
    then have tm: "t = m' @ q" using t u by simp
    then have "m = m'" unfolding m_def t tm by simp
    then show ?thesis using tm by simp
  qed
  then have new: "new = p @ l @ w @ r @ q" using t lr(1) by simp
  have "literal (l @ r)" "l @ r \<noteq> []" using nar(6,7) lr(2) by simp_all
  moreover have "literal (p @ q)" using lit(1,2) by (simp add: p_def q_def)
  ultimately show thesis using that [OF old new _ nar(1)] by simp
qed

text \<open>
  Narrowing a pattern is sound for stars: when the grammar takes the new pattern for a narrowing of an old one
  without a question mark, every path the new pattern matches is matched by the old one.
\<close>

lemma narrowing_sound:
  assumes "b7_glob_narrows old new" and "CHR ''?'' \<notin> set old" and "fnmatch path new"
  shows "fnmatch path old"
proof -
  obtain p q w l r where sh: "old = p @ w @ q" "new = p @ l @ w @ r @ q" "literal (p @ q @ l @ r)" "w \<in> set WILDCARDS"
    by (rule narrows_shape [OF assms(1)]) blast
  have lits: "literal (p @ l)" "literal (r @ q)" "literal p" "literal q" using sh(3) by simp_all
  from sh(4) assms(2) sh(1) consider "w = ''*''" | "w = ''**''" by (auto simp: WILDCARDS_def)
  then show ?thesis
  proof cases
    case 1
    then obtain a where "path = (p @ l) @ a @ r @ q" using assms(3) sh(2) fnmatch_star [OF lits(1,2), of path] by auto
    then show ?thesis using 1 sh(1) fnmatch_star [OF lits(3,4), of path] by (metis append.assoc)
  next
    case 2
    then obtain a where "path = (p @ l) @ a @ r @ q" using assms(3) sh(2) fnmatch_two_stars [OF lits(1,2), of path] by auto
    then show ?thesis using 2 sh(1) fnmatch_two_stars [OF lits(3,4), of path] by (metis append.assoc)
  qed
qed

text \<open>The changed paths that the patterns of a declaration license.\<close>

definition licensed :: "json \<Rightarrow> string list \<Rightarrow> string set" where
  "licensed artefacts changed = (\<Union>pattern \<in> fst ` set (by_path artefacts). set (b7_match_candidate pattern changed))"

lemma narrows_wild: "b7_glob_narrows old new \<Longrightarrow> \<not> literal old \<and> \<not> literal new"
  by (erule narrows_shape) (auto simp: WILDCARDS_def GLOB_CHARS_def)

lemma narrows_licensed:
  assumes "b7_glob_narrows old new" "CHR ''?'' \<notin> set old"
  shows "set (b7_match_candidate new changed) \<subseteq> set (b7_match_candidate old changed)"
  using narrows_wild [OF assms(1)] narrowing_sound [OF assms] by (auto simp: b7_match_candidate_def)

lemma fresh_keys: "fst ` set b \<subseteq> fst ` set a \<union> set (filter (\<lambda>p. \<not> has_key a p) (map fst b))"
  using has_key_keys [of a] by auto

text \<open>
  C31: An edit of the declaration that the grammar takes for a removal, or for the narrowing of a pattern without a
  question mark, licenses no changed path that the declaration did not license before.
\<close>

theorem edit_shrinks:
  "case b7_classify_grammar old new of
     GRemove p e \<Rightarrow> licensed new changed \<subseteq> licensed old changed
   | GNarrow np op e \<Rightarrow> if CHR ''?'' \<in> set op then True else licensed new changed \<subseteq> licensed old changed
   | _ \<Rightarrow> True"
proof -
  let ?o = "by_path old" and ?n = "by_path new"
  define added where "added = filter (\<lambda>p. \<not> has_key ?o p) (map fst ?n)"
  define removed where "removed = filter (\<lambda>p. \<not> has_key ?n p) (map fst ?o)"
  have keys: "fst ` set ?n \<subseteq> fst ` set ?o \<union> set added" unfolding added_def by (rule fresh_keys)
  have gone: "set removed \<subseteq> fst ` set ?o" by (auto simp: removed_def)
  note g = b7_classify_grammar_def [of old new, unfolded Let_def, folded added_def removed_def]
  show ?thesis
  proof (cases "b7_classify_grammar old new")
    case (GRemove p e)
    then have "added = []" unfolding g by (auto split: if_splits list.splits)
    then have "fst ` set ?n \<subseteq> fst ` set ?o" using keys by simp
    then show ?thesis unfolding licensed_def using GRemove UN_mono by fastforce
  next
    case (GNarrow np op e)
    then have n: "added = [np]" "removed = [op]" "b7_glob_narrows op np"
      unfolding g by (auto split: if_splits list.splits)
    have "licensed new changed \<subseteq> licensed old changed" if "CHR ''?'' \<notin> set op"
    proof -
      have "licensed new changed \<subseteq> (\<Union>pattern \<in> fst ` set ?o \<union> {np}. set (b7_match_candidate pattern changed))"
        unfolding licensed_def using keys n(1) by (intro UN_mono) auto
      also have "\<dots> \<subseteq> licensed old changed"
        unfolding licensed_def using narrows_licensed [OF n(3) that, of changed] gone n(2) by auto
      finally show ?thesis .
    qed
    then show ?thesis using GNarrow by simp
  qed simp_all
qed

text \<open>
  For a question mark narrowing is not sound: the grammar takes \<^verbatim>\<open>a??\<close>-like growth for a narrowing, although the new pattern
  matches a path that the old one does not.
\<close>

lemma question_mark_widens:
  "b7_glob_narrows ''gen/a?'' ''gen/ab?'' \<and> fnmatch ''gen/abc'' ''gen/ab?'' \<and> \<not> fnmatch ''gen/abc'' ''gen/a?''"
  by code_simp

text \<open>A pattern below a source root passes the check that it covers none.\<close>

lemma below_source_root_not_covered:
  "b7_source_roots (''src/lib/a.ts'' @ [newline]) = [''src'']
   \<and> \<not> b7_covers_source_root [''src''] ''src/lib/*.ts'' \<and> fnmatch ''src/lib/a.ts'' ''src/lib/*.ts''"
  by code_simp

end
