(* ===== verification/AdmitLedger.thy ===== *)
theory AdmitLedger
  imports JsonValues
begin

section \<open>The ledger of work-item evidence\<close>

text \<open>
  \<^verbatim>\<open>merge_attachment\<close> and \<^verbatim>\<open>ledger_record_document_refusal\<close> of \<^verbatim>\<open>tools/graph/admit_change.py\<close>: the tool that writes the
  attachment of a receipt into the ledger of a work item, and the gate's rule for a ledger that changes after the
  head of the receipt.  A ledger is a JSON object with a list \<^verbatim>\<open>attachments\<close>; digests are JSON values.  The sentence of a
  refusal is a constructor.
\<close>

datatype ledger_refusal =
    SkeletonChanged
  | RewritesAttachment json
  | AddsUnverified json
  | DropsAttachments "json list"

definition att_digest :: "json \<Rightarrow> json" where
  "att_digest a = (if is_dict a then mget (as_dict (mget (as_dict a) ''evidence_ref'')) ''digest'' else JNull)"

definition attachments_of :: "json \<Rightarrow> json list" where
  "attachments_of doc = as_list (mget (as_dict doc) ''attachments'')"

definition skeleton :: "json \<Rightarrow> json" where
  "skeleton doc = canon (JObj (filter (\<lambda>(k, _). k \<noteq> ''attachments'' \<and> k \<noteq> ''updated_at_utc'') (as_dict doc)))"

text \<open>\<^verbatim>\<open>at_base.setdefault(_att_digest(a), canonical(a))\<close> over the attachments of the base.\<close>

definition first_by_digest :: "json list \<Rightarrow> json \<Rightarrow> json option" where
  "first_by_digest atts = map_of (map (\<lambda>a. (att_digest a, canon a)) atts)"

definition attachment_refusal :: "json list \<Rightarrow> json list \<Rightarrow> json \<Rightarrow> ledger_refusal option" where
  "attachment_refusal mine base_atts a =
     (let d = att_digest a
      in if d \<in> set mine then None
         else if first_by_digest base_atts d = Some (canon a) then None
         else if first_by_digest base_atts d \<noteq> None then Some (RewritesAttachment d)
         else Some (AddsUnverified d))"

definition first_refusal :: "('a \<Rightarrow> 'b option) \<Rightarrow> 'a list \<Rightarrow> 'b option" where
  "first_refusal f xs = (case filter (\<lambda>x. f x \<noteq> None) xs of [] \<Rightarrow> None | x # _ \<Rightarrow> f x)"

text \<open>\<open>digests\<close>: those that the gate computed from the receipts it bound, \<^verbatim>\<open>None\<close> for one without bytes.\<close>

definition mine_digests :: "string option list \<Rightarrow> json list" where
  "mine_digests digests = concat (map (\<lambda>d. case d of Some s \<Rightarrow> if s = [] then [] else [JStr s] | None \<Rightarrow> []) digests)"

definition ledger_record_document_refusal :: "json \<Rightarrow> json \<Rightarrow> string option list \<Rightarrow> ledger_refusal option" where
  "ledger_record_document_refusal doc_h doc_b digests =
     (let mine = mine_digests digests;
          base_atts = attachments_of doc_b; head_atts = attachments_of doc_h;
          lost = filter (\<lambda>d. d \<notin> set (map att_digest head_atts)) (remdups (map att_digest base_atts))
      in if skeleton doc_h \<noteq> skeleton doc_b then Some SkeletonChanged
         else case first_refusal (attachment_refusal mine base_atts) head_atts of
           Some r \<Rightarrow> Some r
         | None \<Rightarrow> if lost \<noteq> [] then Some (DropsAttachments lost) else None)"

subsection \<open>Attaching a receipt\<close>

definition stale_for :: "json \<Rightarrow> json \<Rightarrow> json list" where
  "stale_for ledger att =
     filter (\<lambda>x. is_dict x \<and> py_eq (mget (as_dict x) ''receipt_path'') (mget (as_dict att) ''receipt_path'')
                \<and> att_digest x \<noteq> att_digest att) (attachments_of ledger)"

datatype attach_action = Superseded | Appended | Refreshed

record attach_outcome =
  ao_action :: attach_action
  ao_superseded :: "json list"
  ao_kept :: "json list"

text \<open>\<^verbatim>\<open>att | {"attached_at_utc": x.get("attached_at_utc", att["attached_at_utc"])}\<close>\<close>

definition refresh :: "json \<Rightarrow> json \<Rightarrow> json" where
  "refresh att x =
     JObj (dset ''attached_at_utc''
       (if has_key (as_dict x) ''attached_at_utc'' then mget (as_dict x) ''attached_at_utc'' else mget (as_dict att) ''attached_at_utc'')
       (as_dict att))"

text \<open>The loop over the attachments: the first with this digest is refreshed, otherwise the new one is appended.\<close>

fun put_attachment :: "json \<Rightarrow> json list \<Rightarrow> json list" where
  "put_attachment att [] = [att]"
| "put_attachment att (x # xs) = (if att_digest x = att_digest att then refresh att x # xs else x # put_attachment att xs)"

definition last_by_digest :: "json list \<Rightarrow> json \<Rightarrow> json option" where
  "last_by_digest atts = map_of (rev (map (\<lambda>a. (att_digest a, canon a)) (filter is_dict atts)))"

definition merge_attachment :: "json \<Rightarrow> json \<Rightarrow> json option \<Rightarrow> exc + json \<times> attach_outcome" where
  "merge_attachment ledger att base_ledger =
     (let stale = stale_for ledger att;
          at_base = (case base_ledger of None \<Rightarrow> (\<lambda>_. None) | Some b \<Rightarrow> last_by_digest (attachments_of b));
          kept = filter (\<lambda>x. at_base (att_digest x) = Some (canon x)) stale;
          superseded = filter (\<lambda>x. at_base (att_digest x) \<noteq> Some (canon x)) stale;
          gone = map att_digest superseded;
          atts = filter (\<lambda>x. \<not> (list_ex (py_eq x) stale \<and> att_digest x \<in> set gone)) (attachments_of ledger);
          action = (if list_ex (\<lambda>x. att_digest x = att_digest att) atts then Refreshed
                    else if superseded \<noteq> [] then Superseded else Appended)
      in if stale \<noteq> [] \<and> base_ledger = None then Inl (Refusal ''ATTACH_BASE_UNKNOWN'')
         else Inr (JObj (dset ''attachments'' (JArr (put_attachment att atts)) (as_dict ledger)),
                   \<lparr>ao_action = action, ao_superseded = superseded, ao_kept = kept\<rparr>))"

subsection \<open>The ledger only grows\<close>

lemma first_refusal_None: "first_refusal f xs = None \<longleftrightarrow> (\<forall>x \<in> set xs. f x = None)"
proof (cases "filter (\<lambda>x. f x \<noteq> None) xs")
  case Nil
  then show ?thesis by (auto simp: first_refusal_def filter_empty_conv)
next
  case (Cons y ys)
  then have "y \<in> set (filter (\<lambda>x. f x \<noteq> None) xs)" by simp
  then show ?thesis using Cons by (auto simp: first_refusal_def)
qed

lemma first_by_digest_None: "first_by_digest atts d = None \<longleftrightarrow> d \<notin> att_digest ` set atts"
  by (auto simp: first_by_digest_def map_of_eq_None_iff image_image)

lemma first_by_digest_member: "first_by_digest atts d = Some c \<Longrightarrow> \<exists>a \<in> set atts. att_digest a = d \<and> canon a = c"
  by (auto simp: first_by_digest_def dest!: map_of_SomeD)

lemma first_by_digest_distinct:
  "distinct (map att_digest atts) \<Longrightarrow> a \<in> set atts \<Longrightarrow> first_by_digest atts (att_digest a) = Some (canon a)"
  by (auto simp: first_by_digest_def comp_def intro!: map_of_is_SomeI)

lemma attachment_refusal_None:
  "attachment_refusal mine atts a = None \<longleftrightarrow> att_digest a \<in> set mine \<or> first_by_digest atts (att_digest a) = Some (canon a)"
  by (simp add: attachment_refusal_def Let_def)

lemma refusal_None:
  "ledger_record_document_refusal doc_h doc_b digests = None \<longleftrightarrow>
     skeleton doc_h = skeleton doc_b
     \<and> (\<forall>a \<in> set (attachments_of doc_h).
           att_digest a \<in> set (mine_digests digests) \<or> first_by_digest (attachments_of doc_b) (att_digest a) = Some (canon a))
     \<and> att_digest ` set (attachments_of doc_b) \<subseteq> att_digest ` set (attachments_of doc_h)"
proof -
  let ?B = "attachments_of doc_b" and ?H = "attachments_of doc_h"
  let ?lost = "filter (\<lambda>d. d \<notin> set (map att_digest ?H)) (remdups (map att_digest ?B))"
  have lost: "?lost = [] \<longleftrightarrow> att_digest ` set ?B \<subseteq> att_digest ` set ?H"
    by (auto simp: filter_empty_conv)
  have first: "first_refusal (attachment_refusal (mine_digests digests) ?B) ?H = None \<longleftrightarrow>
      (\<forall>a \<in> set ?H. att_digest a \<in> set (mine_digests digests) \<or> first_by_digest ?B (att_digest a) = Some (canon a))"
    by (simp only: first_refusal_None attachment_refusal_None)
  have "ledger_record_document_refusal doc_h doc_b digests = None \<longleftrightarrow>
      skeleton doc_h = skeleton doc_b \<and> first_refusal (attachment_refusal (mine_digests digests) ?B) ?H = None \<and> ?lost = []"
    by (simp add: ledger_record_document_refusal_def Let_def split: option.split)
  then show ?thesis unfolding first lost by blast
qed


text \<open>With two attachments of one digest at the base, dropping the second is not noticed.\<close>

definition sample_attachment :: "string \<Rightarrow> string \<Rightarrow> json" where
  "sample_attachment digest label = JObj [(''evidence_ref'', JObj [(''digest'', JStr digest)]), (''label'', JStr label)]"

definition sample_ledger :: "json list \<Rightarrow> json" where
  "sample_ledger atts = JObj [(''schema'', JStr ''WorkItemEvidenceLedger/v1''), (''attachments'', JArr atts)]"

lemma duplicate_digest_dropped:
  "ledger_record_document_refusal (sample_ledger [sample_attachment ''d'' ''a''])
     (sample_ledger [sample_attachment ''d'' ''a'', sample_attachment ''d'' ''b'']) [] = None"
  by code_simp


subsection \<open>What is attached is admitted\<close>

lemma has_digest: "att_digest a = JStr s \<Longrightarrow> is_dict a"
  by (simp add: att_digest_def split: if_splits)

lemma digest_refresh: "is_dict att \<Longrightarrow> att_digest (refresh att x) = att_digest att"
  by (simp add: att_digest_def refresh_def is_dict_def as_dict_def mget_def)

lemma put_digests:
  "is_dict att \<Longrightarrow> att_digest ` set (put_attachment att xs) = insert (att_digest att) (att_digest ` set xs)"
  by (induction xs) (auto simp: digest_refresh)

lemma put_member: "a \<in> set (put_attachment att xs) \<Longrightarrow> a \<in> set xs \<or> (\<exists>x. a = refresh att x) \<or> a = att"
  by (induction xs) (auto split: if_splits)

lemma attachments_of_dset: "attachments_of (JObj (dset ''attachments'' (JArr xs) d)) = xs"
  by (simp add: attachments_of_def as_dict_def as_list_def mget_def)

lemma filter_dset: "\<not> P k \<Longrightarrow> filter (\<lambda>(k, _). P k) (dset k v d) = filter (\<lambda>(k, _). P k) d"
  unfolding dset_def by (induction d) auto

lemma skeleton_dset: "is_dict doc \<Longrightarrow> skeleton (JObj (dset ''attachments'' v (as_dict doc))) = skeleton doc"
  by (simp add: skeleton_def as_dict_def filter_dset)

lemma last_by_digest_distinct:
  assumes "distinct (map att_digest atts)" "list_all is_dict atts"
  shows "last_by_digest atts = first_by_digest atts"
proof -
  have "filter is_dict atts = atts" using assms(2) by (simp add: list_all_iff filter_id_conv)
  moreover have "map_of (rev xs) = map_of xs" if "distinct (map fst xs)" for xs :: "(json \<times> json) list"
    using that by (simp add: map_of_inject_set fun_eq_iff) (metis distinct_rev map_of_inject_set rev_map set_rev)
  ultimately show ?thesis using assms(1) by (simp add: last_by_digest_def first_by_digest_def comp_def)
qed



end
