(* ===== verification/AdmitTrailing.thy ===== *)
theory AdmitTrailing
  imports AdmitLedger Fnmatch
begin

section \<open>Commits after the head of a receipt\<close>

text \<open>
  \<^verbatim>\<open>trailing_record_commits\<close> of \<^verbatim>\<open>tools/graph/admit_change.py\<close> and what it calls: a receipt names the head it measured, and
  the commits after it may only carry records: the receipt itself, a derived artefact declared at the base that its
  own verifier accepts, or the ledger of the work item, grown by the receipt's digest.  What git prints, and the run of
  the declared verifiers in a scratch worktree, are the fields of \<open>trail_git\<close>.
\<close>

record trail_git =
  tg_mode :: "string \<Rightarrow> string \<Rightarrow> string option"
  tg_show :: "string \<Rightarrow> string \<Rightarrow> string option"
  tg_loads :: "string \<Rightarrow> json option"
  tg_sha :: "string \<Rightarrow> string"
  tg_commit :: "string \<Rightarrow> bool"
  tg_ancestor :: "string \<Rightarrow> string \<Rightarrow> bool"
  tg_rev_list :: "string \<Rightarrow> string \<Rightarrow> string list \<Rightarrow> string list"
  tg_parents :: "string \<Rightarrow> string list"
  tg_combined :: "string \<Rightarrow> string list"
  tg_names :: "string \<Rightarrow> string \<Rightarrow> string list"
  tg_verify :: "string list \<Rightarrow> bool option"

record bound_receipt =
  br_doc :: json
  br_digest :: "string option"
  br_rel :: "string option"

subsection \<open>The declaration at the base\<close>

definition DECLARATION_REL :: string where
  "DECLARATION_REL = ''.arcana/derived-artefacts.v1.json''"

definition DECLARATION_SCHEMA :: string where
  "DECLARATION_SCHEMA = ''GraphAdmissionDerivedArtefacts/v1''"

definition read_declaration :: "trail_git \<Rightarrow> string \<Rightarrow> json option" where
  "read_declaration G ref =
     (case tg_show G ref DECLARATION_REL of
        None \<Rightarrow> None
      | Some raw \<Rightarrow>
          if strip raw = [] then None
          else case tg_loads G raw of
            None \<Rightarrow> None
          | Some d \<Rightarrow> if mget (as_dict d) ''schema'' = JStr DECLARATION_SCHEMA then Some d else None)"

definition declared_ok :: "json \<Rightarrow> bool" where
  "declared_ok a \<longleftrightarrow>
     (case mget (as_dict a) ''path'' of
        JStr p \<Rightarrow> p \<noteq> [] \<and> literal p \<and> as_list (mget (as_dict (mget (as_dict a) ''verify'')) ''argv'') \<noteq> []
      | _ \<Rightarrow> False)"

definition declared_artefacts :: "json option \<Rightarrow> dict" where
  "declared_artefacts decl =
     fold (\<lambda>a m. dset (str_of (mget (as_dict a) ''path'')) a m)
       (filter declared_ok (case decl of None \<Rightarrow> [] | Some d \<Rightarrow> as_list (mget (as_dict d) ''artefacts''))) []"

definition INTERPRETERS :: "string list" where
  "INTERPRETERS = [''node'', ''python'', ''python3'', ''sh'', ''bash'', ''zsh'', ''ruby'', ''perl'', ''deno'', ''bun'', ''pnpm'',
     ''npm'', ''npx'', ''yarn'', ''uv'', ''pwsh'']"

definition strip_slash :: "string \<Rightarrow> string" where
  "strip_slash s = rstrip_char CHR ''/'' (dropWhile (\<lambda>c. c = CHR ''/'') s)"

definition command_token :: "string \<Rightarrow> string" where
  "command_token t = (let u = dropWhile (\<lambda>c. c = CHR ''/'') t in if startswith u ''./'' then drop 2 u else u)"

text \<open>The paths that one stage executes: its program, and the script when the program is an interpreter.\<close>

definition stage_paths :: "json \<Rightarrow> string list" where
  "stage_paths s =
     (let d = as_dict s;
          cwd = strip_slash (case mget d ''cwd'' of JStr (c # x) \<Rightarrow> c # x | _ \<Rightarrow> ''.'');
          argv = map (\<lambda>t. strip (str_of t)) (as_list (mget d ''argv''));
          heads = take 1 argv @ (case argv of a # _ \<Rightarrow>
            if basename (rstrip_char CHR ''/'' a) \<in> set INTERPRETERS then filter (\<lambda>t. \<not> startswith t ''-'') (take 1 (drop 1 argv)) else [] | [] \<Rightarrow> [])
      in concat (map (\<lambda>t. if t = [] then []
                         else t # (if cwd \<noteq> [] \<and> cwd \<noteq> ''.'' then [cwd @ ''/'' @ t] else [])) (map command_token heads)))"

definition declared_command_paths :: "dict \<Rightarrow> string list" where
  "declared_command_paths entries =
     concat (map (\<lambda>e. concat (map (\<lambda>stage. stage_paths (mget (as_dict e) stage)) [''verify'', ''setup''])) (map snd entries))"

definition REGULAR_MODES :: "string list" where
  "REGULAR_MODES = [''100644'', ''100755'']"

datatype path_refusal =
    NotDeclared
  | AbsentAtHead
  | NotRegular
  | AddedAfterHead
  | NotRegularAtBase
  | NamesVerifier
  | NotLedgerPath
  | ForeignWorkItem
  | LedgerUnreadable
  | LedgerMisnamed
  | LedgerBaseUnreadable
  | LedgerRefused ledger_refusal

definition record_path_refusal :: "trail_git \<Rightarrow> string \<Rightarrow> string \<Rightarrow> string \<Rightarrow> dict \<Rightarrow> bool \<Rightarrow> path_refusal option" where
  "record_path_refusal G base head path entries require_at_base =
     (if \<not> is_dict (mget entries path) then Some NotDeclared
      else case tg_mode G head path of
        None \<Rightarrow> Some AbsentAtHead
      | Some mh \<Rightarrow>
          if mh \<notin> set REGULAR_MODES then Some NotRegular
          else if require_at_base \<and> tg_mode G base path = None then Some AddedAfterHead
          else if require_at_base \<and> \<not> list_ex (\<lambda>m. tg_mode G base path = Some m) REGULAR_MODES then Some NotRegularAtBase
          else if path \<in> set (declared_command_paths entries) then Some NamesVerifier
          else None)"

subsection \<open>The ledger as a record\<close>

definition work_item_id :: "json \<Rightarrow> string option" where
  "work_item_id w =
     (case w of
        JStr s \<Rightarrow> Some s
      | JObj d \<Rightarrow> (case filter (\<lambda>k. truthy (mget d k)) [''id'', ''task_id'', ''key'', ''card''] of
                    [] \<Rightarrow> None | k # _ \<Rightarrow> Some (str_of (mget d k)))
      | _ \<Rightarrow> None)"

definition LEDGER_SCHEMA :: string where
  "LEDGER_SCHEMA = ''WorkItemEvidenceLedger/v1''"

definition ledger_doc :: "trail_git \<Rightarrow> string \<Rightarrow> string \<Rightarrow> json option" where
  "ledger_doc G ref path =
     (case tg_show G ref path of
        None \<Rightarrow> None
      | Some raw \<Rightarrow>
          (case tg_loads G raw of
             Some d \<Rightarrow> if is_dict d \<and> mget (as_dict d) ''schema'' = JStr LEDGER_SCHEMA then Some d else None
           | None \<Rightarrow> None))"

definition empty_ledger :: "json \<Rightarrow> json" where
  "empty_ledger doc_h =
     JObj [(''schema'', JStr LEDGER_SCHEMA), (''work_item'', mget (as_dict doc_h) ''work_item''),
           (''system'', mget (as_dict doc_h) ''system''), (''attachments'', JArr [])]"

definition ledger_record_path_refusal ::
    "trail_git \<Rightarrow> string \<Rightarrow> string \<Rightarrow> string \<Rightarrow> bound_receipt list \<Rightarrow> string \<Rightarrow> path_refusal option" where
  "ledger_record_path_refusal G base head path bound ledger_rel =
     (let prefix = rstrip_char CHR ''/'' ledger_rel @ ''/'';
          wanted = take (length path - length prefix - 5) (drop (length prefix) path)
      in if \<not> startswith path prefix \<or> \<not> endswith path ''.json'' \<or> CHR ''/'' \<in> set (drop (length prefix) path)
         then Some NotLedgerPath
         else if \<not> list_ex (\<lambda>r. work_item_id (mget (as_dict (br_doc r)) ''work_item'') = Some wanted) bound
         then Some ForeignWorkItem
         else case tg_mode G head path of
           None \<Rightarrow> Some AbsentAtHead
         | Some mh \<Rightarrow>
             if mh \<notin> set REGULAR_MODES then Some NotRegular
             else case ledger_doc G head path of
               None \<Rightarrow> Some LedgerUnreadable
             | Some doc_h \<Rightarrow>
                 if work_item_id (mget (as_dict doc_h) ''work_item'') \<noteq> Some wanted then Some LedgerMisnamed
                 else case ledger_doc G base path of
                   None \<Rightarrow>
                     if tg_mode G base path \<noteq> None then Some LedgerBaseUnreadable
                     else map_option LedgerRefused
                            (ledger_record_document_refusal doc_h (empty_ledger doc_h) (map br_digest bound))
                 | Some doc_b \<Rightarrow>
                     map_option LedgerRefused (ledger_record_document_refusal doc_h doc_b (map br_digest bound)))"

subsection \<open>The commits\<close>

definition receipt_head :: "json \<Rightarrow> string option" where
  "receipt_head doc =
     (let cs = as_dict (mget (as_dict doc) ''change_set'');
          h = (if mget cs ''mode'' = JStr ''diff'' then mget cs ''head''
               else mget (as_dict (mget (as_dict doc) ''tree'')) ''commit'')
      in case h of JStr (c # s) \<Rightarrow> Some (c # s) | _ \<Rightarrow> None)"

text \<open>\<^verbatim>\<open>Path(path).stem\<close>\<close>

definition stem_of :: "string \<Rightarrow> string" where
  "stem_of p = take (length (basename p) - length (ext_of p)) (basename p)"

definition covers_ledger :: "trail_git \<Rightarrow> string \<Rightarrow> string \<Rightarrow> string \<Rightarrow> bound_receipt \<Rightarrow> string option" where
  "covers_ledger G base head path r =
     (let doc = as_dict (br_doc r); cs = as_dict (mget doc ''change_set'')
      in case receipt_head (br_doc r) of
           None \<Rightarrow> None
         | Some h \<Rightarrow>
             if mget cs ''mode'' = JStr ''diff'' \<and> mget cs ''base'' = JStr base
                \<and> work_item_id (mget doc ''work_item'') = Some (stem_of path)
                \<and> list_ex (\<lambda>f. is_dict f \<and> mget (as_dict f) ''path'' = JStr path) (as_list (mget cs ''files''))
                \<and> tg_ancestor G base h \<and> tg_ancestor G h head
                \<and> list_ex (\<lambda>m. tg_mode G h path = Some m) REGULAR_MODES
                \<and> path \<in> set (tg_names G base h)
             then Some h else None)"

definition covered_ledger_anchor :: "trail_git \<Rightarrow> string \<Rightarrow> string \<Rightarrow> string \<Rightarrow> bound_receipt list \<Rightarrow> string" where
  "covered_ledger_anchor G base head path bound =
     (let candidates = remdups (concat (map (\<lambda>r. case covers_ledger G base head path r of None \<Rightarrow> [] | Some h \<Rightarrow> [h]) bound));
          latest = filter (\<lambda>h. list_all (\<lambda>other. tg_ancestor G other h) candidates) candidates
      in case latest of [h] \<Rightarrow> h | _ \<Rightarrow> base)"

record trailing_result =
  tr_heads :: "string list"
  tr_commits :: "string list"
  tr_receipts :: "string list"
  tr_derived :: "string list"
  tr_ledger :: "string list"
  tr_verdict :: "bool option"
  tr_refused :: "(string \<times> path_refusal) list"
  tr_edited :: "string list"

definition no_trailing :: "string list \<Rightarrow> string list \<Rightarrow> trailing_result" where
  "no_trailing heads commits =
     \<lparr>tr_heads = heads, tr_commits = commits, tr_receipts = [], tr_derived = [], tr_ledger = [], tr_verdict = None,
      tr_refused = [], tr_edited = []\<rparr>"

text \<open>The paths a trailing commit wrote itself: a merge those it changes against every parent.\<close>

definition own_paths :: "trail_git \<Rightarrow> string \<Rightarrow> string list" where
  "own_paths G c =
     (case tg_parents G c of
        [] \<Rightarrow> []
      | [p] \<Rightarrow> tg_names G p c
      | _ \<Rightarrow> tg_combined G c)"

definition bound_paths :: "trail_git \<Rightarrow> string \<Rightarrow> bound_receipt list \<Rightarrow> string list" where
  "bound_paths G head bound =
     concat (map (\<lambda>r. case br_rel r of
         None \<Rightarrow> []
       | Some rel \<Rightarrow> (case tg_show G head rel of
                       None \<Rightarrow> [] | Some raw \<Rightarrow> if br_digest r = Some (tg_sha G raw) then [rel] else [])) bound)"

definition ledger_verdict ::
    "trail_git \<Rightarrow> string \<Rightarrow> string \<Rightarrow> bound_receipt list \<Rightarrow> string \<Rightarrow> string \<Rightarrow> path_refusal option" where
  "ledger_verdict G base head bound ledger_rel p =
     ledger_record_path_refusal G (covered_ledger_anchor G base head p bound) head p bound ledger_rel"

definition under_ledger :: "string option \<Rightarrow> string \<Rightarrow> bool" where
  "under_ledger ledger_rel p =
     (case ledger_rel of None \<Rightarrow> False | Some l \<Rightarrow> l \<noteq> [] \<and> startswith p (rstrip_char CHR ''/'' l @ ''/''))"

definition judge_paths ::
    "trail_git \<Rightarrow> string \<Rightarrow> string \<Rightarrow> bound_receipt list \<Rightarrow> string option \<Rightarrow> string list \<Rightarrow> string list \<Rightarrow> string list \<Rightarrow> string list
       \<Rightarrow> trailing_result" where
  "judge_paths G base head bound ledger_rel heads commits paths in_ranges =
     (let receipts = bound_paths G head bound;
          declared = declared_artefacts (read_declaration G base);
          verdict = (\<lambda>p. case ledger_rel of None \<Rightarrow> None | Some l \<Rightarrow> ledger_verdict G base head bound l p);
          tried = filter (\<lambda>p. p \<notin> set receipts \<and> under_ledger ledger_rel p) paths;
          ledger = filter (\<lambda>p. verdict p = None) tried;
          others = filter (\<lambda>p. p \<notin> set receipts \<and> p \<notin> set ledger) paths;
          why = (\<lambda>p. if p \<in> set tried \<and> verdict p \<noteq> None then verdict p
                     else record_path_refusal G base head p declared False);
          derived = filter (\<lambda>p. why p = None) others;
          ok = (if derived = [] then None else tg_verify G derived);
          derived_ok = (if derived \<noteq> [] \<and> ok = Some True then derived else []);
          recorded = receipts @ derived_ok @ ledger
      in \<lparr>tr_heads = heads, tr_commits = commits,
          tr_receipts = filter (\<lambda>p. p \<in> set receipts \<and> p \<notin> set in_ranges) paths,
          tr_derived = filter (\<lambda>p. p \<in> set derived_ok \<and> p \<notin> set in_ranges) paths,
          tr_ledger = filter (\<lambda>p. p \<notin> set in_ranges) (sort ledger),
          tr_verdict = ok,
          tr_refused = concat (map (\<lambda>p. case why p of None \<Rightarrow> [] | Some r \<Rightarrow> [(p, r)]) others),
          tr_edited = filter (\<lambda>p. p \<notin> set recorded) paths\<rparr>)"

definition trailing_paths :: "trail_git \<Rightarrow> string \<Rightarrow> string \<Rightarrow> string list \<Rightarrow> string list" where
  "trailing_paths G base head commits =
     sort (remdups (filter (\<lambda>p. p \<in> set (tg_names G base head)) (concat (map (own_paths G) commits))))"

definition trailing_record_commits ::
    "trail_git \<Rightarrow> string \<Rightarrow> string \<Rightarrow> bound_receipt list \<Rightarrow> string option \<Rightarrow> trailing_result" where
  "trailing_record_commits G base head bound ledger_rel =
     (let heads = sort (remdups (filter (tg_commit G) (concat (map (\<lambda>r. case receipt_head (br_doc r) of None \<Rightarrow> [] | Some h \<Rightarrow> [h]) bound))))
      in if heads = [] then no_trailing [] []
         else let commits = filter (\<lambda>c. c \<noteq> []) (tg_rev_list G head base heads)
              in if commits = [] then no_trailing heads []
                 else judge_paths G base head bound ledger_rel heads commits (trailing_paths G base head commits)
                        (concat (map (tg_names G base) heads)))"

subsection \<open>Nothing else rides on a trailing commit\<close>

text \<open>What makes a path a record: its bytes at the head are a bound receipt; its ledger only grew by bound digests;
  or it is a declared artefact, regular at the head, whose verifier accepted it.\<close>

definition is_record ::
    "trail_git \<Rightarrow> string \<Rightarrow> string \<Rightarrow> bound_receipt list \<Rightarrow> string option \<Rightarrow> string \<Rightarrow> bool" where
  "is_record G base head bound ledger_rel p \<longleftrightarrow>
     p \<in> set (bound_paths G head bound)
     \<or> (under_ledger ledger_rel p \<and> (case ledger_rel of None \<Rightarrow> False | Some l \<Rightarrow> ledger_verdict G base head bound l p = None))
     \<or> (record_path_refusal G base head p (declared_artefacts (read_declaration G base)) False = None
        \<and> (\<exists>ps. p \<in> set ps \<and> tg_verify G ps = Some True))"

lemma under_ledger_Some: "under_ledger l p \<Longrightarrow> \<exists>x. l = Some x"
  by (cases l) (auto simp: under_ledger_def)

lemma judged_record:
  assumes "tr_edited (judge_paths G base head bound l hs cs paths rs) = []" and "p \<in> set paths"
  shows "is_record G base head bound l p"
proof -
  define receipts where "receipts = bound_paths G head bound"
  define verdict where "verdict = (\<lambda>p. case l of None \<Rightarrow> None | Some x \<Rightarrow> ledger_verdict G base head bound x p)"
  define tried where "tried = filter (\<lambda>p. p \<notin> set receipts \<and> under_ledger l p) paths"
  define ledger where "ledger = filter (\<lambda>p. verdict p = None) tried"
  define others where "others = filter (\<lambda>p. p \<notin> set receipts \<and> p \<notin> set ledger) paths"
  define why where "why = (\<lambda>p. if p \<in> set tried \<and> verdict p \<noteq> None then verdict p
      else record_path_refusal G base head p (declared_artefacts (read_declaration G base)) False)"
  define derived where "derived = filter (\<lambda>p. why p = None) others"
  define good where "good = (if derived \<noteq> [] \<and> (if derived = [] then None else tg_verify G derived) = Some True then derived else [])"
  have "filter (\<lambda>p. p \<notin> set (receipts @ good @ ledger)) paths = []"
    using assms(1) unfolding judge_paths_def Let_def receipts_def verdict_def tried_def ledger_def others_def why_def derived_def good_def
    by (simp only: trailing_result.simps)
  then have "p \<in> set receipts \<or> p \<in> set good \<or> p \<in> set ledger" using assms(2) by (auto simp: filter_empty_conv)
  then show ?thesis
  proof (elim disjE)
    assume "p \<in> set good"
    then have d: "p \<in> set derived" "tg_verify G derived = Some True" by (auto simp: good_def split: if_splits)
    then have "why p = None" by (simp add: derived_def)
    then have "record_path_refusal G base head p (declared_artefacts (read_declaration G base)) False = None"
      by (simp add: why_def split: if_splits)
    then show ?thesis using d by (auto simp: is_record_def)
  next
    assume "p \<in> set ledger"
    then have "under_ledger l p" "verdict p = None" by (auto simp: ledger_def tried_def)
    then show ?thesis using under_ledger_Some [of l p] by (auto simp: is_record_def verdict_def)
  qed (simp add: is_record_def receipts_def)
qed

lemma tr_commits_judge: "tr_commits (judge_paths G base head bound l hs cs paths rs) = cs"
  by (simp add: judge_paths_def Let_def)

lemma tr_commits_none: "tr_commits (no_trailing hs cs) = cs"
  by (simp add: no_trailing_def)


definition sample_git :: trail_git where
  "sample_git =
     \<lparr>tg_mode = (\<lambda>_ _. Some ''100644''), tg_show = (\<lambda>_ p. if p = ''receipts/a.json'' then Some ''raw'' else None),
      tg_loads = (\<lambda>_. None), tg_sha = (\<lambda>_. ''d''), tg_commit = (\<lambda>_. True), tg_ancestor = (\<lambda>_ _. True),
      tg_rev_list = (\<lambda>_ _ _. [''h'']), tg_parents = (\<lambda>_. [''r'']), tg_combined = (\<lambda>_. []),
      tg_names = (\<lambda>a _. if a = ''r'' then [''receipts/a.json''] else [''receipts/a.json'', ''x.py'']), tg_verify = (\<lambda>_. None)\<rparr>"

definition sample_bound :: bound_receipt where
  "sample_bound =
     \<lparr>br_doc = JObj [(''change_set'', JObj [(''mode'', JStr ''diff''), (''head'', JStr ''r'')])], br_digest = Some ''d'',
      br_rel = Some ''receipts/a.json''\<rparr>"


end
