(* ===== verification/AdmitProbe.thy ===== *)
theory AdmitProbe
  imports SchemaProps
begin

section \<open>What canaries and probes of a receipt are worth\<close>

text \<open>
  \<^verbatim>\<open>cashed_canary_ids\<close> and \<^verbatim>\<open>probe_effective_verdicts\<close> of \<^verbatim>\<open>tools/graph/admit_change.py\<close>: the gate's half of two rules of
  the receipt validator.  Which canary rows a receipt rests on, and what a verdict is worth once the observations of
  the endpoint probes that it cites are counted.
\<close>

subsection \<open>Canary rows that are spent\<close>

definition verified_records :: "dict \<Rightarrow> dict list" where
  "verified_records doc =
     map as_dict (filter (\<lambda>r. is_dict r \<and> mget (as_dict r) ''verdict'' = JStr ''verified'') (rows doc ''verdicts''))"

definition cited_ids :: "dict \<Rightarrow> json list" where
  "cited_ids doc = filter is_str (concat (map (\<lambda>r. as_list (mget r ''verifier_ids'')) (verified_records doc)))"

definition boundary_claims :: "dict \<Rightarrow> json list \<Rightarrow> json list" where
  "boundary_claims doc boundary =
     (if str_in (mget (sub doc ''admission'') ''verdict'') [''admitted'', ''admitted_with_exemptions''] then boundary
      else filter (\<lambda>e. e \<in> set (filter is_str (map (\<lambda>r. mget r ''entity'') (verified_records doc)))) boundary)"

definition row_spent :: "dict \<Rightarrow> json list \<Rightarrow> dict \<Rightarrow> bool" where
  "row_spent doc boundary v \<longleftrightarrow>
     mget v ''id'' \<in> set (cited_ids doc)
     \<or> list_ex (\<lambda>e. e \<in> set (boundary_claims doc boundary)) (as_list (mget v ''entities''))"

definition cashed_canary_ids :: "dict \<Rightarrow> json list \<Rightarrow> json list" where
  "cashed_canary_ids doc boundary =
     map (\<lambda>v. mget v ''id'')
       (filter (row_spent doc boundary)
         (filter (\<lambda>v. str_in (mget v ''kind'') [''canary'', ''shell_behavior''])
           (map as_dict (filter is_dict (rows doc ''verifiers'')))))"

subsection \<open>Probes\<close>

definition probe_rank :: "string \<Rightarrow> nat" where
  "probe_rank v = (if v = ''verified'' then 0 else if v = ''not_measured'' then 1 else 2)"

text \<open>\<^verbatim>\<open>max(vs, key=rank)\<close>: the first of the greatest.\<close>

fun worst_of :: "string \<Rightarrow> string list \<Rightarrow> string" where
  "worst_of w [] = w"
| "worst_of w (v # vs) = worst_of (if probe_rank w < probe_rank v then v else w) vs"

definition probe_row_ids :: "dict \<Rightarrow> string list" where
  "probe_row_ids doc =
     map str_of (filter is_str (map (\<lambda>v. mget (as_dict v) ''id'')
       (filter (\<lambda>v. is_dict v \<and> mget (as_dict v) ''kind'' = JStr ''endpoint_probe'') (rows doc ''verifiers''))))"

definition observed_verdicts :: "dict \<Rightarrow> string \<Rightarrow> string list" where
  "observed_verdicts doc vid =
     map str_of (filter is_str (map (\<lambda>o'. mget (as_dict o') ''verdict'')
       (filter (\<lambda>o'. is_dict o' \<and> mget (as_dict o') ''verifier_id'' = JStr vid) (rows doc ''observed''))))"

definition probe_worth :: "dict \<Rightarrow> string \<Rightarrow> string" where
  "probe_worth doc vid = (case observed_verdicts doc vid of [] \<Rightarrow> ''not_measured'' | v # vs \<Rightarrow> worst_of v vs)"

datatype probe_problem = NoObservation json string | BadObservation json string "string list"

definition probe_problem_of :: "dict \<Rightarrow> json \<Rightarrow> string \<Rightarrow> probe_problem list" where
  "probe_problem_of doc ent vid =
     (case observed_verdicts doc vid of
        [] \<Rightarrow> [NoObservation ent vid]
      | v # vs \<Rightarrow> if worst_of v vs = ''verified'' then []
                  else [BadObservation ent vid (sort (remdups (filter (\<lambda>x. x \<noteq> ''verified'') (v # vs))))])"

type_synonym downgrades = "(json \<times> string) list"

definition held_rank :: "downgrades \<Rightarrow> json \<Rightarrow> nat" where
  "held_rank ds ent = (case map_of ds ent of None \<Rightarrow> 0 | Some w \<Rightarrow> probe_rank w)"

definition downgrade :: "dict \<Rightarrow> json \<Rightarrow> string \<Rightarrow> downgrades \<Rightarrow> downgrades" where
  "downgrade doc ent vid ds =
     (if held_rank ds ent < probe_rank (probe_worth doc vid) then AList.update ent (probe_worth doc vid) ds else ds)"

text \<open>The probes that the verified records cite, in the order of the loops.\<close>

definition cited_probes :: "dict \<Rightarrow> (json \<times> string) list" where
  "cited_probes doc =
     concat (map (\<lambda>r. map (Pair (mget r ''entity''))
         (filter (\<lambda>vid. vid \<in> set (probe_row_ids doc)) (map str_of (filter is_str (as_list (mget r ''verifier_ids''))))))
       (verified_records doc))"

definition probe_effective_verdicts :: "dict \<Rightarrow> (json \<Rightarrow> json option) \<Rightarrow> downgrades \<times> probe_problem list" where
  "probe_effective_verdicts doc verdict =
     (filter (\<lambda>(e, _). verdict e = Some (JStr ''verified'')) (fold (\<lambda>(e, vid). downgrade doc e vid) (cited_probes doc) []),
      concat (map (\<lambda>(e, vid). probe_problem_of doc e vid) (cited_probes doc)))"

subsection \<open>The gate and the validator spend the same rows\<close>

text \<open>
  C35: The gate and the validator agree on which canary rows a receipt rests on: when every record that says verified
  stands for its entity, a canary row is spent for the gate, which passes it the boundary entities without a valid
  exemption, exactly when the validator demands committed evidence for it.
\<close>

theorem cashed_agree:
  assumes "list_all (\<lambda>r. is_str (mget r ''entity'') \<and> map_of (verdict_of S doc) (mget r ''entity'') = Some (JStr ''verified''))
             (verified_records doc)"
    and "v \<in> set (canary_rows doc)"
  shows "row_spent doc (filter (\<lambda>e. e \<notin> set (valid_exempt doc)) (boundary_inferred doc)) v
    \<longleftrightarrow> mget v ''id'' \<in> set (cashed_ids doc) \<or> list_ex (\<lambda>e. e \<in> set (quieted S doc)) (as_list (mget v ''entities''))"
proof -
  have cited: "set (cited_ids doc) = set (cashed_ids doc)"
    by (auto simp: cited_ids_def cashed_ids_def verified_records_def)
  have listed: "e \<in> set (as_list (mget v ''entities'')) \<Longrightarrow> e \<in> set (canary_entities doc)" for e
    using assms(2) by (auto simp: canary_entities_def)
  have "e \<in> set (filter is_str (map (\<lambda>r. mget r ''entity'') (verified_records doc)))
      \<longleftrightarrow> map_of (verdict_of S doc) e = Some (JStr ''verified'')" for e
  proof
    assume "e \<in> set (filter is_str (map (\<lambda>r. mget r ''entity'') (verified_records doc)))"
    then show "map_of (verdict_of S doc) e = Some (JStr ''verified'')" using assms(1) by (auto simp: list_all_iff)
  next
    assume "map_of (verdict_of S doc) e = Some (JStr ''verified'')"
    then obtain r where r: "r \<in> set (rows doc ''verdicts'')" "verdict_ok S r" "mget (as_dict r) ''entity'' = e"
        "mget (as_dict r) ''verdict'' = JStr ''verified''"
      by (rule verdict_of_Some)
    then have "as_dict r \<in> set (verified_records doc)" by (simp add: verified_records_def verdict_ok_def)
    moreover from this have "is_str e" using assms(1) r(3) by (auto simp: list_all_iff)
    ultimately show "e \<in> set (filter is_str (map (\<lambda>r. mget r ''entity'') (verified_records doc)))" using r(3) by force
  qed
  then have claims: "e \<in> set (boundary_claims doc (filter (\<lambda>e. e \<notin> set (valid_exempt doc)) (boundary_inferred doc)))
      \<longleftrightarrow> e \<in> set (boundary_inferred doc) \<and> owes_canary S doc e" for e
    by (auto simp: boundary_claims_def owes_canary_def admitting_def admission_of_def)
  show ?thesis
    unfolding row_spent_def cited list_ex_iff claims using listed by (auto simp: quieted_def)
qed

definition canary_row :: dict where
  "canary_row = [(''id'', JStr ''c''), (''kind'', JStr ''canary''), (''entities'', JArr [JStr ''s'']), (''output_ref'', JStr ''/tmp/x'')]"

definition canary_doc :: "json list \<Rightarrow> dict" where
  "canary_doc verdicts =
     [(''verifiers'', JArr [JObj canary_row]), (''verdicts'', JArr verdicts),
      (''impact_set'', JObj [(''inferred_tail'', JArr [JObj [(''entity'', JStr ''s''), (''boundary'', JStr ''service''),
         (''path'', JArr [JObj [(''provenance'', JStr ''inferred'')]])]])])]"

definition entity_verdict :: "string \<Rightarrow> json" where
  "entity_verdict v = JObj [(''entity'', JStr ''s''), (''verdict'', JStr v), (''verifier_ids'', JArr [])]"

theorem cashed_agree_witness:
  "row_spent (canary_doc [entity_verdict ''verified'']) [JStr ''s''] canary_row"
proof -
  let ?doc = "canary_doc [entity_verdict ''verified'']"
  have p: "list_all (\<lambda>r. is_str (mget r ''entity'') \<and> map_of (verdict_of receipt_contract ?doc) (mget r ''entity'') = Some (JStr ''verified''))
      (verified_records ?doc)"
    by code_simp
  have v: "canary_row \<in> set (canary_rows ?doc)" by code_simp
  have q: "list_ex (\<lambda>e. e \<in> set (quieted receipt_contract ?doc)) (as_list (mget canary_row ''entities''))" by code_simp
  have b: "filter (\<lambda>e. e \<notin> set (valid_exempt ?doc)) (boundary_inferred ?doc) = [JStr ''s'']" by code_simp
  show ?thesis using cashed_agree [OF p v] q b by simp
qed

text \<open>They differ when a later record takes back the verified one: only the gate still counts the row as spent.\<close>

lemma retracted_verdict_disagrees:
  "row_spent (canary_doc [entity_verdict ''verified'', entity_verdict ''not_measured'']) [JStr ''s''] canary_row
   \<and> quieted receipt_contract (canary_doc [entity_verdict ''verified'', entity_verdict ''not_measured'']) = []
   \<and> cashed_ids (canary_doc [entity_verdict ''verified'', entity_verdict ''not_measured'']) = []"
  by code_simp

subsection \<open>A verdict is worth no more than its probes\<close>

lemma rank_worst: "probe_rank (worst_of v vs) = foldr (\<lambda>x m. max (probe_rank x) m) (v # vs) 0"
proof (induction vs arbitrary: v)
  case (Cons x xs)
  show ?case using Cons [of "if probe_rank v < probe_rank x then x else v"] by (auto simp: max_def)
qed simp

lemma held_downgrade:
  "held_rank (downgrade doc ent vid ds) e
     = (if e = ent then max (held_rank ds e) (probe_rank (probe_worth doc vid)) else held_rank ds e)"
  by (auto simp: downgrade_def held_rank_def update_conv' max_def split: option.split)

lemma held_fold:
  "held_rank (fold (\<lambda>(e, vid). downgrade doc e vid) cs ds) e
     = foldr max (map (\<lambda>(_, vid). probe_rank (probe_worth doc vid)) (filter (\<lambda>(ent, _). ent = e) cs)) (held_rank ds e)"
proof (induction cs arbitrary: ds)
  case (Cons c cs)
  have shift: "foldr max xs (max a b) = max b (foldr max xs a)" for xs and a b :: nat by (induction xs) auto
  show ?case using Cons by (cases c) (auto simp: held_downgrade shift)
qed simp

lemma map_of_filter_key: "map_of (filter (\<lambda>(k, _). P k) xs) e = (if P e then map_of xs e else None)"
  by (induction xs) auto

text \<open>
  The gate counts an entity as its probes do: for an entity with the verdict verified, the downgrade that it
  records ranks as the worst observation of all probes that a verified record of the entity cites, where a probe
  without an observation ranks as not measured; any other entity is not downgraded.
\<close>

lemma probe_downgrade_exact:
  "held_rank (fst (probe_effective_verdicts doc verdict)) e =
     (if verdict e = Some (JStr ''verified'')
      then foldr max (map (\<lambda>(_, vid). case observed_verdicts doc vid of
                             [] \<Rightarrow> 1 | vs \<Rightarrow> foldr (\<lambda>x m. max (probe_rank x) m) vs 0)
                       (filter (\<lambda>(ent, _). ent = e) (cited_probes doc))) 0
      else 0)"
proof -
  have rank: "probe_rank (probe_worth doc vid)
      = (case observed_verdicts doc vid of [] \<Rightarrow> 1 | vs \<Rightarrow> foldr (\<lambda>x m. max (probe_rank x) m) vs 0)" for vid
  proof (cases "observed_verdicts doc vid")
    case Nil
    then show ?thesis by (simp add: probe_worth_def probe_rank_def)
  next
    case (Cons v vs)
    then show ?thesis by (simp add: probe_worth_def rank_worst)
  qed
  let ?ds = "fold (\<lambda>(e, vid). downgrade doc e vid) (cited_probes doc) []"
  have "held_rank (fst (probe_effective_verdicts doc verdict)) e
      = (if verdict e = Some (JStr ''verified'') then held_rank ?ds e else 0)"
    by (simp add: probe_effective_verdicts_def held_rank_def map_of_filter_key)
  then show ?thesis by (simp add: held_fold rank held_rank_def [of "[]"])
qed

end
