(* ===== verification/AdmitDecision.thy ===== *)
theory AdmitDecision
  imports SchemaProps SshsigProps JsonValues
begin

section \<open>Signed decisions to proceed\<close>

text \<open>
  The exemptions that the gate counts, and the instrument behind them: \<^verbatim>\<open>decision_eligibility\<close>,
  \<^verbatim>\<open>verify_decision_exemption\<close>, \<^verbatim>\<open>decision_signers\<close> and \<^verbatim>\<open>diff_digest\<close> of \<^verbatim>\<open>tools/graph/admit_change.py\<close>, with the lines of
  \<^verbatim>\<open>gate\<close> that decide which entities are exempted (C10 and C21).  What git prints, the JSON text of a payload, SHA-256
  and \<^verbatim>\<open>str\<close> of a value that is no string are fields of \<open>decision_env\<close>; the clock is a rational number of seconds.  Entities,
  classes and signer ids are strings and \<^verbatim>\<open>max_ttl_days\<close> is a number, as in the policy that the repository carries.
\<close>

record decision_env =
  de_hashes :: hashes
  de_dumps :: "json \<Rightarrow> bytes"
  de_sha :: "string \<Rightarrow> string"
  de_repr :: "json \<Rightarrow> string"
  de_program :: bool
  de_base_policy :: "json option"
  de_status :: "string \<Rightarrow> string \<Rightarrow> (string \<times> string) list"
  de_diff :: "string \<Rightarrow> string \<Rightarrow> string + string"

definition DECISION_CODE :: string where
  "DECISION_CODE = ''DECISION_TO_PROCEED''"

definition DECISION_SCHEMA :: string where
  "DECISION_SCHEMA = ''DecisionExemption/v1''"

definition DECISION_PHRASE :: string where
  "DECISION_PHRASE = ''decision to proceed''"

definition LEDGER_REL :: string where
  "LEDGER_REL = ''receipts/graph/work-item-evidence''"

definition STRUCTURAL_CODES :: "string list" where
  "STRUCTURAL_CODES = [''NO_IMPACT_BY_CONSTRUCTION'', ''GATE_SELF_UPDATE'', ''GATE_DECLARATION_AMEND'', ''SPENT_RECEIPT_ARCHIVE'']"

definition PAYLOAD_FIELDS :: "string list" where
  "PAYLOAD_FIELDS = [''entity'', ''class'', ''verifier'', ''measured_reason'', ''why_unmeasurable'', ''decision_to_proceed'',
     ''evidence'', ''reverse_if'', ''issued_at_utc'', ''expires_at_utc'', ''signer'', ''change_binding'']"

definition or_empty :: "json \<Rightarrow> string" where
  "or_empty j = (if truthy j then str_of j else [])"

definition decision_policy :: "json \<Rightarrow> dict" where
  "decision_policy policy = as_dict (mget (as_dict policy) ''decision_exemptions'')"

text \<open>The signers: from the policy at the base in the program repository, else from the policy of the pinned bundle.\<close>

definition decision_signers :: "decision_env \<Rightarrow> json \<Rightarrow> json list" where
  "decision_signers E policy =
     (if de_program E
      then (case de_base_policy E of None \<Rightarrow> [] | Some pol \<Rightarrow> as_list (mget (decision_policy pol) ''signers''))
      else as_list (mget (decision_policy policy) ''signers''))"

subsection \<open>The digest of a diff\<close>

definition diff_row :: "string \<Rightarrow> string list" where
  "diff_row line =
     (if \<not> startswith line '':'' then []
      else let tab = char_of (9 :: nat); parts = split_ws (fst (partition_char tab line)); r = snd (partition_char tab line)
           in if length parts < 5 \<or> r = [] then []
              else [parts ! 4 @ [tab] @ last (split_on tab r) @ [tab] @ parts ! 3])"

definition diff_digest :: "decision_env \<Rightarrow> string \<Rightarrow> string" where
  "diff_digest E raw = de_sha E (join [newline] (sort (concat (map diff_row (splitlines raw)))))"

subsection \<open>Eligibility\<close>

datatype ineligible =
    UnknownClass
  | NoVerdict
  | VerdictIs json
  | AttachmentNotExemptible
  | EntityPrefix
  | ReasonMarker
  | NotAddedInRange "string option"
  | LiveContourDeclared

definition verdict_record :: "dict \<Rightarrow> json \<Rightarrow> dict option" where
  "verdict_record doc entity =
     (case filter (\<lambda>x. is_dict x \<and> mget (as_dict x) ''entity'' = entity) (rows doc ''verdicts'') of
        [] \<Rightarrow> None | v # _ \<Rightarrow> Some (as_dict v))"

definition entity_path :: "string \<Rightarrow> string" where
  "entity_path entity = (if CHR '':'' \<in> set entity then tl (dropWhile (\<lambda>c. c \<noteq> CHR '':'') entity) else entity)"

definition range_status :: "decision_env \<Rightarrow> dict \<Rightarrow> string \<Rightarrow> string option" where
  "range_status E doc path =
     (let cs = as_dict (mget doc ''change_set'')
      in if truthy (mget cs ''base'') \<and> truthy (mget cs ''head'')
         then map_of (rev (de_status E (str_of (mget cs ''base'')) (str_of (mget cs ''head'')))) path else None)"

definition decision_eligibility ::
    "decision_env \<Rightarrow> dict \<Rightarrow> json \<Rightarrow> json \<Rightarrow> json \<Rightarrow> string \<Rightarrow> ineligible + string" where
  "decision_eligibility E doc entity klass policy repo_name =
     (let classes = as_dict (mget (decision_policy policy) ''classes''); k = str_of klass; ent = str_of entity;
          path = entity_path ent; spec = as_dict (mget classes k)
      in if \<not> is_str klass \<or> \<not> has_key classes k then Inl UnknownClass
         else case verdict_record doc entity of
           None \<Rightarrow> Inl NoVerdict
         | Some v \<Rightarrow>
             let reason = or_empty (mget v ''reason'')
             in if mget v ''verdict'' \<noteq> JStr ''not_measured'' then Inl (VerdictIs (mget v ''verdict''))
                else if startswith path (LEDGER_REL @ ''/'') \<or> path = LEDGER_REL then Inl AttachmentNotExemptible
                else if truthy (mget spec ''entity_prefix'') \<and> \<not> startswith ent (str_of (mget spec ''entity_prefix'')) then Inl EntityPrefix
                else if \<not> contains reason (or_empty (mget spec ''reason_marker'')) then Inl ReasonMarker
                else if truthy (mget spec ''requires_added_in_range'') \<and> range_status E doc path \<noteq> Some ''A''
                then Inl (NotAddedInRange (range_status E doc path))
                else if k = ''no_live_contour'' \<and> has_key (as_dict (mget spec ''live_contours'')) repo_name then Inl LiveContourDeclared
                else Inr reason)"

subsection \<open>Time\<close>

definition leap_days_before :: "nat \<Rightarrow> nat" where
  "leap_days_before y = (y - 1) div 4 - (y - 1) div 100 + (y - 1) div 400"

definition day_number :: "nat \<Rightarrow> nat \<Rightarrow> nat \<Rightarrow> nat" where
  "day_number y mo d = (y - 1) * 365 + leap_days_before y + sum_list (map (days_in_month y) [1..<mo]) + d"

definition seconds_of :: "instant \<Rightarrow> rat" where
  "seconds_of t = (case t of (y, mo, d, h, mi, s) \<Rightarrow> of_nat (day_number y mo d * 86400 + h * 3600 + mi * 60 + s))"

definition ttl_days :: "json \<Rightarrow> rat" where
  "ttl_days j =
     (if \<not> truthy j then 14
      else case num_val j of None \<Rightarrow> 14 | Some q \<Rightarrow> (if q < 0 then of_int \<lceil>q\<rceil> else of_int \<lfloor>q\<rfloor>))"

subsection \<open>One signed exemption\<close>

datatype decision_problem =
    NoPayload
  | PayloadSchema
  | PayloadFieldEmpty string
  | DiffersFromSigned
  | PhraseMissing
  | SignerUntrusted
  | SignatureRefused sig_reason
  | FingerprintDiffers
  | TimesUnreadable
  | DecisionExpired
  | LifetimeTooLong
  | IssuedInFuture
  | BoundElsewhere
  | DigestDiffers
  | OtherRepository
  | OtherReceipt
  | NotEligible ineligible
  | ReasonChanged
  | UnsignedExemption

definition text_of :: "decision_env \<Rightarrow> json \<Rightarrow> string" where
  "text_of E j = (case j of JStr s \<Rightarrow> s | _ \<Rightarrow> de_repr E j)"

definition problem_if :: "bool \<Rightarrow> decision_problem \<Rightarrow> decision_problem list" where
  "problem_if b p = (if b then [p] else [])"

definition payload_problems :: "dict \<Rightarrow> decision_problem list" where
  "payload_problems p =
     problem_if (mget p ''schema'' \<noteq> JStr DECISION_SCHEMA) PayloadSchema
     @ concat (map (\<lambda>k. problem_if (\<not> truthy (mget p k)) (PayloadFieldEmpty k)) PAYLOAD_FIELDS)"

definition find_signer :: "json list \<Rightarrow> json \<Rightarrow> dict option" where
  "find_signer signers sid =
     (case filter (\<lambda>s. mget (as_dict s) ''id'' = sid) signers of [] \<Rightarrow> None | s # _ \<Rightarrow> Some (as_dict s))"

definition signer_problems :: "decision_env \<Rightarrow> json \<Rightarrow> dict \<Rightarrow> string \<Rightarrow> decision_problem list" where
  "signer_problems E policy p sig =
     (let signer = as_dict (mget p ''signer'')
      in case find_signer (decision_signers E policy) (mget signer ''id'') of
           None \<Rightarrow> [SignerUntrusted]
         | Some key \<Rightarrow>
             (case verify_detached (de_hashes E) (de_dumps E (JObj p)) sig (or_empty (mget key ''public_key''))
                     (or_empty (mget (decision_policy policy) ''namespace'')) of
                (ok, why, det) \<Rightarrow>
                  if \<not> ok then [SignatureRefused why]
                  else problem_if (mget signer ''fingerprint'' \<noteq> opt_json (sd_pub_fp det)) FingerprintDiffers))"

definition time_problems :: "json \<Rightarrow> rat \<Rightarrow> dict \<Rightarrow> decision_problem list" where
  "time_problems policy now p =
     (case (parse_iso (mget p ''issued_at_utc''), parse_iso (mget p ''expires_at_utc'')) of
        (Some iss, Some till) \<Rightarrow>
          problem_if (seconds_of till \<le> now) DecisionExpired
          @ problem_if (seconds_of till - seconds_of iss > ttl_days (mget (decision_policy policy) ''max_ttl_days'') * 86400) LifetimeTooLong
          @ problem_if (seconds_of iss > now + 300) IssuedInFuture
      | _ \<Rightarrow> [TimesUnreadable])"

definition binding_problems :: "decision_env \<Rightarrow> dict \<Rightarrow> string \<Rightarrow> dict \<Rightarrow> decision_problem list" where
  "binding_problems E doc repo_name p =
     (let cs = as_dict (mget doc ''change_set''); b = as_dict (mget p ''change_binding'')
      in (if mget b ''base'' \<noteq> mget cs ''base'' \<or> mget b ''head'' \<noteq> mget cs ''head'' then [BoundElsewhere]
          else let dg = (case de_diff E (str_of (mget cs ''base'')) (str_of (mget cs ''head'')) of
                           Inl e \<Rightarrow> ''unmeasurable: '' @ e | Inr raw \<Rightarrow> diff_digest E raw)
               in problem_if (mget b ''digest'' \<noteq> JStr dg) DigestDiffers)
         @ problem_if (mget p ''repo'' \<noteq> JStr repo_name) OtherRepository
         @ problem_if (mget p ''receipt_id'' \<noteq> mget doc ''receipt_id'') OtherReceipt)"

definition class_problems :: "decision_env \<Rightarrow> dict \<Rightarrow> json \<Rightarrow> json \<Rightarrow> string \<Rightarrow> dict \<Rightarrow> decision_problem list" where
  "class_problems E doc entity policy repo_name p =
     (case decision_eligibility E doc entity (mget p ''class'') policy repo_name of
        Inl why \<Rightarrow> [NotEligible why]
      | Inr reason \<Rightarrow> problem_if (mget p ''measured_reason'' \<noteq> JStr reason) ReasonChanged)"

definition verify_decision_exemption ::
    "decision_env \<Rightarrow> dict \<Rightarrow> dict \<Rightarrow> json \<Rightarrow> string \<Rightarrow> rat \<Rightarrow> decision_problem list" where
  "verify_decision_exemption E doc x policy repo_name now =
     (let ent = mget x ''entity''; p = as_dict (mget x ''decision'')
      in if \<not> is_dict (mget x ''decision'') \<or> \<not> is_str (mget x ''signature'') then [NoPayload]
         else if payload_problems p \<noteq> [] then payload_problems p
         else problem_if (mget p ''entity'' \<noteq> ent \<or> mget x ''expires_at_utc'' \<noteq> mget p ''expires_at_utc''
                          \<or> mget x ''code'' \<noteq> JStr DECISION_CODE) DiffersFromSigned
              @ problem_if (\<not> contains (lower (text_of E (mget p ''decision_to_proceed''))) DECISION_PHRASE) PhraseMissing
              @ signer_problems E policy p (str_of (mget x ''signature''))
              @ time_problems policy now p
              @ binding_problems E doc repo_name p
              @ class_problems E doc ent policy repo_name p)"

subsection \<open>The exemptions that the gate counts\<close>

text \<open>
  \<^verbatim>\<open>verdict_of\<close> is only asked for membership.  When the time of the receipt is unreadable the gate falls back to the
  current time, which has a time zone: comparing it with an expiry, which has none, raises.
\<close>

definition verdict_entities :: "dict \<Rightarrow> json list" where
  "verdict_entities doc =
     map (\<lambda>v. mget (as_dict v) ''entity'') (filter (\<lambda>v. is_dict v \<and> has_key (as_dict v) ''entity'') (rows doc ''verdicts''))"

definition exemption_admissible :: "dict \<Rightarrow> json \<Rightarrow> exc + bool" where
  "exemption_admissible doc j =
     (let x = as_dict j
      in if \<not> is_dict j \<or> \<not> truthy (mget x ''owner'') then Inr False
         else case parse_iso (mget x ''expires_at_utc'') of
           None \<Rightarrow> Inr False
         | Some till \<Rightarrow>
             (case parse_iso (mget doc ''captured_at_utc'') of
                None \<Rightarrow> Inl TypeError
              | Some captured \<Rightarrow> Inr (captured < till \<and> mget x ''entity'' \<in> set (verdict_entities doc))))"

definition exemption_problems ::
    "decision_env \<Rightarrow> dict \<Rightarrow> json \<Rightarrow> string \<Rightarrow> rat \<Rightarrow> bool \<Rightarrow> json \<Rightarrow> decision_problem list" where
  "exemption_problems E doc policy repo_name now gate_issued j =
     (let x = as_dict j
      in if \<not> is_dict j \<or> str_in (mget x ''code'') STRUCTURAL_CODES \<or> gate_issued then []
         else if mget x ''code'' = JStr DECISION_CODE \<or> has_key x ''decision'' \<or> has_key x ''signature''
         then verify_decision_exemption E doc x policy repo_name now
         else if mget (decision_policy policy) ''enforcement'' = JStr ''signed'' then [UnsignedExemption] else [])"

definition gate_exempt ::
    "decision_env \<Rightarrow> dict \<Rightarrow> json \<Rightarrow> string \<Rightarrow> rat \<Rightarrow> bool \<Rightarrow> exc + json list" where
  "gate_exempt E doc policy repo_name now gate_issued =
     (let xs = rows doc ''exemptions''
      in bindE (mapE (\<lambda>j. bindE (exemption_admissible doc j) (\<lambda>b. Inr (j, b))) xs) (\<lambda>js.
           let named = map (\<lambda>(j, b). mget (as_dict j) ''entity'') (filter snd js);
               gone = map (\<lambda>j. mget (as_dict j) ''entity'')
                        (filter (\<lambda>j. exemption_problems E doc policy repo_name now gate_issued j \<noteq> []) xs)
           in Inr (filter (\<lambda>e. e \<notin> set gone) named)))"

subsection \<open>What a counted exemption rests on\<close>

lemma problem_if_nil [simp]: "problem_if b p = [] \<longleftrightarrow> \<not> b"
  by (simp add: problem_if_def)

text \<open>A signature by a trusted key over the payload, in force now, for this change and this entity.\<close>

definition decision_holds :: "decision_env \<Rightarrow> dict \<Rightarrow> json \<Rightarrow> string \<Rightarrow> rat \<Rightarrow> json \<Rightarrow> dict \<Rightarrow> string \<Rightarrow> bool" where
  "decision_holds E doc policy repo_name now entity p sig \<longleftrightarrow>
     mget p ''entity'' = entity
     \<and> list_ex (\<lambda>key. fst (verify_detached (de_hashes E) (de_dumps E (JObj p)) sig (or_empty (mget (as_dict key) ''public_key''))
                            (or_empty (mget (decision_policy policy) ''namespace'')))) (decision_signers E policy)
     \<and> (case (parse_iso (mget p ''issued_at_utc''), parse_iso (mget p ''expires_at_utc'')) of
          (Some iss, Some till) \<Rightarrow>
            now < seconds_of till \<and> seconds_of iss \<le> now + 300
            \<and> seconds_of till \<le> seconds_of iss + ttl_days (mget (decision_policy policy) ''max_ttl_days'') * 86400
        | _ \<Rightarrow> False)
     \<and> binding_problems E doc repo_name p = []
     \<and> (case verdict_record doc entity of None \<Rightarrow> False
        | Some v \<Rightarrow> mget v ''verdict'' = JStr ''not_measured'' \<and> mget p ''measured_reason'' = JStr (or_empty (mget v ''reason'')))"

lemma find_signer_member: "find_signer signers sid = Some key \<Longrightarrow> \<exists>s \<in> set signers. key = as_dict s"
proof -
  assume f: "find_signer signers sid = Some key"
  then obtain s ss where s: "filter (\<lambda>s. mget (as_dict s) ''id'' = sid) signers = s # ss" "key = as_dict s"
    by (auto simp: find_signer_def split: list.splits)
  then have "s \<in> set (filter (\<lambda>s. mget (as_dict s) ''id'' = sid) signers)" by simp
  then show ?thesis using s(2) by auto
qed

lemma signer_ok:
  assumes "signer_problems E policy p sig = []"
  shows "list_ex (\<lambda>key. fst (verify_detached (de_hashes E) (de_dumps E (JObj p)) sig (or_empty (mget (as_dict key) ''public_key''))
      (or_empty (mget (decision_policy policy) ''namespace'')))) (decision_signers E policy)"
proof -
  obtain key where key: "find_signer (decision_signers E policy) (mget (as_dict (mget p ''signer'')) ''id'') = Some key"
    using assms by (cases "find_signer (decision_signers E policy) (mget (as_dict (mget p ''signer'')) ''id'')")
      (auto simp: signer_problems_def Let_def)
  then have "fst (verify_detached (de_hashes E) (de_dumps E (JObj p)) sig (or_empty (mget key ''public_key''))
      (or_empty (mget (decision_policy policy) ''namespace'')))"
    using assms by (auto simp: signer_problems_def Let_def split: prod.splits if_splits)
  then show ?thesis using find_signer_member [OF key] by (auto simp: list_ex_iff)
qed

lemma eligible_not_measured:
  assumes "decision_eligibility E doc entity klass policy repo_name = Inr reason"
  obtains v where "verdict_record doc entity = Some v" "mget v ''verdict'' = JStr ''not_measured''" "reason = or_empty (mget v ''reason'')"
  using assms by (auto simp: decision_eligibility_def Let_def split: if_splits option.splits)

lemma verified_decision_holds:
  assumes "verify_decision_exemption E doc x policy repo_name now = []"
  shows "decision_holds E doc policy repo_name now (mget x ''entity'') (as_dict (mget x ''decision'')) (str_of (mget x ''signature''))"
proof -
  let ?p = "as_dict (mget x ''decision'')"
  have all: "mget ?p ''entity'' = mget x ''entity''" "signer_problems E policy ?p (str_of (mget x ''signature'')) = []"
      "time_problems policy now ?p = []" "binding_problems E doc repo_name ?p = []"
      "class_problems E doc (mget x ''entity'') policy repo_name ?p = []"
    using assms by (auto simp: verify_decision_exemption_def Let_def split: if_splits)
  obtain reason where "decision_eligibility E doc (mget x ''entity'') (mget ?p ''class'') policy repo_name = Inr reason"
      "mget ?p ''measured_reason'' = JStr reason"
    using all(5) by (auto simp: class_problems_def split: sum.splits)
  then obtain v where "verdict_record doc (mget x ''entity'') = Some v" "mget v ''verdict'' = JStr ''not_measured''"
      "mget ?p ''measured_reason'' = JStr (or_empty (mget v ''reason''))"
    by (metis eligible_not_measured)
  moreover have "case (parse_iso (mget ?p ''issued_at_utc''), parse_iso (mget ?p ''expires_at_utc'')) of
      (Some iss, Some till) \<Rightarrow> now < seconds_of till \<and> seconds_of iss \<le> now + 300
        \<and> seconds_of till \<le> seconds_of iss + ttl_days (mget (decision_policy policy) ''max_ttl_days'') * 86400
    | _ \<Rightarrow> False"
    using all(3) by (auto simp: time_problems_def split: option.splits)
  ultimately show ?thesis using all(1,4) signer_ok [OF all(2)] by (simp add: decision_holds_def)
qed


subsection \<open>Small cases\<close>

definition still_env :: decision_env where
  "still_env =
     \<lparr>de_hashes = \<lparr>hs_sha512 = (\<lambda>b. b), hs_sha256 = (\<lambda>b. b)\<rparr>, de_dumps = (\<lambda>_. []), de_sha = (\<lambda>s. s), de_repr = (\<lambda>_. []),
      de_program = True, de_base_policy = None, de_status = (\<lambda>_ _. []), de_diff = (\<lambda>_ _. Inr [])\<rparr>"

definition signed_policy :: json where
  "signed_policy = JObj [(''decision_exemptions'', JObj [(''enforcement'', JStr ''signed'')])]"

definition exempting_doc :: "json \<Rightarrow> string \<Rightarrow> dict" where
  "exempting_doc captured code =
     [(''captured_at_utc'', captured), (''verdicts'', JArr [JObj [(''entity'', JStr ''e''), (''verdict'', JStr ''not_measured'')]]),
      (''exemptions'', JArr [JObj [(''entity'', JStr ''e''), (''owner'', JStr ''o''), (''code'', JStr code),
         (''expires_at_utc'', JStr ''2026-02-01T00:00:00Z'')]])]"

text \<open>Without a signature nothing is exempted; a structural exemption is judged elsewhere.\<close>

lemma unsigned_exempts_nothing:
  "gate_exempt still_env (exempting_doc (JStr ''2026-01-01T00:00:00Z'') ''OTHER'') signed_policy ''r'' 0 False = Inr []"
  by code_simp

lemma structural_exempts:
  "gate_exempt still_env (exempting_doc (JStr ''2026-01-01T00:00:00Z'') ''GATE_SELF_UPDATE'') signed_policy ''r'' 0 False = Inr [JStr ''e'']"
  by code_simp

text \<open>A receipt whose time of capture is unreadable makes the gate raise at its first exemption with an expiry.\<close>

lemma unreadable_capture_raises:
  "gate_exempt still_env (exempting_doc JNull ''GATE_SELF_UPDATE'') signed_policy ''r'' 0 False = Inl TypeError"
  by code_simp


end
