(* ===== verification/AdmitMerge.thy ===== *)
theory AdmitMerge
  imports Prelude
begin

section \<open>Paths that the base branch brought in\<close>

text \<open>
  \<^verbatim>\<open>resolve_base_branch\<close>, \<^verbatim>\<open>_range_merges\<close>, \<^verbatim>\<open>split_base_branch_merge\<close>, \<^verbatim>\<open>split_outside\<close> and
  \<^verbatim>\<open>admissible_ranges_invariant\<close> of \<^verbatim>\<open>tools/graph/admit_change.py\<close>: an update of a branch from its base branch is not a
  change of the branch.  A path outside the bundle is admitted when its blob at the head is the blob of the base branch,
  and only if nothing else was merged and no merge touched the bundle.  What git answers is the record \<open>merge_git\<close>; the
  sentences of the evidence are left out.
\<close>

record merge_git =
  mq_resolves :: "string \<Rightarrow> bool"
  mq_origin_head :: string
  mq_rev_list :: "string \<Rightarrow> string \<Rightarrow> string"
  mq_merge_base :: "string \<Rightarrow> string \<Rightarrow> string"
  mq_ancestor :: "string \<Rightarrow> string \<Rightarrow> bool"
  mq_names :: "string \<Rightarrow> string \<Rightarrow> string"
  mq_blob :: "string \<Rightarrow> string \<Rightarrow> string"

record merge_commit =
  mc_commit :: string
  mc_first :: string
  mc_merged :: "string list"

datatype split_verdict = Vacuous | SplitNotMeasured | SplitFailed | SplitVerified

record split_evidence =
  se_verdict :: split_verdict
  se_branch :: "string option"
  se_anchor :: "string option"
  se_touched :: "(string \<times> string list) list"

definition resolve_base_branch :: "merge_git \<Rightarrow> string option \<Rightarrow> string option" where
  "resolve_base_branch G base_branch =
     (case base_branch of
        Some (c # b) \<Rightarrow> if mq_resolves G (c # b) then Some (c # b) else None
      | _ \<Rightarrow> let tgt = strip (mq_origin_head G) in if tgt \<noteq> [] \<and> mq_resolves G tgt then Some tgt else None)"

definition parse_merge :: "string \<Rightarrow> merge_commit list" where
  "parse_merge line =
     (case split_ws line of
        c # p # m # ms \<Rightarrow> [\<lparr>mc_commit = c, mc_first = p, mc_merged = m # ms\<rparr>]
      | _ \<Rightarrow> [])"

definition range_merges :: "merge_git \<Rightarrow> string \<Rightarrow> string \<Rightarrow> merge_commit list" where
  "range_merges G base head = concat (map parse_merge (splitlines (mq_rev_list G base head)))"

definition sideways :: "merge_git \<Rightarrow> string \<Rightarrow> merge_commit list \<Rightarrow> string list" where
  "sideways G ref merges =
     concat (map (\<lambda>m. concat (map (\<lambda>p. if mq_ancestor G p ref then [] else [mc_commit m]) (mc_merged m))) merges)"

definition moved_by :: "merge_git \<Rightarrow> merge_commit \<Rightarrow> string list" where
  "moved_by G m = filter (\<lambda>x. x \<noteq> []) (split_on newline (mq_names G (mc_first m) (mc_commit m)))"

definition touched_bundle :: "merge_git \<Rightarrow> string list \<Rightarrow> merge_commit list \<Rightarrow> (string \<times> string list) list" where
  "touched_bundle G managed merges =
     concat (map (\<lambda>m. let bad = sort (remdups (filter (\<lambda>x. x \<in> set managed) (moved_by G m)))
                     in if bad = [] then [] else [(mc_commit m, bad)]) merges)"

text \<open>\<^verbatim>\<open>git rev-parse ref:path\<close>, empty when the path is absent.\<close>

definition blob_at :: "merge_git \<Rightarrow> string \<Rightarrow> string \<Rightarrow> string option" where
  "blob_at G ref p = (let b = strip (mq_blob G ref p) in if b = [] then None else Some b)"

definition same_blob :: "merge_git \<Rightarrow> string \<Rightarrow> string \<Rightarrow> string \<Rightarrow> bool" where
  "same_blob G head anchor p \<longleftrightarrow> blob_at G head p = blob_at G anchor p"

definition refuse_split :: "split_verdict \<Rightarrow> string option \<Rightarrow> string option \<Rightarrow> (string \<times> string list) list \<Rightarrow> string list
    \<Rightarrow> string list \<times> string list \<times> split_evidence" where
  "refuse_split v ref anchor touched outside =
     ([], outside, \<lparr>se_verdict = v, se_branch = ref, se_anchor = anchor, se_touched = touched\<rparr>)"

definition split_base_branch_merge ::
    "merge_git \<Rightarrow> string \<Rightarrow> string \<Rightarrow> string list \<Rightarrow> string list \<Rightarrow> string option
       \<Rightarrow> string list \<times> string list \<times> split_evidence" where
  "split_base_branch_merge G base head outside managed base_branch =
     (let merges = range_merges G base head
      in if merges = [] then refuse_split Vacuous None None [] outside
         else case resolve_base_branch G base_branch of
           None \<Rightarrow> refuse_split SplitNotMeasured None None [] outside
         | Some ref \<Rightarrow>
             let anchor = strip (mq_merge_base G ref head); touched = touched_bundle G managed merges;
                 admitted = filter (same_blob G head anchor) outside
             in if anchor = [] then refuse_split SplitNotMeasured (Some ref) None [] outside
                else if sideways G ref merges \<noteq> [] then refuse_split SplitFailed (Some ref) (Some anchor) [] outside
                else if \<not> mq_ancestor G base anchor \<or> anchor = base
                then refuse_split (if anchor \<noteq> base then SplitFailed else Vacuous) (Some ref) (Some anchor) [] outside
                else if touched \<noteq> [] then refuse_split SplitFailed (Some ref) (Some anchor) touched outside
                else (admitted, filter (\<lambda>p. \<not> same_blob G head anchor p) outside,
                      \<lparr>se_verdict = (if admitted \<noteq> [] then SplitVerified else Vacuous), se_branch = Some ref,
                       se_anchor = Some anchor, se_touched = []\<rparr>))"

text \<open>\<open>pin\<close> stands for \<^verbatim>\<open>pin_only_edit\<close>.\<close>

definition split_outside :: "(string \<Rightarrow> bool) \<Rightarrow> string list \<Rightarrow> string list \<Rightarrow> string list \<times> string list \<times> string list" where
  "split_outside pin declared outside =
     (filter (\<lambda>p. p \<notin> set declared \<and> pin p) outside, filter (\<lambda>p. p \<in> set declared) outside,
      filter (\<lambda>p. p \<notin> set declared \<and> \<not> pin p) outside)"

definition admissible_ranges_ok :: "(string \<times> string \<times> string) list \<Rightarrow> string \<Rightarrow> string option \<Rightarrow> bool" where
  "admissible_ranges_ok admissible head record_head \<longleftrightarrow>
     length (remdups admissible) \<le> 2
     \<and> list_all (\<lambda>(_, _, h). h = head \<or> h = (case record_head of Some (c # r) \<Rightarrow> c # r | _ \<Rightarrow> head)) admissible"

subsection \<open>What is admitted contributes nothing\<close>

lemma refused_split [simp]: "fst (refuse_split v r a t outside) = []" "fst (snd (refuse_split v r a t outside)) = outside"
  by (simp_all add: refuse_split_def)

lemma split_parts:
  "case split_base_branch_merge G base head outside managed base_branch of (admitted, others, ev) \<Rightarrow>
     admitted = filter (\<lambda>p. p \<in> set admitted) outside \<and> others = filter (\<lambda>p. p \<notin> set admitted) outside
     \<and> (if admitted = [] then True
        else case (resolve_base_branch G base_branch, se_anchor ev) of
          (Some ref, Some anchor) \<Rightarrow>
            anchor = strip (mq_merge_base G ref head) \<and> anchor \<noteq> base \<and> mq_ancestor G base anchor
            \<and> list_all (\<lambda>m. list_all (\<lambda>p. mq_ancestor G p ref) (mc_merged m)
                          \<and> list_all (\<lambda>x. x \<notin> set managed) (moved_by G m)) (range_merges G base head)
            \<and> list_all (\<lambda>p. blob_at G head p = blob_at G anchor p) admitted
        | _ \<Rightarrow> False)"
proof -
  let ?merges = "range_merges G base head"
  have nil: "sort (remdups (filter Q xs)) = [] \<longleftrightarrow> (\<forall>x\<in>set xs. \<not> Q x)" for Q and xs :: "string list"
    by (metis (no_types, lifting) filter_empty_conv set_empty set_remdups set_sort)
  have touched: "touched_bundle G managed ms = [] \<longleftrightarrow> list_all (\<lambda>m. list_all (\<lambda>x. x \<notin> set managed) (moved_by G m)) ms" for ms
    by (induction ms) (auto simp: touched_bundle_def Let_def nil list_all_iff)
  have side: "sideways G ref ms = [] \<longleftrightarrow> list_all (\<lambda>m. list_all (\<lambda>p. mq_ancestor G p ref) (mc_merged m)) ms" for ref ms
    by (induction ms) (auto simp: sideways_def list_all_iff)
  have none: "case refuse_split v r a t outside of (admitted, others, ev) \<Rightarrow>
      admitted = filter (\<lambda>p. p \<in> set admitted) outside \<and> others = filter (\<lambda>p. p \<notin> set admitted) outside \<and> admitted = []" for v r a t
    by (simp add: refuse_split_def)
  show ?thesis
  proof (cases "resolve_base_branch G base_branch")
    case None
    then show ?thesis using none by (simp add: split_base_branch_merge_def Let_def refuse_split_def)
  next
    case (Some ref)
    let ?anchor = "strip (mq_merge_base G ref head)"
    show ?thesis
    proof (cases "?merges \<noteq> [] \<and> ?anchor \<noteq> [] \<and> sideways G ref ?merges = [] \<and> mq_ancestor G base ?anchor \<and> ?anchor \<noteq> base
        \<and> touched_bundle G managed ?merges = []")
      case True
      have parts: "filter (\<lambda>p. p \<in> set (filter (same_blob G head ?anchor) outside)) outside = filter (same_blob G head ?anchor) outside"
          "filter (\<lambda>p. p \<notin> set (filter (same_blob G head ?anchor) outside)) outside = filter (\<lambda>p. \<not> same_blob G head ?anchor p) outside"
        by (auto intro: filter_cong)
      have "split_base_branch_merge G base head outside managed base_branch
          = (filter (same_blob G head ?anchor) outside, filter (\<lambda>p. \<not> same_blob G head ?anchor p) outside,
             \<lparr>se_verdict = (if filter (same_blob G head ?anchor) outside \<noteq> [] then SplitVerified else Vacuous), se_branch = Some ref,
              se_anchor = Some ?anchor, se_touched = []\<rparr>)"
        using True Some by (simp add: split_base_branch_merge_def Let_def)
      then show ?thesis
        using True Some parts by (simp add: touched side) (simp add: list_all_iff same_blob_def)
    next
      case False
      then have "\<exists>v r a t. split_base_branch_merge G base head outside managed base_branch = refuse_split v r a t outside"
        using Some by (auto simp: split_base_branch_merge_def Let_def)
      then show ?thesis by (auto simp: refuse_split_def)
    qed
  qed
qed

text \<open>
  C37: Nothing is lost and nothing is let in: the admitted and the remaining paths are a partition of the given ones in
  their order; and where any path is admitted, the base branch is resolved, its merge base with the head lies strictly
  ahead of the base of the range, every merged parent is an ancestor of the base branch, no merge changed a managed
  path against its first parent, and the blob of each admitted path at the head is that of the base branch.
\<close>

theorem split_admits_base_bytes:
  "case split_base_branch_merge G base head outside managed base_branch of (admitted, others, ev) \<Rightarrow>
     admitted = filter (\<lambda>p. p \<in> set admitted) outside \<and> others = filter (\<lambda>p. p \<notin> set admitted) outside
     \<and> (if admitted = [] then True
        else case (resolve_base_branch G base_branch, se_anchor ev) of
          (Some ref, Some anchor) \<Rightarrow>
            anchor = strip (mq_merge_base G ref head) \<and> anchor \<noteq> base \<and> mq_ancestor G base anchor
            \<and> list_all (\<lambda>m. list_all (\<lambda>p. mq_ancestor G p ref) (mc_merged m)
                          \<and> list_all (\<lambda>x. x \<notin> set managed) (moved_by G m)) (range_merges G base head)
            \<and> list_all (\<lambda>p. blob_at G head p = blob_at G anchor p) admitted
        | _ \<Rightarrow> False)"
  by (rule split_parts)

end
