(* ===== verification/AdmitStructural.thy ===== *)
theory AdmitStructural
  imports AdmitGlob AdmitTrailing AdmitMerge AdmitDecision ImpactChange
begin

section \<open>Structural exemptions: which case a change is\<close>

text \<open>
  The typed exemptions of \<^verbatim>\<open>tools/graph/admit_change.py\<close> for changes whose impact the graph cannot show: new files, an
  update of the gate itself, an edit of the declaration of derived artefacts, an archived receipt.  This theory holds
  what classifies a change (\<^verbatim>\<open>structural_case\<close> and its helpers).  What git prints, the builder of graphs, the run of the
  declared commands, the check of canary records, the edit of a workflow pin and the bundles are the fields of
  \<open>structural_git\<close>; the sentences of the evidence are left out.
\<close>

type_synonym changes = "(string \<times> char) list"

datatype run_stage = SetupStage | CleanStage | CorruptedStage

text \<open>What the gate sees of a bundle directory: which files exist, its policy, and how its self-test ended (exit code,
  whether the aggregate line says PASS, the number of arms).\<close>

record gate_bundle =
  bn_has :: "string \<Rightarrow> bool"
  bn_policy :: "json option"
  bn_selftest :: "int option \<times> bool option \<times> nat option"

record structural_git =
  sg_git :: trail_git
  sg_merge :: merge_git
  sg_env :: decision_env
  sg_listing :: "string \<Rightarrow> string \<Rightarrow> string"
  sg_exists :: "string \<Rightarrow> string \<Rightarrow> bool"
  sg_commits :: "string \<Rightarrow> string \<Rightarrow> string list"
  sg_files :: "string \<Rightarrow> string \<Rightarrow> changes"
  sg_raw :: "string \<Rightarrow> string \<Rightarrow> string"
  sg_rev :: "string \<Rightarrow> string option"
  sg_graph :: "string \<Rightarrow> json option"
  sg_worktree :: "string \<Rightarrow> bool"
  sg_run :: "string \<Rightarrow> json \<Rightarrow> string \<Rightarrow> run_stage \<Rightarrow> int option \<times> bool"
  sg_pin :: "string \<Rightarrow> string \<Rightarrow> string option \<Rightarrow> string \<Rightarrow> bool"
  sg_consume :: "string \<Rightarrow> string \<Rightarrow> (dict \<times> json) option"
  sg_bundle :: "string \<Rightarrow> gate_bundle option"
  sg_verify :: "string \<Rightarrow> string \<Rightarrow> bool"

text \<open>\<^verbatim>\<open>git show ref:path\<close> with \<^verbatim>\<open>check=False\<close>: empty when there is no such blob.\<close>

definition shown :: "structural_git \<Rightarrow> string \<Rightarrow> string \<Rightarrow> string" where
  "shown G ref path = (case tg_show (sg_git G) ref path of None \<Rightarrow> [] | Some raw \<Rightarrow> raw)"

text \<open>\<^verbatim>\<open>{f["path"]: str(f["status"])[0] for f in files}\<close>\<close>

definition changed_of :: "changes \<Rightarrow> changes" where
  "changed_of files = fold (\<lambda>(p, s) m. AList.update p s m) files []"

subsection \<open>The declaration in force\<close>

definition declaration_in_force :: "structural_git \<Rightarrow> string \<Rightarrow> string \<Rightarrow> changes \<Rightarrow> json option \<times> bool" where
  "declaration_in_force G base head changed =
     (case read_declaration (sg_git G) base of
        Some d \<Rightarrow> (Some d, False)
      | None \<Rightarrow>
          if map_of changed DECLARATION_REL \<noteq> Some CHR ''A'' then (None, False)
          else case read_declaration (sg_git G) head of None \<Rightarrow> (None, False) | Some d \<Rightarrow> (Some d, True))"

definition unusable_entries :: "json option \<Rightarrow> json list" where
  "unusable_entries decl =
     filter (\<lambda>a. \<not> declared_ok a) (case decl of None \<Rightarrow> [] | Some d \<Rightarrow> as_list (mget (as_dict d) ''artefacts''))"

subsection \<open>The paths of the bundle\<close>

definition MANIFEST_NAME :: string where "MANIFEST_NAME = ''BUNDLE.json''"
definition SIG_NAME :: string where "SIG_NAME = ''BUNDLE.json.sig''"
definition PUBKEY_NAME :: string where "PUBKEY_NAME = ''SIGNING-KEY.pub''"

definition extra_sig :: "nat \<Rightarrow> string" where "extra_sig n = ''BUNDLE.json.'' @ show_nat n @ ''.sig''"
definition extra_key :: "nat \<Rightarrow> string" where "extra_key n = ''SIGNING-KEY.'' @ show_nat n @ ''.pub''"

text \<open>The path of one entry of the manifest; an entry the job does not verify is at the root of the repository.\<close>

definition managed_entry :: "string \<Rightarrow> json \<Rightarrow> string list" where
  "managed_entry rel f =
     (case mget (as_dict f) ''path'' of
        JStr (c # p) \<Rightarrow> [if mget (as_dict f) ''verified_by_the_job'' = JBool False then c # p else rel @ ''/'' @ c # p]
      | _ \<Rightarrow> [])"

definition bundle_paths_at :: "structural_git \<Rightarrow> string \<Rightarrow> string \<Rightarrow> string list \<times> dict option" where
  "bundle_paths_at G ref bundle_rel =
     (let rel = strip_slash bundle_rel; raw = shown G ref (rel @ ''/'' @ MANIFEST_NAME)
      in if strip raw = [] then ([], None)
         else case tg_loads (sg_git G) raw of
           None \<Rightarrow> ([], None)
         | Some j \<Rightarrow>
             let man = as_dict j; signers = mget man ''signing_keys'';
                 extra = [2 ..< Suc (if is_list signers then length (as_list signers) else 1)]
             in (map (\<lambda>n. rel @ ''/'' @ n) ([MANIFEST_NAME, SIG_NAME, PUBKEY_NAME] @ map extra_sig extra @ map extra_key extra)
                 @ concat (map (managed_entry rel) (as_list (mget man ''files''))), Some man))"

subsection \<open>An archived receipt\<close>

definition ARCHIVE_PREFIX :: string where
  "ARCHIVE_PREFIX = ''receipts/archive/''"

definition same_receipt_outside_archive :: "structural_git \<Rightarrow> string \<Rightarrow> string \<Rightarrow> string \<Rightarrow> bool" where
  "same_receipt_outside_archive G head dest raw \<longleftrightarrow>
     list_ex (\<lambda>p. p \<noteq> [] \<and> p \<noteq> dest \<and> \<not> startswith p ARCHIVE_PREFIX \<and> endswith p ''.json'' \<and> shown G head p = raw)
       (map strip (splitlines (sg_listing G head ''receipts/'')))"

definition archive_shape :: "string list \<Rightarrow> bool" where
  "archive_shape paths \<longleftrightarrow>
     length paths \<le> 2 \<and> length (filter (\<lambda>p. startswith p ARCHIVE_PREFIX) paths) = 1
     \<and> list_all (\<lambda>p. startswith p ''receipts/'' \<and> endswith p ''.json'') paths"

definition archived_path :: "string list \<Rightarrow> string" where
  "archived_path paths = hd (filter (\<lambda>p. startswith p ARCHIVE_PREFIX) paths)"

definition archived_from :: "string list \<Rightarrow> string list" where
  "archived_from paths = filter (\<lambda>p. \<not> startswith p ARCHIVE_PREFIX) paths"

definition same_bytes :: "structural_git \<Rightarrow> string \<Rightarrow> string \<Rightarrow> string list \<Rightarrow> bool" where
  "same_bytes G base head paths \<longleftrightarrow>
     strip (shown G head (archived_path paths)) \<noteq> []
     \<and> (case archived_from paths of [] \<Rightarrow> True | src # _ \<Rightarrow> shown G base src = shown G head (archived_path paths))"

definition is_spent_receipt_archive :: "structural_git \<Rightarrow> string \<Rightarrow> string \<Rightarrow> string list \<Rightarrow> bool" where
  "is_spent_receipt_archive G base head paths \<longleftrightarrow>
     archive_shape paths \<and> same_bytes G base head paths
     \<and> \<not> same_receipt_outside_archive G head (archived_path paths) (shown G head (archived_path paths))"

subsection \<open>The receipt of a self-update\<close>

text \<open>\<^verbatim>\<open>^receipts/graph/[^/]+\.json$\<close>\<close>

definition receipt_issue :: "string \<Rightarrow> bool" where
  "receipt_issue p \<longleftrightarrow>
     startswith p ''receipts/graph/''
     \<and> list_ex (\<lambda>n. CHR ''/'' \<notin> set n \<and> endswith n ''.json'' \<and> 5 < length n) [drop 15 p, chomp (drop 15 p)]"

definition self_update_receipt_ok :: "structural_git \<Rightarrow> string \<Rightarrow> string \<Rightarrow> changes \<Rightarrow> string \<Rightarrow> bool" where
  "self_update_receipt_ok G base head changed path \<longleftrightarrow>
     map_of changed path = Some CHR ''A'' \<and> \<not> sg_exists G base path
     \<and> (case tg_loads (sg_git G) (shown G head path) of
          Some (JObj doc) \<Rightarrow>
            let cs = as_dict (mget doc ''change_set'')
            in is_str (mget doc ''schema'') \<and> startswith (str_of (mget doc ''schema'')) ''ChangeAdmissionReceipt''
               \<and> (case work_item_id (mget doc ''work_item'') of Some (_ # _) \<Rightarrow> True | _ \<Rightarrow> False)
               \<and> mget cs ''mode'' = JStr ''diff'' \<and> mget cs ''base'' = JStr base
               \<and> str_in (mget cs ''head'') (sg_commits G base head)
        | _ \<Rightarrow> False)"

definition cashed_verifiers :: "dict \<Rightarrow> json list" where
  "cashed_verifiers receipt =
     concat (map (\<lambda>row. filter is_str (as_list (mget (as_dict row) ''verifier_ids'')))
       (filter (\<lambda>row. is_dict row \<and> mget (as_dict row) ''verdict'' = JStr ''verified'') (as_list (mget receipt ''verdicts''))))"

text \<open>\<^verbatim>\<open>receipts/graph/[^/]+/[^/]+\.json\<close> and \<^verbatim>\<open>[A-Za-z0-9_-][A-Za-z0-9_.-]*\.json\<close>, both as full matches.\<close>

definition nested_record :: "string \<Rightarrow> bool" where
  "nested_record p \<longleftrightarrow>
     startswith p ''receipts/graph/''
     \<and> (case split_on CHR ''/'' (drop 15 p) of [d, n] \<Rightarrow> d \<noteq> [] \<and> endswith n ''.json'' \<and> 5 < length n | _ \<Rightarrow> False)"

definition name_char :: "char \<Rightarrow> bool" where
  "name_char c \<longleftrightarrow> letter c \<or> is_digit c \<or> c = CHR ''_'' \<or> c = CHR ''-''"

definition sibling_name :: "json \<Rightarrow> bool" where
  "sibling_name j \<longleftrightarrow>
     (case j of
        JStr (c # n) \<Rightarrow> name_char c \<and> list_all (\<lambda>x. name_char x \<or> x = CHR ''.'') n \<and> endswith n ''.json''
      | _ \<Rightarrow> False)"

text \<open>The three records of a canary: its result, its plan and its source, all new regular files of the range.\<close>

definition record_closure :: "string \<Rightarrow> json \<Rightarrow> string list option" where
  "record_closure ref doc =
     (let d = as_dict doc; plan = mget (as_dict (mget d ''plan'')) ''path'';
          source = mget (as_dict (mget (as_dict (mget d ''subject'')) ''evidence'')) ''path'';
          sibling = (\<lambda>j. take (length ref - length (basename ref)) ref @ str_of j)
      in if mget d ''schema'' = JStr ''CanaryResult/v2'' \<and> mget d ''read_only'' = JBool True
            \<and> list_all (\<lambda>p. mget (as_dict p) ''kind'' = JStr ''process'') (as_list (mget d ''probes''))
            \<and> sibling_name plan \<and> sibling_name source \<and> distinct [ref, sibling plan, sibling source]
         then Some [ref, sibling plan, sibling source] else None)"

definition claims_verified :: "dict \<Rightarrow> json \<Rightarrow> bool" where
  "claims_verified results entities \<longleftrightarrow>
     as_list entities \<noteq> []
     \<and> list_all (\<lambda>e. is_str e \<and> mget (as_dict (mget results (str_of e))) ''verdict'' = JStr ''verified'') (as_list entities)"

definition new_regular :: "structural_git \<Rightarrow> string \<Rightarrow> string \<Rightarrow> changes \<Rightarrow> string list \<Rightarrow> string \<Rightarrow> bool" where
  "new_regular G base head changed outside p \<longleftrightarrow>
     map_of changed p = Some CHR ''A'' \<and> p \<in> set outside \<and> \<not> sg_exists G base p
     \<and> tg_mode (sg_git G) head p = Some ''100644''"

definition canary_closure ::
    "structural_git \<Rightarrow> string \<Rightarrow> string \<Rightarrow> changes \<Rightarrow> string list \<Rightarrow> dict \<Rightarrow> string list \<Rightarrow> string list" where
  "canary_closure G base head changed outside verifier records =
     (let ref = str_of (mget verifier ''output_ref'')
      in case sg_consume G head ref of
           None \<Rightarrow> records
         | Some (results, doc) \<Rightarrow>
             (case record_closure ref doc of
                None \<Rightarrow> records
              | Some closure \<Rightarrow>
                  if claims_verified results (mget verifier ''entities'')
                     \<and> (records = [] \<or> set records = set closure)
                     \<and> list_all (new_regular G base head changed outside) closure
                  then remdups (records @ closure) else records))"

definition canary_candidate :: "string list \<Rightarrow> json list \<Rightarrow> json \<Rightarrow> bool" where
  "canary_candidate outside cashed j \<longleftrightarrow>
     (let v = as_dict j; ref = str_of (mget v ''output_ref'')
      in is_dict j \<and> mget v ''kind'' = JStr ''canary'' \<and> is_str (mget v ''id'') \<and> mget v ''id'' \<in> set cashed
         \<and> is_str (mget v ''output_ref'') \<and> nested_record ref \<and> \<not> startswith ref (LEDGER_REL @ ''/'') \<and> ref \<in> set outside)"

definition canary_records ::
    "structural_git \<Rightarrow> string \<Rightarrow> string \<Rightarrow> changes \<Rightarrow> string list \<Rightarrow> dict \<Rightarrow> string list" where
  "canary_records G base head changed outside receipt =
     (if \<not> is_list (mget receipt ''verdicts'') \<or> \<not> is_list (mget receipt ''verifiers'') then []
      else fold (\<lambda>v. canary_closure G base head changed outside (as_dict v))
             (filter (canary_candidate outside (cashed_verifiers receipt)) (as_list (mget receipt ''verifiers''))) [])"

definition split_self_update_receipt ::
    "structural_git \<Rightarrow> string \<Rightarrow> string \<Rightarrow> string list \<Rightarrow> changes \<Rightarrow> string option \<times> string list" where
  "split_self_update_receipt G base head outside changed =
     (case filter receipt_issue outside of
        [path] \<Rightarrow>
          if self_update_receipt_ok G base head changed path
          then (case tg_loads (sg_git G) (shown G head path) of
                  Some doc \<Rightarrow>
                    (Some path, filter (\<lambda>p. p \<noteq> path \<and> p \<notin> set (canary_records G base head changed outside (as_dict doc))) outside)
                | None \<Rightarrow> (None, outside))
          else (None, outside)
      | _ \<Rightarrow> (None, outside))"

subsection \<open>The case\<close>

datatype change_case = NoImpact | SelfUpdate | DeclarationAmend | ReceiptArchive

record case_evidence =
  ce_filed :: "string option"
  ce_pins :: "string list"

definition no_evidence :: case_evidence where
  "no_evidence = \<lparr>ce_filed = None, ce_pins = []\<rparr>"

definition program_ref :: "dict option \<Rightarrow> string option" where
  "program_ref man =
     (case man of None \<Rightarrow> None | Some m \<Rightarrow> (case mget m ''program_ref'' of JStr s \<Rightarrow> Some s | _ \<Rightarrow> None))"

text \<open>What is left of the paths outside the bundle, after the receipt of the update and the base branch's own paths:
  pin-only edits, declared artefacts, and the rest.\<close>

record outside_split =
  os_filed :: "string option"
  os_merged :: "string list"
  os_merge_verdict :: split_verdict
  os_pins :: "string list"
  os_derived :: "string list"
  os_rest :: "string list"

definition split_all_outside ::
    "structural_git \<Rightarrow> string \<Rightarrow> string \<Rightarrow> changes \<Rightarrow> string list \<Rightarrow> string list \<Rightarrow> string option \<Rightarrow> string list
       \<Rightarrow> string option \<Rightarrow> outside_split" where
  "split_all_outside G base head changed managed outside expect declared base_branch =
     (case split_self_update_receipt G base head outside changed of
        (filed, outside1) \<Rightarrow>
          (case (if outside1 = [] then ([], [], None)
                 else case split_base_branch_merge (sg_merge G) base head outside1 managed base_branch of
                        (a, r, e) \<Rightarrow> (a, r, Some (se_verdict e))) of
             (merged, outside2, verdict) \<Rightarrow>
               (case split_outside (sg_pin G base head expect) declared outside2 of
                  (pins, derived, rest) \<Rightarrow>
                    \<lparr>os_filed = filed, os_merged = merged, os_merge_verdict = (case verdict of None \<Rightarrow> Vacuous | Some v \<Rightarrow> v),
                     os_pins = pins, os_derived = derived, os_rest = rest\<rparr>)))"

definition keys_of :: "dict \<Rightarrow> string list" where
  "keys_of d = map fst d"

definition outside_of :: "changes \<Rightarrow> string list \<Rightarrow> bool \<Rightarrow> string list" where
  "outside_of changed managed boot =
     sort (remdups (filter (\<lambda>p. p \<notin> set managed \<and> \<not> (boot \<and> p = DECLARATION_REL)) (map fst changed)))"

definition structural_case ::
    "structural_git \<Rightarrow> string \<Rightarrow> string \<Rightarrow> changes \<Rightarrow> string \<Rightarrow> string option \<Rightarrow> change_case option \<times> case_evidence" where
  "structural_case G base head files bundle_rel base_branch =
     (let changed = changed_of files
      in if changed = [] then (None, no_evidence)
         else if changed = [(DECLARATION_REL, CHR ''M'')] then (Some DeclarationAmend, no_evidence)
         else case declaration_in_force G base head changed of
           (decl, boot) \<Rightarrow>
             let declared = keys_of (declared_artefacts decl);
                 moved = filter (\<lambda>p. p \<notin> set declared) (map fst changed);
                 managed_base = fst (bundle_paths_at G base bundle_rel);
                 managed = managed_base @ fst (bundle_paths_at G head bundle_rel);
                 outside = outside_of changed managed boot
             in if moved \<noteq> [] \<and> is_spent_receipt_archive G base head (sort moved) then (Some ReceiptArchive, no_evidence)
                else let s = (if managed = [] then \<lparr>os_filed = None, os_merged = [], os_merge_verdict = Vacuous,
                                                    os_pins = [], os_derived = [], os_rest = outside\<rparr>
                              else split_all_outside G base head changed managed outside
                                     (program_ref (snd (bundle_paths_at G head bundle_rel))) declared base_branch);
                         edited = filter (\<lambda>(p, st). st \<noteq> CHR ''A'' \<and> p \<notin> set (os_merged s)) changed;
                         ev = \<lparr>ce_filed = os_filed s, ce_pins = os_pins s\<rparr>
                     in if managed \<noteq> [] \<and> os_rest s = [] \<and> list_ex (\<lambda>(p, _). p \<in> set managed_base) edited
                        then (Some SelfUpdate, ev)
                        else if list_all (\<lambda>(p, _). p \<in> set declared) edited then (Some NoImpact, ev)
                        else (None, ev))"

end
