(* ===== verification/AdmitBattery.thy ===== *)
theory AdmitBattery
  imports AdmitStructural
begin

section \<open>Structural exemptions: the measurements\<close>

text \<open>
  \<^verbatim>\<open>evaluate_no_impact\<close>, \<^verbatim>\<open>evaluate_spent_receipt_archive\<close>, \<^verbatim>\<open>evaluate_declaration_amend\<close>, \<^verbatim>\<open>evaluate_derived\<close> and
  \<^verbatim>\<open>evaluate_self_update\<close> of \<^verbatim>\<open>tools/graph/admit_change.py\<close>: what the gate measures before it grants a structural
  exemption, and again whenever it sees one.  A check is its id and its verdict, where \<open>None\<close> is \<^verbatim>\<open>not_measured\<close>.
\<close>

type_synonym checks = "(string \<times> bool option) list"

type_synonym runs = "(string \<times> run_stage \<times> int option) list"

subsection \<open>Declared artefacts and their verifiers\<close>

text \<open>\<^verbatim>\<open>corrupt_one_byte\<close>: the first digit or letter at or after the middle is replaced in its class.\<close>

definition is_letter :: "char \<Rightarrow> bool" where
  "is_letter c \<longleftrightarrow> lower_char c \<noteq> upper_char c"

definition other_char :: "char \<Rightarrow> char" where
  "other_char c =
     (if is_digit c then (if c = CHR ''0'' then CHR ''1'' else CHR ''0'')
      else let r = (if lower_char c = CHR ''a'' then CHR ''b'' else CHR ''a'') in if c = upper_char c then upper_char r else r)"

fun flip_first :: "string \<Rightarrow> string option" where
  "flip_first [] = None"
| "flip_first (c # s) =
     (if is_digit c \<or> is_letter c then Some (other_char c # s) else map_option (Cons c) (flip_first s))"

definition corrupt_one_byte :: "string \<Rightarrow> string" where
  "corrupt_one_byte data =
     (case flip_first (drop (length data div 2) data) of
        None \<Rightarrow> data @ [newline] | Some t \<Rightarrow> take (length data div 2) data @ t)"

definition declared_entry :: "dict \<Rightarrow> string \<Rightarrow> dict" where
  "declared_entry entries p = as_dict (mget entries p)"

definition has_setup :: "dict \<Rightarrow> bool" where
  "has_setup e \<longleftrightarrow> truthy (mget (as_dict (mget e ''setup'')) ''argv'')"

definition run_rc :: "structural_git \<Rightarrow> string \<Rightarrow> dict \<Rightarrow> string \<Rightarrow> run_stage \<Rightarrow> int option" where
  "run_rc G head entries p stage = fst (sg_run G head (mget entries p) p stage)"

text \<open>\<^verbatim>\<open>_verify_declared_artefacts\<close>; reading an artefact that the head does not have raises.\<close>

fun verify_each :: "structural_git \<Rightarrow> string \<Rightarrow> dict \<Rightarrow> string list \<Rightarrow> exc + bool option" where
  "verify_each G head entries [] = Inr (Some True)"
| "verify_each G head entries (p # ps) =
     (let e = declared_entry entries p
      in if \<not> truthy (mget (as_dict (mget e ''verify'')) ''argv'') then Inr (Some False)
         else if has_setup e \<and> run_rc G head entries p SetupStage \<noteq> Some 0 then Inr None
         else if run_rc G head entries p CleanStage \<noteq> Some 0 then Inr (Some False)
         else if tg_show (sg_git G) head p = None then Inl OSError
         else if run_rc G head entries p CorruptedStage \<in> {Some 0, None} then Inr (Some False)
         else verify_each G head entries ps)"

definition verify_declared :: "structural_git \<Rightarrow> string \<Rightarrow> dict \<Rightarrow> string list \<Rightarrow> exc + bool option" where
  "verify_declared G head entries paths = (if \<not> sg_worktree G head then Inr None else verify_each G head entries paths)"

subsection \<open>B6: the arms of a declared artefact\<close>

text \<open>The nodes of a graph whose path is one of \<open>paths\<close>, and the edges that enter them from elsewhere.\<close>

definition node_paths :: "json \<Rightarrow> (json \<times> json) list" where
  "node_paths graph = rev (map (\<lambda>n. (mget (as_dict n) ''id'', mget (as_dict n) ''path'')) (as_list (mget (as_dict graph) ''nodes'')))"

definition inside :: "json \<Rightarrow> string list \<Rightarrow> json \<Rightarrow> bool" where
  "inside graph paths i \<longleftrightarrow> (case map_of (node_paths graph) i of Some (JStr p) \<Rightarrow> p \<in> set paths | _ \<Rightarrow> False)"

definition inbound_edges :: "json \<Rightarrow> string list \<Rightarrow> json list" where
  "inbound_edges graph paths =
     filter (\<lambda>e. inside graph paths (mget (as_dict e) ''to'') \<and> \<not> inside graph paths (mget (as_dict e) ''from''))
       (as_list (mget (as_dict graph) ''edges''))"

definition without_node :: "json \<Rightarrow> string list \<Rightarrow> string list" where
  "without_node graph paths =
     filter (\<lambda>p. \<not> list_ex (\<lambda>(i, _). map_of (node_paths graph) i = Some (JStr p)) (node_paths graph)) paths"

definition fallback_paths :: "string list \<Rightarrow> string list" where
  "fallback_paths paths = filter (\<lambda>p. classify_file p None \<in> set FALLBACK_KINDS) paths"

text \<open>The loop of B6.4 and B6.5; it ends with the first artefact that is not accepted.  An artefact that the entries do
  not name has no \<^verbatim>\<open>argv\<close>, which raises.\<close>

record derived_run =
  dr_runs :: runs
  dr_arms :: checks
  dr_toolchain :: bool

fun derived_loop :: "structural_git \<Rightarrow> string \<Rightarrow> dict \<Rightarrow> string list \<Rightarrow> exc + derived_run" where
  "derived_loop G head entries [] = Inr \<lparr>dr_runs = [], dr_arms = [], dr_toolchain = False\<rparr>"
| "derived_loop G head entries (p # ps) =
     (let e = declared_entry entries p; rc = run_rc G head entries p;
          before = (if has_setup e then [(p, SetupStage, rc SetupStage)] else [])
      in if has_setup e \<and> rc SetupStage \<noteq> Some 0
         then Inr \<lparr>dr_runs = before, dr_arms = [(''B6.4'', None), (''B6.5'', None)], dr_toolchain = False\<rparr>
         else if \<not> has_key (as_dict (mget e ''verify'')) ''argv'' then Inl (KeyError ''argv'')
         else if rc CleanStage \<noteq> Some 0
         then Inr \<lparr>dr_runs = before @ [(p, CleanStage, rc CleanStage)], dr_arms = [(''B6.4'', Some False), (''B6.5'', None)],
                   dr_toolchain = snd (sg_run G head (mget entries p) p CleanStage)\<rparr>
         else if tg_show (sg_git G) head p = None then Inl OSError
         else let ran = before @ [(p, CleanStage, Some 0), (p, CorruptedStage, rc CorruptedStage)];
                  refused = rc CorruptedStage \<notin> {Some 0, None}
              in if \<not> refused
                 then Inr \<lparr>dr_runs = ran, dr_arms = [(''B6.4'', Some True), (''B6.5'', Some False)], dr_toolchain = False\<rparr>
                 else bindE (derived_loop G head entries ps) (\<lambda>r.
                        Inr \<lparr>dr_runs = ran @ dr_runs r, dr_arms = [(''B6.4'', Some True), (''B6.5'', Some True)] @ dr_arms r,
                             dr_toolchain = dr_toolchain r\<rparr>))"

definition derived_runs_at :: "structural_git \<Rightarrow> string \<Rightarrow> dict \<Rightarrow> string list \<Rightarrow> exc + derived_run" where
  "derived_runs_at G head entries derived =
     (if \<not> sg_worktree G head
      then Inr \<lparr>dr_runs = [], dr_arms = [(''B6.4'', None), (''B6.5'', None)], dr_toolchain = False\<rparr>
      else derived_loop G head entries derived)"

definition arm_declared :: "json option \<Rightarrow> json list \<Rightarrow> changes \<Rightarrow> bool \<Rightarrow> string list \<Rightarrow> bool" where
  "arm_declared decl bad changed self_update derived \<longleftrightarrow>
     decl \<noteq> None
     \<and> (map_of changed DECLARATION_REL = None \<or> map_of changed DECLARATION_REL = Some CHR ''A'' \<and> self_update)
     \<and> bad = [] \<and> list_all (has_key (declared_artefacts decl)) derived"

definition arm_refreshed :: "structural_git \<Rightarrow> string \<Rightarrow> changes \<Rightarrow> string list \<Rightarrow> bool" where
  "arm_refreshed G base changed derived \<longleftrightarrow>
     list_all (\<lambda>p. map_of changed p = Some CHR ''M'' \<and> sg_exists G base p) derived"

definition arm_bounded :: "structural_git \<Rightarrow> string \<Rightarrow> string list \<Rightarrow> bool option" where
  "arm_bounded G head derived =
     (if fallback_paths derived \<noteq> [] then Some False
      else map_option (\<lambda>graph. inbound_edges graph derived = []) (sg_graph G head))"

text \<open>\<open>job\<close> is the verifier job and its conclusion, as the workflow passes them.\<close>

definition job_names :: "structural_git \<Rightarrow> dict \<Rightarrow> string list \<Rightarrow> string list" where
  "job_names G entries derived =
     map (\<lambda>p. let j = mget (declared_entry entries p) ''verified_by_job'' in if truthy j then text_of (sg_env G) j else []) derived"

definition arm_upstream :: "structural_git \<Rightarrow> dict \<Rightarrow> string option \<times> string option \<Rightarrow> string list \<Rightarrow> bool option" where
  "arm_upstream G entries job derived =
     (let concluded = lower (strip (case snd job of None \<Rightarrow> [] | Some c \<Rightarrow> c))
      in case fst job of
           Some (c # j) \<Rightarrow>
             if concluded = [] then None
             else if list_ex (\<lambda>w. w \<noteq> strip (c # j)) (job_names G entries derived) then Some False
             else Some (concluded = ''success'')
         | _ \<Rightarrow> None)"

record derived_result =
  dv_verdict :: "bool option"
  dv_arms :: checks
  dv_runs :: runs
  dv_gap :: "string list"
  dv_toolchain :: bool

definition rolled_up :: "checks \<Rightarrow> bool option" where
  "rolled_up arms =
     (if list_all (\<lambda>(_, v). v = Some True) arms then Some True
      else if list_ex (\<lambda>(_, v). v = Some False) arms then Some False else None)"

definition evaluate_derived ::
    "structural_git \<Rightarrow> string \<Rightarrow> string \<Rightarrow> string list \<Rightarrow> json option \<Rightarrow> json list \<Rightarrow> changes \<Rightarrow> bool
       \<Rightarrow> string option \<times> string option \<Rightarrow> exc + derived_result" where
  "evaluate_derived G base head derived decl bad files self_update job =
     (if derived = [] then Inr \<lparr>dv_verdict = Some True, dv_arms = [], dv_runs = [], dv_gap = [], dv_toolchain = False\<rparr>
      else let changed = changed_of files; entries = declared_artefacts decl
           in bindE (derived_runs_at G head entries derived) (\<lambda>r.
                let arms = [(''B6.1'', Some (arm_declared decl bad changed self_update derived)),
                            (''B6.2'', Some (arm_refreshed G base changed derived)),
                            (''B6.3'', arm_bounded G head derived)]
                           @ dr_arms r @ [(''B6.6'', arm_upstream G entries job derived)]
                in Inr \<lparr>dv_verdict = rolled_up arms, dv_arms = arms, dv_runs = dr_runs r,
                        dv_gap = (if fallback_paths derived \<noteq> [] then []
                                  else case sg_graph G head of None \<Rightarrow> [] | Some graph \<Rightarrow> without_node graph derived),
                        dv_toolchain = dr_toolchain r\<rparr>))"

subsection \<open>A1 to A4: new files only\<close>

record battery =
  bt_checks :: checks
  bt_eligible :: bool
  bt_gap :: "string list"
  bt_derived :: "string list"
  bt_runs :: runs
  bt_toolchain :: bool

definition added_paths :: "changes \<Rightarrow> string list" where
  "added_paths files = sort (map fst (filter (\<lambda>(_, s). s = CHR ''A'') files))"

definition derived_edits :: "changes \<Rightarrow> json option \<Rightarrow> string list" where
  "derived_edits files decl = sort (map fst (filter (\<lambda>(p, s). s \<noteq> CHR ''A'' \<and> has_key (declared_artefacts decl) p) files))"

definition other_edits :: "changes \<Rightarrow> json option \<Rightarrow> changes" where
  "other_edits files decl = filter (\<lambda>(p, s). s \<noteq> CHR ''A'' \<and> \<not> has_key (declared_artefacts decl) p) files"

definition evaluate_no_impact ::
    "structural_git \<Rightarrow> string \<Rightarrow> string \<Rightarrow> changes \<Rightarrow> string option \<times> string option \<Rightarrow> exc + battery" where
  "evaluate_no_impact G base head files job =
     (let decl = fst (declaration_in_force G base head (changed_of files)); added = added_paths files;
          derived = derived_edits files decl; a1 = (other_edits files decl = []); a3 = (fallback_paths added = []);
          a2 = map_option (\<lambda>graph. inbound_edges graph added = []) (sg_graph G head)
      in bindE (evaluate_derived G base head derived decl (unusable_entries decl) files False job) (\<lambda>d.
           let gap = (case sg_graph G head of None \<Rightarrow> dv_gap d | Some graph \<Rightarrow> without_node graph added)
           in Inr \<lparr>bt_checks = [(''A1'', Some a1), (''B6'', dv_verdict d), (''A3'', Some a3), (''A2'', a2)]
                     @ (if sg_graph G head = None then [] else [(''A4'', if gap = [] then Some True else None)]),
                   bt_eligible = (a1 \<and> a2 = Some True \<and> a3 \<and> dv_verdict d = Some True),
                   bt_gap = gap, bt_derived = derived, bt_runs = dv_runs d, bt_toolchain = dv_toolchain d\<rparr>))"

subsection \<open>S1 to S5: an archived receipt\<close>

definition evaluate_spent_receipt_archive :: "structural_git \<Rightarrow> string \<Rightarrow> string \<Rightarrow> changes \<Rightarrow> exc + battery" where
  "evaluate_spent_receipt_archive G base head files =
     (let changed = changed_of files; declared = declared_artefacts (fst (declaration_in_force G base head changed));
          aside = sort (filter (has_key declared) (map fst changed));
          paths = sort (filter (\<lambda>p. \<not> has_key declared p) (map fst changed));
          s2 = same_bytes G base head paths;
          s3 = (\<not> same_receipt_outside_archive G head (archived_path paths) (shown G head (archived_path paths)));
          result = (\<lambda>cs ok. \<lparr>bt_checks = cs, bt_eligible = ok, bt_gap = [], bt_derived = [], bt_runs = [], bt_toolchain = False\<rparr>)
      in if \<not> archive_shape paths then Inr (result [(''S1'', Some False)] False)
         else let checks = [(''S1'', Some True), (''S2'', Some s2), (''S3'', Some s3), (''S4'', None)]
              in if aside = [] then Inr (result checks (s2 \<and> s3))
                 else bindE (verify_declared G head declared aside) (\<lambda>s5.
                        Inr (result (checks @ [(''S5'', s5)]) (s2 \<and> s3 \<and> s5 = Some True))))"

end
