(* ===== verification/AdmitRecheck.thy ===== *)
theory AdmitRecheck
  imports AdmitBattery
begin

section \<open>Structural exemptions: granting and checking again\<close>

text \<open>
  The rest of the measurements (\<^verbatim>\<open>evaluate_declaration_amend\<close>, \<^verbatim>\<open>evaluate_self_update\<close>), and the two ends of a structural
  exemption: \<^verbatim>\<open>structural_exemption\<close> issues it and \<^verbatim>\<open>recheck_structural\<close> (C16) measures it again.
\<close>

subsection \<open>B7: an edit of the declaration\<close>

definition op_name :: "grammar \<Rightarrow> string" where
  "op_name g = (case g of GAdd _ _ \<Rightarrow> ''add'' | GRemove _ _ \<Rightarrow> ''remove'' | GNarrow _ _ _ \<Rightarrow> ''narrow_glob'' | GInvalid \<Rightarrow> ''invalid'')"

definition synthetic_declaration :: "json \<Rightarrow> string list \<Rightarrow> json" where
  "synthetic_declaration entry matched =
     JObj [(''schema'', JStr DECLARATION_SCHEMA),
           (''artefacts'', JArr (map (\<lambda>p. JObj (filter (\<lambda>(k, _). k \<noteq> ''path'') (as_dict entry) @ [(''path'', JStr p)])) matched))]"

definition b7_dry_run ::
    "structural_git \<Rightarrow> string \<Rightarrow> json \<Rightarrow> string \<Rightarrow> string \<Rightarrow> string option \<times> string option \<Rightarrow> exc + checks" where
  "b7_dry_run G pattern entry cbase chead job =
     (let cfiles = sg_files G cbase chead; matched = b7_match_candidate pattern (map fst cfiles)
      in if matched = [] then Inr [(''B7.DRYRUN'', None)]
         else bindE (evaluate_derived G cbase chead matched (Some (synthetic_declaration entry matched)) [] cfiles False job)
                (\<lambda>d. Inr (filter (\<lambda>(i, _). i \<noteq> ''B6.1'') (dv_arms d))))"

definition dry_run_verdict :: "checks \<Rightarrow> bool option" where
  "dry_run_verdict cs =
     (if list_ex (\<lambda>(_, v). v = Some False) cs then Some False
      else if cs \<noteq> [] \<and> list_all (\<lambda>(_, v). v = Some True) cs then Some True else None)"

text \<open>\<^verbatim>\<open>candidate_range.split("..", 1)\<close>\<close>

fun split_range :: "string \<Rightarrow> string \<Rightarrow> (string \<times> string) option" where
  "split_range acc (c # d # s) =
     (if c = CHR ''.'' \<and> d = CHR ''.'' then Some (rev acc, s) else split_range (c # acc) (d # s))"
| "split_range acc _ = None"

record amend_claim =
  am_range :: "string option"
  am_authority :: json
  am_opinion :: json

text \<open>
  The row of B7.4.  \<open>sg_rev\<close> is \<^verbatim>\<open>git rev-parse\<close>, stripped; there is no row at all when it prints nothing for one end of
  the range.
\<close>

definition replay_rows ::
    "structural_git \<Rightarrow> string \<Rightarrow> json \<Rightarrow> string option \<Rightarrow> string option \<times> string option \<Rightarrow> exc + checks" where
  "replay_rows G pattern entry r job =
     (case (case r of None \<Rightarrow> None | Some s \<Rightarrow> split_range [] s) of
        None \<Rightarrow> Inr [(''B7.4'', None)]
      | Some (cb, ch) \<Rightarrow>
          (case (sg_rev G cb, sg_rev G ch) of
             (Some b, Some h) \<Rightarrow>
               if b = [] \<or> h = [] then Inr []
               else bindE (b7_dry_run G pattern entry b h job) (\<lambda>cs. Inr [(''B7.4'', dry_run_verdict cs)])
           | _ \<Rightarrow> Inr [(''B7.4'', None)]))"

definition dry_run_rows ::
    "structural_git \<Rightarrow> grammar \<Rightarrow> string option \<Rightarrow> string option \<times> string option \<Rightarrow> exc + checks" where
  "dry_run_rows G g r job =
     (case g of
        GAdd p e \<Rightarrow> replay_rows G p e r job
      | GNarrow p _ e \<Rightarrow> replay_rows G p e r job
      | _ \<Rightarrow> Inr [(''B7.4'', Some True)])"

definition second_authority :: "amend_claim \<Rightarrow> string \<Rightarrow> string \<Rightarrow> string \<Rightarrow> grammar \<Rightarrow> bool option" where
  "second_authority claim digest base head g =
     (let so = as_dict (am_opinion claim); other = mget so ''authority_id''
      in if \<not> truthy (am_opinion claim) then None
         else Some (truthy (am_authority claim) \<and> truthy other \<and> am_authority claim \<noteq> other
              \<and> mget so ''change_digest'' = JStr digest \<and> mget so ''base'' = JStr base \<and> mget so ''head'' = JStr head
              \<and> (case am_range claim of Some (c # r) \<Rightarrow> mget so ''candidate_range'' = JStr (c # r) | _ \<Rightarrow> True)
              \<and> mget so ''verdict'' = JStr ''verified'' \<and> mget (as_dict (mget so ''grammar'')) ''op'' = JStr (op_name g)))"

definition in_scope :: "structural_git \<Rightarrow> string \<Rightarrow> grammar \<Rightarrow> bool" where
  "in_scope G head g =
     (let free = (\<lambda>p. \<not> b7_covers_source_root (b7_source_roots (sg_listing G head [])) p)
      in case g of GAdd p _ \<Rightarrow> free p | GNarrow p _ _ \<Rightarrow> free p | _ \<Rightarrow> True)"

text \<open>The declaration on both sides; at the base it may be missing, on neither side may it be unreadable.\<close>

definition declarations :: "structural_git \<Rightarrow> string \<Rightarrow> string \<Rightarrow> (json \<times> json) option" where
  "declarations G base head =
     (let old = shown G base DECLARATION_REL
      in case ((if strip old = [] then Some (JObj [(''schema'', JStr DECLARATION_SCHEMA), (''artefacts'', JArr [])])
                else tg_loads (sg_git G) old), tg_loads (sg_git G) (shown G head DECLARATION_REL)) of
           (Some o', Some n') \<Rightarrow> Some (o', n') | _ \<Rightarrow> None)"

definition plain_battery :: "checks \<Rightarrow> bool \<Rightarrow> battery" where
  "plain_battery cs ok = \<lparr>bt_checks = cs, bt_eligible = ok, bt_gap = [], bt_derived = [], bt_runs = [], bt_toolchain = False\<rparr>"

definition change_digest :: "structural_git \<Rightarrow> string \<Rightarrow> string \<Rightarrow> string" where
  "change_digest G base head = diff_digest (sg_env G) (sg_raw G base head)"

definition evaluate_declaration_amend ::
    "structural_git \<Rightarrow> string \<Rightarrow> string \<Rightarrow> changes \<Rightarrow> amend_claim \<Rightarrow> string option \<times> string option \<Rightarrow> exc + battery" where
  "evaluate_declaration_amend G base head files claim job =
     (if changed_of files \<noteq> [(DECLARATION_REL, CHR ''M'')] then Inr (plain_battery [(''B7.1'', Some False)] False)
      else case declarations G base head of
        None \<Rightarrow> Inr (plain_battery [(''B7.1'', Some True), (''B7.2'', Some False)] False)
      | Some (old, new) \<Rightarrow>
          let g = b7_classify_grammar (mget (as_dict old) ''artefacts'') (mget (as_dict new) ''artefacts'')
          in if mget (as_dict new) ''schema'' \<noteq> JStr DECLARATION_SCHEMA \<or> g = GInvalid
             then Inr (plain_battery [(''B7.1'', Some True), (''B7.2'', Some False)] False)
             else if \<not> in_scope G head g
             then Inr (plain_battery [(''B7.1'', Some True), (''B7.2'', Some True), (''B7.3'', Some False)] False)
             else bindE (dry_run_rows G g (am_range claim) job) (\<lambda>dry.
                    let checks = [(''B7.1'', Some True), (''B7.2'', Some True), (''B7.3'', Some True)] @ dry
                                 @ [(''B7.5'', second_authority claim (change_digest G base head) base head g)]
                    in Inr (plain_battery checks (list_all (\<lambda>(_, v). v = Some True) checks))))"

subsection \<open>B1 to B8: an update of the gate\<close>

definition signature_pairs :: "gate_bundle \<Rightarrow> (string \<times> string) list" where
  "signature_pairs b =
     (SIG_NAME, PUBKEY_NAME)
     # filter (\<lambda>(s, k). bn_has b s \<or> bn_has b k) (map (\<lambda>n. (extra_sig n, extra_key n)) [2 ..< 5])"

definition key_continuity :: "structural_git \<Rightarrow> gate_bundle \<Rightarrow> gate_bundle option \<Rightarrow> bool option" where
  "key_continuity G base_bundle head_bundle =
     (let keys = filter (bn_has base_bundle) (map snd (signature_pairs base_bundle))
      in case head_bundle of
           None \<Rightarrow> None
         | Some hb \<Rightarrow>
             let sigs = filter (bn_has hb) (map fst (signature_pairs hb))
             in if keys = [] \<or> \<not> bn_has hb MANIFEST_NAME \<or> sigs = [] then None
                else Some (list_ex (\<lambda>s. list_ex (sg_verify G s) keys) sigs))"

definition arm_key :: "structural_git \<Rightarrow> string \<Rightarrow> string \<Rightarrow> bool option" where
  "arm_key G base head =
     (case sg_bundle G base of
        None \<Rightarrow> None
      | Some b \<Rightarrow> if \<not> bn_has b ''tools/graph/sshsig.py'' then None else key_continuity G b (sg_bundle G head))"

definition arm_selftest :: "gate_bundle option \<Rightarrow> bool option" where
  "arm_selftest hb =
     (case hb of
        None \<Rightarrow> None
      | Some b \<Rightarrow>
          (case bn_selftest b of
             (Some rc, pass, _) \<Rightarrow> if rc \<noteq> 0 then Some False else pass
           | (None, _, _) \<Rightarrow> None))"

text \<open>The ids of the checks in the policy of a bundle: unreadable unless each check has one.\<close>

definition policy_check_ids :: "gate_bundle option \<Rightarrow> json list option" where
  "policy_check_ids b =
     (case b of
        None \<Rightarrow> None
      | Some g \<Rightarrow>
          (case bn_policy g of
             Some (JObj p) \<Rightarrow>
               if is_list (mget p ''checks'') \<and> list_all (\<lambda>c. is_dict c \<and> has_key (as_dict c) ''id'') (as_list (mget p ''checks''))
               then Some (map (\<lambda>c. mget (as_dict c) ''id'') (as_list (mget p ''checks''))) else None
           | _ \<Rightarrow> None))"

definition arm_monotonic :: "gate_bundle option \<Rightarrow> gate_bundle option \<Rightarrow> bool option" where
  "arm_monotonic bb hb =
     (case hb of
        None \<Rightarrow> None
      | Some h \<Rightarrow>
          (case (policy_check_ids bb, policy_check_ids hb) of
             (Some ids_b, Some ids_h) \<Rightarrow>
               let arms_h = snd (snd (bn_selftest h)); arms_b = (case bb of None \<Rightarrow> None | Some b \<Rightarrow> snd (snd (bn_selftest b)));
                   shrank = (case (arms_b, arms_h) of (Some x, Some y) \<Rightarrow> y < x | _ \<Rightarrow> False)
               in if \<not> set ids_b \<subseteq> set ids_h \<or> shrank then Some False
                  else if arms_b = None \<or> arms_h = None then None else Some True
           | _ \<Rightarrow> None))"

definition workflow_entries :: "dict \<Rightarrow> dict list" where
  "workflow_entries man =
     map as_dict (filter (\<lambda>f. is_dict f \<and> mget (as_dict f) ''verified_by_the_job'' = JBool False \<and> truthy (mget (as_dict f) ''path''))
       (as_list (mget man ''files'')))"

definition workflow_intact :: "structural_git \<Rightarrow> string \<Rightarrow> dict \<Rightarrow> bool" where
  "workflow_intact G head f \<longleftrightarrow>
     (let path = str_of (mget f ''path'')
      in case tg_show (sg_git G) head path of
           None \<Rightarrow> False
         | Some raw \<Rightarrow>
             mget f ''sha256'' = JStr (tg_sha (sg_git G) raw)
             \<and> (\<not> truthy (mget f ''blob_oid'') \<or> blob_at (sg_merge G) head path = None
                \<or> (case blob_at (sg_merge G) head path of None \<Rightarrow> False | Some b \<Rightarrow> mget f ''blob_oid'' = JStr b)))"

definition arm_workflow :: "structural_git \<Rightarrow> string \<Rightarrow> dict option \<Rightarrow> bool option" where
  "arm_workflow G head man = map_option (\<lambda>m. list_all (workflow_intact G head) (workflow_entries m)) man"

definition arm_merge :: "split_verdict \<Rightarrow> bool option" where
  "arm_merge v = (case v of SplitVerified \<Rightarrow> Some True | Vacuous \<Rightarrow> Some True | SplitNotMeasured \<Rightarrow> None | SplitFailed \<Rightarrow> Some False)"

definition self_update_split ::
    "structural_git \<Rightarrow> string \<Rightarrow> string \<Rightarrow> changes \<Rightarrow> string \<Rightarrow> string option \<Rightarrow> outside_split" where
  "self_update_split G base head changed bundle_rel base_branch =
     (case declaration_in_force G base head changed of
        (decl, boot) \<Rightarrow>
          let managed = fst (bundle_paths_at G base bundle_rel) @ fst (bundle_paths_at G head bundle_rel)
          in split_all_outside G base head changed managed (outside_of changed managed boot)
               (program_ref (snd (bundle_paths_at G head bundle_rel))) (keys_of (declared_artefacts decl)) base_branch)"

definition evaluate_self_update ::
    "structural_git \<Rightarrow> string \<Rightarrow> string \<Rightarrow> changes \<Rightarrow> string \<Rightarrow> string option \<Rightarrow> string option \<times> string option \<Rightarrow> exc + battery" where
  "evaluate_self_update G base head files bundle_rel base_branch job =
     (let changed = changed_of files; decl = fst (declaration_in_force G base head changed);
          s = self_update_split G base head changed bundle_rel base_branch;
          b1 = (os_rest s = []); b1m = arm_merge (os_merge_verdict s); b2 = arm_key G base head;
          b3 = arm_selftest (sg_bundle G head); b4 = arm_monotonic (sg_bundle G base) (sg_bundle G head);
          b8 = arm_workflow G head (snd (bundle_paths_at G head bundle_rel))
      in bindE (evaluate_derived G base head (os_derived s) decl (unusable_entries decl) files True job) (\<lambda>d.
           Inr \<lparr>bt_checks = [(''B1'', Some b1), (''B1M'', b1m), (''B6'', dv_verdict d), (''B2'', b2), (''B3'', b3), (''B4'', b4),
                             (''B5'', None), (''B8'', b8)],
                bt_eligible = (b1 \<and> b1m = Some True \<and> b2 = Some True \<and> b3 = Some True \<and> b4 = Some True
                               \<and> dv_verdict d = Some True \<and> b8 = Some True),
                bt_gap = dv_gap d, bt_derived = os_derived s, bt_runs = dv_runs d, bt_toolchain = dv_toolchain d\<rparr>))"

definition evaluate_structural ::
    "structural_git \<Rightarrow> string \<Rightarrow> string \<Rightarrow> changes \<Rightarrow> change_case \<Rightarrow> string \<Rightarrow> string option \<Rightarrow> amend_claim
       \<Rightarrow> string option \<times> string option \<Rightarrow> exc + battery" where
  "evaluate_structural G base head files c bundle_rel base_branch claim job =
     (case c of
        NoImpact \<Rightarrow> evaluate_no_impact G base head files job
      | ReceiptArchive \<Rightarrow> evaluate_spent_receipt_archive G base head files
      | DeclarationAmend \<Rightarrow> evaluate_declaration_amend G base head files claim job
      | SelfUpdate \<Rightarrow> evaluate_self_update G base head files bundle_rel base_branch job)"

subsection \<open>What an exemption may name\<close>

definition code_of :: "change_case \<Rightarrow> string" where
  "code_of c =
     (case c of NoImpact \<Rightarrow> ''NO_IMPACT_BY_CONSTRUCTION'' | SelfUpdate \<Rightarrow> ''GATE_SELF_UPDATE''
      | DeclarationAmend \<Rightarrow> ''GATE_DECLARATION_AMEND'' | ReceiptArchive \<Rightarrow> ''SPENT_RECEIPT_ARCHIVE'')"

definition prefix_of :: "change_case \<Rightarrow> string" where
  "prefix_of c =
     (case c of NoImpact \<Rightarrow> ''impact_computability'' | SelfUpdate \<Rightarrow> ''gate_self_update''
      | DeclarationAmend \<Rightarrow> ''gate_declaration_amend'' | ReceiptArchive \<Rightarrow> ''spent_receipt_archive'')"

definition synthesized :: "change_case \<Rightarrow> string \<Rightarrow> string \<Rightarrow> json" where
  "synthesized c repo_name head = JStr (prefix_of c @ '':'' @ repo_name @ ''@'' @ take 12 head)"

definition MATRIX_REL :: string where
  "MATRIX_REL = ''contracts/graph-verified-change/verifier-matrix.v1.json''"

definition types_without_verifier :: "json \<Rightarrow> string list" where
  "types_without_verifier matrix =
     map fst (filter (\<lambda>(_, spec). is_dict spec \<and> \<not> truthy (mget (as_dict spec) ''mandatory''))
       (as_dict (mget (as_dict matrix) ''node_types'')))"

definition matrix_declared_unverifiable :: "structural_git \<Rightarrow> string \<Rightarrow> string \<Rightarrow> string list" where
  "matrix_declared_unverifiable G ref bundle_rel =
     (case filter (\<lambda>raw. strip raw \<noteq> []) (map (shown G ref) [bundle_rel @ ''/'' @ MATRIX_REL, MATRIX_REL]) of
        [] \<Rightarrow> []
      | raw # _ \<Rightarrow> (case tg_loads (sg_git G) raw of None \<Rightarrow> [] | Some m \<Rightarrow> types_without_verifier m))"

definition may_name :: "change_case \<Rightarrow> string list \<Rightarrow> string list \<Rightarrow> string list \<Rightarrow> json \<Rightarrow> bool" where
  "may_name c managed unverifiable pins eid =
     (let s = str_of eid; path = snd (partition_char CHR '':'' s); node_type = fst (partition_char CHR '':'' s)
      in case c of
           SelfUpdate \<Rightarrow> path \<noteq> [] \<and> (path \<in> set managed \<or> path \<in> set pins) \<or> node_type \<in> set unverifiable
         | ReceiptArchive \<Rightarrow> node_type \<in> set unverifiable
         | _ \<Rightarrow> False)"

definition structural_covered_entities ::
    "change_case \<Rightarrow> json \<Rightarrow> json list \<Rightarrow> string list \<Rightarrow> string list \<Rightarrow> string list \<Rightarrow> json list" where
  "structural_covered_entities c synth entities managed unverifiable pins =
     synth # filter (may_name c managed unverifiable pins) entities"

definition covered_by ::
    "structural_git \<Rightarrow> string \<Rightarrow> string \<Rightarrow> change_case \<Rightarrow> json \<Rightarrow> json list \<Rightarrow> string \<Rightarrow> string list \<Rightarrow> json list" where
  "covered_by G base head c synth entities bundle_rel pins =
     structural_covered_entities c synth entities
       (fst (bundle_paths_at G head bundle_rel) @ fst (bundle_paths_at G base bundle_rel))
       (matrix_declared_unverifiable G base bundle_rel) pins"

subsection \<open>Issuing\<close>

definition claim_doc :: "amend_claim \<Rightarrow> json" where
  "claim_doc claim =
     JObj [(''candidate_range'', opt_json (am_range claim)), (''authority_id'', am_authority claim),
           (''second_opinion'', am_opinion claim)]"

definition claim_of :: "json \<Rightarrow> amend_claim" where
  "claim_of b7 =
     \<lparr>am_range = (case mget (as_dict b7) ''candidate_range'' of JStr s \<Rightarrow> Some s | _ \<Rightarrow> None),
      am_authority = mget (as_dict b7) ''authority_id'', am_opinion = mget (as_dict b7) ''second_opinion''\<rparr>"

definition case_name :: "change_case \<Rightarrow> string" where
  "case_name c =
     (case c of NoImpact \<Rightarrow> ''no_impact_by_construction'' | SelfUpdate \<Rightarrow> ''gate_self_update''
      | DeclarationAmend \<Rightarrow> ''declaration_amend'' | ReceiptArchive \<Rightarrow> ''spent_receipt_archive'')"

definition evidence_doc :: "change_case \<Rightarrow> amend_claim \<Rightarrow> json" where
  "evidence_doc c claim =
     JObj ((''case'', JStr (case_name c)) # (if c = DeclarationAmend then [(''b7'', claim_doc claim)] else []))"

definition binding_doc :: "string \<Rightarrow> string \<Rightarrow> string \<Rightarrow> json" where
  "binding_doc base head digest = JObj [(''base'', JStr base), (''head'', JStr head), (''digest'', JStr digest)]"

definition exemption_doc :: "change_case \<Rightarrow> string \<Rightarrow> string \<Rightarrow> json \<Rightarrow> dict \<Rightarrow> json \<Rightarrow> json" where
  "exemption_doc c holder till binding evidence entity =
     JObj ([(''entity'', entity), (''code'', JStr (code_of c)), (''owner'', JStr holder), (''expires_at_utc'', JStr till),
            (''change_binding'', binding)] @ evidence)"

text \<open>The evidence is measured once and kept in the first exemption only.\<close>

definition issued ::
    "change_case \<Rightarrow> string \<Rightarrow> string \<Rightarrow> json \<Rightarrow> json \<Rightarrow> json list \<Rightarrow> json list" where
  "issued c holder till binding evidence entities =
     (case entities of
        [] \<Rightarrow> []
      | e # es \<Rightarrow> exemption_doc c holder till binding [(''evidence'', evidence)] e
                  # map (exemption_doc c holder till binding []) es)"

definition structural_exemption ::
    "structural_git \<Rightarrow> string \<Rightarrow> string \<Rightarrow> changes \<Rightarrow> string \<Rightarrow> string option \<Rightarrow> string \<Rightarrow> json list \<Rightarrow> amend_claim
       \<Rightarrow> string option \<times> string option \<Rightarrow> string \<Rightarrow> string \<Rightarrow> exc + json list" where
  "structural_exemption G base head files bundle_rel base_branch repo_name entities claim job holder till =
     (case structural_case G base head files bundle_rel base_branch of
        (None, _) \<Rightarrow> Inr []
      | (Some c, ev) \<Rightarrow>
          bindE (evaluate_structural G base head files c bundle_rel base_branch claim job) (\<lambda>b.
            if \<not> bt_eligible b then Inr []
            else Inr (issued c holder till (binding_doc base head (change_digest G base head)) (evidence_doc c claim)
                   (sort_key str_of (remdups (covered_by G base head c (synthesized c repo_name head) entities bundle_rel (ce_pins ev)))))))"

subsection \<open>Checking again\<close>

datatype recheck_problem =
    SeveralCodes
  | RangeInvariant
  | NotBound
  | OtherCase "change_case option"
  | EntitiesOutside
  | SynthesizedMissing
  | RecordUnproved
  | BatteryFailed

text \<open>The receipt's own head, when the only paths between it and this head are the receipt itself and declared artefacts
  that may be records; with those artefacts.\<close>

definition record_range ::
    "structural_git \<Rightarrow> string \<Rightarrow> string \<Rightarrow> string option \<Rightarrow> string option \<Rightarrow> (string \<times> string list) option" where
  "record_range G base head filed rhead =
     (case (filed, rhead) of
        (Some f, Some h) \<Rightarrow>
          if h = [] \<or> h = head \<or> h \<notin> set (sg_commits G base head) then None
          else let moved = tg_names (sg_git G) h head;
                   extra = sort (remdups (filter (\<lambda>p. p \<noteq> f) moved));
                   entries = declared_artefacts (read_declaration (sg_git G) base)
               in if f \<in> set moved \<and> list_all (\<lambda>p. record_path_refusal (sg_git G) base head p entries True = None) extra
                  then Some (h, extra) else None
      | _ \<Rightarrow> None)"

definition derived_run_verdict :: "battery \<Rightarrow> string \<Rightarrow> bool" where
  "derived_run_verdict b p \<longleftrightarrow>
     (let clean = filter (\<lambda>(q, s, _). q = p \<and> s = CleanStage) (bt_runs b);
          corrupted = filter (\<lambda>(q, s, _). q = p \<and> s = CorruptedStage) (bt_runs b)
      in p \<in> set (bt_derived b)
         \<and> clean \<noteq> [] \<and> list_all (\<lambda>(_, _, rc). rc = Some 0) clean
         \<and> corrupted \<noteq> [] \<and> list_all (\<lambda>(_, _, rc). rc \<notin> {Some 0, None}) corrupted)"

definition binding_of :: "json \<Rightarrow> json \<times> json \<times> json" where
  "binding_of x =
     (let cb = as_dict (mget (as_dict x) ''change_binding'') in (mget cb ''digest'', mget cb ''base'', mget cb ''head''))"

definition binding_triple :: "string \<times> string \<times> string \<Rightarrow> json \<times> json \<times> json" where
  "binding_triple t = (case t of (d, b, h) \<Rightarrow> (JStr d, JStr b, JStr h))"

text \<open>What follows when case, code and binding agree: the entities, the battery, and the artefacts of the record commit.\<close>

definition recheck_battery ::
    "structural_git \<Rightarrow> string \<Rightarrow> string \<Rightarrow> changes \<Rightarrow> json list \<Rightarrow> string \<Rightarrow> json list \<Rightarrow> string \<Rightarrow> string option
       \<Rightarrow> string option \<times> string option \<Rightarrow> change_case \<Rightarrow> case_evidence \<Rightarrow> (string \<times> string list) option
       \<Rightarrow> exc + recheck_problem list \<times> battery" where
  "recheck_battery G base head files xs repo_name entities bundle_rel base_branch job c ev recd =
     (let synth = synthesized c repo_name head;
          synths = synth # (case recd of None \<Rightarrow> [] | Some (h, _) \<Rightarrow> [synthesized c repo_name h]);
          allowed = covered_by G base head c synth entities bundle_rel (ce_pins ev) @ synths;
          named = map (\<lambda>x. mget (as_dict x) ''entity'') xs;
          claim = claim_of (case xs of [] \<Rightarrow> JNull | x # _ \<Rightarrow> mget (as_dict (mget (as_dict x) ''evidence'')) ''b7'')
      in bindE (evaluate_structural G base head files c bundle_rel base_branch claim job) (\<lambda>b.
           Inr ((if set named \<subseteq> set allowed then [] else [EntitiesOutside])
                @ (if list_ex (\<lambda>e. e \<in> set synths) named then [] else [SynthesizedMissing])
                @ (case recd of
                     None \<Rightarrow> []
                   | Some (h, extra) \<Rightarrow>
                       if list_ex (\<lambda>p. \<not> derived_run_verdict b p) extra \<and> list_ex (\<lambda>x. snd (snd (binding_of x)) = JStr h) xs
                       then [RecordUnproved] else [])
                @ (if bt_eligible b then [] else [BatteryFailed]), b)))"

definition recheck_structural ::
    "structural_git \<Rightarrow> string \<Rightarrow> string \<Rightarrow> changes \<Rightarrow> json list \<Rightarrow> string \<Rightarrow> json list \<Rightarrow> string \<Rightarrow> string option
       \<Rightarrow> string option \<times> string option \<Rightarrow> string option \<Rightarrow> exc + recheck_problem list \<times> battery option" where
  "recheck_structural G base head files xs repo_name entities bundle_rel base_branch job rhead =
     (let codes = remdups (map (\<lambda>x. mget (as_dict x) ''code'') xs)
      in if length codes > 1 then Inr ([SeveralCodes], None)
         else case structural_case G base head files bundle_rel base_branch of
           (c, ev) \<Rightarrow>
             let recd = record_range G base head (if c = Some SelfUpdate then ce_filed ev else None) rhead;
                 admissible = (change_digest G base head, base, head)
                   # (case recd of None \<Rightarrow> [] | Some (h, _) \<Rightarrow> [(change_digest G base h, base, h)])
             in if \<not> admissible_ranges_ok admissible head (map_option fst recd) then Inr ([RangeInvariant], None)
                else if list_ex (\<lambda>x. binding_of x \<notin> binding_triple ` set admissible) xs then Inr ([NotBound], None)
                else if map (\<lambda>k. JStr (code_of k)) (case c of None \<Rightarrow> [] | Some k \<Rightarrow> [k]) \<noteq> codes then Inr ([OtherCase c], None)
                else case c of
                  None \<Rightarrow> Inr ([OtherCase c], None)
                | Some k \<Rightarrow>
                    bindE (recheck_battery G base head files xs repo_name entities bundle_rel base_branch job k ev recd)
                      (\<lambda>(ps, b). Inr (ps, Some b)))"

end
