(* ===== verification/AdmitRecheckProps.thy ===== *)
theory AdmitRecheckProps
  imports AdmitRecheck
begin

section \<open>What a structural exemption rests on\<close>

text \<open>Soundness of the measurements, of the second check, and the round trip from issuing to checking.\<close>

subsection \<open>Corrupting one byte\<close>

lemma other_char_differs: "other_char c \<noteq> c"
proof (cases "is_digit c")
  case False
  have "lower_char (upper_char CHR ''b'') = CHR ''b''" "lower_char CHR ''b'' = CHR ''b''"
      "lower_char (upper_char CHR ''a'') = CHR ''a''" "lower_char CHR ''a'' = CHR ''a''" by code_simp+
  then have "lower_char (other_char c) \<noteq> lower_char c" using False by (auto simp: other_char_def Let_def)
  then show ?thesis by auto
qed (auto simp: other_char_def)

lemma flip_first_differs: "flip_first s = Some t \<Longrightarrow> t \<noteq> s \<and> length t = length s"
  by (induction s arbitrary: t) (auto simp: other_char_differs split: if_splits)

lemma corrupt_differs: "corrupt_one_byte data \<noteq> data"
proof (cases "flip_first (drop (length data div 2) data)")
  case (Some t)
  then have "t \<noteq> drop (length data div 2) data" using flip_first_differs by blast
  then have "take (length data div 2) data @ t \<noteq> take (length data div 2) data @ drop (length data div 2) data"
    by (simp only: append_eq_append_conv same_append_eq simp_thms)
  then show ?thesis using Some by (simp add: corrupt_one_byte_def)
qed (simp add: corrupt_one_byte_def)

subsection \<open>Derived artefacts\<close>

text \<open>The declared verifier of an artefact accepts the honest head and refuses the artefact with one byte corrupted.\<close>

definition binds_bytes :: "structural_git \<Rightarrow> string \<Rightarrow> dict \<Rightarrow> string \<Rightarrow> bool" where
  "binds_bytes G head entries p \<longleftrightarrow>
     run_rc G head entries p CleanStage = Some 0 \<and> run_rc G head entries p CorruptedStage \<notin> {Some 0, None}"

definition measured_artefact :: "structural_git \<Rightarrow> string \<Rightarrow> string \<Rightarrow> json option \<Rightarrow> changes \<Rightarrow> string \<Rightarrow> bool" where
  "measured_artefact G base head decl files p \<longleftrightarrow>
     has_key (declared_artefacts decl) p \<and> map_of (changed_of files) p = Some CHR ''M'' \<and> sg_exists G base p
     \<and> binds_bytes G head (declared_artefacts decl) p"

abbreviation all_verified :: "checks \<Rightarrow> bool" where
  "all_verified cs \<equiv> list_all (\<lambda>(_, v). v = Some True) cs"

lemma rolled_up_True: "rolled_up cs = Some True \<longleftrightarrow> all_verified cs"
  by (simp add: rolled_up_def)

lemma loop_binds:
  "derived_loop G head entries derived = Inr r \<Longrightarrow> all_verified (dr_arms r) \<Longrightarrow> p \<in> set derived \<Longrightarrow> binds_bytes G head entries p"
proof (induction derived arbitrary: r)
  case (Cons q qs)
  show ?case
  proof (cases "p = q")
    case True
    then show ?thesis using Cons.prems by (auto simp: Let_def binds_bytes_def split: if_splits)
  next
    case False
    then show ?thesis using Cons by (auto simp: Let_def split: if_splits)
  qed
qed simp

lemma verify_each_binds: "verify_each G head entries ps = Inr (Some True) \<Longrightarrow> p \<in> set ps \<Longrightarrow> binds_bytes G head entries p"
  by (induction ps) (auto simp: Let_def binds_bytes_def split: if_splits)

lemma derived_sound:
  assumes "evaluate_derived G base head derived decl bad files self_update job = Inr d" "dv_verdict d = Some True"
  shows "list_all (measured_artefact G base head decl files) derived
    \<and> (derived \<noteq> [] \<longrightarrow> (\<exists>graph. sg_graph G head = Some graph \<and> inbound_edges graph derived = []) \<and> fallback_paths derived = [])"
proof (cases "derived = []")
  case False
  then obtain r where r: "derived_runs_at G head (declared_artefacts decl) derived = Inr r" "all_verified (dr_arms r)"
      and arms: "arm_declared decl bad (changed_of files) self_update derived" "arm_refreshed G base (changed_of files) derived"
        "arm_bounded G head derived = Some True"
    using assms by (auto simp: evaluate_derived_def Let_def rolled_up_True)
  have "binds_bytes G head (declared_artefacts decl) p" if "p \<in> set derived" for p
    using r loop_binds that by (auto simp: derived_runs_at_def split: if_splits)
  then show ?thesis
    using arms by (auto simp: measured_artefact_def arm_declared_def arm_refreshed_def arm_bounded_def list_all_iff split: if_splits)
qed simp

subsection \<open>New files only\<close>

text \<open>
  C39: A change that the gate exempts as having no impact by construction consists of new files and of artefacts declared
  at the base that existed there and whose own verifier accepts the head and refuses one corrupted byte; no new
  path is a lockfile or a global configuration; and in the graph built at the head no edge enters a new path, or such
  an artefact, from anywhere else.
\<close>

theorem no_impact_sound:
  assumes "evaluate_no_impact G base head files job = Inr b" and "bt_eligible b"
  shows "let decl = fst (declaration_in_force G base head (changed_of files)) in
      list_all (\<lambda>(p, s). s = CHR ''A'' \<or> measured_artefact G base head decl files p) files
      \<and> fallback_paths (added_paths files) = []
      \<and> (\<exists>graph. sg_graph G head = Some graph \<and> inbound_edges graph (added_paths files) = []
           \<and> (derived_edits files decl = [] \<or> inbound_edges graph (derived_edits files decl) = []))"
proof -
  let ?decl = "fst (declaration_in_force G base head (changed_of files))"
  obtain d where d: "evaluate_derived G base head (derived_edits files ?decl) ?decl (unusable_entries ?decl) files False job = Inr d"
      and ok: "dv_verdict d = Some True" "other_edits files ?decl = []" "fallback_paths (added_paths files) = []"
      and g: "map_option (\<lambda>graph. inbound_edges graph (added_paths files) = []) (sg_graph G head) = Some True"
    using assms by (auto simp: evaluate_no_impact_def Let_def)
  note sound = derived_sound [OF d ok(1)]
  have "measured_artefact G base head ?decl files p" if "(p, s) \<in> set files" "s \<noteq> CHR ''A''" for p s
  proof -
    have "has_key (declared_artefacts ?decl) p" using ok(2) that by (auto simp: other_edits_def filter_empty_conv)
    then have "p \<in> set (derived_edits files ?decl)" using that by (force simp: derived_edits_def)
    then show ?thesis using sound by (simp add: list_all_iff)
  qed
  then show ?thesis using g sound ok(3) by (auto simp: Let_def list_all_iff)
qed

subsection \<open>An update of the gate\<close>

lemma canary_records_new:
  assumes "p \<in> set (canary_records G base head changed outside receipt)" shows "new_regular G base head changed outside p"
proof -
  have step: "set (canary_closure G base head changed outside v acc) \<subseteq> set acc \<union> {q. new_regular G base head changed outside q}" for v acc
    by (auto simp: canary_closure_def Let_def list_all_iff split: option.splits prod.splits if_splits)
  have "set (fold (\<lambda>v. canary_closure G base head changed outside (as_dict v)) vs acc)
      \<subseteq> set acc \<union> {q. new_regular G base head changed outside q}" for vs acc
  proof (induction vs arbitrary: acc)
    case (Cons v vs)
    then show ?case using step [of "as_dict v" acc] by fastforce
  qed simp
  then show ?thesis using assms by (fastforce simp: canary_records_def split: if_splits)
qed

text \<open>How a changed path outside the bundle is accounted for.\<close>

definition own_receipt :: "structural_git \<Rightarrow> string \<Rightarrow> string \<Rightarrow> changes \<Rightarrow> string \<Rightarrow> bool" where
  "own_receipt G base head changed p \<longleftrightarrow> receipt_issue p \<and> self_update_receipt_ok G base head changed p"

definition from_base_branch :: "merge_git \<Rightarrow> string \<Rightarrow> string \<Rightarrow> string \<Rightarrow> bool" where
  "from_base_branch M base head p \<longleftrightarrow> (\<exists>anchor. mq_ancestor M base anchor \<and> anchor \<noteq> base \<and> blob_at M head p = blob_at M anchor p)"

lemma merge_admits:
  assumes "split_base_branch_merge M base head outside managed bb = (admitted, others, ev)" "p \<in> set outside"
  shows "p \<in> set others \<or> from_base_branch M base head p"
proof -
  note parts = split_parts [where G = M and base = base and head = head and outside = outside and managed = managed and base_branch = bb, unfolded assms(1) prod.case]
  show ?thesis
  proof (cases "p \<in> set admitted")
    case True
    then obtain ref anchor where "resolve_base_branch M bb = Some ref" "se_anchor ev = Some anchor"
      using parts by (auto split: option.splits if_splits)
    then show ?thesis using parts True by (auto simp: from_base_branch_def list_all_iff split: if_splits)
  next
    case False
    then have "p \<in> set (filter (\<lambda>p. p \<notin> set admitted) outside)" using assms(2) by simp
    then show ?thesis using parts by metis
  qed
qed

lemma split_receipt_covers:
  assumes "split_self_update_receipt G base head outside changed = (filed, others)" "p \<in> set outside"
  shows "p \<in> set others \<or> own_receipt G base head changed p \<or> new_regular G base head changed outside p"
proof (cases "p \<in> set others")
  case False
  then obtain path doc where c: "filter receipt_issue outside = [path]" "self_update_receipt_ok G base head changed path"
      and o: "others = filter (\<lambda>p. p \<noteq> path \<and> p \<notin> set (canary_records G base head changed outside (as_dict doc))) outside"
    using assms by (auto simp: split_self_update_receipt_def split: list.splits if_splits option.splits)
  have "receipt_issue path" using c(1) by (metis Cons_eq_filterD)
  moreover have "p = path \<or> p \<in> set (canary_records G base head changed outside (as_dict doc))" using o False assms(2) by auto
  ultimately show ?thesis using c(2) canary_records_new by (auto simp: own_receipt_def)
qed simp

lemma split_all_covers:
  assumes "p \<in> set outside" "os_rest (split_all_outside G base head changed managed outside expect declared bb) = []"
  shows "own_receipt G base head changed p \<or> new_regular G base head changed outside p
    \<or> from_base_branch (sg_merge G) base head p \<or> sg_pin G base head expect p
    \<or> p \<in> set (os_derived (split_all_outside G base head changed managed outside expect declared bb))"
proof -
  obtain filed outside1 where r: "split_self_update_receipt G base head outside changed = (filed, outside1)" by fastforce
  obtain merged outside2 v where m: "(if outside1 = [] then ([], [], None)
                 else case split_base_branch_merge (sg_merge G) base head outside1 managed bb of
                        (a, r, e) \<Rightarrow> (a, r, Some (se_verdict e))) = (merged, outside2, v)"
    by (metis prod_cases3)
  have split: "split_all_outside G base head changed managed outside expect declared bb
      = \<lparr>os_filed = filed, os_merged = merged, os_merge_verdict = (case v of None \<Rightarrow> Vacuous | Some v \<Rightarrow> v),
         os_pins = fst (split_outside (sg_pin G base head expect) declared outside2),
         os_derived = fst (snd (split_outside (sg_pin G base head expect) declared outside2)),
         os_rest = snd (snd (split_outside (sg_pin G base head expect) declared outside2))\<rparr>"
    unfolding split_all_outside_def r prod.case m by (simp split: prod.split)
  have "p \<in> set outside2 \<or> from_base_branch (sg_merge G) base head p" if "p \<in> set outside1"
  proof -
    obtain a q e where s: "split_base_branch_merge (sg_merge G) base head outside1 managed bb = (a, q, e)" by (metis prod_cases3)
    have "q = outside2" using m that s by (auto split: if_splits)
    then show ?thesis using merge_admits [OF s that] by simp
  qed
  moreover have "sg_pin G base head expect p \<or> p \<in> set (fst (snd (split_outside (sg_pin G base head expect) declared outside2)))"
    if "p \<in> set outside2"
    using assms(2) that unfolding split by (auto simp: split_outside_def filter_empty_conv)
  ultimately show ?thesis using split_receipt_covers [OF r assms(1)] unfolding split by auto
qed

text \<open>The path is one of the bundle, at the base or at the head, or accounted for otherwise.\<close>

definition update_path ::
    "structural_git \<Rightarrow> string \<Rightarrow> string \<Rightarrow> changes \<Rightarrow> string \<Rightarrow> string \<Rightarrow> bool" where
  "update_path G base head files bundle_rel p \<longleftrightarrow>
     p \<in> set (fst (bundle_paths_at G base bundle_rel)) \<or> p \<in> set (fst (bundle_paths_at G head bundle_rel))
     \<or> p = DECLARATION_REL \<and> read_declaration (sg_git G) base = None
     \<or> own_receipt G base head (changed_of files) p
     \<or> map_of (changed_of files) p = Some CHR ''A'' \<and> tg_mode (sg_git G) head p = Some ''100644'' \<and> \<not> sg_exists G base p
     \<or> from_base_branch (sg_merge G) base head p
     \<or> sg_pin G base head (program_ref (snd (bundle_paths_at G head bundle_rel))) p
     \<or> measured_artefact G base head (fst (declaration_in_force G base head (changed_of files))) files p"

lemma update_paths:
  assumes "evaluate_self_update G base head files bundle_rel bb job = Inr b" "bt_eligible b"
    and "p \<in> fst ` set (changed_of files)"
  shows "update_path G base head files bundle_rel p"
proof -
  let ?c = "changed_of files"
  obtain decl boot where f: "declaration_in_force G base head ?c = (decl, boot)" by fastforce
  let ?managed = "fst (bundle_paths_at G base bundle_rel) @ fst (bundle_paths_at G head bundle_rel)"
  let ?s = "self_update_split G base head ?c bundle_rel bb"
  have s: "?s = split_all_outside G base head ?c ?managed (outside_of ?c ?managed boot)
      (program_ref (snd (bundle_paths_at G head bundle_rel))) (keys_of (declared_artefacts decl)) bb"
    by (simp add: self_update_split_def f Let_def)
  obtain d where d: "evaluate_derived G base head (os_derived ?s) decl (unusable_entries decl) files True job = Inr d"
      "dv_verdict d = Some True" and rest: "os_rest ?s = []"
    using assms(1,2) by (auto simp: evaluate_self_update_def Let_def f)
  have b: "boot \<Longrightarrow> read_declaration (sg_git G) base = None"
    using f by (auto simp: declaration_in_force_def split: option.splits if_splits)
  show ?thesis
  proof (cases "p \<in> set (outside_of ?c ?managed boot)")
    case True
    from split_all_covers [OF True rest [unfolded s]] show ?thesis
      using derived_sound [OF d] s f by (auto simp: update_path_def new_regular_def list_all_iff)
  next
    case False
    then have "p \<in> set ?managed \<or> boot \<and> p = DECLARATION_REL" using assms(3) by (force simp: outside_of_def)
    then show ?thesis using b by (auto simp: update_path_def)
  qed
qed

text \<open>The key: a signature of the new bundle that the code and a key of the old bundle accept.\<close>

definition key_trusted :: "structural_git \<Rightarrow> gate_bundle \<Rightarrow> gate_bundle \<Rightarrow> bool" where
  "key_trusted G old new \<longleftrightarrow>
     bn_has old ''tools/graph/sshsig.py''
     \<and> (\<exists>s k. bn_has new s \<and> bn_has old k \<and> k \<in> snd ` set (signature_pairs old) \<and> sg_verify G s k)"


subsection \<open>An archived receipt and an amended declaration\<close>

lemma archive_sound:
  assumes "evaluate_spent_receipt_archive G base head files = Inr b" "bt_eligible b"
  shows "let declared = declared_artefacts (fst (declaration_in_force G base head (changed_of files)));
             paths = sort (filter (\<lambda>p. \<not> has_key declared p) (map fst (changed_of files)))
         in archive_shape paths \<and> same_bytes G base head paths
            \<and> \<not> same_receipt_outside_archive G head (archived_path paths) (shown G head (archived_path paths))
            \<and> list_all (binds_bytes G head declared) (filter (has_key declared) (map fst (changed_of files)))"
proof -
  let ?declared = "declared_artefacts (fst (declaration_in_force G base head (changed_of files)))"
  let ?paths = "sort (filter (\<lambda>p. \<not> has_key ?declared p) (map fst (changed_of files)))"
  let ?aside = "sort (filter (has_key ?declared) (map fst (changed_of files)))"
  note d = evaluate_spent_receipt_archive_def [of G base head files, unfolded Let_def]
  have shape: "archive_shape ?paths" using assms unfolding d by (auto split: if_splits)
  have ok: "same_bytes G base head ?paths"
      "\<not> same_receipt_outside_archive G head (archived_path ?paths) (shown G head (archived_path ?paths))"
    using assms shape unfolding d by (auto split: if_splits)
  have "?aside = [] \<or> verify_declared G head ?declared ?aside = Inr (Some True)"
    using assms shape unfolding d by (auto split: if_splits)
  then have "binds_bytes G head ?declared p" if "p \<in> set ?aside" for p
  proof -
    have "verify_each G head ?declared ?aside = Inr (Some True)"
      using that \<open>?aside = [] \<or> _\<close> by (cases "?aside = []") (simp_all only: verify_declared_def set_sort split: if_splits, auto)
    from verify_each_binds [OF this that] show ?thesis .
  qed
  then show ?thesis using shape ok by (simp add: Let_def list_all_iff)
qed

lemma amend_sound:
  assumes "evaluate_declaration_amend G base head files claim job = Inr b" "bt_eligible b"
  shows "changed_of files = [(DECLARATION_REL, CHR ''M'')]
    \<and> (\<exists>old new g dry. declarations G base head = Some (old, new) \<and> mget (as_dict new) ''schema'' = JStr DECLARATION_SCHEMA
         \<and> g = b7_classify_grammar (mget (as_dict old) ''artefacts'') (mget (as_dict new) ''artefacts'') \<and> g \<noteq> GInvalid
         \<and> in_scope G head g \<and> dry_run_rows G g (am_range claim) job = Inr dry \<and> all_verified dry
         \<and> second_authority claim (change_digest G base head) base head g = Some True)"
proof -
  note d = evaluate_declaration_amend_def [of G base head files claim job, unfolded plain_battery_def]
  have c: "changed_of files = [(DECLARATION_REL, CHR ''M'')]" using assms unfolding d by (auto split: if_splits)
  obtain old new where r: "declarations G base head = Some (old, new)" using assms unfolding d by (auto simp: c split: option.splits)
  show ?thesis
    using assms unfolding d by (auto simp: c r Let_def split: if_splits)
qed

text \<open>A range whose ends \<^verbatim>\<open>git rev-parse\<close> answers with nothing leaves no row of B7.4, so nothing is replayed.\<close>

lemma unreplayed_range:
  "sg_rev G ''--show-prefix'' = Some [] \<Longrightarrow> sg_rev G ''HEAD'' = Some h \<Longrightarrow>
   replay_rows G pattern entry (Some ''--show-prefix..HEAD'') job = Inr []"
  by (simp add: replay_rows_def)

subsection \<open>The second check\<close>

text \<open>An exemption binds the range, or the range up to the receipt's own head, when all that follows are its records.\<close>

definition bound_to :: "structural_git \<Rightarrow> string \<Rightarrow> string \<Rightarrow> string option \<Rightarrow> battery \<Rightarrow> json \<Rightarrow> bool" where
  "bound_to G base head rhead b x \<longleftrightarrow>
     binding_of x = (JStr (change_digest G base head), JStr base, JStr head)
     \<or> (\<exists>h f. rhead = Some h \<and> h \<in> set (sg_commits G base head) \<and> f \<in> set (tg_names (sg_git G) h head)
          \<and> binding_of x = (JStr (change_digest G base h), JStr base, JStr h)
          \<and> list_all (\<lambda>p. p = f \<or> derived_run_verdict b p) (tg_names (sg_git G) h head))"

definition entity_allowed :: "structural_git \<Rightarrow> string \<Rightarrow> string \<Rightarrow> change_case \<Rightarrow> string \<Rightarrow> string \<Rightarrow> string option \<Rightarrow> case_evidence \<Rightarrow> json \<Rightarrow> bool" where
  "entity_allowed G base head k repo_name bundle_rel rhead ev e \<longleftrightarrow>
     e = synthesized k repo_name head \<or> (\<exists>h. rhead = Some h \<and> e = synthesized k repo_name h)
     \<or> may_name k (fst (bundle_paths_at G head bundle_rel) @ fst (bundle_paths_at G base bundle_rel))
          (matrix_declared_unverifiable G base bundle_rel) (ce_pins ev) e"

lemma record_range_parts:
  assumes "record_range G base head filed rhead = Some (h, extra)"
  shows "rhead = Some h" "h \<noteq> []" "h \<noteq> head" "h \<in> set (sg_commits G base head)"
    "\<exists>f. filed = Some f \<and> f \<in> set (tg_names (sg_git G) h head) \<and> set extra = set (tg_names (sg_git G) h head) - {f}"
  using assms by (auto simp: record_range_def Let_def split: option.splits if_splits)

lemma covered_allowed:
  "e \<in> set (covered_by G base head k (synthesized k repo_name head) entities bundle_rel (ce_pins ev)) \<Longrightarrow>
   entity_allowed G base head k repo_name bundle_rel rhead ev e"
  by (auto simp: covered_by_def structural_covered_entities_def entity_allowed_def)


subsection \<open>What the gate issues, it accepts\<close>

lemma claim_round [simp]: "claim_of (claim_doc claim) = claim"
  by (cases claim) (auto simp: claim_of_def claim_doc_def as_dict_def mget_def opt_json_def split: option.split)

lemma case_without_claim:
  "k \<noteq> DeclarationAmend \<Longrightarrow> evaluate_structural G base head files k bundle_rel bb claim job
     = evaluate_structural G base head files k bundle_rel bb claim' job"
  by (cases k) (auto simp: evaluate_structural_def)

lemma exemption_doc_fields:
  "mget (as_dict (exemption_doc c h till binding evd e)) ''entity'' = e"
  "mget (as_dict (exemption_doc c h till binding evd e)) ''code'' = JStr (code_of c)"
  "mget (as_dict (exemption_doc c h till binding evd e)) ''change_binding'' = binding"
  "mget (as_dict (exemption_doc c h till binding [(''evidence'', v)] e)) ''evidence'' = v"
  by (simp_all add: exemption_doc_def as_dict_def mget_def)

lemma issued_members:
  "x \<in> set (issued c h till binding evd es) \<Longrightarrow> \<exists>e \<in> set es. \<exists>v. x = exemption_doc c h till binding v e"
  by (auto simp: issued_def split: list.splits)

lemma issued_entities: "map (\<lambda>x. mget (as_dict x) ''entity'') (issued c h till binding evd es) = es"
  by (auto simp: issued_def exemption_doc_fields map_idI split: list.split)

lemma remdups_const: "xs \<noteq> [] \<Longrightarrow> (\<And>x. x \<in> set xs \<Longrightarrow> f x = y) \<Longrightarrow> remdups (map f xs) = [y]"
proof (induction xs)
  case (Cons x xs)
  then show ?case by (cases xs) auto
qed simp

lemma ranges_ok:
  "admissible_ranges_ok ((d, base, head) # (case recd of None \<Rightarrow> [] | Some (h, x) \<Rightarrow> [(d' h, base, h)])) head (map_option fst recd)"
  if "\<And>h x. recd = Some (h, x) \<Longrightarrow> h \<noteq> []"
  using that by (auto simp: admissible_ranges_ok_def split: option.splits list.splits)

text \<open>
  C40: What the gate issues, it accepts: the exemptions that it grants for a change pass the second check over the same
  range, with the same clone and jobs, whatever head the receipt names and whatever further entities it has a verdict for.
\<close>

theorem issued_recheck:
  assumes "structural_exemption G base head files bundle_rel bb repo_name entities claim job holder till = Inr xs" and "xs \<noteq> []"
    and "set entities \<subseteq> set entities'"
  shows "\<exists>b. recheck_structural G base head files xs repo_name entities' bundle_rel bb job rhead = Inr ([], Some b) \<and> bt_eligible b"
proof -
  obtain c ev where c0: "structural_case G base head files bundle_rel bb = (c, ev)" by fastforce
  with assms(1,2) obtain k where c: "structural_case G base head files bundle_rel bb = (Some k, ev)"
    by (cases c) (auto simp: structural_exemption_def)
  let ?synth = "synthesized k repo_name head" and ?bind = "binding_doc base head (change_digest G base head)"
  let ?es = "sort_key str_of (remdups (covered_by G base head k ?synth entities bundle_rel (ce_pins ev)))"
  obtain b where b: "evaluate_structural G base head files k bundle_rel bb claim job = Inr b" "bt_eligible b"
      and xs: "xs = issued k holder till ?bind (evidence_doc k claim) ?es"
    using assms(1,2) c by (auto simp: structural_exemption_def split: if_splits)
  define recd where "recd = record_range G base head (if Some k = Some SelfUpdate then ce_filed ev else None) rhead"
  have fields: "mget (as_dict x) ''code'' = JStr (code_of k)" "binding_of x = binding_triple (change_digest G base head, base, head)"
    if m: "x \<in> set xs" for x
  proof -
    obtain e v where x: "x = exemption_doc k holder till ?bind v e" using issued_members m unfolding xs by blast
    show "mget (as_dict x) ''code'' = JStr (code_of k)" by (simp only: x exemption_doc_fields)
    show "binding_of x = binding_triple (change_digest G base head, base, head)"
      by (simp only: binding_of_def x exemption_doc_fields) (simp add: binding_doc_def binding_triple_def as_dict_def mget_def Let_def)
  qed
  have codes: "remdups (map (\<lambda>x. mget (as_dict x) ''code'') xs) = [JStr (code_of k)]"
    using assms(2) fields(1) by (rule remdups_const)
  have named: "map (\<lambda>x. mget (as_dict x) ''entity'') xs = ?es" unfolding xs by (rule issued_entities)
  have sub: "set ?es \<subseteq> set (covered_by G base head k ?synth entities' bundle_rel (ce_pins ev))"
    using assms(3) by (auto simp: covered_by_def structural_covered_entities_def)
  have synth: "?synth \<in> set ?es" by (simp add: covered_by_def structural_covered_entities_def)
  define claim' where "claim' = claim_of (case xs of [] \<Rightarrow> JNull | x # _ \<Rightarrow> mget (as_dict (mget (as_dict x) ''evidence'')) ''b7'')"
  have "evaluate_structural G base head files k bundle_rel bb claim' job = Inr b"
  proof (cases "k = DeclarationAmend")
    case True
    have "?es \<noteq> []" using synth by force
    then obtain e es where "?es = e # es" by (cases ?es) auto
    then have "claim' = claim"
      unfolding claim'_def xs by (simp add: issued_def exemption_doc_fields evidence_doc_def True) (simp add: as_dict_def mget_def)
    then show ?thesis using b(1) by simp
  next
    case False
    then show ?thesis using b(1) case_without_claim by metis
  qed
  moreover have far: "h \<noteq> [] \<and> h \<noteq> head" if "recd = Some (h, extra)" for h extra
    using record_range_parts(2,3) that unfolding recd_def by blast
  ultimately have "recheck_battery G base head files xs repo_name entities' bundle_rel bb job k ev recd = Inr ([], b)"
    unfolding recheck_battery_def Let_def named claim'_def
    using sub synth b(2) fields(2)
    by (auto simp: list_ex_iff binding_triple_def split: option.split)
  moreover have "admissible_ranges_ok ((change_digest G base head, base, head)
      # (case recd of None \<Rightarrow> [] | Some (h, _) \<Rightarrow> [(change_digest G base h, base, h)])) head (map_option fst recd)"
    by (rule ranges_ok) (use far in blast)
  ultimately show ?thesis
    unfolding recheck_structural_def Let_def c prod.case recd_def [symmetric] codes
    using fields(2) b(2) by (simp add: list_ex_iff)
qed

end
