(* ===== verification/AdmitRecheckWitness.thy ===== *)
theory AdmitRecheckWitness
  imports AdmitRecheckProps
begin

section \<open>The theorems on structural exemptions at concrete changes\<close>

text \<open>A repository without a declaration, whose graph at the head is empty, and which carries a bundle when asked for.\<close>

definition plain_git :: "json \<Rightarrow> trail_git" where
  "plain_git manifest =
     \<lparr>tg_mode = (\<lambda>_ _. None), tg_show = (\<lambda>_ p. if p = ''gate/BUNDLE.json'' then Some ''m'' else None),
      tg_loads = (\<lambda>_. Some manifest), tg_sha = (\<lambda>s. s), tg_commit = (\<lambda>_. True), tg_ancestor = (\<lambda>_ _. True),
      tg_rev_list = (\<lambda>_ _ _. []), tg_parents = (\<lambda>_. []), tg_combined = (\<lambda>_. []), tg_names = (\<lambda>_ _. []), tg_verify = (\<lambda>_. None)\<rparr>"

definition plain_merge :: merge_git where
  "plain_merge =
     \<lparr>mq_resolves = (\<lambda>_. False), mq_origin_head = [], mq_rev_list = (\<lambda>_ _. []), mq_merge_base = (\<lambda>_ _. []),
      mq_ancestor = (\<lambda>_ _. True), mq_names = (\<lambda>_ _. []), mq_blob = (\<lambda>_ _. [])\<rparr>"

definition plain_bundle :: gate_bundle where
  "plain_bundle = \<lparr>bn_has = (\<lambda>_. True), bn_policy = Some (JObj [(''checks'', JArr [])]), bn_selftest = (Some 0, Some True, Some 8)\<rparr>"

definition plain_structural :: "json \<Rightarrow> structural_git" where
  "plain_structural manifest =
     \<lparr>sg_git = plain_git manifest, sg_merge = plain_merge, sg_env = still_env, sg_listing = (\<lambda>_ _. []), sg_exists = (\<lambda>_ _. False),
      sg_commits = (\<lambda>_ _. []), sg_files = (\<lambda>_ _. []), sg_raw = (\<lambda>_ _. []), sg_rev = (\<lambda>_. None),
      sg_graph = (\<lambda>_. Some (JObj [])), sg_worktree = (\<lambda>_. True), sg_run = (\<lambda>_ _ _ _. (None, False)), sg_pin = (\<lambda>_ _ _ _. False),
      sg_consume = (\<lambda>_ _. None), sg_bundle = (\<lambda>_. Some plain_bundle), sg_verify = (\<lambda>_ _. True)\<rparr>"

definition new_file :: changes where
  "new_file = [(''docs/note.txt'', CHR ''A'')]"

definition no_claim :: amend_claim where
  "no_claim = \<lparr>am_range = None, am_authority = JNull, am_opinion = JNull\<rparr>"

lemma new_file_case:
  "structural_case (plain_structural JNull) ''b'' ''h'' new_file ''none'' None = (Some NoImpact, no_evidence)"
  by code_simp

lemma new_file_battery:
  "evaluate_no_impact (plain_structural JNull) ''b'' ''h'' new_file (None, None)
     = Inr \<lparr>bt_checks = [(''A1'', Some True), (''B6'', Some True), (''A3'', Some True), (''A2'', Some True), (''A4'', None)],
            bt_eligible = True, bt_gap = [''docs/note.txt''], bt_derived = [], bt_runs = [], bt_toolchain = False\<rparr>"
  by code_simp

theorem no_impact_sound_witness:
  "list_all (\<lambda>(p, s). s = CHR ''A'' \<or> measured_artefact (plain_structural JNull) ''b'' ''h'' None new_file p) new_file
   \<and> inbound_edges (JObj []) [''docs/note.txt''] = []"
proof -
  have d: "fst (declaration_in_force (plain_structural JNull) ''b'' ''h'' (changed_of new_file)) = None" by code_simp
  have a: "added_paths new_file = [''docs/note.txt'']" by code_simp
  have g: "sg_graph (plain_structural JNull) ''h'' = Some (JObj [])" by (simp add: plain_structural_def)
  show ?thesis using no_impact_sound [OF new_file_battery, unfolded Let_def d a g] by simp
qed

subsection \<open>A refresh of the bundle\<close>

definition manifest :: json where
  "manifest = JObj [(''files'', JArr []), (''program_ref'', JStr ''r'')]"

definition refreshed :: changes where
  "refreshed = [(''gate/BUNDLE.json'', CHR ''M'')]"

lemma refreshed_battery:
  "evaluate_self_update (plain_structural manifest) ''b'' ''h'' refreshed ''gate'' None (None, None)
     = Inr \<lparr>bt_checks = [(''B1'', Some True), (''B1M'', Some True), (''B6'', Some True), (''B2'', Some True), (''B3'', Some True),
              (''B4'', Some True), (''B5'', None), (''B8'', Some True)],
            bt_eligible = True, bt_gap = [], bt_derived = [], bt_runs = [], bt_toolchain = False\<rparr>"
  by code_simp


subsection \<open>Issued and checked again\<close>

definition granted :: "json list" where
  "granted =
     [exemption_doc NoImpact ''o'' ''t'' (binding_doc ''b'' ''h'' []) [(''evidence'', evidence_doc NoImpact no_claim)]
        (JStr ''impact_computability:r@h'')]"

theorem issued_recheck_witness:
  "\<exists>b. recheck_structural (plain_structural JNull) ''b'' ''h'' new_file granted ''r'' [JStr ''e''] ''none'' None (None, None) (Some ''r'') = Inr ([], Some b)
     \<and> bt_eligible b"
proof (rule issued_recheck)
  show "structural_exemption (plain_structural JNull) ''b'' ''h'' new_file ''none'' None ''r'' [] no_claim (None, None) ''o'' ''t'' = Inr granted"
    by code_simp
  show "granted \<noteq> []" by (simp add: granted_def)
  show "set [] \<subseteq> set [JStr ''e'']" by simp
qed


end
