(* ===== verification/AdmitBind.thy ===== *)
theory AdmitBind
  imports SchemaProps AdmitRecheck
begin

section \<open>The gate: range, candidates, binding\<close>

text \<open>
  What \<^verbatim>\<open>gate\<close> of \<^verbatim>\<open>tools/graph/admit_change.py\<close> reads before it judges: the files of the range
  (\<^verbatim>\<open>range_files\<close>), the receipts that bind it (\<^verbatim>\<open>receipt_binds\<close>, \<^verbatim>\<open>gate_receipt_context\<close>), the registered automated author
  of a pull request (\<^verbatim>\<open>event_author\<close>, \<^verbatim>\<open>match_automated_author\<close>, \<^verbatim>\<open>allowlist_split\<close>), the entities that canary documents
  cover (\<^verbatim>\<open>canary_coverage\<close>) and the ledger entry of a receipt (\<^verbatim>\<open>ledger_lookup\<close>).
\<close>

subsection \<open>The files of a range\<close>

text \<open>The fields of \<^verbatim>\<open>git diff --name-status -M -z\<close>: a status, then one path, or two for a rename or a copy.\<close>

fun range_entries :: "string list \<Rightarrow> exc + changes" where
  "range_entries [] = Inr []"
| "range_entries ([] # _) = Inr []"
| "range_entries ((s # st) # fs) =
     (case fs of
        [] \<Rightarrow> Inl IndexError
      | p # qs \<Rightarrow>
          if s = CHR ''R'' \<or> s = CHR ''C''
          then (case qs of [] \<Rightarrow> Inl IndexError | q # rest \<Rightarrow> bindE (range_entries rest) (\<lambda>m. Inr ((q, s) # m)))
          else bindE (range_entries qs) (\<lambda>m. Inr ((p, s) # m)))"

definition range_files :: "string \<Rightarrow> exc + changes" where
  "range_files out = bindE (range_entries (split_on nul out)) (\<lambda>fs. Inr (sort_key fst fs))"

subsection \<open>Which receipts bind the range\<close>

text \<open>A candidate: its document (\<open>None\<close> if unreadable), the digest of its bytes, its path in the repository, and whether
  the gate wrote it itself for an automated author.\<close>

record receipt_file =
  rf_doc :: "json option"
  rf_digest :: "string option"
  rf_rel :: "string option"
  rf_issued :: bool

text \<open>\<^verbatim>\<open>x or {}\<close> where an object is expected: the next \<^verbatim>\<open>get\<close> raises on any other true value.\<close>

definition object_or_empty :: "json \<Rightarrow> exc + dict" where
  "object_or_empty j = (if \<not> truthy j then Inr [] else if is_dict j then Inr (as_dict j) else Inl AttributeError)"

definition receipt_binds :: "trail_git \<Rightarrow> string list \<Rightarrow> string \<Rightarrow> dict \<Rightarrow> exc + bool" where
  "receipt_binds G commits head doc =
     bindE (object_or_empty (mget doc ''change_set'')) (\<lambda>cs.
     bindE (object_or_empty (mget doc ''tree'')) (\<lambda>tree.
       let mode = mget cs ''mode''
       in Inr (if mode = JStr ''diff''
               then is_str (mget cs ''base'') \<and> is_str (mget cs ''head'') \<and> str_in (mget cs ''head'') (head # commits)
                    \<and> tg_ancestor G (str_of (mget cs ''base'')) head
               else mode = JStr ''worktree'' \<and> str_in (mget tree ''commit'') (head # commits))))"

text \<open>What a candidate is: not readable, of another schema, bound, or not bound.  A document that is neither an object
  nor \<^verbatim>\<open>null\<close> has no \<^verbatim>\<open>get\<close>.\<close>

datatype candidate = Unreadable | OtherSchema | Bound | NotBoundHere

definition judge_candidate :: "trail_git \<Rightarrow> string list \<Rightarrow> string \<Rightarrow> receipt_file \<Rightarrow> exc + candidate" where
  "judge_candidate G commits head r =
     (case rf_doc r of
        None \<Rightarrow> Inr Unreadable
      | Some JNull \<Rightarrow> Inr Unreadable
      | Some (JObj doc) \<Rightarrow>
          if \<not> (is_str (mget doc ''schema'') \<and> startswith (str_of (mget doc ''schema'')) ''ChangeAdmissionReceipt'')
          then Inr OtherSchema
          else bindE (receipt_binds G commits head doc) (\<lambda>b. Inr (if b then Bound else NotBoundHere))
      | _ \<Rightarrow> Inl AttributeError)"

definition gate_receipt_context ::
    "trail_git \<Rightarrow> string list \<Rightarrow> string \<Rightarrow> receipt_file list \<Rightarrow> exc + receipt_file list \<times> receipt_file list" where
  "gate_receipt_context G commits head paths =
     bindE (mapE (\<lambda>r. bindE (judge_candidate G commits head r) (\<lambda>c. Inr (r, c))) paths) (\<lambda>rs.
       Inr (map fst (filter (\<lambda>(_, c). c = Bound) rs),
            map fst (filter (\<lambda>(_, c). c = NotBoundHere \<or> c = Unreadable) rs)))"

text \<open>One JSON array among the candidates ends the gate with an exception.\<close>

lemma array_candidate_raises:
  "gate_receipt_context G commits head [\<lparr>rf_doc = Some (JArr xs), rf_digest = d, rf_rel = p, rf_issued = i\<rparr>] = Inl AttributeError"
  by (simp add: gate_receipt_context_def judge_candidate_def)

subsection \<open>Automated authors\<close>

definition sub_object :: "dict \<Rightarrow> string \<Rightarrow> dict" where
  "sub_object d k = as_dict (mget d k)"

definition event_author :: "json \<Rightarrow> json \<times> json \<times> json" where
  "event_author event =
     (let user = sub_object (sub_object (as_dict event) ''pull_request'') ''user''
      in (mget user ''login'', mget user ''id'', mget user ''type''))"

text \<open>The entry of the policy for this author, and whether a reason is recorded that there is none.\<close>

definition match_automated_author :: "json \<Rightarrow> json \<Rightarrow> dict option" where
  "match_automated_author policy event =
     (if sub_object (as_dict event) ''pull_request'' = [] then None
      else case filter (\<lambda>au. event_author event
                 = (mget (as_dict au) ''login'', mget (as_dict au) ''user_id'', mget (as_dict au) ''user_type''))
               (as_list (mget (sub_object (as_dict policy) ''automated_authors'') ''authors'')) of
             [] \<Rightarrow> None | au # _ \<Rightarrow> Some (as_dict au))"

definition allowlist_split :: "string list \<Rightarrow> string list \<Rightarrow> string list \<times> string list" where
  "allowlist_split paths globs =
     (filter (\<lambda>p. list_ex (fnmatch p) globs) paths, filter (\<lambda>p. \<not> list_ex (fnmatch p) globs) paths)"

text \<open>What is outside the allowlist and is no declared artefact whose verifier binds its bytes.\<close>

definition outside_allowlist :: "structural_git \<Rightarrow> string \<Rightarrow> string \<Rightarrow> changes \<Rightarrow> dict \<Rightarrow> exc + string list" where
  "outside_allowlist G base head files author =
     (let paths = sort (remdups (map fst files)); globs = map str_of (as_list (mget author ''path_allowlist''));
          outside = snd (allowlist_split paths globs);
          declared = declared_artefacts (fst (declaration_in_force G base head (changed_of files)));
          candidates = filter (has_key declared) outside
      in if candidates = [] then Inr outside
         else bindE (verify_declared G head declared candidates) (\<lambda>v.
                Inr (if v = Some True then filter (\<lambda>p. p \<notin> set candidates) outside else outside)))"

subsection \<open>Canary documents\<close>

text \<open>\<^verbatim>\<open>\b[1-9]\d* (?:passed|passing|tests?)\b|Ran [1-9]\d* tests?|1\.\.[1-9]\d*\<close> as a search: \<open>w\<close> says whether a word
  character precedes.\<close>

definition count_word_char :: "char \<Rightarrow> bool" where
  "count_word_char c \<longleftrightarrow> is_letter c \<or> is_digit c \<or> c = CHR ''_''"

definition positive_count :: "string \<Rightarrow> string option" where
  "positive_count s =
     (case s of c # t \<Rightarrow> if is_digit c \<and> c \<noteq> CHR ''0'' then Some (dropWhile is_digit t) else None | [] \<Rightarrow> None)"

definition then_word :: "string \<Rightarrow> string \<Rightarrow> bool" where
  "then_word w s \<longleftrightarrow> startswith s w \<and> (case drop (length w) s of [] \<Rightarrow> True | c # _ \<Rightarrow> \<not> count_word_char c)"

definition counted_here :: "bool \<Rightarrow> string \<Rightarrow> bool" where
  "counted_here w s \<longleftrightarrow>
     \<not> w \<and> (case positive_count s of None \<Rightarrow> False
              | Some r \<Rightarrow> list_ex (\<lambda>x. then_word x r) ['' passed'', '' passing'', '' test'', '' tests''])
     \<or> startswith s ''Ran '' \<and> (case positive_count (drop 4 s) of None \<Rightarrow> False | Some r \<Rightarrow> startswith r '' test'')
     \<or> startswith s ''1..'' \<and> positive_count (drop 3 s) \<noteq> None"

fun counted_text :: "bool \<Rightarrow> string \<Rightarrow> bool" where
  "counted_text w [] = False"
| "counted_text w (c # s) = (counted_here w (c # s) \<or> counted_text (count_word_char c) s)"

definition shell_measured :: "dict \<Rightarrow> bool" where
  "shell_measured doc \<longleftrightarrow>
     (let probes = as_list (mget doc ''probes'')
      in mget doc ''schema'' = JStr ''CanaryResult/v2'' \<and> probes \<noteq> []
         \<and> list_all (\<lambda>p. is_dict p \<and> mget (as_dict p) ''kind'' = JStr ''process'' \<and> truthy (mget (as_dict p) ''executed'')
                       \<and> truthy (mget (as_dict p) ''capture_complete'') \<and> is_list (mget (as_dict p) ''output_checks'')) probes
         \<and> list_ex (\<lambda>p. list_ex (\<lambda>c. is_dict c \<and> truthy (mget (as_dict c) ''matched'') \<and> is_str (mget (as_dict c) ''expected'')
                       \<and> counted_text False (str_of (mget (as_dict c) ''expected''))) (as_list (mget (as_dict p) ''output_checks''))) probes)"

datatype canary_problem =
    NotInRepository json
  | NotCommitted json
  | NotCanaryResult json
  | NotCounted json
  | BindsOther json
  | SurplusEntities json

text \<open>A row covers the entities that its document lists, when the document is committed, of the right form, and binds the
  head; with the problem of the row, if any.\<close>

definition row_coverage :: "structural_git \<Rightarrow> string \<Rightarrow> dict \<Rightarrow> json list \<times> canary_problem list" where
  "row_coverage G head v =
     (let vid = mget v ''id''; ref = str_of (mget v ''output_ref'')
      in if \<not> is_str (mget v ''output_ref'') \<or> \<not> repo_relative ref then ([], [NotInRepository vid])
         else case tg_show (sg_git G) head ref of
           None \<Rightarrow> ([], [NotCommitted vid])
         | Some raw \<Rightarrow>
             (case tg_loads (sg_git G) raw of
                None \<Rightarrow> ([], [NotCommitted vid])
              | Some doc \<Rightarrow>
                  if \<not> (is_str (mget (as_dict doc) ''schema'') \<and> startswith (str_of (mget (as_dict doc) ''schema'')) ''CanaryResult/'')
                  then ([], [NotCanaryResult vid])
                  else if mget v ''kind'' = JStr ''shell_behavior'' \<and> \<not> shell_measured (as_dict doc) then ([], [NotCounted vid])
                  else (case sg_consume G head ref of
                          None \<Rightarrow> ([], [BindsOther vid])
                        | Some (listed, _) \<Rightarrow>
                            (map JStr (map fst listed),
                             if set (as_list (mget v ''entities'')) \<subseteq> set (map JStr (map fst listed)) then [] else [SurplusEntities vid]))))"

definition gate_canary_rows :: "json list \<Rightarrow> dict list" where
  "gate_canary_rows rws = map as_dict (filter (\<lambda>v. is_dict v \<and> str_in (mget (as_dict v) ''kind'') [''canary'', ''shell_behavior'']) rws)"

definition canary_coverage :: "structural_git \<Rightarrow> string \<Rightarrow> json list \<Rightarrow> json list \<Rightarrow> json list \<times> canary_problem list" where
  "canary_coverage G head rws cashed =
     (concat (map (\<lambda>v. fst (row_coverage G head v)) (gate_canary_rows rws)),
      concat (map (\<lambda>v. if mget v ''id'' \<in> set cashed then snd (row_coverage G head v) else []) (gate_canary_rows rws)))"

subsection \<open>The ledger entry of a receipt\<close>

text \<open>\<open>ledger\<close>: the ledger document of a work item, as far as it exists and can be read.\<close>

definition ledger_lookup :: "(string \<Rightarrow> json option) \<Rightarrow> json \<Rightarrow> string option \<Rightarrow> json option" where
  "ledger_lookup ledger work_item digest =
     (case (work_item_id work_item, digest) of
        (Some (w # wid), Some (d # ds)) \<Rightarrow>
          (case ledger (w # wid) of
             None \<Rightarrow> None
           | Some doc \<Rightarrow>
               (case filter (\<lambda>a. att_digest a = JStr (d # ds)) (as_list (mget (as_dict doc) ''attachments'')) of
                  [] \<Rightarrow> None | a # _ \<Rightarrow> Some a))
      | _ \<Rightarrow> None)"

definition is_program_repo :: "(string \<Rightarrow> bool) \<Rightarrow> string \<Rightarrow> bool" where
  "is_program_repo has repo_name \<longleftrightarrow>
     has ''contracts/graph-verified-change/admission-gate.v1.json'' \<and> has ''tools/graph/admit_change.py''
     \<or> endswith (lower repo_name) ''/arcanada-universal-program''"

end
