(* ===== verification/AdmitScope.thy ===== *)
theory AdmitScope
  imports AdmitBind
begin

section \<open>The gate: every changed file is covered\<close>

text \<open>
  Check C06 of \<^verbatim>\<open>gate\<close> in \<^verbatim>\<open>tools/graph/admit_change.py\<close>: each path that the range changes is named by a bound receipt or is
  a record path of a trailing commit.  When the gate runs in a directory below the root of the repository, receipts name
  paths relative to that directory, and a path that could be read in two ways covers nothing.
\<close>

subsection \<open>What receipts name\<close>

definition change_rows :: "dict \<Rightarrow> json list" where
  "change_rows doc = as_list (mget (as_dict (mget doc ''change_set'')) ''files'')"

text \<open>The root of the repository: all paths of all rows.\<close>

definition covered_paths :: "dict \<Rightarrow> string list" where
  "covered_paths doc = map str_of (filter is_str (map (\<lambda>f. mget (as_dict f) ''path'') (change_rows doc)))"

text \<open>A path that leaves its directory, or is not written in its normal form.\<close>

definition readable_path :: "string \<Rightarrow> bool" where
  "readable_path p \<longleftrightarrow> p \<noteq> [] \<and> \<not> startswith p ''/'' \<and> backslash \<notin> set p \<and> nul \<notin> set p"

definition malformed_path :: "json \<Rightarrow> bool" where
  "malformed_path j \<longleftrightarrow>
     \<not> is_str j \<or> \<not> readable_path (str_of j)
     \<or> list_ex (\<lambda>part. part \<in> {[], ''.'', ''..''}) (split_on CHR ''/'' (str_of j))"

text \<open>The path that a malformed one stands for; nothing when it leaves the directory.\<close>

fun resolve_parts :: "string list \<Rightarrow> string list \<Rightarrow> string list option" where
  "resolve_parts acc [] = Some (rev acc)"
| "resolve_parts acc (p # ps) =
     (if p = [] \<or> p = ''.'' then resolve_parts acc ps
      else if p = ''..'' then (case acc of [] \<Rightarrow> None | _ # acc' \<Rightarrow> resolve_parts acc' ps)
      else resolve_parts (p # acc) ps)"

definition alias_of :: "json \<Rightarrow> string option" where
  "alias_of j =
     (if is_str j \<and> readable_path (str_of j)
      then map_option (join ''/'') (resolve_parts [] (split_on CHR ''/'' (str_of j))) else None)"

datatype scope_problem = MalformedScope | DuplicateScope

record scope_state =
  sp_seen :: "string list"
  sp_covered :: "string list"
  sp_ambiguous :: "string list"
  sp_problems :: "scope_problem list"

definition scope_row :: "string list \<Rightarrow> json \<Rightarrow> scope_state \<Rightarrow> scope_state" where
  "scope_row changed row st =
     (let j = mget (as_dict row) ''path''; p = str_of j
      in if malformed_path j
         then st\<lparr>sp_problems := MalformedScope # sp_problems st,
                 sp_ambiguous := (case alias_of j of None \<Rightarrow> sp_ambiguous st
                                  | Some a \<Rightarrow> if a \<in> set changed then a # sp_ambiguous st else sp_ambiguous st)\<rparr>
         else if p \<in> set (sp_seen st)
         then st\<lparr>sp_problems := DuplicateScope # sp_problems st, sp_ambiguous := p # sp_ambiguous st\<rparr>
         else st\<lparr>sp_seen := p # sp_seen st, sp_covered := p # sp_covered st\<rparr>)"

definition scope_receipt :: "string list \<Rightarrow> dict \<Rightarrow> scope_state \<Rightarrow> scope_state" where
  "scope_receipt changed doc st = fold (scope_row changed) (change_rows doc) (st\<lparr>sp_seen := []\<rparr>)"

definition scope_of :: "string list \<Rightarrow> dict list \<Rightarrow> scope_state" where
  "scope_of changed docs =
     fold (scope_receipt changed) docs \<lparr>sp_seen = [], sp_covered = [], sp_ambiguous = [], sp_problems = []\<rparr>"

subsection \<open>What is not covered\<close>

definition uncovered_root :: "string list \<Rightarrow> dict list \<Rightarrow> string list \<Rightarrow> string list" where
  "uncovered_root changed docs records =
     filter (\<lambda>p. \<not> list_ex (\<lambda>d. p \<in> set (covered_paths d)) docs \<and> p \<notin> set records) changed"

definition in_scope_of :: "string \<Rightarrow> string list \<Rightarrow> string list" where
  "in_scope_of prefix changed = map (drop (length prefix)) (filter (\<lambda>p. startswith p prefix) changed)"

definition uncovered_scoped :: "string \<Rightarrow> string list \<Rightarrow> dict list \<Rightarrow> string list \<Rightarrow> string list" where
  "uncovered_scoped prefix changed docs records =
     (let sc = scope_of (in_scope_of prefix changed) docs;
          bare = (\<lambda>p. drop (length prefix) p \<notin> set (sp_covered sc) \<or> drop (length prefix) p \<in> set (sp_ambiguous sc))
      in filter (\<lambda>p. (if startswith p prefix then bare p else True) \<and> p \<notin> set records) changed)"

record coverage_result =
  cv_uncovered :: "string list"
  cv_problems :: "scope_problem list"
  cv_edited :: "string list"

definition range_coverage ::
    "string \<Rightarrow> string list \<Rightarrow> dict list \<Rightarrow> trailing_result \<Rightarrow> coverage_result" where
  "range_coverage prefix changed docs t =
     (let records = tr_receipts t @ tr_derived t @ tr_ledger t
      in if prefix = []
         then \<lparr>cv_uncovered = uncovered_root changed docs records, cv_problems = [], cv_edited = tr_edited t\<rparr>
         else \<lparr>cv_uncovered = uncovered_scoped prefix changed docs records,
               cv_problems = sp_problems (scope_of (in_scope_of prefix changed) docs), cv_edited = tr_edited t\<rparr>)"

definition fully_covered :: "coverage_result \<Rightarrow> bool" where
  "fully_covered c \<longleftrightarrow> cv_uncovered c = [] \<and> cv_problems c = [] \<and> cv_edited c = []"

subsection \<open>Without a problem each receipt's paths are in normal form\<close>

lemma scope_rows_fields:
  "sp_problems (fold (scope_row changed) rws st) = [] \<Longrightarrow>
     sp_problems st = [] \<and> list_all (\<lambda>r. \<not> malformed_path (mget (as_dict r) ''path'')) rws
     \<and> set (sp_covered (fold (scope_row changed) rws st))
         = set (sp_covered st) \<union> (\<lambda>r. str_of (mget (as_dict r) ''path'')) ` set rws
     \<and> sp_ambiguous (fold (scope_row changed) rws st) = sp_ambiguous st"
proof (induction rws arbitrary: st)
  case (Cons r rws)
  have step: "sp_problems (scope_row changed r st) = []" and rest: "list_all (\<lambda>r. \<not> malformed_path (mget (as_dict r) ''path'')) rws"
      "set (sp_covered (fold (scope_row changed) rws (scope_row changed r st)))
         = set (sp_covered (scope_row changed r st)) \<union> (\<lambda>r. str_of (mget (as_dict r) ''path'')) ` set rws"
      "sp_ambiguous (fold (scope_row changed) rws (scope_row changed r st)) = sp_ambiguous (scope_row changed r st)"
    using Cons.IH [of "scope_row changed r st"] Cons.prems by simp_all
  have "sp_problems st = []" "\<not> malformed_path (mget (as_dict r) ''path'')"
      "set (sp_covered (scope_row changed r st)) = insert (str_of (mget (as_dict r) ''path'')) (set (sp_covered st))"
      "sp_ambiguous (scope_row changed r st) = sp_ambiguous st"
    using step by (auto simp: scope_row_def Let_def split: if_splits)
  then show ?case using rest by auto
qed simp

lemma scope_receipts_fields:
  "sp_problems (fold (scope_receipt changed) docs st) = [] \<Longrightarrow>
     sp_problems st = []
     \<and> set (sp_covered (fold (scope_receipt changed) docs st)) \<subseteq> set (sp_covered st) \<union> (\<Union>d \<in> set docs. set (covered_paths d))"
proof (induction docs arbitrary: st)
  case (Cons d docs)
  have rest: "sp_problems (scope_receipt changed d st) = []"
      "set (sp_covered (fold (scope_receipt changed) docs (scope_receipt changed d st)))
         \<subseteq> set (sp_covered (scope_receipt changed d st)) \<union> (\<Union>d \<in> set docs. set (covered_paths d))"
    using Cons.IH [of "scope_receipt changed d st"] Cons.prems by simp_all
  note one = scope_rows_fields [OF rest(1) [unfolded scope_receipt_def]]
  have "(\<lambda>r. str_of (mget (as_dict r) ''path'')) ` set (change_rows d) \<subseteq> set (covered_paths d)"
    using one by (auto simp: covered_paths_def malformed_path_def list_all_iff)
  moreover have "sp_problems st = []"
      "set (sp_covered (scope_receipt changed d st)) = set (sp_covered st) \<union> (\<lambda>r. str_of (mget (as_dict r) ''path'')) ` set (change_rows d)"
    using one by (simp_all add: scope_receipt_def)
  ultimately show ?case using rest(2) by auto
qed simp

text \<open>Where nothing is wrong, every changed path is a record, or a receipt names it relative to the directory of the gate.\<close>

definition named_by :: "string \<Rightarrow> dict list \<Rightarrow> string \<Rightarrow> bool" where
  "named_by prefix docs p \<longleftrightarrow> startswith p prefix \<and> list_ex (\<lambda>d. drop (length prefix) p \<in> set (covered_paths d)) docs"

lemma fully_covered_names:
  assumes "fully_covered (range_coverage prefix changed docs t)" and "p \<in> set changed"
  shows "named_by prefix docs p \<or> p \<in> set (tr_receipts t @ tr_derived t @ tr_ledger t)"
proof (cases "prefix = []")
  case True
  then show ?thesis using assms
    by (auto simp: fully_covered_def range_coverage_def uncovered_root_def Let_def filter_empty_conv named_by_def)
next
  case False
  let ?sc = "scope_of (in_scope_of prefix changed) docs"
  have c: "uncovered_scoped prefix changed docs (tr_receipts t @ tr_derived t @ tr_ledger t) = []" "sp_problems ?sc = []"
    using assms(1) False by (simp_all add: fully_covered_def range_coverage_def Let_def)
  have covered: "set (sp_covered ?sc) \<subseteq> (\<Union>d \<in> set docs. set (covered_paths d))"
    using scope_receipts_fields [OF c(2) [unfolded scope_of_def]] by (simp add: scope_of_def)
  have "startswith p prefix \<and> drop (length prefix) p \<in> set (sp_covered ?sc)
      \<or> p \<in> set (tr_receipts t @ tr_derived t @ tr_ledger t)"
    using c(1) assms(2) by (auto simp: uncovered_scoped_def Let_def filter_empty_conv split: if_splits)
  then show ?thesis using covered by (auto simp: named_by_def list_ex_iff)
qed

text \<open>A receipt below the root that names one path twice, in two spellings, covers it under neither.\<close>

lemma aliased_path_uncovered:
  "uncovered_scoped ''pkg/'' [''pkg/a.py''] [[(''change_set'', JObj [(''files'', JArr
     [JObj [(''path'', JStr ''a.py'')], JObj [(''path'', JStr ''x/../a.py'')]])])]] [] = [''pkg/a.py'']"
  by code_simp

end
