(* ===== verification/AdmitGate.thy ===== *)
theory AdmitGate
  imports AdmitScope AdmitProbe PairGateProps
begin

section \<open>The gate\<close>

text \<open>
  \<^verbatim>\<open>gate\<close> of \<^verbatim>\<open>tools/graph/admit_change.py\<close>: the checks C01 to C21 over the range of a change and the receipts that bind it.
  A check is its id and the verdict it carries; sentences are left out.  Arguments of the model are what git, the clock
  and the file system answer, and the parts of the tool that other programs run: the receipt that the gate writes for
  an automated author, the stage evidence, the full-suite records of the platform, and the origin of the graphs.
\<close>

subsection \<open>Verdicts\<close>

datatype gate_verdict = Admit | PausedSafe | RefuseChange

fun verdict_rank :: "gate_verdict \<Rightarrow> nat" where
  "verdict_rank Admit = 0"
| "verdict_rank PausedSafe = 1"
| "verdict_rank RefuseChange = 2"

lemma verdict_rank_inject: "verdict_rank v = verdict_rank w \<longleftrightarrow> v = w"
  by (cases v; cases w) simp_all

instantiation gate_verdict :: linorder
begin

definition less_eq_gate_verdict :: "gate_verdict \<Rightarrow> gate_verdict \<Rightarrow> bool" where
  "less_eq_gate_verdict v w \<longleftrightarrow> verdict_rank v \<le> verdict_rank w"

definition less_gate_verdict :: "gate_verdict \<Rightarrow> gate_verdict \<Rightarrow> bool" where
  "less_gate_verdict v w \<longleftrightarrow> verdict_rank v < verdict_rank w"

instance
  by standard (auto simp: less_eq_gate_verdict_def less_gate_verdict_def verdict_rank_inject [symmetric])

end

fun exit_of :: "gate_verdict \<Rightarrow> int" where
  "exit_of Admit = 0"
| "exit_of PausedSafe = 3"
| "exit_of RefuseChange = 5"

type_synonym gate_checks = "(string \<times> gate_verdict) list"

definition overall :: "gate_checks \<Rightarrow> gate_verdict" where
  "overall cs = fold (\<lambda>c v. if v < snd c then snd c else v) cs Admit"

lemma overall_fold_max:
  fixes v :: gate_verdict
  shows "fold (\<lambda>c v. if v < snd c then snd c else v) cs v = fold max (map snd cs) v"
proof (induction cs arbitrary: v)
  case (Cons c cs)
  have "(if v < snd c then snd c else v) = max (snd c) v" by (auto simp: max_def)
  then show ?case using Cons by simp
qed simp

lemma verdict_fold_ge:
  fixes v :: gate_verdict
  shows "v \<le> fold max xs v \<and> (\<forall>x \<in> set xs. x \<le> fold max xs v)"
proof (induction xs arbitrary: v)
  case (Cons x xs)
  show ?case using Cons.IH [of "max x v"] by (auto intro: order_trans)
qed simp

text \<open>The verdict is the worst of the checks, and \<^verbatim>\<open>admit\<close> only when all of them admit.\<close>

lemma overall_ge: "c \<in> set cs \<Longrightarrow> snd c \<le> overall cs"
  using verdict_fold_ge [of Admit "map snd cs"] by (auto simp: overall_def overall_fold_max)

lemma overall_Admit: "overall cs = Admit \<Longrightarrow> c \<in> set cs \<Longrightarrow> snd c = Admit"
  using overall_ge [of c cs] by (cases "snd c") (auto simp: less_eq_gate_verdict_def)

subsection \<open>The policy and the arguments\<close>

record gate_policy =
  gp_verdict :: "string \<Rightarrow> gate_verdict"
  gp_bypass :: "string list"
  gp_markers :: "string list"
  gp_enforcement :: string
  gp_doc :: json

text \<open>The verdict that the policy of the repository gives each check.\<close>

definition stock_verdict :: "string \<Rightarrow> gate_verdict" where
  "stock_verdict cid =
     (if cid \<in> {''C14'', ''C15'', ''C17'', ''C20''} then Admit
      else if cid \<in> {''C09'', ''C13'', ''C18''} then PausedSafe else RefuseChange)"

text \<open>What the stage evidence of a receipt says: whether it is in order, the entities it knows as not measured, and those
  that failed before the change.\<close>

record stage_answer =
  sa_ok :: bool
  sa_unmeasured :: "json list"
  sa_preexisting :: "json list"

record gate_env =
  ge_git :: structural_git
  ge_pair :: gate_git
  ge_schema :: graph_schema
  ge_decls :: edge_type_decls
  ge_matrix :: matrix
  ge_receipt :: receipt_schema
  ge_digest :: "json \<Rightarrow> string"
  ge_claim_sha :: "json \<Rightarrow> string"
  ge_now :: string
  ge_clock :: rat
  ge_exists :: "string \<Rightarrow> bool"
  ge_ledger :: "string \<Rightarrow> json option"
  ge_synthesize :: "changes \<Rightarrow> dict \<Rightarrow> receipt_file option"
  ge_stage :: "receipt_file \<Rightarrow> stage_answer option"
  ge_current :: "receipt_file \<Rightarrow> bool option"
  ge_suite_errors :: "json list \<Rightarrow> bool"
  ge_origin :: "receipt_file \<Rightarrow> (exc + (graph_index \<Rightarrow> graph_index \<Rightarrow> bool)) option"

record gate_options =
  go_description :: string
  go_bypass_flag :: bool
  go_env_bypass :: "string list"
  go_disabled :: "string list"
  go_enforcement :: "string option"
  go_named :: string
  go_repo_name :: string
  go_explicit :: bool
  go_event :: "json option"
  go_job :: "string option \<times> string option"
  go_bundle :: string
  go_base_branch :: "string option"

definition add_check :: "gate_options \<Rightarrow> gate_policy \<Rightarrow> string \<Rightarrow> bool \<Rightarrow> gate_checks" where
  "add_check W P cid b = (if b \<and> cid \<notin> set (go_disabled W) then [(cid, gp_verdict P cid)] else [])"

subsection \<open>Before the receipts\<close>

definition enforcement_of :: "gate_env \<Rightarrow> gate_options \<Rightarrow> gate_policy \<Rightarrow> string" where
  "enforcement_of E W P =
     (case go_enforcement W of
        Some (c # e) \<Rightarrow> c # e
      | _ \<Rightarrow> if is_program_repo (ge_exists E) (go_named W) then gp_enforcement P else ''off'')"

definition bypass_attempt :: "gate_options \<Rightarrow> gate_policy \<Rightarrow> bool" where
  "bypass_attempt W P \<longleftrightarrow>
     go_bypass_flag W \<or> go_env_bypass W \<noteq> [] \<or> list_ex (contains (lower (go_description W))) (gp_bypass P)"

text \<open>The path of an automated author: its only effect is one more receipt.\<close>

definition automated_step ::
    "gate_env \<Rightarrow> gate_options \<Rightarrow> gate_policy \<Rightarrow> string \<Rightarrow> string \<Rightarrow> changes \<Rightarrow> exc + gate_checks \<times> receipt_file list" where
  "automated_step E W P base head files =
     (case match_automated_author (gp_doc P) (case go_event W of None \<Rightarrow> JNull | Some ev \<Rightarrow> ev) of
        None \<Rightarrow> Inr (add_check W P ''C15'' (go_event W \<noteq> None), [])
      | Some author \<Rightarrow>
          bindE (outside_allowlist (ge_git E) base head files author) (\<lambda>outside.
            if outside \<noteq> [] then Inr (add_check W P ''C15'' True, [])
            else case ge_synthesize E files author of
              None \<Rightarrow> Inr (add_check W P ''C15'' True, [])
            | Some r \<Rightarrow> Inr (add_check W P ''C14'' True, [r\<lparr>rf_issued := True\<rparr>])))"

subsection \<open>One receipt\<close>

definition has_arms :: "dict \<Rightarrow> bool" where
  "has_arms doc \<longleftrightarrow>
     list_ex (\<lambda>v. is_dict v \<and> has_key (as_dict v) ''arms'' \<and> is_full_suite (as_dict v)) (as_list (mget doc ''verifiers''))"

text \<open>The definition of the arms in the range of the gate itself.\<close>

definition gate_arms :: "gate_git \<Rightarrow> string \<Rightarrow> string \<Rightarrow> range_def" where
  "gate_arms G base head =
     (case (gg_rev G base, gg_rev G head) of
        (Inr b, Inr h) \<Rightarrow> (case base_untrusted G b h (Some base) of Some d \<Rightarrow> d | None \<Rightarrow> arm_definition_from_git G b h)
      | _ \<Rightarrow> BASE_UNTRUSTED)"

definition gate_classify :: "gate_env \<Rightarrow> string \<Rightarrow> string \<Rightarrow> dict \<Rightarrow> exc + classification" where
  "gate_classify E base head doc =
     classify (ge_digest E) (ge_claim_sha E) (ge_schema E) (ge_receipt E) []
       (if has_arms doc then Some (gate_arms (ge_pair E) base head) else None) (JObj doc)"

text \<open>C18: the receipt against the graphs that are rebuilt.  \<open>None\<close>: the query does not return.\<close>

definition coverage_accepted :: "gate_env \<Rightarrow> string \<Rightarrow> receipt_file \<Rightarrow> dict \<Rightarrow> bool option" where
  "coverage_accepted E base r doc =
     (let judged = (\<lambda>origin. map_option (\<lambda>x. x = Inr [] \<and> \<not> ge_suite_errors E (as_list (mget doc ''verifiers'')))
            (receipt_problems (ge_pair E) (ge_schema E) (ge_decls E) (ge_matrix E) (ge_now E) doc (Some base) origin))
      in case ge_origin E r of
           None \<Rightarrow> judged None
         | Some (Inl _) \<Rightarrow> Some False
         | Some (Inr origin) \<Rightarrow> judged (Some origin))"

text \<open>\<^verbatim>\<open>{v["entity"]: v.get("verdict") for v in ...}\<close>: the last verdict of an entity stands.\<close>

definition gate_verdicts :: "dict \<Rightarrow> (json \<times> json) list" where
  "gate_verdicts doc =
     fold (\<lambda>v m. AList.update (mget (as_dict v) ''entity'') (mget (as_dict v) ''verdict'') m)
       (filter (\<lambda>v. is_dict v \<and> has_key (as_dict v) ''entity'') (rows doc ''verdicts'')) []"

definition structural_rows :: "dict \<Rightarrow> json list" where
  "structural_rows doc =
     filter (\<lambda>x. is_dict x \<and> str_in (mget (as_dict x) ''code'') STRUCTURAL_CODES) (rows doc ''exemptions'')"

definition exemptions_bad :: "dict \<Rightarrow> bool" where
  "exemptions_bad doc \<longleftrightarrow> list_ex (\<lambda>j. exemption_admissible doc j = Inr False) (rows doc ''exemptions'')"

definition decisions_bad :: "gate_env \<Rightarrow> gate_options \<Rightarrow> gate_policy \<Rightarrow> receipt_file \<Rightarrow> dict \<Rightarrow> bool" where
  "decisions_bad E W P r doc \<longleftrightarrow>
     list_ex (\<lambda>j. exemption_problems (sg_env (ge_git E)) doc (gp_doc P) (go_repo_name W) (ge_clock E) (rf_issued r) j \<noteq> [])
       (rows doc ''exemptions'')"

text \<open>C16, C17 and C20, with the entities that stay exempted.\<close>

definition structural_step ::
    "gate_env \<Rightarrow> gate_options \<Rightarrow> gate_policy \<Rightarrow> string \<Rightarrow> string \<Rightarrow> changes \<Rightarrow> dict \<Rightarrow> json list \<Rightarrow> exc + gate_checks \<times> json list" where
  "structural_step E W P base head files doc exempt =
     (let xs = structural_rows doc
      in if xs = [] then Inr ([], exempt)
         else bindE (recheck_structural (ge_git E) base head files xs (go_repo_name W) (map fst (gate_verdicts doc))
                       (go_bundle W) (go_base_branch W) (go_job W) (receipt_head (JObj doc)))
                (\<lambda>(problems, b).
                   let toolchain = (case b of None \<Rightarrow> False | Some x \<Rightarrow> bt_toolchain x);
                       gap = (case b of None \<Rightarrow> [] | Some x \<Rightarrow> bt_gap x);
                       named = map (\<lambda>x. mget (as_dict x) ''entity'') xs
                   in Inr (add_check W P ''C20'' toolchain @ add_check W P ''C16'' (problems \<noteq> [])
                             @ add_check W P ''C17'' (problems = [] \<and> gap \<noteq> []),
                           if problems \<noteq> [] then filter (\<lambda>e. e \<notin> set named) exempt else exempt)))"

text \<open>C12: entities of a service or another repository that an inferred hop reaches.\<close>

definition boundary_row :: "json \<Rightarrow> bool" where
  "boundary_row e \<longleftrightarrow>
     is_dict e \<and> str_in (mget (as_dict e) ''boundary'') [''service'', ''repo'']
     \<and> list_ex (\<lambda>h. is_dict h \<and> str_in (mget (as_dict h) ''provenance'') [''inferred'', ''observed''])
         (as_list (mget (as_dict e) ''path''))"

definition boundary_entities :: "dict \<Rightarrow> exc + json list" where
  "boundary_entities doc =
     mapE (\<lambda>e. if has_key (as_dict e) ''entity'' then Inr (mget (as_dict e) ''entity'') else Inl (KeyError ''entity''))
       (filter boundary_row (impact_core doc @ impact_tail doc))"

text \<open>C19: the probes that a verdict cites are counted before the verdicts are.\<close>

definition effective_verdicts :: "gate_options \<Rightarrow> dict \<Rightarrow> (json \<times> json) list" where
  "effective_verdicts W doc =
     (let vs = gate_verdicts doc
      in if ''C19'' \<in> set (go_disabled W) then vs
         else fold (\<lambda>(e, v) m. AList.update e (JStr v) m) (fst (probe_effective_verdicts doc (map_of vs))) vs)"

definition entities_with :: "string \<Rightarrow> (json \<times> json) list \<Rightarrow> json list" where
  "entities_with w vs = map fst (filter (\<lambda>(_, v). v = JStr w) vs)"

definition stage_ok :: "gate_env \<Rightarrow> receipt_file \<Rightarrow> bool" where
  "stage_ok E r \<longleftrightarrow>
     (case ge_stage E r of Some s \<Rightarrow> sa_ok s | None \<Rightarrow> ge_current E r = Some True)"

text \<open>The two routes exclude each other; the second is refused when the first is taken.\<close>

definition stage_checks :: "gate_env \<Rightarrow> receipt_file \<Rightarrow> gate_checks" where
  "stage_checks E r =
     (case ge_stage E r of None \<Rightarrow> [] | Some s \<Rightarrow> [(''STAGE-EVIDENCE'', if sa_ok s then Admit else RefuseChange)])
     @ (case ge_current E r of
          None \<Rightarrow> []
        | Some ok \<Rightarrow> [(''CURRENT-SOURCE-STAGE'', if ok \<and> ge_stage E r = None then Admit else RefuseChange)])"

definition preexisting :: "gate_env \<Rightarrow> receipt_file \<Rightarrow> json list" where
  "preexisting E r = (case ge_stage E r of None \<Rightarrow> [] | Some s \<Rightarrow> sa_preexisting s)"

definition stage_unmeasured :: "gate_env \<Rightarrow> receipt_file \<Rightarrow> json list" where
  "stage_unmeasured E r = (case ge_stage E r of Some s \<Rightarrow> if sa_ok s then sa_unmeasured s else [] | None \<Rightarrow> [])"

text \<open>C11: what the receipt itself says.\<close>

definition admission_check ::
    "gate_env \<Rightarrow> gate_options \<Rightarrow> gate_policy \<Rightarrow> receipt_file \<Rightarrow> dict \<Rightarrow> (json \<times> json) list \<Rightarrow> gate_checks" where
  "admission_check E W P r doc vs =
     (let av = admission_of doc; failed = entities_with ''failed'' vs; pre = preexisting E r
      in if av = JStr ''paused_safe'' \<and> \<not> stage_ok E r
         then (if ''C11'' \<in> set (go_disabled W) then [] else [(''C11'', PausedSafe)])
         else if av = JStr ''refused'' \<and> failed \<noteq> [] \<and> set failed = set pre \<and> stage_ok E r then []
         else add_check W P ''C11'' (\<not> str_in av [''admitted'', ''admitted_with_exemptions'', ''paused_safe'']))"

definition canary_checks ::
    "gate_env \<Rightarrow> gate_options \<Rightarrow> gate_policy \<Rightarrow> string \<Rightarrow> receipt_file \<Rightarrow> dict \<Rightarrow> json list \<Rightarrow> (json \<times> json) list \<Rightarrow> json list
       \<Rightarrow> gate_checks" where
  "canary_checks E W P head r doc boundary vs exempt =
     (let owed = filter (\<lambda>e. e \<notin> set exempt) boundary;
          cov = canary_coverage (ge_git E) head (as_list (mget doc ''verifiers'')) (cashed_canary_ids doc owed);
          excused = filter (\<lambda>e. map_of vs e = Some (JStr ''not_measured'')) (stage_unmeasured E r)
      in concat (map (\<lambda>_. add_check W P ''C12'' True) (snd cov))
         @ add_check W P ''C12'' (\<not> set owed \<subseteq> set (fst cov @ excused)))"

text \<open>C08 and C09.\<close>

definition verdict_checks ::
    "gate_env \<Rightarrow> gate_options \<Rightarrow> gate_policy \<Rightarrow> receipt_file \<Rightarrow> (json \<times> json) list \<Rightarrow> json list \<Rightarrow> gate_checks" where
  "verdict_checks E W P r vs exempt =
     add_check W P ''C08'' (\<not> set (entities_with ''failed'' vs) \<subseteq> set (exempt @ preexisting E r))
     @ add_check W P ''C09'' (\<not> set (entities_with ''not_measured'' vs) \<subseteq> set exempt \<and> \<not> stage_ok E r)"

definition probe_checks :: "gate_options \<Rightarrow> gate_policy \<Rightarrow> dict \<Rightarrow> gate_checks" where
  "probe_checks W P doc =
     concat (map (\<lambda>_. add_check W P ''C19'' True) (snd (probe_effective_verdicts doc (map_of (gate_verdicts doc)))))"

text \<open>The checks of one bound receipt, in their order; \<open>covered\<close> is the answer of C18.\<close>

definition judge_receipt ::
    "gate_env \<Rightarrow> gate_options \<Rightarrow> gate_policy \<Rightarrow> string \<Rightarrow> string \<Rightarrow> changes \<Rightarrow> receipt_file \<times> bool \<Rightarrow> exc + gate_checks" where
  "judge_receipt E W P base head files rc =
     (let r = fst rc; doc = as_dict (the (rf_doc r))
      in bindE (gate_classify E base head doc) (\<lambda>cl.
         bindE (gate_exempt (sg_env (ge_git E)) doc (gp_doc P) (go_repo_name W) (ge_clock E) (rf_issued r)) (\<lambda>exempt0.
         bindE (structural_step E W P base head files doc exempt0) (\<lambda>(structural, exempt).
         bindE (boundary_entities doc) (\<lambda>boundary.
           let vs = effective_verdicts W doc
           in Inr (add_check W P ''C04'' (\<not> cl_conformant cl) @ stage_checks E r
                   @ add_check W P ''C07'' (mget (sub doc ''staleness'') ''verdict'' \<noteq> JStr ''fresh'')
                   @ add_check W P ''C18'' (\<not> snd rc) @ add_check W P ''C10'' (exemptions_bad doc)
                   @ add_check W P ''C21'' (decisions_bad E W P r doc) @ structural @ probe_checks W P doc
                   @ verdict_checks E W P r vs exempt @ admission_check E W P r doc vs
                   @ canary_checks E W P head r doc boundary vs exempt))))))"

subsection \<open>Over all receipts\<close>

definition doc_of :: "receipt_file \<Rightarrow> dict" where
  "doc_of r = as_dict (the (rf_doc r))"

definition as_bound :: "receipt_file \<Rightarrow> bound_receipt" where
  "as_bound r = \<lparr>br_doc = JObj (doc_of r), br_digest = rf_digest r, br_rel = rf_rel r\<rparr>"

text \<open>The commits after the head of a receipt; the run of the declared verifiers is \<^verbatim>\<open>_verify_declared_artefacts\<close>, with the
  declaration at the base.  Its \<^verbatim>\<open>OSError\<close> cannot occur: a path is run only if it is a regular file at the head.\<close>

definition run_declared :: "structural_git \<Rightarrow> string \<Rightarrow> string \<Rightarrow> string list \<Rightarrow> bool option" where
  "run_declared G base head ps =
     (case verify_declared G head (declared_artefacts (read_declaration (sg_git G) base)) ps of Inl _ \<Rightarrow> None | Inr v \<Rightarrow> v)"

definition trailing_of :: "gate_env \<Rightarrow> gate_options \<Rightarrow> string \<Rightarrow> string \<Rightarrow> receipt_file list \<Rightarrow> trailing_result" where
  "trailing_of E W base head bound =
     trailing_record_commits ((sg_git (ge_git E))\<lparr>tg_verify := run_declared (ge_git E) base head\<rparr>) base head (map as_bound bound)
       (if is_program_repo (ge_exists E) (go_named W) then Some LEDGER_REL else None)"

definition gate_coverage :: "gate_env \<Rightarrow> gate_options \<Rightarrow> string \<Rightarrow> string \<Rightarrow> changes \<Rightarrow> receipt_file list \<Rightarrow> coverage_result" where
  "gate_coverage E W base head files bound =
     range_coverage (r_prefix (gg_repo (ge_pair E))) (map fst files) (map doc_of bound) (trailing_of E W base head bound)"

text \<open>C13: what is missing for one receipt; a receipt without a work item may be excused by its stage.\<close>

datatype evidence = EvidenceStage | EvidenceFound | EvidenceMissing

text \<open>\<^verbatim>\<open>(entry or {}).get("delivery", {}).get("status")\<close>: a delivery that is \<^verbatim>\<open>null\<close> has no \<^verbatim>\<open>get\<close>.\<close>

definition delivery_status :: "json \<Rightarrow> exc + json" where
  "delivery_status a =
     (if \<not> has_key (as_dict a) ''delivery'' then Inr JNull
      else case mget (as_dict a) ''delivery'' of JObj d \<Rightarrow> Inr (mget d ''status'') | _ \<Rightarrow> Inl AttributeError)"

definition evidence_of :: "gate_env \<Rightarrow> string \<Rightarrow> receipt_file \<Rightarrow> exc + evidence" where
  "evidence_of E enforcement r =
     (let wi = mget (doc_of r) ''work_item''
      in if \<not> truthy wi then Inr (if stage_ok E r then EvidenceStage else EvidenceMissing)
         else case ledger_lookup (ge_ledger E) wi (rf_digest r) of
           None \<Rightarrow> Inr EvidenceMissing
         | Some a \<Rightarrow> bindE (delivery_status a) (\<lambda>status.
               Inr (if enforcement = ''muneral'' \<and> status \<noteq> JStr ''posted'' then EvidenceMissing else EvidenceFound)))"

definition evidence_checks :: "gate_env \<Rightarrow> gate_options \<Rightarrow> gate_policy \<Rightarrow> receipt_file list \<Rightarrow> exc + gate_checks" where
  "evidence_checks E W P bound =
     (let enforcement = enforcement_of E W P
      in if bound = [] \<or> enforcement = ''off'' then Inr []
         else bindE (mapE (evidence_of E enforcement) bound) (\<lambda>evs.
                Inr (if EvidenceMissing \<in> set evs then add_check W P ''C13'' True
                     else if EvidenceStage \<in> set evs \<and> ''C13'' \<notin> set (go_disabled W) then [(''C13'', Admit)] else [])))"

definition missing_checks :: "gate_options \<Rightarrow> gate_policy \<Rightarrow> receipt_file list \<Rightarrow> gate_checks" where
  "missing_checks W P bound =
     (if bound \<noteq> [] then []
      else add_check W P ''C02'' (list_ex (contains (lower (go_description W))) (gp_markers P)) @ add_check W P ''C03'' True)"

record gate_outcome =
  gt_verdict :: gate_verdict
  gt_checks :: gate_checks
  gt_bound :: "receipt_file list"
  gt_exit :: int

definition finish_gate :: "receipt_file list \<Rightarrow> gate_checks \<Rightarrow> gate_outcome" where
  "finish_gate bound cs = \<lparr>gt_verdict = overall cs, gt_checks = cs, gt_bound = bound, gt_exit = exit_of (overall cs)\<rparr>"

text \<open>The receipts that bind, with the answers of C18; \<open>None\<close> where one of them does not return.\<close>

definition with_coverage :: "gate_env \<Rightarrow> string \<Rightarrow> receipt_file list \<Rightarrow> (receipt_file \<times> bool) list option" where
  "with_coverage E base bound = those (map (\<lambda>r. map_option (Pair r) (coverage_accepted E base r (doc_of r))) bound)"

definition judge_range ::
    "gate_env \<Rightarrow> gate_options \<Rightarrow> gate_policy \<Rightarrow> string \<Rightarrow> string \<Rightarrow> changes \<Rightarrow> gate_checks \<Rightarrow> receipt_file list
       \<Rightarrow> receipt_file list \<Rightarrow> (receipt_file \<times> bool) list \<Rightarrow> exc + gate_outcome" where
  "judge_range E W P base head files before bound unbound covered =
     bindE (mapE (judge_receipt E W P base head files) covered) (\<lambda>per_receipt.
     bindE (evidence_checks E W P bound) (\<lambda>evidence.
       let named = (if go_explicit W then concat (map (\<lambda>_. add_check W P ''C05'' True) unbound) else []);
           range = add_check W P ''C06'' (bound \<noteq> [] \<and> \<not> fully_covered (gate_coverage E W base head files bound))
       in Inr (finish_gate bound (before @ named @ missing_checks W P bound @ concat per_receipt @ range @ evidence))))"

definition gate ::
    "gate_env \<Rightarrow> gate_options \<Rightarrow> gate_policy \<Rightarrow> string \<Rightarrow> string \<Rightarrow> receipt_file list \<Rightarrow> (exc + gate_outcome) option" where
  "gate E W P base head candidates =
     (let files = sg_files (ge_git E) base head
      in case automated_step E W P base head files of
           Inl e \<Rightarrow> Some (Inl e)
         | Inr (auto, extra) \<Rightarrow>
             (case gate_receipt_context (sg_git (ge_git E)) (sg_commits (ge_git E) base head) head (candidates @ extra) of
                Inl e \<Rightarrow> Some (Inl e)
              | Inr (bound, unbound) \<Rightarrow>
                  map_option (judge_range E W P base head files (add_check W P ''C01'' (bypass_attempt W P) @ auto) bound unbound)
                    (with_coverage E base bound)))"

end
