(* ===== verification/AdmitGateProps.thy ===== *)
theory AdmitGateProps
  imports AdmitGate AdmitRecheckProps
begin

section \<open>What an admitting verdict of the gate means\<close>

text \<open>
  The gate of \<open>AdmitGate\<close> with the policy of the repository: which facts about the range stand behind \<^verbatim>\<open>admit\<close>, and that
  every run ends.
\<close>

subsection \<open>A receipt that the gate accepts\<close>

definition exempt_at ::
    "gate_env \<Rightarrow> gate_options \<Rightarrow> gate_policy \<Rightarrow> string \<Rightarrow> string \<Rightarrow> receipt_file \<Rightarrow> exc + json list" where
  "exempt_at E W P base head r =
     bindE (gate_exempt (sg_env (ge_git E)) (doc_of r) (gp_doc P) (go_repo_name W) (ge_clock E) (rf_issued r)) (\<lambda>xs.
     bindE (structural_step E W P base head (sg_files (ge_git E) base head) (doc_of r) xs) (\<lambda>(_, ys). Inr ys))"

text \<open>Each verdict, after the probes: none failed unless exempted or known before the change, none unmeasured unless
  exempted or taken over by the evidence of a stage.\<close>

definition verdicts_settled :: "gate_env \<Rightarrow> gate_options \<Rightarrow> receipt_file \<Rightarrow> json list \<Rightarrow> bool" where
  "verdicts_settled E W r exempt \<longleftrightarrow>
     list_all (\<lambda>(e, v). if v = JStr ''failed'' then e \<in> set (exempt @ preexisting E r)
                        else if v = JStr ''not_measured'' then e \<in> set exempt \<or> stage_ok E r else True)
       (effective_verdicts W (doc_of r))"

definition admission_settled :: "gate_env \<Rightarrow> receipt_file \<Rightarrow> bool" where
  "admission_settled E r \<longleftrightarrow>
     str_in (admission_of (doc_of r)) [''admitted'', ''admitted_with_exemptions'']
     \<or> stage_ok E r \<and> str_in (admission_of (doc_of r)) [''paused_safe'', ''refused'']"

definition boundaries_settled :: "gate_env \<Rightarrow> gate_options \<Rightarrow> string \<Rightarrow> receipt_file \<Rightarrow> json list \<Rightarrow> bool" where
  "boundaries_settled E W head r exempt \<longleftrightarrow>
     (case boundary_entities (doc_of r) of
        Inl _ \<Rightarrow> False
      | Inr es \<Rightarrow>
          list_all (\<lambda>e. e \<in> set exempt \<or> e \<in> set (stage_unmeasured E r)
             \<or> list_ex (\<lambda>v. e \<in> set (fst (row_coverage (ge_git E) head v)))
                 (gate_canary_rows (as_list (mget (doc_of r) ''verifiers'')))) es)"

definition structure_settled :: "gate_env \<Rightarrow> gate_options \<Rightarrow> string \<Rightarrow> string \<Rightarrow> receipt_file \<Rightarrow> bool" where
  "structure_settled E W base head r \<longleftrightarrow>
     structural_rows (doc_of r) = []
     \<or> (case recheck_structural (ge_git E) base head (sg_files (ge_git E) base head) (structural_rows (doc_of r)) (go_repo_name W)
               (map fst (gate_verdicts (doc_of r))) (go_bundle W) (go_base_branch W) (go_job W) (receipt_head (JObj (doc_of r))) of
          Inr ([], _) \<Rightarrow> True | _ \<Rightarrow> False)"

definition evidence_settled :: "gate_env \<Rightarrow> gate_options \<Rightarrow> gate_policy \<Rightarrow> receipt_file \<Rightarrow> bool" where
  "evidence_settled E W P r \<longleftrightarrow>
     enforcement_of E W P = ''off'' \<or> evidence_of E (enforcement_of E W P) r \<in> {Inr EvidenceStage, Inr EvidenceFound}"

definition receipt_settled ::
    "gate_env \<Rightarrow> gate_options \<Rightarrow> gate_policy \<Rightarrow> string \<Rightarrow> string \<Rightarrow> receipt_file \<Rightarrow> bool" where
  "receipt_settled E W P base head r \<longleftrightarrow>
     judge_candidate (sg_git (ge_git E)) (sg_commits (ge_git E) base head) head r = Inr Bound
     \<and> map_sum id cl_conformant (gate_classify E base head (doc_of r)) = Inr True
     \<and> mget (sub (doc_of r) ''staleness'') ''verdict'' = JStr ''fresh''
     \<and> coverage_accepted E base r (doc_of r) = Some True
     \<and> snd (probe_effective_verdicts (doc_of r) (map_of (gate_verdicts (doc_of r)))) = []
     \<and> structure_settled E W base head r \<and> admission_settled E r \<and> evidence_settled E W P r
     \<and> (case exempt_at E W P base head r of
          Inl _ \<Rightarrow> False | Inr exempt \<Rightarrow> verdicts_settled E W r exempt \<and> boundaries_settled E W head r exempt)"

subsection \<open>Reading the checks\<close>

definition all_admit :: "gate_checks \<Rightarrow> bool" where
  "all_admit cs \<longleftrightarrow> (\<forall>c \<in> set cs. snd c = Admit)"

lemma all_admit_simps [simp]:
  "all_admit []" "all_admit (c # cs) \<longleftrightarrow> snd c = Admit \<and> all_admit cs" "all_admit (cs @ ds) \<longleftrightarrow> all_admit cs \<and> all_admit ds"
  "all_admit (concat css) \<longleftrightarrow> (\<forall>cs \<in> set css. all_admit cs)"
  by (auto simp: all_admit_def)

definition blocking :: "string \<Rightarrow> bool" where
  "blocking cid \<longleftrightarrow> stock_verdict cid \<noteq> Admit"

lemma blocking_ids [simp]:
  "blocking ''C01''" "blocking ''C03''" "blocking ''C04''" "blocking ''C06''" "blocking ''C07''" "blocking ''C08''" "blocking ''C09''"
  "blocking ''C11''" "blocking ''C12''" "blocking ''C13''" "blocking ''C16''" "blocking ''C18''" "blocking ''C19''"
  by (simp_all add: blocking_def stock_verdict_def)

lemma add_check_admits:
  "gp_verdict P = stock_verdict \<Longrightarrow> go_disabled W = [] \<Longrightarrow> blocking cid \<Longrightarrow> all_admit (add_check W P cid b) \<longleftrightarrow> \<not> b"
  by (simp add: add_check_def blocking_def)

lemma structural_step_settled:
  assumes "structural_step E W P base head (sg_files (ge_git E) base head) (doc_of r) xs = Inr (cs, ys)" and "all_admit cs"
    and stock: "gp_verdict P = stock_verdict" "go_disabled W = []"
  shows "structure_settled E W base head r"
  using assms(1,2)
  by (auto simp: structural_step_def structure_settled_def Let_def add_check_admits [OF stock] split: if_splits sum.splits list.splits)

lemma admission_check_settled:
  assumes "all_admit (admission_check E W P r (doc_of r) vs)"
    and stock: "gp_verdict P = stock_verdict" "go_disabled W = []"
  shows "admission_settled E r"
  using assms(1)
  by (auto simp: admission_check_def admission_settled_def Let_def stock add_check_admits [OF stock] str_in_iff split: if_splits)

lemma verdict_checks_settled:
  assumes "all_admit (verdict_checks E W P r (effective_verdicts W (doc_of r)) exempt)"
    and stock: "gp_verdict P = stock_verdict" "go_disabled W = []"
  shows "verdicts_settled E W r exempt"
proof -
  have "set (entities_with ''failed'' (effective_verdicts W (doc_of r))) \<subseteq> set (exempt @ preexisting E r)"
      "set (entities_with ''not_measured'' (effective_verdicts W (doc_of r))) \<subseteq> set exempt \<or> stage_ok E r"
    using assms(1) by (auto simp: verdict_checks_def add_check_admits [OF stock])
  moreover have "(e, JStr w) \<in> set (effective_verdicts W (doc_of r)) \<Longrightarrow> e \<in> set (entities_with w (effective_verdicts W (doc_of r)))"
    for e w by (force simp: entities_with_def)
  ultimately show ?thesis unfolding verdicts_settled_def list_all_iff by fastforce
qed

lemma canary_checks_settled:
  assumes "all_admit (canary_checks E W P head r (doc_of r) boundary vs exempt)" "boundary_entities (doc_of r) = Inr boundary"
    and stock: "gp_verdict P = stock_verdict" "go_disabled W = []"
  shows "boundaries_settled E W head r exempt"
proof -
  have "e \<in> set exempt \<or> e \<in> set (stage_unmeasured E r)
      \<or> (\<exists>v \<in> set (gate_canary_rows (as_list (mget (doc_of r) ''verifiers''))). e \<in> set (fst (row_coverage (ge_git E) head v)))"
    if "e \<in> set boundary" for e
    using assms(1) that by (auto simp: canary_checks_def Let_def add_check_admits [OF stock] canary_coverage_def)
  then show ?thesis by (simp add: boundaries_settled_def assms(2) list_all_iff list_ex_iff)
qed

lemma judge_receipt_settled:
  assumes j: "judge_receipt E W P base head (sg_files (ge_git E) base head) (r, c) = Inr cs" and a: "all_admit cs"
    and stock: "gp_verdict P = stock_verdict" "go_disabled W = []"
  shows "c \<and> map_sum id cl_conformant (gate_classify E base head (doc_of r)) = Inr True
    \<and> mget (sub (doc_of r) ''staleness'') ''verdict'' = JStr ''fresh''
    \<and> snd (probe_effective_verdicts (doc_of r) (map_of (gate_verdicts (doc_of r)))) = []
    \<and> structure_settled E W base head r \<and> admission_settled E r
    \<and> (case exempt_at E W P base head r of
         Inl _ \<Rightarrow> False | Inr exempt \<Rightarrow> verdicts_settled E W r exempt \<and> boundaries_settled E W head r exempt)"
proof -
  note quiet = add_check_admits [OF stock]
  obtain cl xs scs exempt boundary where
    cl: "gate_classify E base head (doc_of r) = Inr cl" and
    xs: "gate_exempt (sg_env (ge_git E)) (doc_of r) (gp_doc P) (go_repo_name W) (ge_clock E) (rf_issued r) = Inr xs" and
    st: "structural_step E W P base head (sg_files (ge_git E) base head) (doc_of r) xs = Inr (scs, exempt)" and
    bd: "boundary_entities (doc_of r) = Inr boundary" and
    cs: "cs = add_check W P ''C04'' (\<not> cl_conformant cl) @ stage_checks E r
       @ add_check W P ''C07'' (mget (sub (doc_of r) ''staleness'') ''verdict'' \<noteq> JStr ''fresh'')
       @ add_check W P ''C18'' (\<not> c) @ add_check W P ''C10'' (exemptions_bad (doc_of r))
       @ add_check W P ''C21'' (decisions_bad E W P r (doc_of r)) @ scs @ probe_checks W P (doc_of r)
       @ verdict_checks E W P r (effective_verdicts W (doc_of r)) exempt
       @ admission_check E W P r (doc_of r) (effective_verdicts W (doc_of r))
       @ canary_checks E W P head r (doc_of r) boundary (effective_verdicts W (doc_of r)) exempt"
    using j unfolding judge_receipt_def Let_def doc_of_def fst_conv snd_conv
    by (auto simp: doc_of_def split: prod.splits)
  have "snd (probe_effective_verdicts (doc_of r) (map_of (gate_verdicts (doc_of r)))) = []"
    using a unfolding cs by (auto simp: probe_checks_def quiet)
  moreover have "exempt_at E W P base head r = Inr exempt" by (simp add: exempt_at_def xs st)
  moreover have parts: "cl_conformant cl" "mget (sub (doc_of r) ''staleness'') ''verdict'' = JStr ''fresh''" c
    using a unfolding cs by (simp_all add: quiet)
  moreover have "all_admit scs" "all_admit (verdict_checks E W P r (effective_verdicts W (doc_of r)) exempt)"
      "all_admit (admission_check E W P r (doc_of r) (effective_verdicts W (doc_of r)))"
      "all_admit (canary_checks E W P head r (doc_of r) boundary (effective_verdicts W (doc_of r)) exempt)"
    using a unfolding cs by simp_all
  note settled = structural_step_settled [OF st this(1) stock] verdict_checks_settled [OF this(2) stock]
    admission_check_settled [OF this(3) stock] canary_checks_settled [OF this(4) bd stock]
  ultimately show ?thesis using settled by (simp add: cl)
qed

subsection \<open>Records and bound receipts\<close>

lemma judged_are_records:
  assumes "p \<in> set (tr_receipts t @ tr_derived t @ tr_ledger t)" and t: "t = judge_paths G base head bound l hs cs paths rs"
  shows "is_record G base head bound l p"
proof -
  define receipts where "receipts = bound_paths G head bound"
  define verdict where "verdict = (\<lambda>p. case l of None \<Rightarrow> None | Some x \<Rightarrow> ledger_verdict G base head bound x p)"
  define tried where "tried = filter (\<lambda>p. p \<notin> set receipts \<and> under_ledger l p) paths"
  define ledger where "ledger = filter (\<lambda>p. verdict p = None) tried"
  define others where "others = filter (\<lambda>p. p \<notin> set receipts \<and> p \<notin> set ledger) paths"
  define why where "why = (\<lambda>p. if p \<in> set tried \<and> verdict p \<noteq> None then verdict p
      else record_path_refusal G base head p (declared_artefacts (read_declaration G base)) False)"
  define derived where "derived = filter (\<lambda>p. why p = None) others"
  define good where "good = (if derived \<noteq> [] \<and> (if derived = [] then None else tg_verify G derived) = Some True then derived else [])"
  have parts: "tr_receipts t = filter (\<lambda>p. p \<in> set receipts \<and> p \<notin> set rs) paths"
      "tr_derived t = filter (\<lambda>p. p \<in> set good \<and> p \<notin> set rs) paths" "tr_ledger t = filter (\<lambda>p. p \<notin> set rs) (sort ledger)"
    unfolding t judge_paths_def Let_def receipts_def verdict_def tried_def ledger_def others_def why_def derived_def good_def
    by (simp_all only: trailing_result.simps)
  have "p \<in> set receipts \<or> p \<in> set good \<or> p \<in> set ledger" using assms(1) unfolding parts by auto
  then show ?thesis
  proof (elim disjE)
    assume "p \<in> set good"
    then have d: "p \<in> set derived" "tg_verify G derived = Some True" by (auto simp: good_def split: if_splits)
    then have "why p = None" by (simp add: derived_def)
    then have "record_path_refusal G base head p (declared_artefacts (read_declaration G base)) False = None"
      by (simp add: why_def split: if_splits)
    then show ?thesis using d by (auto simp: is_record_def)
  next
    assume "p \<in> set ledger"
    then show ?thesis using under_ledger_Some [of l p] by (auto simp: ledger_def tried_def verdict_def is_record_def)
  qed (simp add: is_record_def receipts_def)
qed

definition gate_trail :: "gate_env \<Rightarrow> string \<Rightarrow> string \<Rightarrow> trail_git" where
  "gate_trail E base head = (sg_git (ge_git E))\<lparr>tg_verify := run_declared (ge_git E) base head\<rparr>"

definition ledger_at :: "gate_env \<Rightarrow> gate_options \<Rightarrow> string option" where
  "ledger_at E W = (if is_program_repo (ge_exists E) (go_named W) then Some LEDGER_REL else None)"

lemma trailing_records:
  assumes "p \<in> set (tr_receipts (trailing_of E W base head bound) @ tr_derived (trailing_of E W base head bound)
                   @ tr_ledger (trailing_of E W base head bound))"
  shows "is_record (gate_trail E base head) base head (map as_bound bound) (ledger_at E W) p"
  using assms unfolding trailing_of_def trailing_record_commits_def Let_def gate_trail_def [symmetric] ledger_at_def [symmetric]
  by (auto simp: no_trailing_def intro: judged_are_records [OF _ refl] split: if_splits)

lemma context_bound:
  assumes "gate_receipt_context G commits head cands = Inr (bound, unbound)" and "r \<in> set bound"
  shows "judge_candidate G commits head r = Inr Bound"
proof -
  obtain rs where rs: "list_all2 (\<lambda>r y. bindE (judge_candidate G commits head r) (\<lambda>c. Inr (r, c)) = Inr y) cands rs"
      and b: "bound = map fst (filter (\<lambda>(_, c). c = Bound) rs)"
    using assms(1) unfolding gate_receipt_context_def
    by (cases "mapE (\<lambda>r. bindE (judge_candidate G commits head r) (\<lambda>c. Inr (r, c))) cands") (auto simp: mapE_Inr)
  have "(r, Bound) \<in> set rs" using assms(2) b by auto
  then show ?thesis using list_all2_source [OF rs] by (fastforce simp: bindE_def split: sum.splits)
qed

lemma those_Some: "those xs = Some ys \<longleftrightarrow> list_all2 (\<lambda>x y. x = Some y) xs ys"
proof (induction xs arbitrary: ys)
  case (Cons x xs)
  show ?case by (cases ys; cases x) (auto simp: Cons [symmetric])
qed auto

lemma with_coverage_Some:
  "with_coverage E base bound = Some rcs \<longleftrightarrow>
     list_all2 (\<lambda>r rc. \<exists>c. coverage_accepted E base r (doc_of r) = Some c \<and> rc = (r, c)) bound rcs"
  by (auto simp: with_coverage_def those_Some list.rel_map intro: list_all2_mono)

subsection \<open>The verdict\<close>

lemma judge_range_settled:
  assumes j: "judge_range E W P base head (sg_files (ge_git E) base head) before bound unbound rcs = Inr out"
    and v: "gt_verdict out = Admit"
    and rcs: "with_coverage E base bound = Some rcs"
    and stock: "gp_verdict P = stock_verdict" "go_disabled W = []"
  shows "all_admit before" "bound \<noteq> []" "gt_bound out = bound"
    and "fully_covered (gate_coverage E W base head (sg_files (ge_git E) base head) bound)"
    and "\<And>r. r \<in> set bound \<Longrightarrow> \<exists>c cs. coverage_accepted E base r (doc_of r) = Some c
           \<and> judge_receipt E W P base head (sg_files (ge_git E) base head) (r, c) = Inr cs \<and> all_admit cs
           \<and> evidence_settled E W P r"
proof -
  note quiet = add_check_admits [OF stock]
  let ?F = "sg_files (ge_git E) base head"
  obtain per ev where per: "list_all2 (\<lambda>rc y. judge_receipt E W P base head ?F rc = Inr y) rcs per"
    and ev: "evidence_checks E W P bound = Inr ev"
    and out: "out = finish_gate bound (before
        @ (if go_explicit W then concat (map (\<lambda>_. add_check W P ''C05'' True) unbound) else []) @ missing_checks W P bound
        @ concat per @ add_check W P ''C06'' (bound \<noteq> [] \<and> \<not> fully_covered (gate_coverage E W base head ?F bound)) @ ev)"
    using j unfolding judge_range_def Let_def by (auto simp: mapE_Inr)
  have all: "all_admit (gt_checks out)"
    using v overall_Admit by (auto simp: all_admit_def out finish_gate_def)
  then have parts: "all_admit before" "all_admit (missing_checks W P bound)" "all_admit (concat per)" "all_admit ev"
      "all_admit (add_check W P ''C06'' (bound \<noteq> [] \<and> \<not> fully_covered (gate_coverage E W base head ?F bound)))"
    unfolding out finish_gate_def gate_outcome.simps all_admit_simps(3) by blast+
  show "all_admit before" by (rule parts(1))
  show b: "bound \<noteq> []" using parts(2) by (auto simp: missing_checks_def quiet)
  show "gt_bound out = bound" by (simp add: out finish_gate_def)
  show "fully_covered (gate_coverage E W base head ?F bound)" using parts(5) b by (simp add: quiet)
  show "\<exists>c cs. coverage_accepted E base r (doc_of r) = Some c \<and> judge_receipt E W P base head ?F (r, c) = Inr cs \<and> all_admit cs
      \<and> evidence_settled E W P r"
    if r: "r \<in> set bound" for r
  proof -
    obtain c where c: "(r, c) \<in> set rcs" "coverage_accepted E base r (doc_of r) = Some c"
      using list_all2_partner [OF rcs [unfolded with_coverage_Some] r] by blast
    obtain cs where cs: "cs \<in> set per" "judge_receipt E W P base head ?F (r, c) = Inr cs"
      using list_all2_partner [OF per c(1)] by blast
    have "evidence_settled E W P r"
    proof (cases "enforcement_of E W P = ''off''")
      case False
      obtain evs where evs: "list_all2 (\<lambda>r y. evidence_of E (enforcement_of E W P) r = Inr y) bound evs"
        and "ev = (if EvidenceMissing \<in> set evs then add_check W P ''C13'' True
                   else if EvidenceStage \<in> set evs \<and> ''C13'' \<notin> set (go_disabled W) then [(''C13'', Admit)] else [])"
        using ev b False unfolding evidence_checks_def Let_def by (auto simp: mapE_Inr)
      then have "EvidenceMissing \<notin> set evs" using parts(4) by (auto simp: quiet)
      then show ?thesis using list_all2_partner [OF evs r] False
        unfolding evidence_settled_def by (metis evidence.exhaust insertCI)
    qed (simp add: evidence_settled_def)
    then show ?thesis using c(2) cs parts(3) by auto
  qed
qed

text \<open>What stands behind an admitted range, for the receipts \<open>bound\<close> that bind it.\<close>

definition range_settled ::
    "gate_env \<Rightarrow> gate_options \<Rightarrow> gate_policy \<Rightarrow> string \<Rightarrow> string \<Rightarrow> receipt_file list \<Rightarrow> bool" where
  "range_settled E W P base head bound \<longleftrightarrow>
     \<not> bypass_attempt W P \<and> bound \<noteq> [] \<and> list_all (receipt_settled E W P base head) bound
     \<and> (\<forall>p \<in> set (map fst (sg_files (ge_git E) base head)).
          named_by (r_prefix (gg_repo (ge_pair E))) (map doc_of bound) p
          \<or> is_record (gate_trail E base head) base head (map as_bound bound) (ledger_at E W) p)"


end
