(* ===== verification/AdmitGateWitness.thy ===== *)
theory AdmitGateWitness
  imports AdmitGateProps AdmitRecheckWitness ImpactQueryProps
begin

section \<open>Every run of the gate ends; the gate at concrete ranges\<close>

subsection \<open>The queries return\<close>

definition ended :: "'a option \<Rightarrow> bool" where
  "ended m \<longleftrightarrow> m \<noteq> None"

lemma returns_Some [simp]: "ended (Some x)" "ended (map_option f m) \<longleftrightarrow> ended m"
  by (simp_all add: ended_def)

lemma bindO_returns [intro!]: "ended m \<Longrightarrow> (\<And>x. m = Some (Inr x) \<Longrightarrow> ended (f x)) \<Longrightarrow> ended (bindO m f)"
  by (auto simp: bindO_def ended_def split: option.splits sum.splits)

lemma query_returns: "ended (query sha now (make_index decls doc) files a)"
  using traverse_not_None [of decls doc "qs_seeds (scan_files (make_index decls doc) a files)" "qa_max_depth a"
      "edge_filter a" "qa_rules a" "qs_open_containment (scan_files (make_index decls doc) a files)"]
  by (auto simp: query_def ended_def Let_def split: sum.splits option.splits)

lemma reach_all_returns: "ended (reach_all (make_index decls doc) depth et seeds)"
  by (induction seeds) (auto split: option.splits sum.splits simp: ended_def traverse_not_None)

definition built_index :: "graph_index \<Rightarrow> bool" where
  "built_index idx \<longleftrightarrow> idx \<in> range (\<lambda>(decls, doc). make_index decls doc)"

lemma built_returns:
  assumes "built_index idx"
  shows "ended (query sha now idx files a)" "ended (selected_dependency_impact idx q seeds depth et)"
  using assms query_returns reach_all_returns by (auto simp: built_index_def selected_dependency_impact_def)

lemma obligations_return:
  "built_index before \<Longrightarrow> built_index after \<Longrightarrow> ended (add_obligations before after a ob q q')"
  using built_returns(2) unfolding add_obligations_def by (auto split: option.split prod.split)

lemma pair_query_returns:
  assumes "built_index before" "built_index after"
  shows "ended (pair_query sha now ls opcodes ob before after files a)"
  using built_returns(1) [OF assms(1)] built_returns(1) [OF assms(2)] obligations_return [OF assms]
  unfolding pair_query_def Let_def by (intro bindO_returns) (auto split: prod.split)

text \<open>The graphs of the caller's bundle are built by the same builder.\<close>

definition built_pairs :: "gate_git \<Rightarrow> bool" where
  "built_pairs G \<longleftrightarrow>
     (\<forall>b h x. case gg_caller_pair G b h x of Inl _ \<Rightarrow> True | Inr (before, after, _) \<Rightarrow> built_index before \<and> built_index after)"

lemma gate_graphs_built:
  assumes "built_pairs G" "gate_graphs G S decls base head doc = Inr (Inr (before, after))"
  shows "built_index before" "built_index after"
proof -
  have "built_index before \<and> built_index after"
  proof (cases "mget doc ''caller_graph_compatibility'' = JNull")
    case True
    then show ?thesis using assms(2)
      by (auto simp: gate_graphs_def index_at_def Let_def built_index_def image_iff split: if_splits)
  next
    case False
    then obtain j where "gg_caller_pair G base head (mget (as_dict (mget doc ''caller_graph_compatibility'')) ''bundle_path'')
        = Inr (before, after, j)"
      using assms(2) by (auto simp: gate_graphs_def Let_def split: if_splits sum.splits)
    then show ?thesis using assms(1) unfolding built_pairs_def by (metis (no_types, lifting) case_prod_conv sum.case(2))
  qed
  then show "built_index before" "built_index after" by simp_all
qed

lemma receipt_problems_returns:
  assumes "built_pairs G"
  shows "ended (receipt_problems G S decls M now doc trusted_base origin)"
proof -
  have "ended (pair_query (gg_sha G) now (gg_ls_z G) (gg_opcodes G) (gg_obligations G before after) before after files a)"
    if "gate_graphs G S decls base head doc = Inr (Inr (before, after))" for base head doc before after files a
    using pair_query_returns [OF gate_graphs_built [OF assms that]] .
  then show ?thesis unfolding receipt_problems_def Let_def
    by (auto split: prod.split sum.split if_split)
qed

lemma coverage_returns: "built_pairs (ge_pair E) \<Longrightarrow> ended (coverage_accepted E base r doc)"
  using receipt_problems_returns by (auto simp: coverage_accepted_def Let_def split: option.split sum.split)

lemma those_None: "those xs = None \<longleftrightarrow> None \<in> set xs"
  by (induction xs) (auto split: option.splits)


subsection \<open>A repository with one changed file\<close>

definition this_head :: string where
  "this_head = replicate 40 (CHR ''a'')"

definition one_change :: structural_git where
  "one_change = (plain_structural JNull)\<lparr>sg_files := (\<lambda>_ _. [(''a.py'', CHR ''M'')])\<rparr>"

definition plain_matrix :: matrix where
  "plain_matrix = \<lparr>mx_node_types = [], mx_node_kinds = [], mx_edge_types = [], mx_verifiers = []\<rparr>"

definition plain_schema :: graph_schema where
  "plain_schema =
     \<lparr>gs_name = [], gs_manifest_required = [], gs_node_types = [], gs_edge_types = [], gs_provenance = []\<rparr>"

definition plain_env :: gate_env where
  "plain_env =
     \<lparr>ge_git = one_change, ge_pair = no_git, ge_schema = plain_schema, ge_decls = [], ge_matrix = plain_matrix,
      ge_receipt = receipt_contract, ge_digest = (\<lambda>_. []), ge_claim_sha = (\<lambda>_. []), ge_now = [], ge_clock = 0,
      ge_exists = (\<lambda>_. False), ge_ledger = (\<lambda>_. None), ge_synthesize = (\<lambda>_ _. None), ge_stage = (\<lambda>_. None),
      ge_current = (\<lambda>_. None), ge_suite_errors = (\<lambda>_. False), ge_origin = (\<lambda>_. None)\<rparr>"

definition plain_options :: gate_options where
  "plain_options =
     \<lparr>go_description = [], go_bypass_flag = False, go_env_bypass = [], go_disabled = [], go_enforcement = None, go_named = ''r'',
      go_repo_name = ''r'', go_explicit = True, go_event = None, go_job = (None, None), go_bundle = ''gate'', go_base_branch = None\<rparr>"

definition stock_policy :: gate_policy where
  "stock_policy =
     \<lparr>gp_verdict = stock_verdict, gp_bypass = [''no-receipt-needed'', ''skip-graph-verify'', ''admit-without-receipt''],
      gp_markers = [], gp_enforcement = ''ledger'', gp_doc = JObj []\<rparr>"

definition good_receipt :: receipt_file where
  "good_receipt =
     \<lparr>rf_doc = Some (JObj (sample_receipt (JStr ''2026-01-01T00:00:00Z'')
        [sample_verdict ''code_unit:a.py'' ''verified'', sample_verdict ''code_unit:b.py'' ''verified''] [] ''admitted'')),
      rf_digest = Some ''d'', rf_rel = None, rf_issued = False\<rparr>"

definition failed_receipt :: receipt_file where
  "failed_receipt =
     \<lparr>rf_doc = Some (JObj (sample_receipt (JStr ''2026-01-01T00:00:00Z'')
        [sample_verdict ''code_unit:a.py'' ''verified'', sample_verdict ''code_unit:b.py'' ''failed''] [] ''admitted'')),
      rf_digest = Some ''d'', rf_rel = None, rf_issued = False\<rparr>"

lemma good_range:
  "gate plain_env plain_options stock_policy ''b'' this_head [good_receipt]
     = Some (Inr \<lparr>gt_verdict = Admit, gt_checks = [], gt_bound = [good_receipt], gt_exit = 0\<rparr>)"
  by code_simp


text \<open>The same range with a failed entity, and with no receipt.\<close>

lemma failed_range:
  "gate plain_env plain_options stock_policy ''b'' this_head [failed_receipt]
     = Some (Inr \<lparr>gt_verdict = RefuseChange, gt_checks = [(''C04'', RefuseChange), (''C08'', RefuseChange)],
                  gt_bound = [failed_receipt], gt_exit = 5\<rparr>)"
  by code_simp

lemma unattended_range:
  "gate plain_env plain_options stock_policy ''b'' this_head []
     = Some (Inr \<lparr>gt_verdict = RefuseChange, gt_checks = [(''C03'', RefuseChange)], gt_bound = [], gt_exit = 5\<rparr>)"
  by code_simp

text \<open>A ledger entry whose delivery is \<^verbatim>\<open>null\<close> ends the gate with an exception.\<close>

lemma null_delivery_raises:
  "delivery_status (JObj [(''evidence_ref'', JObj []), (''delivery'', JNull)]) = Inl AttributeError"
  by code_simp



end
