(* ===== verification/OriginAssociation.thy ===== *)
theory OriginAssociation
  imports SchemaGraph SshsigProps JsonValues
begin

section \<open>Graphs of a repository that has moved\<close>

text \<open>
  \<^verbatim>\<open>tools/graph/origin_association.py\<close>: a signed statement that the two graphs of a receipt, built when the repository
  had another name, are the graphs that are rebuilt now.  \<open>loads\<close> is \<^verbatim>\<open>json.loads\<close> of the decoded bytes with the hook that
  refuses duplicate keys; every refusal is a \<^verbatim>\<open>ValueError\<close>.
\<close>

definition ORIGIN_NAMESPACE :: string where
  "ORIGIN_NAMESPACE = ''graph-origin-association''"

text \<open>\<^verbatim>\<open>_unique\<close>, the hook: a second value of a key is refused.\<close>

definition unique_pairs :: "(string \<times> json) list \<Rightarrow> exc + dict" where
  "unique_pairs pairs = foldE (\<lambda>(k, v) out. if has_key out k then Inl ValueError else Inr (out @ [(k, v)])) pairs []"

text \<open>\<^verbatim>\<open>_same_json\<close>: the same canonical text.\<close>

definition same_json :: "json \<Rightarrow> json \<Rightarrow> bool" where
  "same_json a b \<longleftrightarrow> canon a = canon b"

definition has_fields :: "dict \<Rightarrow> string list \<Rightarrow> bool" where
  "has_fields d ks \<longleftrightarrow> fst ` set d = set ks"

text \<open>\<^verbatim>\<open>sha256:[0-9a-f]{64}\<close> and \<^verbatim>\<open>[A-Za-z0-9_.-]+/[A-Za-z0-9_.-]+\<close>, matched in full.\<close>

definition receipt_digest_ok :: "string \<Rightarrow> bool" where
  "receipt_digest_ok s \<longleftrightarrow> startswith s ''sha256:'' \<and> hex_string 64 (drop 7 s)"

definition repo_char :: "char \<Rightarrow> bool" where
  "repo_char c \<longleftrightarrow> (let n = of_char c :: nat in 65 \<le> n \<and> n \<le> 90 \<or> 97 \<le> n \<and> n \<le> 122 \<or> 48 \<le> n \<and> n \<le> 57) \<or> c \<in> set ''_.-''"

definition repo_name_ok :: "string \<Rightarrow> bool" where
  "repo_name_ok s \<longleftrightarrow>
     (case split_on CHR ''/'' s of [a, b] \<Rightarrow> a \<noteq> [] \<and> b \<noteq> [] \<and> list_all repo_char (a @ b) | _ \<Rightarrow> False)"

definition manifest_of :: "json \<Rightarrow> dict" where
  "manifest_of g = as_dict (mget (as_dict g) ''manifest'')"

definition graph_ok :: "(json \<Rightarrow> string) \<Rightarrow> json \<Rightarrow> bool" where
  "graph_ok sha g \<longleftrightarrow>
     is_dict g \<and> is_dict (mget (as_dict g) ''manifest'') \<and> mget (manifest_of g) ''graph_digest'' = JStr (graph_digest sha (as_dict g))"

text \<open>The graph without the three fields of the manifest that name the repository and the build.\<close>

definition graph_body :: "json \<Rightarrow> json" where
  "graph_body g =
     JObj (dset ''manifest'' (JObj (filter (\<lambda>(k, _). k \<notin> {''source_repo'', ''graph_digest'', ''built_at_utc''}) (manifest_of g))) (as_dict g))"

record origin_proof =
  op_role :: string
  op_measured :: json
  op_current :: json
  op_commit :: json

definition check_role :: "(json \<Rightarrow> string) \<Rightarrow> dict \<Rightarrow> dict \<Rightarrow> dict \<Rightarrow> string \<Rightarrow> string \<Rightarrow> exc + origin_proof" where
  "check_role sha old current receipt target role =
     (let measured = mget old role; rebuilt = mget current role; binding = as_dict (mget receipt role);
          mm = manifest_of measured; rm = manifest_of rebuilt
      in if \<not> graph_ok sha measured \<or> \<not> graph_ok sha rebuilt then Inl ValueError
         else if \<not> list_all (\<lambda>k. same_json (mget mm k) (mget binding k)) [''source_commit'', ''graph_digest'', ''builder_version'']
         then Inl ValueError
         else if mget mm ''source_repo'' \<noteq> mget (as_dict (mget receipt ''repo'')) ''name'' then Inl ValueError
         else if mget rm ''source_repo'' \<noteq> JStr target then Inl ValueError
         else if \<not> same_json (graph_body measured) (graph_body rebuilt) then Inl ValueError
         else Inr \<lparr>op_role = role, op_measured = mget mm ''graph_digest'', op_current = mget rm ''graph_digest'',
                   op_commit = mget rm ''source_commit''\<rparr>)"

definition validate ::
    "hashes \<Rightarrow> (json \<Rightarrow> string) \<Rightarrow> (bytes \<Rightarrow> json option) \<Rightarrow> bytes \<Rightarrow> string \<Rightarrow> string \<Rightarrow> string \<Rightarrow> dict \<Rightarrow> dict \<Rightarrow> dict
       \<Rightarrow> exc + origin_proof list" where
  "validate H sha loads raw signature trusted_base_key receipt_digest receipt current trees =
     (if \<not> fst (verify_detached H raw signature trusted_base_key ORIGIN_NAMESPACE) then Inl ValueError
      else case loads raw of
        Some (JObj claim) \<Rightarrow>
          let old = mget claim ''original_graphs''; target = mget claim ''target_source_repo''
          in if \<not> has_fields claim [''schema'', ''receipt_digest'', ''target_source_repo'', ''git_trees'', ''original_graphs'']
                \<or> mget claim ''schema'' \<noteq> JStr ''GraphOriginAssociation/v1'' then Inl ValueError
             else if \<not> receipt_digest_ok receipt_digest \<or> mget claim ''receipt_digest'' \<noteq> JStr receipt_digest then Inl ValueError
             else if \<not> same_json (mget claim ''git_trees'') (JObj trees) \<or> \<not> has_fields trees [''base'', ''head''] then Inl ValueError
             else if \<not> is_str target \<or> \<not> repo_name_ok (str_of target) then Inl ValueError
             else if \<not> is_dict old \<or> \<not> has_fields (as_dict old) [''graph'', ''head_graph'']
                     \<or> \<not> has_fields current [''graph'', ''head_graph''] then Inl ValueError
             else mapE (check_role sha (as_dict old) current receipt (str_of target)) [''graph'', ''head_graph'']
      | _ \<Rightarrow> Inl ValueError)"

subsection \<open>What an accepted association means\<close>

definition associated :: "(json \<Rightarrow> string) \<Rightarrow> dict \<Rightarrow> json \<Rightarrow> json \<Rightarrow> string \<Rightarrow> bool" where
  "associated sha receipt measured rebuilt role \<longleftrightarrow>
     canon (mget (as_dict measured) ''nodes'') = canon (mget (as_dict rebuilt) ''nodes'')
     \<and> canon (mget (as_dict measured) ''edges'') = canon (mget (as_dict rebuilt) ''edges'')
     \<and> mget (manifest_of measured) ''graph_digest'' = JStr (graph_digest sha (as_dict measured))
     \<and> mget (manifest_of rebuilt) ''graph_digest'' = JStr (graph_digest sha (as_dict rebuilt))
     \<and> same_json (mget (manifest_of measured) ''graph_digest'') (mget (as_dict (mget receipt role)) ''graph_digest'')
     \<and> same_json (mget (manifest_of measured) ''source_commit'') (mget (manifest_of rebuilt) ''source_commit'')"

lemma mget_dset_other: "k' \<noteq> k \<Longrightarrow> mget (dset k v d) k' = mget d k'"
  by (simp add: mget_def)

lemma same_body:
  assumes "same_json (graph_body a) (graph_body b)"
  shows "k \<noteq> ''manifest'' \<Longrightarrow> canon (mget (as_dict a) k) = canon (mget (as_dict b) k)"
    and "k \<notin> {''source_repo'', ''graph_digest'', ''built_at_utc''} \<Longrightarrow> canon (mget (manifest_of a) k) = canon (mget (manifest_of b) k)"
proof -
  have eq: "canon (mget (as_dict (graph_body a)) x) = canon (mget (as_dict (graph_body b)) x)" for x
    using assms by (metis same_json_def mget_canon)
  show "k \<noteq> ''manifest'' \<Longrightarrow> canon (mget (as_dict a) k) = canon (mget (as_dict b) k)"
    using eq [of k] by (simp add: graph_body_def as_dict_def [of "JObj d" for d] mget_dset_other)
  let ?drop = "\<lambda>g. filter (\<lambda>(k, _). k \<notin> {''source_repo'', ''graph_digest'', ''built_at_utc''}) (manifest_of g)"
  have body: "mget (as_dict (graph_body g)) ''manifest'' = JObj (?drop g)" for g
    by (simp add: graph_body_def as_dict_def [of "JObj d" for d] mget_def)
  have "canon (mget (as_dict (JObj (?drop a))) k) = canon (mget (as_dict (JObj (?drop b))) k)"
    using eq [of "''manifest''"] unfolding body by (metis mget_canon)
  moreover have "mget (filter (\<lambda>(k, _). P k) d) k = mget d k" if "P k" for P and d :: dict
    using that by (simp add: mget_def) (induction d, auto)
  ultimately show "k \<notin> {''source_repo'', ''graph_digest'', ''built_at_utc''}
      \<Longrightarrow> canon (mget (manifest_of a) k) = canon (mget (manifest_of b) k)"
    by (simp add: as_dict_def [of "JObj d" for d])
qed

lemma check_role_sound:
  assumes "check_role sha old current receipt target role = Inr q"
  shows "op_role q = role \<and> associated sha receipt (mget old role) (mget current role) role"
proof -
  have facts: "op_role q = role" "graph_ok sha (mget old role)" "graph_ok sha (mget current role)"
      "same_json (graph_body (mget old role)) (graph_body (mget current role))"
      "same_json (mget (manifest_of (mget old role)) ''graph_digest'') (mget (as_dict (mget receipt role)) ''graph_digest'')"
    using assms by (auto simp: check_role_def Let_def split: if_splits)
  then show ?thesis
    using same_body [OF facts(4)] by (simp add: associated_def graph_ok_def same_json_def)
qed


end
